(* ===== verification/Prelude.thy ===== *)
theory Prelude
  imports Main "HOL-Library.Word"
begin

text \<open>
  The shared vocabulary of the development: the machine integers of the Rust sources as words,
  byte slices as lists, little- and big-endian integer encodings, the two slice operations the
  sources use all the time (\<open>buf[i..j]\<close> and \<open>buf[i..j].copy_from_slice(src)\<close>), and the
  \<open>?\<close> operator on computations that pass a state and may fail. The interface \<open>codec\<close> at the
  end states what a serialiser and its parser promise each other; every wire and file format of
  the development interprets it.
\<close>

unbundle bit_operations_syntax

named_theorems slice_simps \<open>rewriting of byte slices of known layout\<close>
named_theorems io_simps \<open>unfolding of fallible state-passing code\<close>

section \<open>Machine integers and byte slices\<close>

type_synonym u8 = "8 word"
type_synonym u16 = "16 word"
type_synonym u32 = "32 word"
type_synonym u64 = "64 word"
type_synonym bytes = "u8 list"

definition slice :: "nat \<Rightarrow> nat \<Rightarrow> 'a list \<Rightarrow> 'a list" where
  "slice i j xs = take (j - i) (drop i xs)"

definition copy_at :: "nat \<Rightarrow> 'a list \<Rightarrow> 'a list \<Rightarrow> 'a list" where
  "copy_at i src buf = take i buf @ src @ drop (i + length src) buf"

lemma length_slice [simp]: "length (slice i j xs) = min (j - i) (length xs - i)"
  by (simp add: slice_def min.commute)

lemma length_copy_at [simp]:
  "i + length src \<le> length buf \<Longrightarrow> length (copy_at i src buf) = length buf"
  by (simp add: copy_at_def)

lemma slice_append_right [slice_simps]:
  "length xs \<le> i \<Longrightarrow> slice i j (xs @ ys) = slice (i - length xs) (j - length xs) ys"
  by (simp add: slice_def)

lemma slice_append_left [slice_simps]:
  "j \<le> length xs \<Longrightarrow> slice i j (xs @ ys) = slice i j xs"
  by (simp add: slice_def)

lemma slice_all [slice_simps]: "length xs \<le> j \<Longrightarrow> slice 0 j xs = xs"
  by (simp add: slice_def)

lemma slice_take: "j \<le> n \<Longrightarrow> slice i j (take n xs) = slice i j xs"
  by (simp add: slice_def drop_take min_def)

lemma slice_copy_at_same:
  "i + length src \<le> length buf \<Longrightarrow> slice i (i + length src) (copy_at i src buf) = src"
  by (simp add: slice_def copy_at_def)

section \<open>Endianness\<close>

primrec to_le :: "nat \<Rightarrow> nat \<Rightarrow> bytes" where
  "to_le 0 n = []"
| "to_le (Suc k) n = of_nat n # to_le k (n div 256)"

primrec from_le :: "bytes \<Rightarrow> nat" where
  "from_le [] = 0"
| "from_le (b # bs) = unat b + 256 * from_le bs"

lemma length_to_le [simp]: "length (to_le k n) = k"
  by (induction k arbitrary: n) auto

lemma from_le_to_le: "from_le (to_le k n) = n mod 256 ^ k"
proof (induction k arbitrary: n)
  case 0
  then show ?case by simp
next
  case (Suc k)
  have "from_le (to_le (Suc k) n) = n mod 256 + 256 * (n div 256 mod 256 ^ k)"
    using Suc by (simp add: unat_of_nat)
  also have "\<dots> = n mod 256 ^ Suc k"
    by (simp add: mod_mult2_eq)
  finally show ?case .
qed

lemma unat_less_pow: "unat (w :: 'a::len word) < 2 ^ LENGTH('a)"
  by (rule unsigned_less)

lemma unat_byte_less [simp]: "unat (b :: u8) < 256"
  using unat_less_pow[of b] by simp

lemma from_le_less: "from_le bs < 256 ^ length bs"
proof (induction bs)
  case Nil
  then show ?case by simp
next
  case (Cons b bs)
  have "unat b + 256 * from_le bs < 256 + 256 * from_le bs"
    by simp
  also have "\<dots> = 256 * Suc (from_le bs)"
    by simp
  also have "\<dots> \<le> 256 * 256 ^ length bs"
    using Cons by (intro mult_le_mono) auto
  finally show ?case by simp
qed

lemma to_le_from_le: "to_le (length bs) (from_le bs) = bs"
proof (induction bs)
  case (Cons b bs)
  have "(unat b + 256 * from_le bs) div 256 = from_le bs"
    by simp
  moreover have "(of_nat (unat b + 256 * from_le bs) :: u8) = b"
    by (subst word_unat_eq_iff) (simp only: unat_of_nat, simp)
  ultimately show ?case
    using Cons by (simp del: of_nat_add of_nat_mult)
qed simp

definition u16_le :: "u16 \<Rightarrow> bytes" where "u16_le w = to_le 2 (unat w)"
definition u32_le :: "u32 \<Rightarrow> bytes" where "u32_le w = to_le 4 (unat w)"
definition u64_le :: "u64 \<Rightarrow> bytes" where "u64_le w = to_le 8 (unat w)"

definition u16_of_le :: "bytes \<Rightarrow> u16" where "u16_of_le bs = of_nat (from_le bs)"
definition u32_of_le :: "bytes \<Rightarrow> u32" where "u32_of_le bs = of_nat (from_le bs)"
definition u64_of_le :: "bytes \<Rightarrow> u64" where "u64_of_le bs = of_nat (from_le bs)"

definition u16_be :: "u16 \<Rightarrow> bytes" where "u16_be w = rev (u16_le w)"
definition u16_of_be :: "bytes \<Rightarrow> u16" where "u16_of_be bs = u16_of_le (rev bs)"

lemma length_le [simp]:
  "length (u16_le a) = 2" "length (u32_le b) = 4" "length (u64_le c) = 8" "length (u16_be a) = 2"
  by (simp_all add: u16_le_def u32_le_def u64_le_def u16_be_def)

lemma u16_roundtrip [simp]: "u16_of_le (u16_le w) = w"
  using unat_less_pow[of w] by (simp add: u16_of_le_def u16_le_def from_le_to_le)

lemma u32_roundtrip [simp]: "u32_of_le (u32_le w) = w"
  using unat_less_pow[of w] by (simp add: u32_of_le_def u32_le_def from_le_to_le)

lemma u64_roundtrip [simp]: "u64_of_le (u64_le w) = w"
  using unat_less_pow[of w] by (simp add: u64_of_le_def u64_le_def from_le_to_le)

lemma u16_be_roundtrip [simp]: "u16_of_be (u16_be w) = w"
  by (simp add: u16_of_be_def u16_be_def)

lemma u16_le_of_le: "length bs = 2 \<Longrightarrow> u16_le (u16_of_le bs) = bs"
  using from_le_less[of bs] to_le_from_le[of bs]
  by (simp add: u16_of_le_def u16_le_def unat_of_nat)

lemma u32_le_of_le: "length bs = 4 \<Longrightarrow> u32_le (u32_of_le bs) = bs"
  using from_le_less[of bs] to_le_from_le[of bs]
  by (simp add: u32_of_le_def u32_le_def unat_of_nat)

lemma u64_le_of_le: "length bs = 8 \<Longrightarrow> u64_le (u64_of_le bs) = bs"
  using from_le_less[of bs] to_le_from_le[of bs]
  by (simp add: u64_of_le_def u64_le_def unat_of_nat)

lemma unat_of_nat_u32 [simp]: "n < 2 ^ 32 \<Longrightarrow> unat (of_nat n :: u32) = n"
  by (simp add: unat_of_nat)

lemma unat_of_nat_u64 [simp]: "n < 2 ^ 64 \<Longrightarrow> unat (of_nat n :: u64) = n"
  by (simp add: unat_of_nat)

section \<open>Decimal numbers\<close>

definition digit_char :: "nat \<Rightarrow> char" where
  "digit_char n = char_of (48 + n)"

fun nat_str :: "nat \<Rightarrow> string" where
  "nat_str n = (if n < 10 then [digit_char n] else nat_str (n div 10) @ [digit_char (n mod 10)])"

declare nat_str.simps [simp del]

definition int_str :: "int \<Rightarrow> string" where
  "int_str i = (if i < 0 then CHR ''-'' # nat_str (nat (- i)) else nat_str (nat i))"

definition str_nat :: "string \<Rightarrow> nat" where
  "str_nat s = foldl (\<lambda>a c. 10 * a + (of_char c - 48)) 0 s"

lemma of_char_digit_char [simp]: "n < 10 \<Longrightarrow> of_char (digit_char n) = 48 + n"
  by (simp add: digit_char_def)

lemma str_nat_nat_str [simp]: "str_nat (nat_str n) = n"
proof (induction n rule: nat_str.induct)
  case (1 n)
  show ?case
  proof (cases "n < 10")
    case True
    then show ?thesis by (subst nat_str.simps) (simp add: str_nat_def)
  next
    case False
    with 1 show ?thesis
      by (subst nat_str.simps) (simp add: str_nat_def mult.commute[of 10])
  qed
qed

lemma nat_str_inject [simp]: "nat_str m = nat_str n \<longleftrightarrow> m = n"
  by (metis str_nat_nat_str)

lemma nat_str_nonempty [simp]: "nat_str n \<noteq> []"
  by (subst nat_str.simps) simp

lemma nat_str_digits: "c \<in> set (nat_str n) \<Longrightarrow> \<exists>d<10. c = digit_char d"
proof (induction n rule: nat_str.induct)
  case (1 n)
  then show ?case
    by (subst (asm) (2) nat_str.simps)
      (auto split: if_splits intro: exI[of _ "n mod 10"] exI[of _ n])
qed

lemma digit_char_range: "d < 10 \<Longrightarrow> (of_char (digit_char d) :: nat) \<in> {48..57}"
  by simp

lemma nat_str_no_char: "(of_char c :: nat) \<notin> {48..57} \<Longrightarrow> c \<notin> set (nat_str n)"
  using nat_str_digits digit_char_range by blast

section \<open>Fallible state-passing code\<close>

text \<open>
  A computation of type \<open>io::Result\<close> on a mutable reader or writer is a pair of its result
  (\<open>Inl\<close> the error) and the state it leaves, also after an error; \<open>try_bind\<close> is the sources'
  \<open>?\<close> operator.
\<close>

type_synonym ('e, 'a, 's) io = "('e + 'a) \<times> 's"

definition try_bind :: "('e, 'a, 's) io \<Rightarrow> ('a \<Rightarrow> 's \<Rightarrow> ('e, 'b, 's) io) \<Rightarrow> ('e, 'b, 's) io" where
  "try_bind m f = (case m of (Inl e, s) \<Rightarrow> (Inl e, s) | (Inr a, s) \<Rightarrow> f a s)"

lemma try_bind_simps [simp, io_simps]:
  "try_bind (Inl e, s) f = (Inl e, s)"
  "try_bind (Inr a, s) f = f a s"
  by (simp_all add: try_bind_def)

lemma try_bind_eq_Inr:
  "try_bind m f = (Inr b, t) \<longleftrightarrow> (\<exists>a s. m = (Inr a, s) \<and> f a s = (Inr b, t))"
  by (auto simp: try_bind_def split: prod.splits sum.splits)

lemma try_bind_InrE [elim!]:
  assumes "try_bind m f = (Inr b, t)"
  obtains a s where "m = (Inr a, s)" and "f a s = (Inr b, t)"
  using assms by (auto simp: try_bind_eq_Inr)

text \<open>The same operator on results that carry no state.\<close>

definition res_bind :: "'e + 'a \<Rightarrow> ('a \<Rightarrow> 'e + 'b) \<Rightarrow> 'e + 'b" where
  "res_bind m f = (case m of Inl e \<Rightarrow> Inl e | Inr a \<Rightarrow> f a)"

lemma res_bind_simps [simp, io_simps]: "res_bind (Inl e) f = Inl e" "res_bind (Inr a) f = f a"
  by (simp_all add: res_bind_def)

lemma res_bind_eq_Inr: "res_bind m f = Inr b \<longleftrightarrow> (\<exists>a. m = Inr a \<and> f a = Inr b)"
  by (cases m) auto

section \<open>Interface of a serialiser and its parser\<close>

text \<open>
  \<open>enc\<close> writes a value, \<open>dec\<close> reads one from the front of a byte stream and leaves the rest,
  \<open>ok\<close> says which values the format can carry and \<open>norm\<close> what the format keeps of a value.
\<close>

locale codec =
  fixes enc :: "'a \<Rightarrow> bytes"
    and dec :: "bytes \<Rightarrow> ('e, 'a, bytes) io"
    and norm :: "'a \<Rightarrow> 'a"
    and ok :: "'a \<Rightarrow> bool"
  assumes dec_enc: "ok x \<Longrightarrow> dec (enc x @ rest) = (Inr (norm x), rest)"
    and enc_nonempty: "enc x \<noteq> []"
begin

primrec dec_many :: "nat \<Rightarrow> bytes \<Rightarrow> ('e, 'a list, bytes) io" where
  "dec_many 0 bs = (Inr [], bs)"
| "dec_many (Suc n) bs =
     try_bind (dec bs) (\<lambda>x bs'. try_bind (dec_many n bs') (\<lambda>xs bs''. (Inr (x # xs), bs'')))"

lemma dec_many_enc:
  "list_all ok xs \<Longrightarrow>
    dec_many (length xs) (concat (map enc xs) @ rest) = (Inr (map norm xs), rest)"
  by (induction xs) (auto simp: dec_enc)

lemma enc_inject_norm:
  assumes "ok x" and "ok y" and "enc x @ s = enc y @ t"
  shows "norm x = norm y \<and> s = t"
  using dec_enc[OF assms(1), of s] dec_enc[OF assms(2), of t] assms(3) by simp

lemma concat_enc_inject_norm:
  assumes "list_all ok xs" and "list_all ok ys"
    and "concat (map enc xs) = concat (map enc ys)"
  shows "map norm xs = map norm ys"
  using assms
proof (induction xs arbitrary: ys)
  case Nil
  then show ?case by (cases ys) (auto simp: enc_nonempty)
next
  case (Cons x xs)
  then obtain y ys' where ys: "ys = y # ys'"
    by (cases ys) (auto simp: enc_nonempty)
  from Cons.prems ys have "norm x = norm y \<and> concat (map enc xs) = concat (map enc ys')"
    by (intro enc_inject_norm) auto
  with Cons ys show ?case by auto
qed

lemma dec_pos: "ok x \<Longrightarrow> dec (enc x @ rest) = (Inr y, rest') \<Longrightarrow> length rest' < length (enc x @ rest)"
  using enc_nonempty[of x] by (auto simp: dec_enc)

end

end
