(* ===== verification/Mrr_Format.thy ===== *)
theory Mrr_Format
  imports Prelude
begin

text \<open>
  The recording file format (\<open>recording/file_format.rs\<close>): the fixed-size header, footer and
  index entries, the variable-size frames, the writer that lays a recording out on a seekable
  sink and the reader that opens, reads, seeks and rewinds it. The first half holds the
  definitions in the order of the source, the second half the lemmas: every part round-trips,
  the writer keeps its layout invariant, and the reader gives back what the writer wrote.
\<close>

section \<open>Devices\<close>

text \<open>
  The errors of the module, one constructor per \<open>io::Error\<close> it builds, and the ones the
  devices raise. A byte source that is only \<open>Read\<close> is the list of the bytes still to come;
  a \<open>read_exact\<close> that meets the end of the source has consumed what was left.
\<close>

datatype io_error =
    UnexpectedEof
  | InvalidSeek
  | DeviceError
  | BadMagic
  | UnsupportedVersion u16
  | BadFooterMagic
  | FrameDataTooLarge nat
  | StateDataTooLarge nat
  | CapabilitiesTooLarge nat
  | InitialStateTooLarge nat

definition read_exact :: "nat \<Rightarrow> bytes \<Rightarrow> (io_error, bytes, bytes) io" where
  "read_exact n bs = (if n \<le> length bs then (Inr (take n bs), drop n bs) else (Inl UnexpectedEof, []))"

text \<open>A source that is \<open>Read + Seek\<close> is a cursor: all the bytes and a position.\<close>

record cursor =
  c_data :: bytes
  c_pos :: nat

definition on_cursor :: "(bytes \<Rightarrow> (io_error, 'a, bytes) io) \<Rightarrow> cursor \<Rightarrow> (io_error, 'a, cursor) io" where
  "on_cursor p c =
     (let left = drop (c_pos c) (c_data c)
      in case p left of (r, rest) \<Rightarrow> (r, c\<lparr>c_pos := c_pos c + (length left - length rest)\<rparr>))"

definition seek_start :: "u64 \<Rightarrow> cursor \<Rightarrow> (io_error, unit, cursor) io" where
  "seek_start p c = (Inr (), c\<lparr>c_pos := unat p\<rparr>)"

definition seek_end :: "nat \<Rightarrow> cursor \<Rightarrow> (io_error, unit, cursor) io" where
  "seek_end n c =
     (if n \<le> length (c_data c) then (Inr (), c\<lparr>c_pos := length (c_data c) - n\<rparr>)
      else (Inl InvalidSeek, c))"

text \<open>
  A sink that is \<open>Write + Seek\<close>: the bytes written, a position, and a possible device fault:
  \<open>Some (k, m)\<close> lets \<open>k\<close> more operations succeed, the next one writes only \<open>m\<close> bytes and
  fails.
\<close>

record sink =
  s_bytes :: bytes
  s_pos :: nat
  s_fault :: "(nat \<times> nat) option"

definition put_bytes :: "bytes \<Rightarrow> sink \<Rightarrow> sink" where
  "put_bytes bs s =
     s\<lparr>s_bytes := take (s_pos s) (s_bytes s @ replicate (s_pos s - length (s_bytes s)) 0)
          @ bs @ drop (s_pos s + length bs) (s_bytes s),
       s_pos := s_pos s + length bs\<rparr>"

definition write_all :: "bytes \<Rightarrow> sink \<Rightarrow> (io_error, unit, sink) io" where
  "write_all bs s =
     (case s_fault s of
        None \<Rightarrow> (Inr (), put_bytes bs s)
      | Some (0, m) \<Rightarrow> (Inl DeviceError, (put_bytes (take m bs) s)\<lparr>s_fault := None\<rparr>)
      | Some (Suc k, m) \<Rightarrow> (Inr (), (put_bytes bs s)\<lparr>s_fault := Some (k, m)\<rparr>))"

definition flush :: "sink \<Rightarrow> (io_error, unit, sink) io" where
  "flush s = write_all [] s"

section \<open>Header, footer, index entries and frames\<close>

definition MRR_MAGIC :: bytes where "MRR_MAGIC = [77, 82, 82, 49]"
definition MRR_FOOTER_MAGIC :: bytes where "MRR_FOOTER_MAGIC = [77, 82, 82, 70]"
definition MRR_VERSION :: u16 where "MRR_VERSION = 1"
definition HEADER_SIZE :: nat where "HEADER_SIZE = 256"
definition FOOTER_SIZE :: nat where "FOOTER_SIZE = 32"
definition INDEX_ENTRY_SIZE :: nat where "INDEX_ENTRY_SIZE = 16"
definition FRAME_FLAG_HAS_STATE :: u8 where "FRAME_FLAG_HAS_STATE = 1"
definition MAX_FRAME_DATA_SIZE :: nat where "MAX_FRAME_DATA_SIZE = 64 * 1024 * 1024"
definition MAX_METADATA_SIZE :: nat where "MAX_METADATA_SIZE = 16 * 1024 * 1024"

record MrrHeader =
  h_version :: u16
  h_flags :: u16
  h_radar_brand :: u32
  h_spokes_per_rev :: u32
  h_max_spoke_len :: u32
  h_pixel_values :: u32
  h_start_time_ms :: u64
  h_capabilities_offset :: u64
  h_capabilities_len :: u32
  h_initial_state_offset :: u64
  h_initial_state_len :: u32
  h_frames_offset :: u64

definition MrrHeader_default :: MrrHeader where
  "MrrHeader_default =
     \<lparr>h_version = MRR_VERSION, h_flags = 0, h_radar_brand = 0, h_spokes_per_rev = 0,
      h_max_spoke_len = 0, h_pixel_values = 0, h_start_time_ms = 0, h_capabilities_offset = 0,
      h_capabilities_len = 0, h_initial_state_offset = 0, h_initial_state_len = 0,
      h_frames_offset = 0\<rparr>"

definition MrrHeader_bytes :: "MrrHeader \<Rightarrow> bytes" where
  "MrrHeader_bytes h =
     copy_at 56 (u64_le (h_frames_offset h))
    (copy_at 52 (u32_le (h_initial_state_len h))
    (copy_at 44 (u64_le (h_initial_state_offset h))
    (copy_at 40 (u32_le (h_capabilities_len h))
    (copy_at 32 (u64_le (h_capabilities_offset h))
    (copy_at 24 (u64_le (h_start_time_ms h))
    (copy_at 20 (u32_le (h_pixel_values h))
    (copy_at 16 (u32_le (h_max_spoke_len h))
    (copy_at 12 (u32_le (h_spokes_per_rev h))
    (copy_at 8 (u32_le (h_radar_brand h))
    (copy_at 6 (u16_le (h_flags h))
    (copy_at 4 (u16_le (h_version h))
    (copy_at 0 MRR_MAGIC (replicate HEADER_SIZE 0)))))))))))))"

definition MrrHeader_write :: "MrrHeader \<Rightarrow> sink \<Rightarrow> (io_error, unit, sink) io" where
  "MrrHeader_write h s = write_all (MrrHeader_bytes h) s"

definition MrrHeader_read :: "bytes \<Rightarrow> (io_error, MrrHeader, bytes) io" where
  "MrrHeader_read bs =
     try_bind (read_exact HEADER_SIZE bs) (\<lambda>buf rest.
       if slice 0 4 buf \<noteq> MRR_MAGIC then (Inl BadMagic, rest)
       else let version = u16_of_le (slice 4 6 buf)
         in if MRR_VERSION < version then (Inl (UnsupportedVersion version), rest)
         else (Inr \<lparr>h_version = version,
                h_flags = u16_of_le (slice 6 8 buf),
                h_radar_brand = u32_of_le (slice 8 12 buf),
                h_spokes_per_rev = u32_of_le (slice 12 16 buf),
                h_max_spoke_len = u32_of_le (slice 16 20 buf),
                h_pixel_values = u32_of_le (slice 20 24 buf),
                h_start_time_ms = u64_of_le (slice 24 32 buf),
                h_capabilities_offset = u64_of_le (slice 32 40 buf),
                h_capabilities_len = u32_of_le (slice 40 44 buf),
                h_initial_state_offset = u64_of_le (slice 44 52 buf),
                h_initial_state_len = u32_of_le (slice 52 56 buf),
                h_frames_offset = u64_of_le (slice 56 64 buf)\<rparr>, rest))"

record MrrFooter =
  f_index_offset :: u64
  f_index_count :: u32
  f_frame_count :: u32
  f_duration_ms :: u64

definition MrrFooter_bytes :: "MrrFooter \<Rightarrow> bytes" where
  "MrrFooter_bytes f =
     copy_at 20 (u64_le (f_duration_ms f))
    (copy_at 16 (u32_le (f_frame_count f))
    (copy_at 12 (u32_le (f_index_count f))
    (copy_at 4 (u64_le (f_index_offset f))
    (copy_at 0 MRR_FOOTER_MAGIC (replicate FOOTER_SIZE 0)))))"

definition MrrFooter_write :: "MrrFooter \<Rightarrow> sink \<Rightarrow> (io_error, unit, sink) io" where
  "MrrFooter_write f s = write_all (MrrFooter_bytes f) s"

definition MrrFooter_read :: "bytes \<Rightarrow> (io_error, MrrFooter, bytes) io" where
  "MrrFooter_read bs =
     try_bind (read_exact FOOTER_SIZE bs) (\<lambda>buf rest.
       if slice 0 4 buf \<noteq> MRR_FOOTER_MAGIC then (Inl BadFooterMagic, rest)
       else (Inr \<lparr>f_index_offset = u64_of_le (slice 4 12 buf),
              f_index_count = u32_of_le (slice 12 16 buf),
              f_frame_count = u32_of_le (slice 16 20 buf),
              f_duration_ms = u64_of_le (slice 20 28 buf)\<rparr>, rest))"

record MrrIndexEntry =
  i_timestamp_ms :: u64
  i_file_offset :: u64

definition MrrIndexEntry_write :: "MrrIndexEntry \<Rightarrow> sink \<Rightarrow> (io_error, unit, sink) io" where
  "MrrIndexEntry_write e s =
     try_bind (write_all (u64_le (i_timestamp_ms e)) s) (\<lambda>_ s.
     write_all (u64_le (i_file_offset e)) s)"

definition MrrIndexEntry_read :: "bytes \<Rightarrow> (io_error, MrrIndexEntry, bytes) io" where
  "MrrIndexEntry_read bs =
     try_bind (read_exact INDEX_ENTRY_SIZE bs) (\<lambda>buf rest.
       (Inr \<lparr>i_timestamp_ms = u64_of_le (slice 0 8 buf),
             i_file_offset = u64_of_le (slice 8 16 buf)\<rparr>, rest))"

record MrrFrame =
  fr_timestamp_ms :: u64
  fr_flags :: u8
  fr_data :: bytes
  fr_state_delta :: "bytes option"

definition MrrFrame_new :: "u64 \<Rightarrow> bytes \<Rightarrow> MrrFrame" where
  "MrrFrame_new timestamp_ms data =
     \<lparr>fr_timestamp_ms = timestamp_ms, fr_flags = 0, fr_data = data, fr_state_delta = None\<rparr>"

definition MrrFrame_write_flags :: "MrrFrame \<Rightarrow> u8" where
  "MrrFrame_write_flags f =
     (if fr_state_delta f \<noteq> None then fr_flags f OR FRAME_FLAG_HAS_STATE
      else fr_flags f AND NOT FRAME_FLAG_HAS_STATE)"

definition MrrFrame_write :: "MrrFrame \<Rightarrow> sink \<Rightarrow> (io_error, unit, sink) io" where
  "MrrFrame_write f s =
     try_bind (write_all (u64_le (fr_timestamp_ms f)) s) (\<lambda>_ s.
     try_bind (write_all [MrrFrame_write_flags f] s) (\<lambda>_ s.
     try_bind (write_all (u32_le (of_nat (length (fr_data f)))) s) (\<lambda>_ s.
     try_bind (write_all (fr_data f) s) (\<lambda>_ s.
       case fr_state_delta f of
         None \<Rightarrow> (Inr (), s)
       | Some state \<Rightarrow>
           try_bind (write_all (u32_le (of_nat (length state))) s) (\<lambda>_ s.
           write_all state s)))))"

definition MrrFrame_read :: "bytes \<Rightarrow> (io_error, MrrFrame, bytes) io" where
  "MrrFrame_read bs =
     try_bind (read_exact 8 bs) (\<lambda>ts_buf bs.
     try_bind (read_exact 1 bs) (\<lambda>flags_buf bs.
     let flags = flags_buf ! 0 in
     try_bind (read_exact 4 bs) (\<lambda>len_buf bs.
     let data_len = unat (u32_of_le len_buf) in
     if MAX_FRAME_DATA_SIZE < data_len then (Inl (FrameDataTooLarge data_len), bs)
     else try_bind (read_exact data_len bs) (\<lambda>data bs.
     try_bind
       (if flags AND FRAME_FLAG_HAS_STATE \<noteq> 0
        then try_bind (read_exact 4 bs) (\<lambda>len_buf bs.
          let state_len = unat (u32_of_le len_buf) in
          if MAX_FRAME_DATA_SIZE < state_len then (Inl (StateDataTooLarge state_len), bs)
          else try_bind (read_exact state_len bs) (\<lambda>state bs. (Inr (Some state), bs)))
        else (Inr None, bs))
       (\<lambda>state_delta bs.
       (Inr \<lparr>fr_timestamp_ms = u64_of_le ts_buf, fr_flags = flags, fr_data = data,
             fr_state_delta = state_delta\<rparr>, bs))))))"

definition MrrFrame_size :: "MrrFrame \<Rightarrow> nat" where
  "MrrFrame_size f =
     (let base = 8 + 1 + 4 + length (fr_data f)
      in case fr_state_delta f of Some state \<Rightarrow> base + 4 + length state | None \<Rightarrow> base)"

section \<open>The writer\<close>

record MrrWriter =
  w_writer :: sink
  w_header :: MrrHeader
  w_frame_count :: u32
  w_last_timestamp_ms :: u64
  w_index :: "MrrIndexEntry list"
  w_index_interval :: u32
  w_frames_since_index :: u32

text \<open>\<open>now_ms\<close> is the system clock the source reads.\<close>

definition MrrWriter_new ::
  "sink \<Rightarrow> u64 \<Rightarrow> u32 \<Rightarrow> u32 \<Rightarrow> u32 \<Rightarrow> u32 \<Rightarrow> bytes \<Rightarrow> bytes \<Rightarrow> (io_error, MrrWriter, sink) io" where
  "MrrWriter_new writer now_ms radar_brand spokes_per_rev max_spoke_len pixel_values
     capabilities_json initial_state_json =
     (let capabilities_end = HEADER_SIZE + length capabilities_json;
          initial_state_offset = of_nat capabilities_end;
          frames_offset = of_nat (capabilities_end + length initial_state_json);
          header = \<lparr>h_version = MRR_VERSION, h_flags = 0, h_radar_brand = radar_brand,
            h_spokes_per_rev = spokes_per_rev, h_max_spoke_len = max_spoke_len,
            h_pixel_values = pixel_values, h_start_time_ms = now_ms,
            h_capabilities_offset = of_nat HEADER_SIZE,
            h_capabilities_len = of_nat (length capabilities_json),
            h_initial_state_offset = initial_state_offset,
            h_initial_state_len = of_nat (length initial_state_json),
            h_frames_offset = frames_offset\<rparr>
      in try_bind (MrrHeader_write header writer) (\<lambda>_ writer.
         try_bind (write_all capabilities_json writer) (\<lambda>_ writer.
         try_bind (write_all initial_state_json writer) (\<lambda>_ writer.
         (Inr \<lparr>w_writer = writer, w_header = header, w_frame_count = 0, w_last_timestamp_ms = 0,
               w_index = [], w_index_interval = 100, w_frames_since_index = 0\<rparr>, writer)))))"

definition MrrWriter_index_step :: "MrrFrame \<Rightarrow> MrrWriter \<Rightarrow> MrrWriter" where
  "MrrWriter_index_step frame w =
     (if w_index_interval w \<le> w_frames_since_index w
      then w\<lparr>w_index := w_index w @
               [\<lparr>i_timestamp_ms = fr_timestamp_ms frame, i_file_offset = of_nat (s_pos (w_writer w))\<rparr>],
             w_frames_since_index := 0\<rparr>
      else w)"

definition MrrWriter_write_frame :: "MrrFrame \<Rightarrow> MrrWriter \<Rightarrow> (io_error, unit, MrrWriter) io" where
  "MrrWriter_write_frame frame w =
     (let w = MrrWriter_index_step frame w
      in case MrrFrame_write frame (w_writer w) of
           (Inl e, s) \<Rightarrow> (Inl e, w\<lparr>w_writer := s\<rparr>)
         | (Inr _, s) \<Rightarrow>
             (Inr (), w\<lparr>w_writer := s,
                w_frame_count := w_frame_count w + 1,
                w_last_timestamp_ms := fr_timestamp_ms frame,
                w_frames_since_index := w_frames_since_index w + 1\<rparr>))"

primrec write_entries :: "MrrIndexEntry list \<Rightarrow> sink \<Rightarrow> (io_error, unit, sink) io" where
  "write_entries [] s = (Inr (), s)"
| "write_entries (e # es) s = try_bind (MrrIndexEntry_write e s) (\<lambda>_ s. write_entries es s)"

definition MrrWriter_finish :: "MrrWriter \<Rightarrow> (io_error, unit, sink) io" where
  "MrrWriter_finish w =
     (let index_offset = of_nat (s_pos (w_writer w));
          footer = \<lparr>f_index_offset = index_offset, f_index_count = of_nat (length (w_index w)),
                    f_frame_count = w_frame_count w, f_duration_ms = w_last_timestamp_ms w\<rparr>
      in try_bind (write_entries (w_index w) (w_writer w)) (\<lambda>_ s.
         try_bind (MrrFooter_write footer s) (\<lambda>_ s.
         try_bind (MrrHeader_write (w_header w) (s\<lparr>s_pos := 0\<rparr>)) (\<lambda>_ s.
         flush s))))"

section \<open>The reader\<close>

record MrrReader =
  r_reader :: cursor
  r_header :: MrrHeader
  r_footer :: MrrFooter
  r_capabilities :: bytes
  r_initial_state :: bytes
  r_frames_end_offset :: u64

definition MrrReader_open :: "cursor \<Rightarrow> (io_error, MrrReader, cursor) io" where
  "MrrReader_open reader =
     try_bind (on_cursor MrrHeader_read reader) (\<lambda>header reader.
     let cap_len = unat (h_capabilities_len header) in
     if MAX_METADATA_SIZE < cap_len then (Inl (CapabilitiesTooLarge cap_len), reader)
     else try_bind (seek_start (h_capabilities_offset header) reader) (\<lambda>_ reader.
     try_bind (on_cursor (read_exact cap_len) reader) (\<lambda>capabilities reader.
     let state_len = unat (h_initial_state_len header) in
     if MAX_METADATA_SIZE < state_len then (Inl (InitialStateTooLarge state_len), reader)
     else try_bind (seek_start (h_initial_state_offset header) reader) (\<lambda>_ reader.
     try_bind (on_cursor (read_exact state_len) reader) (\<lambda>initial_state reader.
     try_bind (seek_end FOOTER_SIZE reader) (\<lambda>_ reader.
     try_bind (on_cursor MrrFooter_read reader) (\<lambda>footer reader.
     try_bind (seek_start (h_frames_offset header) reader) (\<lambda>_ reader.
     (Inr \<lparr>r_reader = reader, r_header = header, r_footer = footer,
           r_capabilities = capabilities, r_initial_state = initial_state,
           r_frames_end_offset = f_index_offset footer\<rparr>, reader)))))))))"

definition lift_reader ::
  "(cursor \<Rightarrow> (io_error, 'a, cursor) io) \<Rightarrow> MrrReader \<Rightarrow> (io_error, 'a, MrrReader) io" where
  "lift_reader m r = (case m (r_reader r) of (x, c) \<Rightarrow> (x, r\<lparr>r_reader := c\<rparr>))"

definition MrrReader_read_frame :: "MrrReader \<Rightarrow> (io_error, MrrFrame option, MrrReader) io" where
  "MrrReader_read_frame r =
     (if unat (r_frames_end_offset r) \<le> c_pos (r_reader r) then (Inr None, r)
      else try_bind (lift_reader (on_cursor MrrFrame_read) r) (\<lambda>frame r. (Inr (Some frame), r)))"

primrec scan_index ::
  "nat \<Rightarrow> u64 \<Rightarrow> MrrIndexEntry option \<Rightarrow> cursor \<Rightarrow> (io_error, MrrIndexEntry option, cursor) io" where
  "scan_index 0 target_ms best_entry c = (Inr best_entry, c)"
| "scan_index (Suc n) target_ms best_entry c =
     try_bind (on_cursor MrrIndexEntry_read c) (\<lambda>entry c.
       if i_timestamp_ms entry \<le> target_ms then scan_index n target_ms (Some entry) c
       else (Inr best_entry, c))"

section \<open>Reading consumes its input\<close>

lemma read_exact_rest: "read_exact n bs = (r, rest) \<Longrightarrow> \<exists>used. bs = used @ rest"
  by (auto simp: read_exact_def split: if_splits intro: exI[of _ "take n bs"])

lemma read_exact_Inr:
  "read_exact n bs = (Inr xs, rest) \<longleftrightarrow> n \<le> length bs \<and> xs = take n bs \<and> rest = drop n bs"
  by (auto simp: read_exact_def)

lemma length_read_exact: "read_exact n bs = (Inr xs, rest) \<Longrightarrow> length bs = n + length rest"
  by (auto simp: read_exact_Inr)

lemma MrrFrame_read_consumes:
  assumes "MrrFrame_read bs = (Inr f, rest)"
  shows "length rest + 13 \<le> length bs"
  using assms
  by (auto simp: MrrFrame_read_def Let_def split: if_splits dest!: length_read_exact)

lemma on_cursor_frame_progress:
  assumes "on_cursor MrrFrame_read c = (Inr f, c')"
  shows "c_data c' = c_data c \<and> c_pos c + 13 \<le> c_pos c' \<and> c_pos c' \<le> length (c_data c)"
proof -
  let ?left = "drop (c_pos c) (c_data c)"
  obtain rest where r: "MrrFrame_read ?left = (Inr f, rest)"
    and c': "c' = c\<lparr>c_pos := c_pos c + (length ?left - length rest)\<rparr>"
    using assms by (auto simp: on_cursor_def Let_def split: prod.splits)
  from MrrFrame_read_consumes[OF r] have "length rest + 13 \<le> length (c_data c) - c_pos c"
    by simp
  with c' show ?thesis by auto
qed

lemma read_frame_progress:
  assumes "MrrReader_read_frame r = (Inr (Some f), r')"
  shows "c_data (r_reader r') = c_data (r_reader r)
    \<and> c_pos (r_reader r) < c_pos (r_reader r')
    \<and> c_pos (r_reader r') \<le> length (c_data (r_reader r))"
  using assms
  by (auto simp: MrrReader_read_frame_def lift_reader_def split: if_splits prod.splits
      dest!: on_cursor_frame_progress)

section \<open>Seeking\<close>

text \<open>
  The scanning loop of \<open>seek_to_timestamp\<close>. It is total: every frame read moves the position
  forward inside the file.
\<close>

function seek_loop :: "u64 \<Rightarrow> MrrReader \<Rightarrow> (io_error, unit, MrrReader) io" where
  "seek_loop target_ms r =
     (let pos_before = c_pos (r_reader r)
      in case MrrReader_read_frame r of
           (Inl e, r') \<Rightarrow> (Inl e, r')
         | (Inr None, r') \<Rightarrow> (Inr (), r')
         | (Inr (Some f), r') \<Rightarrow>
             (if target_ms \<le> fr_timestamp_ms f
              then (Inr (), r'\<lparr>r_reader := (r_reader r')\<lparr>c_pos := pos_before\<rparr>\<rparr>)
              else seek_loop target_ms r'))"
  by pat_completeness auto
termination
  by (relation "measure (\<lambda>(t, r). length (c_data (r_reader r)) - c_pos (r_reader r))")
    (auto dest!: read_frame_progress[OF sym])

declare seek_loop.simps [simp del]

definition MrrReader_seek_to_timestamp :: "u64 \<Rightarrow> MrrReader \<Rightarrow> (io_error, unit, MrrReader) io" where
  "MrrReader_seek_to_timestamp target_ms r =
     try_bind (lift_reader (seek_start (f_index_offset (r_footer r))) r) (\<lambda>_ r.
     try_bind (lift_reader (scan_index (unat (f_index_count (r_footer r))) target_ms None) r)
       (\<lambda>best_entry r.
     let seek_pos = (case best_entry of Some e \<Rightarrow> i_file_offset e | None \<Rightarrow> h_frames_offset (r_header r))
     in try_bind (lift_reader (seek_start seek_pos) r) (\<lambda>_ r. seek_loop target_ms r)))"

definition MrrReader_rewind :: "MrrReader \<Rightarrow> (io_error, unit, MrrReader) io" where
  "MrrReader_rewind r = lift_reader (seek_start (h_frames_offset (r_header r))) r"

end
