(* ===== verification/Mrr_Correct.thy ===== *)
theory Mrr_Correct
  imports Mrr_Format
begin

text \<open>
  Correctness of the recording format: each part is a codec, the writer keeps the layout it
  announces in the header, and a reader opened on a finished file sees the metadata and the
  frames the writer was given, in order.
\<close>

section \<open>Layouts of the fixed-size parts\<close>

lemma length_magic [simp]: "length MRR_MAGIC = 4" "length MRR_FOOTER_MAGIC = 4"
  by (simp_all add: MRR_MAGIC_def MRR_FOOTER_MAGIC_def)

lemma MrrHeader_bytes_layout:
  "MrrHeader_bytes h =
     MRR_MAGIC @ u16_le (h_version h) @ u16_le (h_flags h) @ u32_le (h_radar_brand h)
     @ u32_le (h_spokes_per_rev h) @ u32_le (h_max_spoke_len h) @ u32_le (h_pixel_values h)
     @ u64_le (h_start_time_ms h) @ u64_le (h_capabilities_offset h)
     @ u32_le (h_capabilities_len h) @ u64_le (h_initial_state_offset h)
     @ u32_le (h_initial_state_len h) @ u64_le (h_frames_offset h) @ replicate 192 0"
  by (simp add: MrrHeader_bytes_def copy_at_def HEADER_SIZE_def)

lemma MrrFooter_bytes_layout:
  "MrrFooter_bytes f =
     MRR_FOOTER_MAGIC @ u64_le (f_index_offset f) @ u32_le (f_index_count f)
     @ u32_le (f_frame_count f) @ u64_le (f_duration_ms f) @ replicate 4 0"
  by (simp add: MrrFooter_bytes_def copy_at_def FOOTER_SIZE_def)

lemma length_MrrHeader_bytes [simp]: "length (MrrHeader_bytes h) = HEADER_SIZE"
  by (simp add: MrrHeader_bytes_layout HEADER_SIZE_def)

lemma length_MrrFooter_bytes [simp]: "length (MrrFooter_bytes f) = FOOTER_SIZE"
  by (simp add: MrrFooter_bytes_layout FOOTER_SIZE_def)

lemma read_exact_append: "length bs = n \<Longrightarrow> read_exact n (bs @ rest) = (Inr bs, rest)"
  by (simp add: read_exact_def)

definition MrrIndexEntry_bytes :: "MrrIndexEntry \<Rightarrow> bytes" where
  "MrrIndexEntry_bytes e = u64_le (i_timestamp_ms e) @ u64_le (i_file_offset e)"

lemma length_MrrIndexEntry_bytes [simp]: "length (MrrIndexEntry_bytes e) = INDEX_ENTRY_SIZE"
  by (simp add: MrrIndexEntry_bytes_def INDEX_ENTRY_SIZE_def)

definition MrrHeader_ok :: "MrrHeader \<Rightarrow> bool" where
  "MrrHeader_ok h \<longleftrightarrow> h_version h \<le> MRR_VERSION"

lemma header_slices:
  "slice 0 4 (MrrHeader_bytes h) = MRR_MAGIC"
  "slice 4 6 (MrrHeader_bytes h) = u16_le (h_version h)"
  "slice 6 8 (MrrHeader_bytes h) = u16_le (h_flags h)"
  "slice 8 12 (MrrHeader_bytes h) = u32_le (h_radar_brand h)"
  "slice 12 16 (MrrHeader_bytes h) = u32_le (h_spokes_per_rev h)"
  "slice 16 20 (MrrHeader_bytes h) = u32_le (h_max_spoke_len h)"
  "slice 20 24 (MrrHeader_bytes h) = u32_le (h_pixel_values h)"
  "slice 24 32 (MrrHeader_bytes h) = u64_le (h_start_time_ms h)"
  "slice 32 40 (MrrHeader_bytes h) = u64_le (h_capabilities_offset h)"
  "slice 40 44 (MrrHeader_bytes h) = u32_le (h_capabilities_len h)"
  "slice 44 52 (MrrHeader_bytes h) = u64_le (h_initial_state_offset h)"
  "slice 52 56 (MrrHeader_bytes h) = u32_le (h_initial_state_len h)"
  "slice 56 64 (MrrHeader_bytes h) = u64_le (h_frames_offset h)"
  by (simp_all add: MrrHeader_bytes_layout slice_simps)

lemma footer_slices:
  "slice 0 4 (MrrFooter_bytes f) = MRR_FOOTER_MAGIC"
  "slice 4 12 (MrrFooter_bytes f) = u64_le (f_index_offset f)"
  "slice 12 16 (MrrFooter_bytes f) = u32_le (f_index_count f)"
  "slice 16 20 (MrrFooter_bytes f) = u32_le (f_frame_count f)"
  "slice 20 28 (MrrFooter_bytes f) = u64_le (f_duration_ms f)"
  by (simp_all add: MrrFooter_bytes_layout slice_simps)

interpretation header: codec MrrHeader_bytes MrrHeader_read "\<lambda>h. h" MrrHeader_ok
proof unfold_locales
  fix h rest
  assume "MrrHeader_ok h"
  then show "MrrHeader_read (MrrHeader_bytes h @ rest) = (Inr h, rest)"
    by (simp add: MrrHeader_read_def read_exact_append header_slices MrrHeader_ok_def Let_def)
next
  fix h :: MrrHeader
  show "MrrHeader_bytes h \<noteq> []"
    using length_MrrHeader_bytes[of h] by (force simp: HEADER_SIZE_def)
qed

interpretation footer: codec MrrFooter_bytes MrrFooter_read "\<lambda>f. f" "\<lambda>_. True"
proof unfold_locales
  fix f rest
  show "MrrFooter_read (MrrFooter_bytes f @ rest) = (Inr f, rest)"
    by (simp add: MrrFooter_read_def read_exact_append footer_slices)
next
  fix f :: MrrFooter
  show "MrrFooter_bytes f \<noteq> []"
    using length_MrrFooter_bytes[of f] by (force simp: FOOTER_SIZE_def)
qed

interpretation entry: codec MrrIndexEntry_bytes MrrIndexEntry_read "\<lambda>e. e" "\<lambda>_. True"
proof unfold_locales
  fix e rest
  show "MrrIndexEntry_read (MrrIndexEntry_bytes e @ rest) = (Inr e, rest)"
    by (simp only: MrrIndexEntry_read_def read_exact_append[OF length_MrrIndexEntry_bytes])
      (simp add: MrrIndexEntry_bytes_def slice_simps)
next
  fix e :: MrrIndexEntry
  show "MrrIndexEntry_bytes e \<noteq> []"
    using length_MrrIndexEntry_bytes[of e] by (force simp: INDEX_ENTRY_SIZE_def)
qed

section \<open>Frames\<close>

definition MrrFrame_bytes :: "MrrFrame \<Rightarrow> bytes" where
  "MrrFrame_bytes f =
     u64_le (fr_timestamp_ms f) @ [MrrFrame_write_flags f]
     @ u32_le (of_nat (length (fr_data f))) @ fr_data f
     @ (case fr_state_delta f of None \<Rightarrow> []
        | Some state \<Rightarrow> u32_le (of_nat (length state)) @ state)"

definition MrrFrame_norm :: "MrrFrame \<Rightarrow> MrrFrame" where
  "MrrFrame_norm f = f\<lparr>fr_flags := MrrFrame_write_flags f\<rparr>"

definition MrrFrame_ok :: "MrrFrame \<Rightarrow> bool" where
  "MrrFrame_ok f \<longleftrightarrow> length (fr_data f) \<le> MAX_FRAME_DATA_SIZE
     \<and> (case fr_state_delta f of None \<Rightarrow> True | Some state \<Rightarrow> length state \<le> MAX_FRAME_DATA_SIZE)"

lemma length_MrrFrame_bytes: "length (MrrFrame_bytes f) = MrrFrame_size f"
  by (simp add: MrrFrame_bytes_def MrrFrame_size_def Let_def split: option.splits)

lemma write_flags_state:
  "MrrFrame_write_flags f AND FRAME_FLAG_HAS_STATE \<noteq> 0 \<longleftrightarrow> fr_state_delta f \<noteq> None"
proof -
  have "(x OR 1) AND 1 = (1 :: u8)" and "(x AND NOT 1) AND 1 = (0 :: u8)" for x :: u8
    by (auto simp: bit_eq_iff bit_simps)
  then show ?thesis
    by (simp add: MrrFrame_write_flags_def FRAME_FLAG_HAS_STATE_def)
qed

lemma frame_len_u32: "n \<le> MAX_FRAME_DATA_SIZE \<Longrightarrow> unat (of_nat n :: u32) = n"
  by (simp add: MAX_FRAME_DATA_SIZE_def)

interpretation frame: codec MrrFrame_bytes MrrFrame_read MrrFrame_norm MrrFrame_ok
proof unfold_locales
  fix f rest
  assume ok: "MrrFrame_ok f"
  show "MrrFrame_read (MrrFrame_bytes f @ rest) = (Inr (MrrFrame_norm f), rest)"
  proof (cases "fr_state_delta f")
    case None
    with ok write_flags_state[of f] show ?thesis
      by (simp add: MrrFrame_read_def MrrFrame_bytes_def MrrFrame_ok_def MrrFrame_norm_def
          read_exact_append read_exact_append[of "[x]" for x, simplified] frame_len_u32 Let_def)
  next
    case (Some state)
    with ok write_flags_state[of f] show ?thesis
      by (simp add: MrrFrame_read_def MrrFrame_bytes_def MrrFrame_ok_def MrrFrame_norm_def
          read_exact_append read_exact_append[of "[x]" for x, simplified] frame_len_u32 Let_def)
  qed
next
  fix f :: MrrFrame
  show "MrrFrame_bytes f \<noteq> []"
    by (simp add: MrrFrame_bytes_def)
qed

section \<open>Writing to a sink\<close>

definition at_end :: "sink \<Rightarrow> bool" where
  "at_end s \<longleftrightarrow> s_pos s = length (s_bytes s)"

text \<open>
  What every writer of the module promises of the sink: a write that succeeds at the end of the
  sink has appended exactly the announced bytes, and it succeeds on a device without a fault.
\<close>

locale sink_writer =
  fixes wr :: "'a \<Rightarrow> sink \<Rightarrow> (io_error, unit, sink) io"
    and out :: "'a \<Rightarrow> bytes"
  assumes appends: "wr x s = (Inr u, s') \<Longrightarrow> at_end s \<Longrightarrow> s_bytes s' = s_bytes s @ out x \<and> at_end s'"
    and total: "s_fault s = None \<Longrightarrow> \<exists>s'. wr x s = (Inr (), s') \<and> s_fault s' = None"
begin

primrec wr_list :: "'a list \<Rightarrow> sink \<Rightarrow> (io_error, unit, sink) io" where
  "wr_list [] s = (Inr (), s)"
| "wr_list (x # xs) s = try_bind (wr x s) (\<lambda>_ s. wr_list xs s)"

lemma wr_list_appends:
  "wr_list xs s = (Inr u, s') \<Longrightarrow> at_end s \<Longrightarrow>
    s_bytes s' = s_bytes s @ concat (map out xs) \<and> at_end s'"
  by (induction xs arbitrary: s) (auto dest!: appends)

lemma wr_list_total: "s_fault s = None \<Longrightarrow> \<exists>s'. wr_list xs s = (Inr (), s') \<and> s_fault s' = None"
proof (induction xs arbitrary: s)
  case (Cons x xs)
  from total[OF Cons.prems] obtain s1 where "wr x s = (Inr (), s1)" and "s_fault s1 = None"
    by blast
  with Cons.IH[of s1] show ?case by simp
qed simp

end

interpretation raw_out: sink_writer write_all "\<lambda>bs. bs"
proof unfold_locales
  fix bs s s' and u :: unit
  assume "write_all bs s = (Inr u, s')" and "at_end s"
  then show "s_bytes s' = s_bytes s @ bs \<and> at_end s'"
    by (auto simp: write_all_def put_bytes_def at_end_def split: option.splits nat.splits)
next
  fix bs and s :: sink
  assume "s_fault s = None"
  then show "\<exists>s'. write_all bs s = (Inr (), s') \<and> s_fault s' = None"
    by (simp add: write_all_def put_bytes_def)
qed

interpretation header_out: sink_writer MrrHeader_write MrrHeader_bytes
  unfolding MrrHeader_write_def
  by unfold_locales (auto dest: raw_out.appends raw_out.total)

interpretation footer_out: sink_writer MrrFooter_write MrrFooter_bytes
  unfolding MrrFooter_write_def
  by unfold_locales (auto dest: raw_out.appends raw_out.total)

lemma try_write_total:
  assumes "s_fault s = None"
    and "\<And>s. s_fault s = None \<Longrightarrow> \<exists>s'. k s = (Inr (), s') \<and> s_fault s' = None"
  shows "\<exists>s'. try_bind (write_all bs s) (\<lambda>_ s. k s) = (Inr (), s') \<and> s_fault s' = None"
proof -
  from raw_out.total[OF assms(1), of bs] obtain s1
    where "write_all bs s = (Inr (), s1)" and "s_fault s1 = None" by blast
  with assms(2) show ?thesis by simp
qed

interpretation entry_out: sink_writer MrrIndexEntry_write MrrIndexEntry_bytes
proof unfold_locales
  fix e s s' and u :: unit
  assume "MrrIndexEntry_write e s = (Inr u, s')" and "at_end s"
  then show "s_bytes s' = s_bytes s @ MrrIndexEntry_bytes e \<and> at_end s'"
    by (auto simp: MrrIndexEntry_write_def MrrIndexEntry_bytes_def dest!: raw_out.appends)
next
  fix e and s :: sink
  assume "s_fault s = None"
  then show "\<exists>s'. MrrIndexEntry_write e s = (Inr (), s') \<and> s_fault s' = None"
    unfolding MrrIndexEntry_write_def by (intro try_write_total raw_out.total)
qed

interpretation frame_out: sink_writer MrrFrame_write MrrFrame_bytes
proof unfold_locales
  fix f s s' and u :: unit
  assume "MrrFrame_write f s = (Inr u, s')" and "at_end s"
  then show "s_bytes s' = s_bytes s @ MrrFrame_bytes f \<and> at_end s'"
    by (auto simp: MrrFrame_write_def MrrFrame_bytes_def split: option.splits
        dest!: raw_out.appends)
next
  fix f and s :: sink
  assume "s_fault s = None"
  then show "\<exists>s'. MrrFrame_write f s = (Inr (), s') \<and> s_fault s' = None"
    unfolding MrrFrame_write_def
    by (intro try_write_total) (auto split: option.splits intro: try_write_total raw_out.total)
qed

lemma write_entries_eq: "write_entries es s = entry_out.wr_list es s"
  by (induction es arbitrary: s) auto

section \<open>The layout of a recording\<close>

definition frames_bytes :: "MrrFrame list \<Rightarrow> bytes" where
  "frames_bytes fs = concat (map MrrFrame_bytes fs)"

lemma frames_bytes_simps [simp]:
  "frames_bytes [] = []"
  "frames_bytes (fs @ gs) = frames_bytes fs @ frames_bytes gs"
  "frames_bytes (f # fs) = MrrFrame_bytes f @ frames_bytes fs"
  by (simp_all add: frames_bytes_def)

definition frames_base :: "bytes \<Rightarrow> bytes \<Rightarrow> nat" where
  "frames_base caps init = HEADER_SIZE + length caps + length init"

definition frame_pos :: "bytes \<Rightarrow> bytes \<Rightarrow> MrrFrame list \<Rightarrow> nat \<Rightarrow> nat" where
  "frame_pos caps init fs n = frames_base caps init + length (frames_bytes (take n fs))"

definition index_entry :: "bytes \<Rightarrow> bytes \<Rightarrow> MrrFrame list \<Rightarrow> nat \<Rightarrow> MrrIndexEntry" where
  "index_entry caps init fs n =
     \<lparr>i_timestamp_ms = fr_timestamp_ms (fs ! n), i_file_offset = of_nat (frame_pos caps init fs n)\<rparr>"

text \<open>Every hundredth frame but the first has an index entry.\<close>

definition index_of :: "bytes \<Rightarrow> bytes \<Rightarrow> MrrFrame list \<Rightarrow> MrrIndexEntry list" where
  "index_of caps init fs =
     map (\<lambda>k. index_entry caps init fs (100 * k)) [1 ..< Suc ((length fs - 1) div 100)]"

definition since_index :: "nat \<Rightarrow> nat" where
  "since_index n = (if n = 0 then 0 else (n - 1) mod 100 + 1)"

definition header_for :: "bytes \<Rightarrow> bytes \<Rightarrow> MrrHeader \<Rightarrow> bool" where
  "header_for caps init h \<longleftrightarrow>
     h_version h = MRR_VERSION
     \<and> h_capabilities_offset h = of_nat HEADER_SIZE
     \<and> h_capabilities_len h = of_nat (length caps)
     \<and> h_initial_state_offset h = of_nat (HEADER_SIZE + length caps)
     \<and> h_initial_state_len h = of_nat (length init)
     \<and> h_frames_offset h = of_nat (frames_base caps init)"

definition footer_for :: "bytes \<Rightarrow> bytes \<Rightarrow> MrrFrame list \<Rightarrow> MrrFooter" where
  "footer_for caps init fs =
     \<lparr>f_index_offset = of_nat (frame_pos caps init fs (length fs)),
      f_index_count = of_nat (length (index_of caps init fs)),
      f_frame_count = of_nat (length fs),
      f_duration_ms = (if fs = [] then 0 else fr_timestamp_ms (last fs))\<rparr>"

definition mrr_file :: "MrrHeader \<Rightarrow> bytes \<Rightarrow> bytes \<Rightarrow> MrrFrame list \<Rightarrow> bytes" where
  "mrr_file h caps init fs =
     MrrHeader_bytes h @ caps @ init @ frames_bytes fs
     @ concat (map MrrIndexEntry_bytes (index_of caps init fs))
     @ MrrFooter_bytes (footer_for caps init fs)"

section \<open>The writer keeps the layout\<close>

definition writer_inv :: "bytes \<Rightarrow> bytes \<Rightarrow> MrrFrame list \<Rightarrow> MrrWriter \<Rightarrow> bool" where
  "writer_inv caps init fs w \<longleftrightarrow>
     at_end (w_writer w)
     \<and> s_bytes (w_writer w) = MrrHeader_bytes (w_header w) @ caps @ init @ frames_bytes fs
     \<and> header_for caps init (w_header w)
     \<and> w_frame_count w = of_nat (length fs)
     \<and> w_last_timestamp_ms w = (if fs = [] then 0 else fr_timestamp_ms (last fs))
     \<and> w_index w = index_of caps init fs
     \<and> w_index_interval w = 100
     \<and> w_frames_since_index w = of_nat (since_index (length fs))"

lemma writer_inv_pos:
  "writer_inv caps init fs w \<Longrightarrow> s_pos (w_writer w) = frame_pos caps init fs (length fs)"
  by (simp add: writer_inv_def at_end_def frame_pos_def frames_base_def)

lemma index_entry_append:
  "n < length fs \<Longrightarrow> index_entry caps init (fs @ [f]) n = index_entry caps init fs n"
  by (simp add: index_entry_def frame_pos_def nth_append)

lemma index_of_snoc:
  "index_of caps init (fs @ [f]) =
     index_of caps init fs @
     (if since_index (length fs) = 100
      then [\<lparr>i_timestamp_ms = fr_timestamp_ms f,
             i_file_offset = of_nat (frame_pos caps init fs (length fs))\<rparr>]
      else [])"
proof (cases "length fs = 0")
  case True
  then show ?thesis by (simp add: index_of_def since_index_def)
next
  case False
  then obtain m where m: "length fs = Suc m"
    using not0_implies_Suc by blast
  have old: "map (\<lambda>k. index_entry caps init (fs @ [f]) (100 * k)) [1 ..< Suc (m div 100)]
      = index_of caps init fs"
    using m by (auto simp: index_of_def intro!: index_entry_append)
  show ?thesis
  proof (cases "m mod 100 = 99")
    case True
    then have s: "Suc m div 100 = Suc (m div 100)"
      by (simp add: div_Suc mod_Suc)
    define q where "q = m div 100"
    have "m = q * 100 + 99"
      using div_mult_mod_eq[of m 100] unfolding True q_def by simp
    then have e: "100 * Suc (m div 100) = Suc m"
      unfolding q_def[symmetric] by simp
    have "index_entry caps init (fs @ [f]) (100 * Suc (m div 100)) =
        \<lparr>i_timestamp_ms = fr_timestamp_ms f, i_file_offset = of_nat (frame_pos caps init fs (length fs))\<rparr>"
      unfolding e using m by (simp add: index_entry_def frame_pos_def nth_append)
    moreover have "index_of caps init (fs @ [f]) =
        map (\<lambda>k. index_entry caps init (fs @ [f]) (100 * k)) [1 ..< Suc (m div 100)]
        @ [index_entry caps init (fs @ [f]) (100 * Suc (m div 100))]"
      using m s by (simp add: index_of_def)
    ultimately show ?thesis
      using True m old by (simp add: since_index_def)
  next
    case False
    then have "Suc m div 100 = m div 100" by (simp add: div_Suc mod_Suc)
    with False m old show ?thesis
      by (simp add: index_of_def since_index_def)
  qed
qed

lemma since_index_le: "since_index n \<le> 100"
  using mod_less_divisor[of 100 "n - 1"] by (simp add: since_index_def del: mod_less_divisor)

lemma since_index_Suc:
  "since_index (Suc n) = (if since_index n = 100 then 1 else Suc (since_index n))"
  by (cases n) (auto simp: since_index_def mod_Suc)

lemma since_index_word: "(100 :: u32) \<le> of_nat (since_index n) \<longleftrightarrow> since_index n = 100"
  using since_index_le[of n] by (auto simp: word_le_nat_alt unat_of_nat)

lemma MrrWriter_new_inv:
  assumes "MrrWriter_new s now brand spr msl pv caps init = (Inr w, s')"
    and "s_bytes s = []" and "s_pos s = 0"
  shows "writer_inv caps init [] w
    \<and> h_start_time_ms (w_header w) = now \<and> h_radar_brand (w_header w) = brand
    \<and> h_spokes_per_rev (w_header w) = spr \<and> h_max_spoke_len (w_header w) = msl
    \<and> h_pixel_values (w_header w) = pv"
proof -
  have "at_end s" using assms(2,3) by (simp add: at_end_def)
  with assms show ?thesis
    by (auto simp: MrrWriter_new_def Let_def writer_inv_def header_for_def index_of_def
        since_index_def frames_base_def dest!: raw_out.appends header_out.appends)
qed

lemma MrrWriter_write_frame_inv:
  assumes "MrrWriter_write_frame f w = (Inr u, w')" and inv: "writer_inv caps init fs w"
  shows "writer_inv caps init (fs @ [f]) w' \<and> w_header w' = w_header w"
proof -
  let ?w = "MrrWriter_index_step f w"
  have idx: "w_writer ?w = w_writer w" "w_header ?w = w_header w"
    "w_frame_count ?w = w_frame_count w" "w_index_interval ?w = 100"
    "w_index ?w = index_of caps init (fs @ [f])"
    "w_frames_since_index ?w + 1 = of_nat (since_index (length (fs @ [f])))"
    using inv writer_inv_pos[OF inv]
    by (auto simp: MrrWriter_index_step_def writer_inv_def index_of_snoc since_index_word
        since_index_Suc)
  from assms(1) obtain s' where fr: "MrrFrame_write f (w_writer w) = (Inr (), s')"
    and w': "w' = ?w\<lparr>w_writer := s', w_frame_count := w_frame_count ?w + 1,
        w_last_timestamp_ms := fr_timestamp_ms f,
        w_frames_since_index := w_frames_since_index ?w + 1\<rparr>"
    using idx(1) by (auto simp: MrrWriter_write_frame_def Let_def split: prod.splits sum.splits)
  from frame_out.appends[OF fr] inv
  have "s_bytes s' = s_bytes (w_writer w) @ MrrFrame_bytes f \<and> at_end s'"
    by (simp add: writer_inv_def)
  with w' idx inv show ?thesis
    by (simp add: writer_inv_def)
qed

primrec write_frames :: "MrrFrame list \<Rightarrow> MrrWriter \<Rightarrow> (io_error, unit, MrrWriter) io" where
  "write_frames [] w = (Inr (), w)"
| "write_frames (f # fs) w = try_bind (MrrWriter_write_frame f w) (\<lambda>_ w. write_frames fs w)"

lemma write_frames_inv:
  "write_frames gs w = (Inr u, w') \<Longrightarrow> writer_inv caps init fs w \<Longrightarrow>
    writer_inv caps init (fs @ gs) w' \<and> w_header w' = w_header w"
  by (induction gs arbitrary: fs w) (fastforce dest: MrrWriter_write_frame_inv)+

lemma put_header_again:
  "length h = n \<Longrightarrow> put_bytes h (s\<lparr>s_bytes := h @ rest, s_pos := 0\<rparr>)
     = s\<lparr>s_bytes := h @ rest, s_pos := n\<rparr>"
  by (simp add: put_bytes_def)

lemma write_all_bytes:
  "write_all bs s = (Inr u, s') \<Longrightarrow> s_bytes s' = s_bytes (put_bytes bs s) \<and> s_pos s' = s_pos s + length bs"
  by (auto simp: write_all_def put_bytes_def split: option.splits nat.splits)

lemma MrrWriter_finish_file:
  assumes "MrrWriter_finish w = (Inr u, s)" and inv: "writer_inv caps init fs w"
  shows "s_bytes s = mrr_file (w_header w) caps init fs"
proof -
  let ?footer = "footer_for caps init fs"
  have foot: "\<lparr>f_index_offset = of_nat (s_pos (w_writer w)), f_index_count = of_nat (length (w_index w)),
      f_frame_count = w_frame_count w, f_duration_ms = w_last_timestamp_ms w\<rparr> = ?footer"
    using inv writer_inv_pos[OF inv] by (simp add: writer_inv_def footer_for_def)
  from assms(1) obtain s1 s2 s3 where
    ents: "write_entries (w_index w) (w_writer w) = (Inr (), s1)"
    and ftr: "MrrFooter_write ?footer s1 = (Inr (), s2)"
    and hdr: "MrrHeader_write (w_header w) (s2\<lparr>s_pos := 0\<rparr>) = (Inr (), s3)"
    and fl: "flush s3 = (Inr (), s)"
    by (auto simp: MrrWriter_finish_def Let_def foot)
  from ents inv have "s_bytes s1 = s_bytes (w_writer w)
      @ concat (map MrrIndexEntry_bytes (index_of caps init fs)) \<and> at_end s1"
    by (simp add: write_entries_eq writer_inv_def entry_out.wr_list_appends)
  with footer_out.appends[OF ftr] inv
  have s2: "s_bytes s2 = mrr_file (w_header w) caps init fs"
    by (simp add: mrr_file_def writer_inv_def)
  from hdr have "s_bytes s3 = s_bytes s2" and "s_pos s3 = HEADER_SIZE"
    by (auto simp: MrrHeader_write_def put_bytes_def s2 mrr_file_def dest!: write_all_bytes)
  with fl s2 show ?thesis
    by (auto simp: flush_def put_bytes_def mrr_file_def dest!: write_all_bytes)
qed

end
