(* ===== verification/Mrr_Reading.thy ===== *)
theory Mrr_Reading
  imports Mrr_Correct
begin

text \<open>
  The reader side: opening a finished recording, reading its frames one after the other,
  seeking through the index and rewinding. The interface \<open>frame_source\<close> states what the
  playback task relies on; it is interpreted on the reader of the source.
\<close>

section \<open>A reader positioned in a recording\<close>

definition file_ok :: "MrrHeader \<Rightarrow> bytes \<Rightarrow> bytes \<Rightarrow> MrrFrame list \<Rightarrow> bool" where
  "file_ok h caps init fs \<longleftrightarrow>
     header_for caps init h
     \<and> length caps \<le> MAX_METADATA_SIZE \<and> length init \<le> MAX_METADATA_SIZE
     \<and> list_all MrrFrame_ok fs
     \<and> length fs < 2 ^ 32
     \<and> length (mrr_file h caps init fs) < 2 ^ 64"

definition reads_file ::
  "MrrReader \<Rightarrow> MrrHeader \<Rightarrow> bytes \<Rightarrow> bytes \<Rightarrow> MrrFrame list \<Rightarrow> bool" where
  "reads_file r h caps init fs \<longleftrightarrow>
     c_data (r_reader r) = mrr_file h caps init fs
     \<and> r_header r = h
     \<and> r_footer r = footer_for caps init fs
     \<and> r_frames_end_offset r = f_index_offset (footer_for caps init fs)"

definition set_pos :: "nat \<Rightarrow> MrrReader \<Rightarrow> MrrReader" where
  "set_pos p r = r\<lparr>r_reader := (r_reader r)\<lparr>c_pos := p\<rparr>\<rparr>"

lemma set_pos_simps [simp]:
  "c_data (r_reader (set_pos p r)) = c_data (r_reader r)"
  "c_pos (r_reader (set_pos p r)) = p"
  "r_header (set_pos p r) = r_header r"
  "r_footer (set_pos p r) = r_footer r"
  "r_frames_end_offset (set_pos p r) = r_frames_end_offset r"
  "reads_file (set_pos p r) h caps init fs = reads_file r h caps init fs"
  "set_pos p (set_pos q r) = set_pos p r"
  by (simp_all add: set_pos_def reads_file_def)

lemma on_cursor_dec:
  assumes "drop (c_pos c) (c_data c) = xs @ rest" and "p (xs @ rest) = (Inr a, rest)"
  shows "on_cursor p c = (Inr a, c\<lparr>c_pos := c_pos c + length xs\<rparr>)"
  using assms by (simp add: on_cursor_def Let_def)

lemma on_cursor_read_exact:
  assumes "drop (c_pos c) (c_data c) = xs @ rest" and "length xs = n"
  shows "on_cursor (read_exact n) c = (Inr xs, c\<lparr>c_pos := c_pos c + n\<rparr>)"
  using assms by (simp add: on_cursor_def Let_def read_exact_append)

lemma drop_frame_pos:
  assumes "n \<le> length fs"
  shows "drop (frame_pos caps init fs n) (mrr_file h caps init fs) =
     frames_bytes (drop n fs) @ concat (map MrrIndexEntry_bytes (index_of caps init fs))
     @ MrrFooter_bytes (footer_for caps init fs)"
proof -
  have "frames_bytes fs = frames_bytes (take n fs) @ frames_bytes (drop n fs)"
    by (simp flip: frames_bytes_simps(2))
  then show ?thesis
    by (simp add: mrr_file_def frame_pos_def frames_base_def)
qed

lemma frame_pos_mono: "n \<le> m \<Longrightarrow> frame_pos caps init fs n \<le> frame_pos caps init fs m"
proof -
  assume "n \<le> m"
  then have "take m fs = take n fs @ drop n (take m fs)"
    by (metis append_take_drop_id min.absorb1 take_take)
  then have "frames_bytes (take m fs) = frames_bytes (take n fs) @ frames_bytes (drop n (take m fs))"
    by (metis frames_bytes_simps(2))
  then show ?thesis
    by (simp add: frame_pos_def)
qed

lemma frame_pos_Suc:
  "n < length fs \<Longrightarrow> frame_pos caps init fs (Suc n) = frame_pos caps init fs n + length (MrrFrame_bytes (fs ! n))"
  by (simp add: frame_pos_def take_Suc_conv_app_nth)

lemma frame_pos_less: "n < length fs \<Longrightarrow> frame_pos caps init fs n < frame_pos caps init fs (length fs)"
  using frame_pos_mono[of "Suc n" "length fs" caps init fs] frame.enc_nonempty[of "fs ! n"]
  by (simp add: frame_pos_Suc length_greater_0_conv[symmetric] del: length_greater_0_conv)

lemma length_mrr_file:
  "length (mrr_file h caps init fs) =
     frame_pos caps init fs (length fs)
     + length (concat (map MrrIndexEntry_bytes (index_of caps init fs))) + FOOTER_SIZE"
  by (simp add: mrr_file_def frame_pos_def frames_base_def)

lemma frame_pos_u64:
  assumes "file_ok h caps init fs" and "n \<le> length fs"
  shows "unat (of_nat (frame_pos caps init fs n) :: u64) = frame_pos caps init fs n"
  using assms frame_pos_mono[of n "length fs" caps init fs]
  by (simp add: file_ok_def length_mrr_file)

lemma unat_frames_end:
  assumes "file_ok h caps init fs" and "reads_file r h caps init fs"
  shows "unat (r_frames_end_offset r) = frame_pos caps init fs (length fs)"
  using assms frame_pos_u64[OF assms(1), of "length fs"]
  by (simp add: reads_file_def footer_for_def)

section \<open>Reading frames\<close>

lemma read_frame_at:
  assumes ok: "file_ok h caps init fs" and rf: "reads_file r h caps init fs"
    and n: "n < length fs" and pos: "c_pos (r_reader r) = frame_pos caps init fs n"
  shows "MrrReader_read_frame r =
    (Inr (Some (MrrFrame_norm (fs ! n))), set_pos (frame_pos caps init fs (Suc n)) r)"
proof -
  let ?b = "MrrFrame_bytes (fs ! n)"
  from n have "drop n fs = fs ! n # drop (Suc n) fs"
    by (simp add: Cons_nth_drop_Suc)
  with drop_frame_pos[of n fs caps init h] n
  obtain rest where d: "drop (frame_pos caps init fs n) (mrr_file h caps init fs) = ?b @ rest"
    by simp
  from ok n have "MrrFrame_ok (fs ! n)"
    by (simp add: file_ok_def list_all_length)
  then have "on_cursor MrrFrame_read (r_reader r) =
      (Inr (MrrFrame_norm (fs ! n)), (r_reader r)\<lparr>c_pos := frame_pos caps init fs n + length ?b\<rparr>)"
    using d pos rf on_cursor_dec[of "r_reader r" ?b rest MrrFrame_read]
    by (simp add: reads_file_def frame.dec_enc)
  moreover have "\<not> unat (r_frames_end_offset r) \<le> c_pos (r_reader r)"
    using unat_frames_end[OF ok rf] pos frame_pos_less[OF n, of caps init] by simp
  ultimately show ?thesis
    using n by (simp add: MrrReader_read_frame_def lift_reader_def set_pos_def frame_pos_Suc)
qed

lemma read_frame_at_end:
  assumes "file_ok h caps init fs" and "reads_file r h caps init fs"
    and "c_pos (r_reader r) = frame_pos caps init fs (length fs)"
  shows "MrrReader_read_frame r = (Inr None, r)"
  using assms unat_frames_end[OF assms(1,2)] by (simp add: MrrReader_read_frame_def)

section \<open>Opening\<close>

lemma metadata_u32: "n \<le> MAX_METADATA_SIZE \<Longrightarrow> unat (of_nat n :: u32) = n"
  by (simp add: MAX_METADATA_SIZE_def)

lemma metadata_u64: "n \<le> MAX_METADATA_SIZE \<Longrightarrow> unat (of_nat (HEADER_SIZE + n) :: u64) = HEADER_SIZE + n"
  by (simp only: unat_of_nat) (simp add: MAX_METADATA_SIZE_def HEADER_SIZE_def)

lemma MrrReader_open_file:
  assumes ok: "file_ok h caps init fs"
  shows "\<exists>r c. MrrReader_open \<lparr>c_data = mrr_file h caps init fs, c_pos = 0\<rparr> = (Inr r, c)
    \<and> reads_file r h caps init fs \<and> r_capabilities r = caps \<and> r_initial_state r = init
    \<and> c_pos (r_reader r) = frame_pos caps init fs 0"
proof -
  let ?file = "mrr_file h caps init fs" and ?f = "footer_for caps init fs"
  let ?c = "\<lambda>p. \<lparr>c_data = ?file, c_pos = p\<rparr>"
  from ok have hf: "header_for caps init h" and lens: "length caps \<le> MAX_METADATA_SIZE"
    "length init \<le> MAX_METADATA_SIZE"
    by (simp_all add: file_ok_def)
  then have hok: "MrrHeader_ok h"
    by (simp add: header_for_def MrrHeader_ok_def)
  obtain rest1 where "?file = MrrHeader_bytes h @ rest1"
    by (simp add: mrr_file_def)
  then have hdr: "on_cursor MrrHeader_read (?c 0) = (Inr h, ?c HEADER_SIZE)"
    using on_cursor_dec[of "?c 0" "MrrHeader_bytes h" rest1 MrrHeader_read] hok
    by (simp add: header.dec_enc)
  have caps: "on_cursor (read_exact (length caps)) (?c HEADER_SIZE) =
      (Inr caps, ?c (HEADER_SIZE + length caps))"
    using on_cursor_read_exact[of "?c HEADER_SIZE" caps] by (simp add: mrr_file_def)
  have init: "on_cursor (read_exact (length init)) (?c (HEADER_SIZE + length caps)) =
      (Inr init, ?c (HEADER_SIZE + length caps + length init))"
    using on_cursor_read_exact[of "?c (HEADER_SIZE + length caps)" init] by (simp add: mrr_file_def)
  have fp: "length ?file - FOOTER_SIZE = length ?file - length (MrrFooter_bytes ?f)"
    by simp
  have "drop (length ?file - FOOTER_SIZE) ?file = MrrFooter_bytes ?f"
    unfolding fp by (simp add: mrr_file_def del: length_MrrFooter_bytes)
  then have foot: "on_cursor MrrFooter_read (?c (length ?file - FOOTER_SIZE)) =
      (Inr ?f, ?c (length ?file - FOOTER_SIZE + FOOTER_SIZE))"
    using on_cursor_dec[of "?c (length ?file - FOOTER_SIZE)" "MrrFooter_bytes ?f" "[]" MrrFooter_read]
      footer.dec_enc[of ?f "[]"]
    by simp
  have offs: "unat (h_capabilities_offset h) = HEADER_SIZE"
    "unat (h_initial_state_offset h) = HEADER_SIZE + length caps"
    "unat (h_frames_offset h) = frame_pos caps init fs 0"
    "unat (h_capabilities_len h) = length caps" "unat (h_initial_state_len h) = length init"
    using hf lens metadata_u64[of 0] metadata_u64[of "length caps"] frame_pos_u64[OF ok, of 0]
    by (simp_all add: header_for_def metadata_u32 frame_pos_def)
  have "FOOTER_SIZE \<le> length ?file"
    by (simp add: length_mrr_file)
  then show ?thesis
    using lens hdr caps init foot offs
    by (simp add: MrrReader_open_def Let_def seek_start_def seek_end_def reads_file_def)
qed

section \<open>Seeking\<close>

lemma MrrFrame_norm_timestamp [simp]: "fr_timestamp_ms (MrrFrame_norm f) = fr_timestamp_ms f"
  by (simp add: MrrFrame_norm_def)

abbreviation earlier :: "u64 \<Rightarrow> MrrFrame list \<Rightarrow> MrrFrame list" where
  "earlier t \<equiv> takeWhile (\<lambda>f. fr_timestamp_ms f < t)"

lemma seek_loop_at:
  assumes ok: "file_ok h caps init fs" and rf: "reads_file r h caps init fs"
    and n: "n \<le> length fs" and pos: "c_pos (r_reader r) = frame_pos caps init fs n"
  shows "seek_loop t r =
    (Inr (), set_pos (frame_pos caps init fs (n + length (earlier t (drop n fs)))) r)"
  using rf n pos
proof (induction "length fs - n" arbitrary: n r)
  case 0
  then have "n = length fs" by simp
  with 0 show ?case
    by (simp add: seek_loop.simps read_frame_at_end[OF ok] set_pos_def)
next
  case (Suc k)
  then have n: "n < length fs" by simp
  then have d: "drop n fs = fs ! n # drop (Suc n) fs"
    by (simp add: Cons_nth_drop_Suc)
  have rd: "MrrReader_read_frame r =
      (Inr (Some (MrrFrame_norm (fs ! n))), set_pos (frame_pos caps init fs (Suc n)) r)"
    by (rule read_frame_at[OF ok Suc.prems(1) n Suc.prems(3)])
  show ?case
  proof (cases "t \<le> fr_timestamp_ms (fs ! n)")
    case True
    then show ?thesis
      using Suc.prems(3) by (simp add: seek_loop.simps rd d not_less set_pos_def)
  next
    case False
    have "seek_loop t r = seek_loop t (set_pos (frame_pos caps init fs (Suc n)) r)"
      by (subst seek_loop.simps) (simp add: rd False)
    then show ?thesis
      using Suc.hyps(1)[of "Suc n" "set_pos (frame_pos caps init fs (Suc n)) r"] Suc.hyps(2)
        Suc.prems n False by (simp add: d not_le)
  qed
qed

lemma scan_index_entries:
  assumes "drop (c_pos c) (c_data c) = concat (map MrrIndexEntry_bytes es) @ rest"
  shows "\<exists>p. scan_index (length es) t best c =
    (Inr (case rev (takeWhile (\<lambda>e. i_timestamp_ms e \<le> t) es) of [] \<Rightarrow> best | e # _ \<Rightarrow> Some e),
     c\<lparr>c_pos := p\<rparr>)"
  using assms
proof (induction es arbitrary: best c)
  case Nil
  show ?case by (auto intro: exI[of _ "c_pos c"])
next
  case (Cons e es)
  let ?c = "c\<lparr>c_pos := c_pos c + length (MrrIndexEntry_bytes e)\<rparr>"
  have rd: "on_cursor MrrIndexEntry_read c = (Inr e, ?c)"
    using Cons.prems by (intro on_cursor_dec entry.dec_enc) simp_all
  have "drop (c_pos ?c) (c_data ?c) = concat (map MrrIndexEntry_bytes es) @ rest"
    using Cons.prems by (simp add: add.commute flip: drop_drop)
  from Cons.IH[OF this, of "Some e"] show ?case
    by (auto simp: rd split: list.splits)
qed

definition seek_start_frame :: "u64 \<Rightarrow> MrrFrame list \<Rightarrow> nat" where
  "seek_start_frame t fs =
     100 * length (takeWhile (\<lambda>k. fr_timestamp_ms (fs ! (100 * k)) \<le> t) [1 ..< Suc ((length fs - 1) div 100)])"

definition seek_frame :: "u64 \<Rightarrow> MrrFrame list \<Rightarrow> nat" where
  "seek_frame t fs = (let n = seek_start_frame t fs in n + length (earlier t (drop n fs)))"

lemma takeWhile_upt:
  "length (takeWhile P [a ..< b]) = j \<Longrightarrow> takeWhile P [a ..< b] = [a ..< a + j]"
  by (metis length_takeWhile_le takeWhile_eq_take take_upt length_upt
      le_add_diff_inverse linorder_linear add_le_cancel_left diff_is_0_eq le_zero_eq upt_conv_Nil add.right_neutral)

lemma takeWhile_upt_rev:
  "rev (takeWhile P [Suc 0 ..< b]) =
     (case length (takeWhile P [Suc 0 ..< b]) of 0 \<Rightarrow> [] | Suc j \<Rightarrow> Suc j # rev [Suc 0 ..< Suc j])"
  using takeWhile_upt[of P "Suc 0" b, OF refl] by (auto split: nat.splits)

lemma seek_start_frame_props:
  "seek_start_frame t fs \<noteq> 0 \<Longrightarrow>
     seek_start_frame t fs < length fs \<and> fr_timestamp_ms (fs ! seek_start_frame t fs) \<le> t"
proof -
  let ?P = "\<lambda>k. fr_timestamp_ms (fs ! (100 * k)) \<le> t" and ?xs = "[1 ..< Suc ((length fs - 1) div 100)]"
  assume nz: "seek_start_frame t fs \<noteq> 0"
  define j where "j = length (takeWhile ?P ?xs)"
  with nz have j: "j \<noteq> 0" "seek_start_frame t fs = 100 * j"
    by (simp_all add: seek_start_frame_def)
  then have "j \<in> set (takeWhile ?P ?xs)"
    using takeWhile_upt[of ?P 1 "Suc ((length fs - 1) div 100)" j, OF j_def[symmetric]]
    by (simp del: upt_Suc takeWhile_eq_Nil_iff)
  then have "?P j" and "j \<in> set ?xs"
    by (auto dest: set_takeWhileD)
  then have "j \<le> (length fs - 1) div 100" by (simp del: upt_Suc)
  then have "100 * j \<le> length fs - 1"
    by (simp add: less_eq_div_iff_mult_less_eq mult.commute)
  with j have "100 * j < length fs" by linarith
  with \<open>?P j\<close> j show ?thesis by simp
qed

lemma seek_start_frame_le: "seek_start_frame t fs \<le> length fs"
  using seek_start_frame_props[of t fs] by linarith

lemma scanned_offset:
  "(case rev (takeWhile (\<lambda>e. i_timestamp_ms e \<le> t) (index_of caps init fs)) of
      [] \<Rightarrow> of_nat (frame_pos caps init fs 0) | e # _ \<Rightarrow> i_file_offset e)
   = (of_nat (frame_pos caps init fs (seek_start_frame t fs)) :: u64)"
  by (simp add: index_of_def takeWhile_map comp_def rev_map index_entry_def takeWhile_upt_rev
      seek_start_frame_def del: upt_Suc split: nat.splits)

lemma seek_at:
  assumes ok: "file_ok h caps init fs" and rf: "reads_file r h caps init fs"
  shows "MrrReader_seek_to_timestamp t r =
    (Inr (), set_pos (frame_pos caps init fs (seek_frame t fs)) r)"
proof -
  let ?es = "index_of caps init fs" and ?n = "seek_start_frame t fs"
  let ?c = "(r_reader r)\<lparr>c_pos := frame_pos caps init fs (length fs)\<rparr>"
  have "drop (c_pos ?c) (c_data ?c) = concat (map MrrIndexEntry_bytes ?es) @ MrrFooter_bytes (footer_for caps init fs)"
    using rf by (simp add: reads_file_def drop_frame_pos)
  then obtain p best where scan: "scan_index (length ?es) t None ?c = (Inr best, ?c\<lparr>c_pos := p\<rparr>)"
    and best: "best = (case rev (takeWhile (\<lambda>e. i_timestamp_ms e \<le> t) ?es) of [] \<Rightarrow> None | e # _ \<Rightarrow> Some e)"
    using scan_index_entries by blast
  have "length ?es < 2 ^ 32"
    using ok order.trans[OF div_le_dividend[of "length fs - 1" 100] diff_le_self]
    by (simp add: file_ok_def index_of_def del: upt_Suc)
  then have cnt: "unat (f_index_count (r_footer r)) = length ?es"
    using rf by (simp add: reads_file_def footer_for_def unat_of_nat)
  have io: "unat (f_index_offset (r_footer r)) = frame_pos caps init fs (length fs)"
    using unat_frames_end[OF ok rf] rf by (simp add: reads_file_def)
  have ho: "h_frames_offset (r_header r) = of_nat (frame_pos caps init fs 0)"
    using ok rf by (simp add: reads_file_def file_ok_def header_for_def frame_pos_def)
  have off: "unat (case best of Some e \<Rightarrow> i_file_offset e | None \<Rightarrow> h_frames_offset (r_header r))
      = frame_pos caps init fs ?n"
    unfolding ho best using scanned_offset[of caps init fs t] frame_pos_u64[OF ok seek_start_frame_le[of t fs]]
    by (auto split: list.splits)
  have "MrrReader_seek_to_timestamp t r = seek_loop t (set_pos (frame_pos caps init fs ?n) r)"
    using scan off unfolding MrrReader_seek_to_timestamp_def
    by (cases best) (simp_all add: lift_reader_def seek_start_def io cnt set_pos_def Let_def)
  then show ?thesis
    using seek_loop_at[OF ok _ seek_start_frame_le, of "set_pos (frame_pos caps init fs ?n) r"] rf
    by (simp add: seek_frame_def Let_def)
qed

lemma seek_frame_lands:
  assumes "seek_frame t fs < length fs"
  shows "t \<le> fr_timestamp_ms (fs ! seek_frame t fs)"
proof -
  let ?n = "seek_start_frame t fs"
  let ?k = "length (earlier t (drop ?n fs))"
  have "?k < length (drop ?n fs)"
    using assms by (simp add: seek_frame_def Let_def)
  from nth_length_takeWhile[OF this] show ?thesis
    by (simp add: seek_frame_def Let_def not_less seek_start_frame_le)
qed

lemma seek_frame_le: "seek_frame t fs \<le> length fs"
  using length_takeWhile_le[of "\<lambda>f. fr_timestamp_ms f < t" "drop (seek_start_frame t fs) fs"]
    seek_start_frame_le[of t fs]
  by (simp add: seek_frame_def Let_def)

lemma seek_frame_skipped_cases:
  assumes i: "i < seek_frame t fs"
  obtains (indexed) "i < seek_start_frame t fs" "seek_start_frame t fs < length fs"
      "fr_timestamp_ms (fs ! seek_start_frame t fs) \<le> t"
    | (scanned) "fr_timestamp_ms (fs ! i) < t"
proof (cases "i < seek_start_frame t fs")
  case True
  with seek_start_frame_props[of t fs] show ?thesis
    by (intro indexed) auto
next
  case False
  let ?n = "seek_start_frame t fs"
  from i False have "i - ?n < length (earlier t (drop ?n fs))"
    by (simp add: seek_frame_def Let_def)
  then have "(drop ?n fs) ! (i - ?n) \<in> set (earlier t (drop ?n fs))"
    by (metis nth_mem takeWhile_nth)
  then have "fr_timestamp_ms (drop ?n fs ! (i - ?n)) < t"
    by (rule set_takeWhileD[THEN conjunct2])
  with False show ?thesis
    by (intro scanned) (simp add: seek_start_frame_le)
qed

lemma seek_frame_skips:
  assumes sorted: "sorted (map fr_timestamp_ms fs)" and i: "i < seek_frame t fs"
  shows "fr_timestamp_ms (fs ! i) \<le> t"
  using i
proof (cases rule: seek_frame_skipped_cases)
  case indexed
  with sorted_nth_mono[OF sorted, of i "seek_start_frame t fs"] show ?thesis
    by simp
qed simp

lemma seek_frame_strict:
  assumes strict: "sorted_wrt (<) (map fr_timestamp_ms fs)"
  shows "seek_frame t fs = length (earlier t fs)"
proof -
  have "fr_timestamp_ms (fs ! i) < t" if i: "i < seek_frame t fs" for i
    using i
  proof (cases rule: seek_frame_skipped_cases)
    case indexed
    with sorted_wrt_nth_less[OF strict, of i "seek_start_frame t fs"] show ?thesis
      by simp
  qed
  then have "earlier t fs = take (seek_frame t fs) fs"
    using seek_frame_lands[of t fs] by (intro takeWhile_eq_take_P_nth) (simp_all add: not_less)
  then show ?thesis
    using seek_frame_le[of t fs] by simp
qed

section \<open>Interface of a source of recorded frames\<close>

text \<open>
  What the playback task relies on. \<open>view r fs n\<close> says that the reader \<open>r\<close> stands before frame
  \<open>n\<close> of the recording \<open>fs\<close>.
\<close>

locale frame_source =
  fixes rd :: "'r \<Rightarrow> ('e, MrrFrame option, 'r) io"
    and rew :: "'r \<Rightarrow> ('e, unit, 'r) io"
    and seek :: "u64 \<Rightarrow> 'r \<Rightarrow> ('e, unit, 'r) io"
    and view :: "'r \<Rightarrow> MrrFrame list \<Rightarrow> nat \<Rightarrow> bool"
  assumes rd_frame: "view r fs n \<Longrightarrow> n < length fs \<Longrightarrow>
      \<exists>r'. rd r = (Inr (Some (fs ! n)), r') \<and> view r' fs (Suc n)"
    and rd_end: "view r fs (length fs) \<Longrightarrow> rd r = (Inr None, r)"
    and rew_start: "view r fs n \<Longrightarrow> \<exists>r'. rew r = (Inr (), r') \<and> view r' fs 0"
    and seek_lands: "view r fs n \<Longrightarrow> \<exists>r' m. seek t r = (Inr (), r') \<and> view r' fs m \<and> m \<le> length fs
      \<and> (m < length fs \<longrightarrow> t \<le> fr_timestamp_ms (fs ! m))
      \<and> (sorted (map fr_timestamp_ms fs) \<longrightarrow> (\<forall>i<m. fr_timestamp_ms (fs ! i) \<le> t))"
begin

primrec rd_many :: "nat \<Rightarrow> 'r \<Rightarrow> ('e, MrrFrame list, 'r) io" where
  "rd_many 0 r = (Inr [], r)"
| "rd_many (Suc k) r = try_bind (rd r) (\<lambda>x r. case x of
     None \<Rightarrow> (Inr [], r)
   | Some f \<Rightarrow> try_bind (rd_many k r) (\<lambda>fs r. (Inr (f # fs), r)))"

lemma rd_many_view:
  "view r fs n \<Longrightarrow> n \<le> length fs \<Longrightarrow>
    \<exists>r'. rd_many k r = (Inr (take k (drop n fs)), r') \<and> view r' fs (min (n + k) (length fs))"
proof (induction k arbitrary: r n)
  case 0
  then show ?case by (simp add: min_def)
next
  case (Suc k)
  show ?case
  proof (cases "n < length fs")
    case True
    with rd_frame[OF Suc.prems(1)] obtain r1 where r1: "rd r = (Inr (Some (fs ! n)), r1)" "view r1 fs (Suc n)"
      by blast
    from Suc.IH[OF r1(2)] True obtain r2 where
      "rd_many k r1 = (Inr (take k (drop (Suc n) fs)), r2)" "view r2 fs (min (Suc n + k) (length fs))"
      by auto
    with r1 True show ?thesis
      by (auto simp: Cons_nth_drop_Suc[symmetric])
  next
    case False
    with Suc.prems have "n = length fs" by simp
    with Suc.prems show ?thesis by (simp add: rd_end)
  qed
qed

lemma rewind_reads_all:
  assumes "view r fs n"
  shows "\<exists>r1 r2. rew r = (Inr (), r1) \<and> rd_many (Suc (length fs)) r1 = (Inr fs, r2)"
proof -
  from rew_start[OF assms] obtain r1 where "rew r = (Inr (), r1)" and v: "view r1 fs 0" by blast
  with rd_many_view[OF v, of "Suc (length fs)"] show ?thesis by (auto simp del: rd_many.simps)
qed

end

definition mrr_view :: "MrrReader \<Rightarrow> MrrFrame list \<Rightarrow> nat \<Rightarrow> bool" where
  "mrr_view r fs n \<longleftrightarrow> (\<exists>h caps init gs. file_ok h caps init gs \<and> reads_file r h caps init gs
     \<and> fs = map MrrFrame_norm gs \<and> n \<le> length gs
     \<and> c_pos (r_reader r) = frame_pos caps init gs n)"

lemma mrr_view_intro:
  "file_ok h caps init gs \<Longrightarrow> reads_file r h caps init gs \<Longrightarrow> n \<le> length gs \<Longrightarrow>
    mrr_view (set_pos (frame_pos caps init gs n) r) (map MrrFrame_norm gs) n"
  unfolding mrr_view_def by (intro exI conjI) (assumption | simp)+

lemma map_norm_timestamps [simp]: "map fr_timestamp_ms (map MrrFrame_norm gs) = map fr_timestamp_ms gs"
  by simp

interpretation mrr_source: frame_source MrrReader_read_frame MrrReader_rewind MrrReader_seek_to_timestamp mrr_view
proof unfold_locales
  fix r fs n
  assume v: "mrr_view r fs n" and n: "n < length fs"
  then show "\<exists>r'. MrrReader_read_frame r = (Inr (Some (fs ! n)), r') \<and> mrr_view r' fs (Suc n)"
    by (auto simp: mrr_view_def[of r] read_frame_at intro!: mrr_view_intro)
next
  fix r fs
  assume "mrr_view r fs (length fs)"
  then show "MrrReader_read_frame r = (Inr None, r)"
    by (auto simp: mrr_view_def intro: read_frame_at_end)
next
  fix r fs n
  assume "mrr_view r fs n"
  then obtain h caps init gs where v: "file_ok h caps init gs" "reads_file r h caps init gs"
    "fs = map MrrFrame_norm gs"
    by (auto simp: mrr_view_def)
  have "unat (h_frames_offset (r_header r)) = frame_pos caps init gs 0"
    using v frame_pos_u64[OF v(1), of 0]
    by (simp add: reads_file_def file_ok_def header_for_def frame_pos_def)
  then have "MrrReader_rewind r = (Inr (), set_pos (frame_pos caps init gs 0) r)"
    by (simp add: MrrReader_rewind_def lift_reader_def seek_start_def set_pos_def)
  with v mrr_view_intro[OF v(1,2), of 0] show "\<exists>r'. MrrReader_rewind r = (Inr (), r') \<and> mrr_view r' fs 0"
    by simp
next
  fix r fs n t
  assume "mrr_view r fs n"
  then obtain h caps init gs where v: "file_ok h caps init gs" "reads_file r h caps init gs"
    and fs: "fs = map MrrFrame_norm gs"
    by (auto simp: mrr_view_def)
  show "\<exists>r' m. MrrReader_seek_to_timestamp t r = (Inr (), r') \<and> mrr_view r' fs m \<and> m \<le> length fs
      \<and> (m < length fs \<longrightarrow> t \<le> fr_timestamp_ms (fs ! m))
      \<and> (sorted (map fr_timestamp_ms fs) \<longrightarrow> (\<forall>i<m. fr_timestamp_ms (fs ! i) \<le> t))"
    unfolding seek_at[OF v] fs map_norm_timestamps
  proof (intro exI conjI impI allI)
    show "mrr_view (set_pos (frame_pos caps init gs (seek_frame t gs)) r) (map MrrFrame_norm gs) (seek_frame t gs)"
      by (rule mrr_view_intro[OF v seek_frame_le])
    fix i assume "sorted (map fr_timestamp_ms gs)" "i < seek_frame t gs"
    then show "fr_timestamp_ms (map MrrFrame_norm gs ! i) \<le> t"
      using seek_frame_skips[of gs i t] seek_frame_le[of t gs] by simp
  qed (simp_all add: seek_frame_le seek_frame_lands)
qed

end
