(* ===== verification/Mrr_Properties.thy ===== *)
theory Mrr_Properties
  imports Mrr_Reading
begin

text \<open>
  The properties of the recording file format: what a finished recording holds, that reading
  gives back what was written, where a seek lands and what the readers accept.
\<close>

section \<open>Writing on a device without a fault\<close>

primrec read_frames :: "nat \<Rightarrow> MrrReader \<Rightarrow> (io_error, MrrFrame list, MrrReader) io" where
  "read_frames 0 r = (Inr [], r)"
| "read_frames (Suc k) r = try_bind (MrrReader_read_frame r) (\<lambda>x r. case x of
     None \<Rightarrow> (Inr [], r)
   | Some f \<Rightarrow> try_bind (read_frames k r) (\<lambda>fs r. (Inr (f # fs), r)))"

lemma read_frames_eq: "read_frames k = mrr_source.rd_many k"
  by (induction k) (rule ext, simp cong: option.case_cong)+

lemma MrrWriter_new_total:
  assumes "s_fault s = None"
  shows "\<exists>w s'. MrrWriter_new s now brand spr msl pv caps init = (Inr w, s') \<and> s_fault (w_writer w) = None"
proof -
  obtain h where new: "MrrWriter_new s now brand spr msl pv caps init =
      try_bind (MrrHeader_write h s) (\<lambda>_ s. try_bind (write_all caps s) (\<lambda>_ s.
      try_bind (write_all init s) (\<lambda>_ s. (Inr \<lparr>w_writer = s, w_header = h, w_frame_count = 0,
        w_last_timestamp_ms = 0, w_index = [], w_index_interval = 100, w_frames_since_index = 0\<rparr>, s))))"
    by (simp add: MrrWriter_new_def Let_def)
  from header_out.total[OF assms] obtain s1 where 1: "MrrHeader_write h s = (Inr (), s1)" "s_fault s1 = None"
    by blast
  from raw_out.total[OF 1(2)] obtain s2 where 2: "write_all caps s1 = (Inr (), s2)" "s_fault s2 = None"
    by blast
  from raw_out.total[OF 2(2)] obtain s3 where "write_all init s2 = (Inr (), s3)" "s_fault s3 = None"
    by blast
  with 1 2 show ?thesis by (simp add: new)
qed

lemma MrrWriter_write_frame_total:
  assumes "s_fault (w_writer w) = None"
  shows "\<exists>w'. MrrWriter_write_frame f w = (Inr (), w') \<and> s_fault (w_writer w') = None"
proof -
  have "w_writer (MrrWriter_index_step f w) = w_writer w"
    by (simp add: MrrWriter_index_step_def)
  with frame_out.total[OF assms, of f] show ?thesis
    by (auto simp: MrrWriter_write_frame_def Let_def)
qed

lemma write_frames_total:
  "s_fault (w_writer w) = None \<Longrightarrow>
    \<exists>w'. write_frames fs w = (Inr (), w') \<and> s_fault (w_writer w') = None"
proof (induction fs arbitrary: w)
  case (Cons f fs)
  from MrrWriter_write_frame_total[OF Cons.prems] obtain w1 where
    "MrrWriter_write_frame f w = (Inr (), w1)" "s_fault (w_writer w1) = None" by blast
  with Cons.IH[of w1] show ?case by simp
qed simp

lemma MrrWriter_finish_total:
  assumes "s_fault (w_writer w) = None"
  shows "\<exists>s. MrrWriter_finish w = (Inr (), s)"
proof -
  let ?f = "\<lparr>f_index_offset = of_nat (s_pos (w_writer w)), f_index_count = of_nat (length (w_index w)),
      f_frame_count = w_frame_count w, f_duration_ms = w_last_timestamp_ms w\<rparr>"
  from entry_out.wr_list_total[OF assms, of "w_index w"] obtain s1 where
    1: "write_entries (w_index w) (w_writer w) = (Inr (), s1)" "s_fault s1 = None"
    by (auto simp: write_entries_eq)
  from footer_out.total[OF 1(2)] obtain s2 where 2: "MrrFooter_write ?f s1 = (Inr (), s2)" "s_fault s2 = None"
    by blast
  from header_out.total[of "s2\<lparr>s_pos := 0\<rparr>"] 2(2) obtain s3 where
    3: "MrrHeader_write (w_header w) (s2\<lparr>s_pos := 0\<rparr>) = (Inr (), s3)" "s_fault s3 = None"
    by auto
  from raw_out.total[OF 3(2)] 1 2 3 show ?thesis
    by (auto simp: MrrWriter_finish_def Let_def flush_def)
qed

lemma length_mrr_file_size:
  "length (mrr_file h caps init fs) =
     frames_base caps init + sum_list (map MrrFrame_size fs)
     + INDEX_ENTRY_SIZE * ((length fs - 1) div 100) + FOOTER_SIZE"
proof -
  have "length (concat (map MrrIndexEntry_bytes es)) = INDEX_ENTRY_SIZE * length es" for es
    by (induction es) simp_all
  moreover have "length (frames_bytes fs) = sum_list (map MrrFrame_size fs)"
    by (simp add: frames_bytes_def length_concat comp_def length_MrrFrame_bytes)
  moreover have "length (index_of caps init fs) = (length fs - 1) div 100"
    by (simp add: index_of_def del: upt_Suc)
  ultimately show ?thesis
    by (simp add: length_mrr_file frame_pos_def)
qed

definition recording_fits :: "bytes \<Rightarrow> bytes \<Rightarrow> MrrFrame list \<Rightarrow> bool" where
  "recording_fits caps init fs \<longleftrightarrow>
     length caps \<le> MAX_METADATA_SIZE \<and> length init \<le> MAX_METADATA_SIZE
     \<and> list_all MrrFrame_ok fs \<and> length fs < 2 ^ 32
     \<and> frames_base caps init + sum_list (map MrrFrame_size fs)
       + INDEX_ENTRY_SIZE * ((length fs - 1) div 100) + FOOTER_SIZE < 2 ^ 64"

lemma recording_fits_file_ok:
  "recording_fits caps init fs \<Longrightarrow> header_for caps init h \<Longrightarrow> file_ok h caps init fs"
  by (simp add: recording_fits_def file_ok_def length_mrr_file_size)

lemma written_recording:
  assumes "MrrWriter_new s now brand spr msl pv caps init = (Inr w, s1)"
    and "s_bytes s = []" and "s_pos s = 0"
    and "write_frames fs w = (Inr (), w')" and "MrrWriter_finish w' = (Inr (), s')"
  shows "s_bytes s' = mrr_file (w_header w) caps init fs \<and> header_for caps init (w_header w)
    \<and> h_start_time_ms (w_header w) = now \<and> h_radar_brand (w_header w) = brand
    \<and> h_spokes_per_rev (w_header w) = spr \<and> h_max_spoke_len (w_header w) = msl
    \<and> h_pixel_values (w_header w) = pv"
proof -
  note new = MrrWriter_new_inv[OF assms(1-3)]
  with write_frames_inv[OF assms(4), of caps init "[]"]
  have "writer_inv caps init fs w'" and "w_header w' = w_header w" by simp_all
  with MrrWriter_finish_file[OF assms(5)] new show ?thesis
    by (simp add: writer_inv_def)
qed

lemma read_exact_split: "read_exact n bs = (Inr xs, rest) \<longleftrightarrow> bs = xs @ rest \<and> length xs = n"
  by (auto simp: read_exact_Inr)

lemma flag_bit_kept:
  fixes x :: u8
  shows "x AND 1 \<noteq> 0 \<Longrightarrow> x OR 1 = x" and "x AND 1 = 0 \<Longrightarrow> x AND NOT 1 = x"
proof -
  show "x AND 1 \<noteq> 0 \<Longrightarrow> x OR 1 = x"
    by (auto simp: and_one_eq or_one_eq odd_iff_mod_2_eq_one)
  assume "x AND 1 = 0"
  then have "\<not> bit x 0"
    by (simp add: and_one_eq bit_0 even_iff_mod_2_eq_zero)
  then have "bit (x AND NOT 1) n = bit x n" for n
    by (cases n) (auto simp: bit_simps dest: bit_imp_le_length)
  then show "x AND NOT 1 = x"
    by (intro bit_eqI) simp
qed

lemma frame_read_inverse:
  assumes "MrrFrame_read bs = (Inr f, rest)"
  shows "bs = MrrFrame_bytes f @ rest \<and> MrrFrame_ok f \<and> MrrFrame_norm f = f"
proof -
  from assms obtain ts b1 fl b2 ln b3 dat b4 where
    rd: "read_exact 8 bs = (Inr ts, b1)" "read_exact 1 b1 = (Inr fl, b2)"
      "read_exact 4 b2 = (Inr ln, b3)" "read_exact (unat (u32_of_le ln)) b3 = (Inr dat, b4)"
    and small: "unat (u32_of_le ln) \<le> MAX_FRAME_DATA_SIZE"
    and f: "fr_timestamp_ms f = u64_of_le ts" "fr_flags f = fl ! 0" "fr_data f = dat"
    and st: "(if fl ! 0 AND FRAME_FLAG_HAS_STATE \<noteq> 0
        then try_bind (read_exact 4 b4) (\<lambda>len_buf bs.
          let state_len = unat (u32_of_le len_buf) in
          if MAX_FRAME_DATA_SIZE < state_len then (Inl (StateDataTooLarge state_len), bs)
          else try_bind (read_exact state_len bs) (\<lambda>state bs. (Inr (Some state), bs)))
        else (Inr None, b4)) = (Inr (fr_state_delta f), rest)"
    by (auto simp: MrrFrame_read_def Let_def not_less split: if_splits)
  from rd have bs: "bs = ts @ fl @ ln @ dat @ b4" and l: "length ts = 8" "length fl = 1" "length ln = 4"
    "length dat = unat (u32_of_le ln)"
    by (auto simp: read_exact_split)
  then obtain x where x: "fl = [x]" by (auto simp: length_Suc_conv)
  have ts: "u64_le (fr_timestamp_ms f) = ts" and ln: "u32_le (of_nat (length (fr_data f))) = ln"
    using f l by (simp_all add: u64_le_of_le u32_le_of_le)
  show ?thesis
  proof (cases "x AND 1 = 0")
    case True
    with st x have "fr_state_delta f = None" "rest = b4"
      by (simp_all add: FRAME_FLAG_HAS_STATE_def)
    with True bs x f ts ln l small flag_bit_kept(2)[OF True] show ?thesis
      by (simp add: MrrFrame_bytes_def MrrFrame_ok_def MrrFrame_norm_def MrrFrame_write_flags_def
          FRAME_FLAG_HAS_STATE_def)
  next
    case False
    with st x obtain sl state where sd: "Some state = fr_state_delta f" and b4: "b4 = sl @ state @ rest"
      and sl: "length sl = 4" "length state = unat (u32_of_le sl)" "length state \<le> MAX_FRAME_DATA_SIZE"
      by (auto simp: FRAME_FLAG_HAS_STATE_def read_exact_split Let_def not_less split: if_splits)
    then have "u32_le (of_nat (length state)) = sl"
      by (simp add: u32_le_of_le)
    with False bs x f ts ln l small sd[symmetric] b4 sl flag_bit_kept(1)[OF False] show ?thesis
      by (simp add: MrrFrame_bytes_def MrrFrame_ok_def MrrFrame_norm_def MrrFrame_write_flags_def
          FRAME_FLAG_HAS_STATE_def)
  qed
qed

lemma mrr_view_opened:
  "file_ok h caps init gs \<Longrightarrow> reads_file r h caps init gs \<Longrightarrow>
    c_pos (r_reader r) = frame_pos caps init gs 0 \<Longrightarrow> mrr_view r (map MrrFrame_norm gs) 0"
  unfolding mrr_view_def by (intro exI conjI) (assumption | simp)+

text \<open>A small recording for the examples.\<close>

definition sample_header :: MrrHeader where
  "sample_header = MrrHeader_default\<lparr>h_capabilities_offset := 256, h_initial_state_offset := 256,
     h_frames_offset := 256\<rparr>"

definition sample_frames :: "MrrFrame list" where
  "sample_frames = [MrrFrame_new 0 [1], MrrFrame_new 40 [2], MrrFrame_new 80 [3]]"

lemma sample_file_ok: "file_ok sample_header [] [] sample_frames"
proof (rule recording_fits_file_ok)
  show "recording_fits [] [] sample_frames"
    by (simp add: sample_frames_def recording_fits_def MAX_METADATA_SIZE_def MrrFrame_ok_def
        MAX_FRAME_DATA_SIZE_def frames_base_def HEADER_SIZE_def FOOTER_SIZE_def INDEX_ENTRY_SIZE_def
        MrrFrame_size_def MrrFrame_new_def)
  show "header_for [] [] sample_header"
    by (simp add: header_for_def sample_header_def MrrHeader_default_def HEADER_SIZE_def frames_base_def)
qed

section \<open>Properties\<close>

text \<open>
  C1. Recording is lossless. On an empty device without a fault, creating a writer, writing any
  list of frames that fits the format and finishing all succeed; opening the file that results
  succeeds too, gives back the metadata and the radar parameters, and reading until the end gives
  back the frames in the order they were written, with the flag bit the format owns set from the
  state delta.
\<close>

theorem mrr_roundtrip:
  assumes "recording_fits caps init fs"
    and "s = \<lparr>s_bytes = [], s_pos = 0, s_fault = None\<rparr>"
  shows "\<exists>w s1 w' s' r c r'.
    MrrWriter_new s now brand spr msl pv caps init = (Inr w, s1)
    \<and> write_frames fs w = (Inr (), w')
    \<and> MrrWriter_finish w' = (Inr (), s')
    \<and> MrrReader_open \<lparr>c_data = s_bytes s', c_pos = 0\<rparr> = (Inr r, c)
    \<and> r_capabilities r = caps \<and> r_initial_state r = init
    \<and> h_start_time_ms (r_header r) = now \<and> h_radar_brand (r_header r) = brand
    \<and> h_spokes_per_rev (r_header r) = spr \<and> h_max_spoke_len (r_header r) = msl
    \<and> h_pixel_values (r_header r) = pv
    \<and> f_frame_count (r_footer r) = of_nat (length fs)
    \<and> f_duration_ms (r_footer r) = (if fs = [] then 0 else fr_timestamp_ms (last fs))
    \<and> read_frames (Suc (length fs)) r = (Inr (map MrrFrame_norm fs), r')"
proof -
  from MrrWriter_new_total[of s] assms(2) obtain w s1 where
    w: "MrrWriter_new s now brand spr msl pv caps init = (Inr w, s1)" "s_fault (w_writer w) = None"
    by (metis sink.select_convs(3))
  from write_frames_total[OF w(2)] obtain w' where
    w': "write_frames fs w = (Inr (), w')" "s_fault (w_writer w') = None" by blast
  from MrrWriter_finish_total[OF w'(2)] obtain s' where fin: "MrrWriter_finish w' = (Inr (), s')" by blast
  note rec = written_recording[OF w(1) _ _ w'(1) fin]
  then have bytes: "s_bytes s' = mrr_file (w_header w) caps init fs"
    and ok: "file_ok (w_header w) caps init fs"
    using assms by (simp_all add: recording_fits_file_ok)
  from MrrReader_open_file[OF ok] obtain r c where
    r: "MrrReader_open \<lparr>c_data = s_bytes s', c_pos = 0\<rparr> = (Inr r, c)"
    "reads_file r (w_header w) caps init fs" "r_capabilities r = caps" "r_initial_state r = init"
    "c_pos (r_reader r) = frame_pos caps init fs 0"
    by (auto simp: bytes)
  from mrr_view_opened[OF ok r(2,5)] have "mrr_view r (map MrrFrame_norm fs) 0" .
  from mrr_source.rd_many_view[OF this, of "Suc (length fs)"]
  obtain r' where "read_frames (Suc (length fs)) r = (Inr (map MrrFrame_norm fs), r')"
    by (auto simp: read_frames_eq simp del: mrr_source.rd_many.simps)
  with w(1) w'(1) fin r rec assms(2) show ?thesis
    by (simp add: reads_file_def footer_for_def del: read_frames.simps)
qed

theorem mrr_roundtrip_witness:
  "\<exists>w s1 w' s' r c r'.
    MrrWriter_new \<lparr>s_bytes = [], s_pos = 0, s_fault = None\<rparr> 1700000000000 3 2048 1024 16 [123, 125] [91, 93] = (Inr w, s1)
    \<and> write_frames [MrrFrame_new 0 [1, 2], (MrrFrame_new 40 [3])\<lparr>fr_state_delta := Some [7]\<rparr>] w = (Inr (), w')
    \<and> MrrWriter_finish w' = (Inr (), s')
    \<and> MrrReader_open \<lparr>c_data = s_bytes s', c_pos = 0\<rparr> = (Inr r, c)
    \<and> r_capabilities r = [123, 125] \<and> f_frame_count (r_footer r) = 2 \<and> f_duration_ms (r_footer r) = 40
    \<and> read_frames 3 r =
       (Inr [MrrFrame_new 0 [1, 2], \<lparr>fr_timestamp_ms = 40, fr_flags = 1, fr_data = [3], fr_state_delta = Some [7]\<rparr>], r')"
proof -
  let ?fs = "[MrrFrame_new 0 [1, 2], (MrrFrame_new 40 [3])\<lparr>fr_state_delta := Some [7]\<rparr>]"
  have fits: "recording_fits [123, 125] [91, 93] ?fs"
    by (simp add: recording_fits_def MAX_METADATA_SIZE_def MrrFrame_ok_def MAX_FRAME_DATA_SIZE_def
        frames_base_def HEADER_SIZE_def FOOTER_SIZE_def INDEX_ENTRY_SIZE_def MrrFrame_size_def
        MrrFrame_new_def)
  have norm: "map MrrFrame_norm ?fs = [MrrFrame_new 0 [1, 2],
      \<lparr>fr_timestamp_ms = 40, fr_flags = 1, fr_data = [3], fr_state_delta = Some [7]\<rparr>]"
    by (simp add: MrrFrame_new_def MrrFrame_norm_def MrrFrame_write_flags_def FRAME_FLAG_HAS_STATE_def)
  have len: "Suc (length ?fs) = 3" by simp
  show ?thesis
    using mrr_roundtrip[OF fits refl, of 1700000000000 3 2048 1024 16]
    unfolding norm len by (simp add: MrrFrame_new_def del: write_frames.simps read_frames.simps) blast
qed

text \<open>
  C17. Whatever the device does: if creating the writer on an empty file, writing the frames and
  finishing all report success, the file is the header, the metadata, the frames, the index and
  the footer, in this order and with nothing else; the index has one entry for every hundredth
  frame but the first, and its offset is the position of that frame's first byte.
\<close>

theorem mrr_finished_layout:
  assumes "MrrWriter_new s now brand spr msl pv caps init = (Inr w, s1)"
    and "s_bytes s = []" and "s_pos s = 0"
    and "write_frames fs w = (Inr (), w')" and "MrrWriter_finish w' = (Inr (), s')"
  shows "s_bytes s' = MrrHeader_bytes (w_header w) @ caps @ init @ concat (map MrrFrame_bytes fs)
      @ concat (map (\<lambda>e. u64_le (i_timestamp_ms e) @ u64_le (i_file_offset e)) (w_index w'))
      @ MrrFooter_bytes (footer_for caps init fs)
    \<and> length (w_index w') = (length fs - 1) div 100
    \<and> (\<forall>k < length (w_index w'). i_timestamp_ms (w_index w' ! k) = fr_timestamp_ms (fs ! (100 * Suc k))
      \<and> i_file_offset (w_index w' ! k) =
          of_nat (HEADER_SIZE + length caps + length init + sum_list (map MrrFrame_size (take (100 * Suc k) fs))))"
proof -
  have "writer_inv caps init fs w'"
    using write_frames_inv[OF assms(4), of caps init "[]"] MrrWriter_new_inv[OF assms(1-3)] by simp
  then have idx: "w_index w' = index_of caps init fs" by (simp add: writer_inv_def)
  have "length (frames_bytes gs) = sum_list (map MrrFrame_size gs)" for gs
    by (simp add: frames_bytes_def length_concat comp_def length_MrrFrame_bytes)
  then show ?thesis
    using written_recording[OF assms] unfolding idx
    by (simp add: mrr_file_def frames_bytes_def MrrIndexEntry_bytes_def[abs_def] index_of_def
        index_entry_def frame_pos_def frames_base_def del: upt_Suc)
qed

theorem mrr_finished_layout_witness:
  "\<exists>w s1 w' s'.
    MrrWriter_new \<lparr>s_bytes = [], s_pos = 0, s_fault = Some (5000, 0)\<rparr> 0 1 2048 1024 16 [] [] = (Inr w, s1)
    \<and> write_frames [MrrFrame_new 7 [9]] w = (Inr (), w') \<and> MrrWriter_finish w' = (Inr (), s')
    \<and> take 256 (s_bytes s') = MrrHeader_bytes (w_header w)
    \<and> take 14 (drop 256 (s_bytes s')) = [7, 0, 0, 0, 0, 0, 0, 0, 0, 1, 0, 0, 0, 9]"
proof -
  let ?s = "\<lparr>s_bytes = [], s_pos = 0, s_fault = Some (5000, 0)\<rparr>"
  obtain w s1 where w: "MrrWriter_new ?s 0 1 2048 1024 16 [] [] = (Inr w, s1)"
    and wf: "s_fault (w_writer w) = Some (4997, 0)" "w_index w = []"
      "w_frames_since_index w = 0" "w_index_interval w = 100"
    by (simp add: MrrWriter_new_def Let_def MrrHeader_write_def write_all_def put_bytes_def)
  obtain w' where w': "write_frames [MrrFrame_new 7 [9]] w = (Inr (), w')"
    and wf': "s_fault (w_writer w') = Some (4993, 0)" "w_index w' = []"
    using wf by (simp add: MrrWriter_write_frame_def MrrFrame_write_def MrrWriter_index_step_def
        MrrFrame_new_def write_all_def put_bytes_def)
  obtain s' where s': "MrrWriter_finish w' = (Inr (), s')"
    using wf' by (simp add: MrrWriter_finish_def MrrFooter_write_def MrrHeader_write_def write_all_def
        put_bytes_def flush_def Let_def)
  have "u64_le 7 = [7, 0, 0, 0, 0, 0, 0, 0]" "u32_le 1 = [1, 0, 0, 0]"
    by code_simp+
  then have "MrrFrame_bytes (MrrFrame_new 7 [9]) = [7, 0, 0, 0, 0, 0, 0, 0, 0, 1, 0, 0, 0, 9]"
    by (simp add: MrrFrame_bytes_def MrrFrame_new_def MrrFrame_write_flags_def FRAME_FLAG_HAS_STATE_def)
  then show ?thesis
    using mrr_finished_layout[OF w _ _ w' s'] w w' s' by (simp add: HEADER_SIZE_def)
qed

text \<open>
  C2. Seeking. In a recording whose timestamps increase, a seek from any position succeeds and
  reading on gives exactly the frames from the first one at or after the target: the index is
  only a shortcut.
\<close>

theorem mrr_seek_correct:
  assumes "mrr_view r fs n" and "sorted_wrt (<) (map fr_timestamp_ms fs)"
  shows "\<exists>r' r''. MrrReader_seek_to_timestamp t r = (Inr (), r')
    \<and> read_frames (Suc (length fs)) r' = (Inr (dropWhile (\<lambda>f. fr_timestamp_ms f < t) fs), r'')"
proof -
  from assms(1) obtain h caps init gs where v: "file_ok h caps init gs" "reads_file r h caps init gs"
    and fs: "fs = map MrrFrame_norm gs"
    by (auto simp: mrr_view_def)
  let ?r = "set_pos (frame_pos caps init gs (seek_frame t gs)) r"
  have view: "mrr_view ?r fs (seek_frame t gs)"
    unfolding fs by (rule mrr_view_intro[OF v seek_frame_le])
  have "seek_frame t gs = length (earlier t fs)"
    using seek_frame_strict[of gs t] assms(2) by (simp add: fs takeWhile_map comp_def)
  then have "drop (seek_frame t gs) fs = dropWhile (\<lambda>f. fr_timestamp_ms f < t) fs"
    by (simp add: dropWhile_eq_drop)
  then show ?thesis
    using mrr_source.rd_many_view[OF view, of "Suc (length fs)"] seek_frame_le[of t gs]
      length_dropWhile_le[of "\<lambda>f. fr_timestamp_ms f < t" fs]
    by (auto simp: seek_at[OF v] read_frames_eq fs simp del: mrr_source.rd_many.simps)
qed

theorem mrr_seek_correct_witness:
  "\<exists>r r' r''. mrr_view r [MrrFrame_new 0 [1], MrrFrame_new 40 [2], MrrFrame_new 80 [3]] 0
    \<and> MrrReader_seek_to_timestamp 50 r = (Inr (), r')
    \<and> read_frames 4 r' = (Inr [MrrFrame_new 80 [3]], r'')"
proof -
  let ?fs = "[MrrFrame_new 0 [1], MrrFrame_new 40 [2], MrrFrame_new 80 [3]]"
  from MrrReader_open_file[OF sample_file_ok] obtain r where
    "reads_file r sample_header [] [] sample_frames" "c_pos (r_reader r) = frame_pos [] [] sample_frames 0"
    by blast
  with sample_file_ok have "mrr_view r (map MrrFrame_norm sample_frames) 0" by (rule mrr_view_opened)
  moreover have "map MrrFrame_norm sample_frames = ?fs"
    by (simp add: sample_frames_def MrrFrame_new_def MrrFrame_norm_def MrrFrame_write_flags_def)
  ultimately have v: "mrr_view r ?fs 0" by simp
  have dw: "dropWhile (\<lambda>f. fr_timestamp_ms f < 50) ?fs = [MrrFrame_new 80 [3]]"
    and sw: "sorted_wrt (<) (map fr_timestamp_ms ?fs)" and len: "Suc (length ?fs) = 4"
    by (simp_all add: MrrFrame_new_def)
  from mrr_seek_correct[OF v sw, of 50] v show ?thesis
    unfolding dw len by blast
qed

text \<open>
  C18. Parsing a frame is exact. Whatever bytes \<open>MrrFrame::read\<close> is given, when it returns a frame
  the bytes it consumed are that frame's encoding, no buffer exceeds the 64 MiB limit and the
  state flag agrees with the presence of a state delta.
\<close>

theorem MrrFrame_read_exact:
  assumes "MrrFrame_read bs = (Inr f, rest)"
  shows "bs = MrrFrame_bytes f @ rest
    \<and> length (fr_data f) \<le> 64 * 1024 * 1024
    \<and> (case fr_state_delta f of None \<Rightarrow> fr_flags f AND FRAME_FLAG_HAS_STATE = 0
       | Some d \<Rightarrow> fr_flags f AND FRAME_FLAG_HAS_STATE \<noteq> 0 \<and> length d \<le> 64 * 1024 * 1024)"
proof -
  note inv = frame_read_inverse[OF assms]
  then have "fr_flags f = MrrFrame_write_flags f"
    by (simp add: MrrFrame_norm_def) (metis MrrFrame.select_convs(2) MrrFrame.surjective MrrFrame.update_convs(2))
  with inv write_flags_state[of f] show ?thesis
    by (simp add: MrrFrame_ok_def MAX_FRAME_DATA_SIZE_def split: option.splits)
qed

theorem MrrFrame_read_exact_witness:
  "MrrFrame_read [5, 0, 0, 0, 0, 0, 0, 0, 1, 1, 0, 0, 0, 42, 2, 0, 0, 0, 8, 9, 77]
     = (Inr \<lparr>fr_timestamp_ms = 5, fr_flags = 1, fr_data = [42], fr_state_delta = Some [8, 9]\<rparr>, [77])
   \<and> [5, 0, 0, 0, 0, 0, 0, 0, 1, 1, 0, 0, 0, 42, 2, 0, 0, 0, 8, 9, 77]
     = MrrFrame_bytes \<lparr>fr_timestamp_ms = 5, fr_flags = 1, fr_data = [42], fr_state_delta = Some [8, 9]\<rparr> @ [77]"
proof -
  have rd: "MrrFrame_read [5, 0, 0, 0, 0, 0, 0, 0, 1, 1, 0, 0, 0, 42, 2, 0, 0, 0, 8, 9, 77]
     = (Inr \<lparr>fr_timestamp_ms = 5, fr_flags = 1, fr_data = [42], fr_state_delta = Some [8, 9]\<rparr>, [77])"
    by (simp add: MrrFrame_read_def read_exact_def u64_of_le_def u32_of_le_def Let_def
        MAX_FRAME_DATA_SIZE_def FRAME_FLAG_HAS_STATE_def)
  from MrrFrame_read_exact[OF rd] rd show ?thesis by simp
qed

text \<open>
  C19. What \<open>MrrReader::open\<close> accepts. It succeeds only on files that are long enough for the
  header and the footer, start with the magic number and a version it knows, end in a footer with
  its own magic number, and hold the metadata at the announced places within the 16 MiB limit.
  The reader then stands at the first frame.
\<close>

theorem MrrReader_open_accepts:
  assumes "MrrReader_open \<lparr>c_data = bs, c_pos = 0\<rparr> = (Inr r, c)"
  shows "HEADER_SIZE \<le> length bs \<and> FOOTER_SIZE \<le> length bs
    \<and> take 4 bs = [77, 82, 82, 49]
    \<and> h_version (r_header r) \<le> 1
    \<and> take 4 (drop (length bs - FOOTER_SIZE) bs) = [77, 82, 82, 70]
    \<and> r_capabilities r = slice (unat (h_capabilities_offset (r_header r)))
        (unat (h_capabilities_offset (r_header r)) + unat (h_capabilities_len (r_header r))) bs
    \<and> length (r_capabilities r) = unat (h_capabilities_len (r_header r))
    \<and> length (r_capabilities r) \<le> 16 * 1024 * 1024
    \<and> r_initial_state r = slice (unat (h_initial_state_offset (r_header r)))
        (unat (h_initial_state_offset (r_header r)) + unat (h_initial_state_len (r_header r))) bs
    \<and> length (r_initial_state r) = unat (h_initial_state_len (r_header r))
    \<and> length (r_initial_state r) \<le> 16 * 1024 * 1024
    \<and> c_pos (r_reader r) = unat (h_frames_offset (r_header r))"
proof -
  from assms obtain h buf rest caps init f fbuf frest where
    hd: "read_exact HEADER_SIZE bs = (Inr buf, rest)" "slice 0 4 buf = MRR_MAGIC" "h_version h \<le> MRR_VERSION"
    and caps: "unat (h_capabilities_len h) \<le> MAX_METADATA_SIZE"
      "fst (read_exact (unat (h_capabilities_len h)) (drop (unat (h_capabilities_offset h)) bs)) = Inr caps"
    and init: "unat (h_initial_state_len h) \<le> MAX_METADATA_SIZE"
      "fst (read_exact (unat (h_initial_state_len h)) (drop (unat (h_initial_state_offset h)) bs)) = Inr init"
    and ft: "FOOTER_SIZE \<le> length bs"
      "read_exact FOOTER_SIZE (drop (length bs - FOOTER_SIZE) bs) = (Inr fbuf, frest)"
      "slice 0 4 fbuf = MRR_FOOTER_MAGIC"
    and r: "r = \<lparr>r_reader = \<lparr>c_data = bs, c_pos = unat (h_frames_offset h)\<rparr>, r_header = h, r_footer = f,
           r_capabilities = caps, r_initial_state = init, r_frames_end_offset = f_index_offset f\<rparr>"
    by (auto simp: MrrReader_open_def MrrHeader_read_def MrrFooter_read_def on_cursor_def Let_def
        seek_start_def seek_end_def not_less split: if_splits prod.splits)
  from hd(1,2) have "take 4 bs = MRR_MAGIC" "HEADER_SIZE \<le> length bs"
    by (auto simp: read_exact_Inr slice_def HEADER_SIZE_def)
  moreover from ft have "take 4 (drop (length bs - FOOTER_SIZE) bs) = MRR_FOOTER_MAGIC"
    by (auto simp: read_exact_Inr slice_def FOOTER_SIZE_def)
  ultimately show ?thesis
    using hd(3) caps init ft(1) unfolding r
    by (auto simp: read_exact_def slice_def MRR_MAGIC_def MRR_FOOTER_MAGIC_def MRR_VERSION_def
        MAX_METADATA_SIZE_def split: if_splits)
qed

theorem MrrReader_open_accepts_witness:
  "\<exists>r c. MrrReader_open \<lparr>c_data = mrr_file sample_header [] [] sample_frames, c_pos = 0\<rparr> = (Inr r, c)
    \<and> take 4 (mrr_file sample_header [] [] sample_frames) = [77, 82, 82, 49] \<and> r_capabilities r = []
    \<and> c_pos (r_reader r) = 256"
proof -
  from MrrReader_open_file[OF sample_file_ok] obtain r c where
    op: "MrrReader_open \<lparr>c_data = mrr_file sample_header [] [] sample_frames, c_pos = 0\<rparr> = (Inr r, c)"
    and "reads_file r sample_header [] [] sample_frames" "r_capabilities r = []"
    by blast
  with MrrReader_open_accepts[OF op] show ?thesis
    by (simp add: reads_file_def sample_header_def)
qed

end
