(* ===== verification/File_Tree.thy ===== *)
theory File_Tree
  imports Prelude "HOL-Library.Sublist"
begin

text \<open>
  The part of the Unix file system and of \<open>std::path\<close> that the recording manager uses:
  directories, files and symbolic links, path resolution, and the system calls that change the
  tree. A tree is an association list from absolute paths to nodes; the root directory is
  implicit. A system call returns \<open>None\<close> when it fails.
\<close>

section \<open>Paths\<close>

type_synonym path = "string list"

text \<open>The pieces of a path string between its separators, empty ones included.\<close>

fun split_path :: "string \<Rightarrow> path" where
  "split_path [] = [[]]"
| "split_path (c # cs) =
     (if c = CHR ''/'' then [] # split_path cs
      else case split_path cs of p # ps \<Rightarrow> (c # p) # ps | [] \<Rightarrow> [[c]])"

definition path_join :: "path \<Rightarrow> string \<Rightarrow> path" where
  "path_join p s = (if s \<noteq> [] \<and> hd s = CHR ''/'' then split_path s else p @ split_path s)"

definition noop_piece :: "string \<Rightarrow> bool" where
  "noop_piece c \<longleftrightarrow> c = '''' \<or> c = ''.''"

definition plain_piece :: "string \<Rightarrow> bool" where
  "plain_piece c \<longleftrightarrow> \<not> noop_piece c \<and> c \<noteq> ''..'' \<and> CHR ''/'' \<notin> set c"

definition trim_right :: "path \<Rightarrow> path" where
  "trim_right p = rev (dropWhile noop_piece (rev p))"

definition path_parent :: "path \<Rightarrow> path option" where
  "path_parent p = (let q = trim_right p in if q = [] then None else Some (trim_right (butlast q)))"

definition file_name :: "path \<Rightarrow> string option" where
  "file_name p =
     (let q = trim_right p in if q = [] \<or> last q = ''..'' then None else Some (last q))"

text \<open>What follows the last dot of a file name, unless that dot is the first character.\<close>

definition file_extension :: "string \<Rightarrow> string option" where
  "file_extension s =
     (let before = dropWhile (\<lambda>c. c \<noteq> CHR ''.'') (rev s)
      in if before = [] \<or> tl before = [] then None
         else Some (rev (takeWhile (\<lambda>c. c \<noteq> CHR ''.'') (rev s))))"

lemma split_path_nonempty [simp]: "split_path s \<noteq> []"
  by (induction s rule: split_path.induct) (auto split: list.splits)

lemma split_path_single: "CHR ''/'' \<notin> set s \<Longrightarrow> split_path s = [s]"
  by (induction s rule: split_path.induct) auto

lemma path_join_single: "CHR ''/'' \<notin> set s \<Longrightarrow> path_join p s = p @ [s]"
  by (cases s) (auto simp: path_join_def split_path_single)

section \<open>The tree\<close>

datatype node = Dir | File bytes "u64 option" | Link bool path

type_synonym tree = "(path \<times> node) list"

definition node_at :: "tree \<Rightarrow> path \<Rightarrow> node option" where
  "node_at t p = (if p = [] then Some Dir else map_of t p)"

definition tree_wf :: "tree \<Rightarrow> bool" where
  "tree_wf t \<longleftrightarrow> distinct (map fst t)
     \<and> (\<forall>p \<in> set (map fst t). p \<noteq> [] \<and> list_all plain_piece p \<and> node_at t (butlast p) = Some Dir)"

text \<open>
  Path resolution from a directory \<open>cur\<close>. The number bounds the symbolic links that are followed;
  the kernel follows 40.
\<close>

fun resolve :: "nat \<Rightarrow> tree \<Rightarrow> path \<Rightarrow> path \<Rightarrow> path option" where
  "resolve n t cur [] = Some cur"
| "resolve n t cur (c # cs) =
     (if noop_piece c then resolve n t cur cs
      else if c = ''..'' then resolve n t (butlast cur) cs
      else case map_of t (cur @ [c]) of
             None \<Rightarrow> None
           | Some Dir \<Rightarrow> resolve n t (cur @ [c]) cs
           | Some (File _ _) \<Rightarrow> (if cs = [] then Some (cur @ [c]) else None)
           | Some (Link absolute target) \<Rightarrow>
               (case n of 0 \<Rightarrow> None
                | Suc m \<Rightarrow> resolve m t (if absolute then [] else cur) (target @ cs)))"

definition canonicalize :: "tree \<Rightarrow> path \<Rightarrow> path option" where
  "canonicalize t p = resolve 40 t [] p"

definition path_exists :: "tree \<Rightarrow> path \<Rightarrow> bool" where
  "path_exists t p \<longleftrightarrow> canonicalize t p \<noteq> None"

definition is_dir :: "tree \<Rightarrow> path \<Rightarrow> bool" where
  "is_dir t p = (case canonicalize t p of Some q \<Rightarrow> node_at t q = Some Dir | None \<Rightarrow> False)"

definition children :: "tree \<Rightarrow> path \<Rightarrow> string list" where
  "children t d = [last p. p \<leftarrow> map fst t, p \<noteq> [] \<and> butlast p = d]"

lemma node_at_simps [simp]: "node_at t [] = Some Dir" "node_at t (p @ [c]) = map_of t (p @ [c])"
  by (simp_all add: node_at_def)

lemma tree_wf_distinct: "tree_wf t \<Longrightarrow> distinct (map fst t)"
  by (simp add: tree_wf_def)

lemma tree_wf_entry:
  assumes "tree_wf t" and "map_of t p = Some x"
  shows "p \<noteq> [] \<and> list_all plain_piece p \<and> node_at t (butlast p) = Some Dir"
proof -
  from assms(2) have "p \<in> set (map fst t)" by (force dest: map_of_SomeD)
  with assms(1) show ?thesis by (auto simp: tree_wf_def)
qed

lemma node_at_parent: "tree_wf t \<Longrightarrow> node_at t p = Some x \<Longrightarrow> node_at t (butlast p) = Some Dir"
  by (cases "p = []") (auto simp: node_at_def[of t p] dest: tree_wf_entry)

text \<open>Resolution ends at a directory or at a file, never at a link or at nothing.\<close>

lemma resolve_node:
  assumes "tree_wf t"
  shows "resolve n t cur ps = Some q \<Longrightarrow> node_at t cur = Some Dir \<Longrightarrow>
    node_at t q = Some Dir \<or> (\<exists>b m. node_at t q = Some (File b m))"
  using assms
proof (induction n t cur ps rule: resolve.induct)
  case (2 n t cur c cs)
  then show ?case
    using node_at_parent[of t cur Dir] by (auto split: if_splits option.splits node.splits nat.splits)
qed simp

lemma resolve_snoc:
  assumes "tree_wf t" and "plain_piece c"
  shows "resolve n t cur (ps @ [c]) = Some q \<Longrightarrow> node_at t cur = Some Dir \<Longrightarrow>
    \<exists>d. resolve n t cur ps = Some d \<and> node_at t d = Some Dir \<and> map_of t (d @ [c]) \<noteq> None"
  using assms
proof (induction n t cur ps rule: resolve.induct)
  case (2 n t cur p ps)
  then show ?case
    using node_at_parent[of t cur Dir]
    by (auto simp del: node_at_simps(2) simp: node_at_simps(2)[symmetric] split: if_splits option.splits node.splits nat.splits)
qed (auto simp: plain_piece_def split: option.splits)

text \<open>Resolving a longer path goes through the directory its beginning resolves to.\<close>

lemma resolve_append:
  "resolve n t cur ps = Some d \<Longrightarrow> node_at t d = Some Dir \<Longrightarrow>
    \<exists>m. resolve n t cur (ps @ qs) = resolve m t d qs"
proof (induction n t cur ps rule: resolve.induct)
  case (2 n t cur p ps)
  then show ?case
    by (auto split: if_splits option.splits node.splits nat.splits)
qed auto

lemma resolve_snoc_node:
  assumes "resolve n t cur ps = Some d" and "node_at t d = Some Dir"
    and "\<not> noop_piece c" and "c \<noteq> ''..''"
    and "map_of t (d @ [c]) = Some Dir \<or> map_of t (d @ [c]) = Some (File b m)"
  shows "resolve n t cur (ps @ [c]) = Some (d @ [c])"
  using resolve_append[OF assms(1,2), of "[c]"] assms(3-5) by auto

lemma resolve_noops:
  assumes "resolve n t cur ps = Some d" and "node_at t d = Some Dir" and "list_all noop_piece qs"
  shows "resolve n t cur (ps @ qs) = Some d"
proof -
  have "resolve m t d qs = Some d" for m
    using assms(3) by (induction qs) simp_all
  with resolve_append[OF assms(1,2), of qs] show ?thesis by auto
qed

lemma resolve_file_more:
  "resolve n t cur ps = Some f \<Longrightarrow> node_at t f \<noteq> Some Dir \<Longrightarrow> tree_wf t \<Longrightarrow> node_at t cur = Some Dir \<Longrightarrow>
    qs \<noteq> [] \<Longrightarrow> resolve n t cur (ps @ qs) = None"
proof (induction n t cur ps rule: resolve.induct)
  case (2 n t cur p ps)
  then show ?case
    using node_at_parent[of t cur Dir] by (auto split: if_splits option.splits node.splits nat.splits)
qed auto

lemma canonicalize_trim:
  assumes "tree_wf t" and "canonicalize t p = Some d" and "canonicalize t (trim_right p) = Some d'"
  shows "d' = d"
proof -
  have p: "p = trim_right p @ rev (takeWhile noop_piece (rev p))"
    unfolding trim_right_def by (metis rev_append rev_rev_ident takeWhile_dropWhile_id)
  let ?qs = "rev (takeWhile noop_piece (rev p))"
  note c = arg_cong[OF p, of "canonicalize t"]
  have noops: "list_all noop_piece ?qs" by (auto simp: list_all_iff dest: set_takeWhileD)
  show ?thesis
  proof (cases "node_at t d' = Some Dir \<or> ?qs = []")
    case True
    then have "canonicalize t (trim_right p @ ?qs) = Some d'"
      using assms(3) noops resolve_noops[of 40 t "[]" "trim_right p" d' ?qs] by (auto simp: canonicalize_def)
    with assms(2) c show ?thesis by simp
  next
    case False
    then have "canonicalize t (trim_right p @ ?qs) = None"
      using assms resolve_file_more[of 40 t "[]" "trim_right p" d' ?qs] by (simp add: canonicalize_def)
    with assms(2) c show ?thesis by simp
  qed
qed

section \<open>System calls\<close>

text \<open>
  The directory entry a call works on: the resolved directory of the path and its last piece,
  with a mark when the path ends in a separator. The last piece itself is not followed.
\<close>

definition dir_entry :: "tree \<Rightarrow> path \<Rightarrow> (path \<times> bool) option" where
  "dir_entry t p =
     (let q = rev (dropWhile (\<lambda>c. c = []) (rev p))
      in if q = [] \<or> last q = ''.'' \<or> last q = ''..'' then None
         else case canonicalize t (butlast q) of
                Some d \<Rightarrow> if node_at t d = Some Dir then Some (d @ [last q], q \<noteq> p) else None
              | None \<Rightarrow> None)"

definition remove_entry :: "path \<Rightarrow> tree \<Rightarrow> tree" where
  "remove_entry e t = filter (\<lambda>x. fst x \<noteq> e) t"

definition remove_file :: "tree \<Rightarrow> path \<Rightarrow> tree option" where
  "remove_file t p =
     (case dir_entry t p of
        Some (e, False) \<Rightarrow>
          (case map_of t e of Some (File _ _) \<Rightarrow> Some (remove_entry e t)
           | Some (Link _ _) \<Rightarrow> Some (remove_entry e t)
           | _ \<Rightarrow> None)
      | _ \<Rightarrow> None)"

definition create_dir :: "tree \<Rightarrow> path \<Rightarrow> tree option" where
  "create_dir t p =
     (case dir_entry t p of
        Some (e, _) \<Rightarrow> if map_of t e = None then Some ((e, Dir) # t) else None
      | None \<Rightarrow> None)"

definition remove_dir :: "tree \<Rightarrow> path \<Rightarrow> tree option" where
  "remove_dir t p =
     (case dir_entry t p of
        Some (e, _) \<Rightarrow>
          if map_of t e = Some Dir \<and> children t e = [] then Some (remove_entry e t) else None
      | None \<Rightarrow> None)"

definition write_file :: "tree \<Rightarrow> path \<Rightarrow> bytes \<Rightarrow> u64 option \<Rightarrow> tree option" where
  "write_file t p bs mtime =
     (case canonicalize t p of
        Some q \<Rightarrow> (case map_of t q of Some (File _ _) \<Rightarrow> Some ((q, File bs mtime) # remove_entry q t)
                  | _ \<Rightarrow> None)
      | None \<Rightarrow>
          (case dir_entry t p of
             Some (e, False) \<Rightarrow> if map_of t e = None then Some ((e, File bs mtime) # t) else None
           | _ \<Rightarrow> None))"

text \<open>Renaming moves a directory with all that is below it.\<close>

definition move_entries :: "path \<Rightarrow> path \<Rightarrow> tree \<Rightarrow> tree" where
  "move_entries old new t =
     map (\<lambda>(p, x). (if prefix old p then new @ drop (length old) p else p, x)) (remove_entry new t)"

definition may_replace :: "tree \<Rightarrow> node \<Rightarrow> path \<Rightarrow> bool" where
  "may_replace t x e =
     (case map_of t e of None \<Rightarrow> True | Some Dir \<Rightarrow> x = Dir \<and> children t e = [] | Some _ \<Rightarrow> x \<noteq> Dir)"

definition rename :: "tree \<Rightarrow> path \<Rightarrow> path \<Rightarrow> tree option" where
  "rename t old new =
     (case (dir_entry t old, dir_entry t new) of
        (Some (eo, so), Some (en, sn)) \<Rightarrow>
          (case map_of t eo of
             None \<Rightarrow> None
           | Some x \<Rightarrow>
               if (so \<or> sn) \<and> x \<noteq> Dir then None
               else if eo = en then Some t
               else if prefix eo en \<or> \<not> may_replace t x en then None
               else Some (move_entries eo en t))
      | _ \<Rightarrow> None)"

section \<open>Effects of the system calls\<close>

lemma map_of_remove_entry: "map_of (remove_entry e t) p = (if p = e then None else map_of t p)"
  by (induction t) (auto simp: remove_entry_def)

lemma children_set: "c \<in> set (children t d) \<longleftrightarrow> d @ [c] \<in> fst ` set t"
  by (force simp: children_def dest: append_butlast_last_id[symmetric])

lemma children_empty: "children t d = [] \<Longrightarrow> p \<in> fst ` set t \<Longrightarrow> p \<noteq> [] \<Longrightarrow> butlast p \<noteq> d"
  using children_set[of "last p" t d] by force

lemma tree_wf_remove:
  assumes wf: "tree_wf t" and leaf: "node_at t e \<noteq> Some Dir \<or> children t e = []" and "e \<noteq> []"
  shows "tree_wf (remove_entry e t)"
proof -
  have "node_at (remove_entry e t) (butlast p) = Some Dir" if p: "p \<in> fst ` set t" for p
  proof -
    from wf p have *: "p \<noteq> []" "node_at t (butlast p) = Some Dir" by (auto simp: tree_wf_def)
    with leaf p have "butlast p \<noteq> e" by (auto dest: children_empty)
    with * show ?thesis by (simp add: node_at_def map_of_remove_entry split: if_splits)
  qed
  moreover have "set (remove_entry e t) \<subseteq> set t" "distinct (map fst (remove_entry e t))"
    using tree_wf_distinct[OF wf] by (auto simp: remove_entry_def distinct_map_filter)
  ultimately show ?thesis
    using wf by (auto simp: tree_wf_def subset_iff)
qed

lemma tree_wf_add:
  assumes wf: "tree_wf t" and "map_of t (d @ [c]) = None" and "plain_piece c" and "node_at t d = Some Dir"
    and "list_all plain_piece d"
  shows "tree_wf ((d @ [c], x) # t)"
proof -
  from assms(2) have new: "d @ [c] \<notin> fst ` set t" by (simp add: map_of_eq_None_iff)
  have "node_at ((d @ [c], x) # t) p = Some Dir" if "node_at t p = Some Dir" for p
    using that assms(2) by (auto simp: node_at_def)
  with assms new show ?thesis
    by (auto simp: tree_wf_def)
qed

lemma resolve_plain:
  "tree_wf t \<Longrightarrow> resolve n t cur ps = Some q \<Longrightarrow> node_at t cur = Some Dir \<Longrightarrow> list_all plain_piece q"
  using resolve_node[of t n cur ps q] tree_wf_entry[of t q]
  by (cases "q = []") (auto simp: node_at_def)

lemma dir_entry_Some:
  assumes "dir_entry t p = Some (e, slash)" and "tree_wf t"
  obtains d c where "e = d @ [c]" "node_at t d = Some Dir" "list_all plain_piece d" "c \<noteq> ''..''" "\<not> noop_piece c"
    "slash \<or> p \<noteq> [] \<and> canonicalize t (butlast p) = Some d \<and> last p = c"
    "\<exists>q k. p = q @ [c] @ replicate k [] \<and> canonicalize t q = Some d"
proof -
  define q where "q = rev (dropWhile (\<lambda>c. c = []) (rev p))"
  from assms(1) obtain d where q: "q \<noteq> []" "last q \<noteq> ''.''" "last q \<noteq> ''..''"
    and d: "canonicalize t (butlast q) = Some d" "node_at t d = Some Dir"
    and e: "e = d @ [last q]" "slash = (q \<noteq> p)"
    by (auto simp: dir_entry_def Let_def q_def[symmetric] simp del: rev_is_Nil_conv split: if_splits option.splits)
  have "last q \<noteq> []"
    using q(1) hd_dropWhile[of "\<lambda>c. c = []" "rev p"] by (simp add: q_def last_rev)
  with q have "\<not> noop_piece (last q)" by (simp add: noop_piece_def)
  moreover have "list_all plain_piece d"
    using d assms(2) by (auto simp: canonicalize_def intro: resolve_plain)
  moreover have "\<exists>q k. p = q @ [last q'] @ replicate k [] \<and> canonicalize t q = Some d" if "q' = q" for q'
  proof -
    have "p = q @ rev (takeWhile (\<lambda>c. c = []) (rev p))"
      unfolding q_def by (metis rev_append rev_rev_ident takeWhile_dropWhile_id)
    moreover have "takeWhile (\<lambda>c. c = []) (rev p) = replicate (length (takeWhile (\<lambda>c. c = []) (rev p))) []"
      by (rule replicate_eqI) (auto dest: set_takeWhileD)
    ultimately have "p = butlast q @ [last q'] @ replicate (length (takeWhile (\<lambda>c. c = []) (rev p))) []"
      using q(1) that by (metis append.assoc append_butlast_last_id rev_replicate)
    with d show ?thesis by blast
  qed
  ultimately show ?thesis
    using q d e by (intro that[of d "last q"]) auto
qed

lemma canonical_entry:
  assumes "dir_entry t p = Some (e, slash)" and wf: "tree_wf t" and "map_of t e = Some x"
    and "x = Dir \<or> (\<exists>b m. x = File b m) \<and> \<not> slash"
  shows "canonicalize t p = Some e"
proof -
  from assms(1) wf obtain d c where e: "e = d @ [c]" "node_at t d = Some Dir" "c \<noteq> ''..''" "\<not> noop_piece c"
    and sl: "slash \<or> p \<noteq> [] \<and> canonicalize t (butlast p) = Some d \<and> last p = c"
    and "\<exists>q k. p = q @ [c] @ replicate k [] \<and> canonicalize t q = Some d"
    by (rule dir_entry_Some)
  then obtain q k where q: "p = q @ [c] @ replicate k []" "canonicalize t q = Some d"
    by blast
  show ?thesis
  proof (cases "x = Dir")
    case True
    have "canonicalize t (q @ [c]) = Some e"
      using True q e assms(3) by (auto simp: canonicalize_def intro: resolve_snoc_node)
    from resolve_noops[of 40 t "[]" "q @ [c]" e "replicate k []"] this q True assms(3) e(1) show ?thesis
      by (simp add: canonicalize_def list_all_iff noop_piece_def)
  next
    case False
    with assms(4) sl have "canonicalize t (butlast p @ [c]) = Some e" "p = butlast p @ [c]"
      using e assms(3) by (auto simp: canonicalize_def intro: resolve_snoc_node)
    then show ?thesis by simp
  qed
qed

lemma remove_file_effect:
  assumes "remove_file t p = Some t'"
  obtains e x where "dir_entry t p = Some (e, False)" "map_of t e = Some x" "x \<noteq> Dir" "t' = remove_entry e t"
  using assms by (auto simp: remove_file_def split: option.splits prod.splits bool.splits node.splits)

lemma create_dir_effect:
  assumes "create_dir t p = Some t'"
  obtains e b where "dir_entry t p = Some (e, b)" "map_of t e = None" "t' = (e, Dir) # t"
  using assms by (auto simp: create_dir_def split: option.splits if_splits)

lemma remove_dir_effect:
  assumes "remove_dir t p = Some t'"
  obtains e b where "dir_entry t p = Some (e, b)" "map_of t e = Some Dir" "children t e = []"
    "t' = remove_entry e t"
  using assms by (auto simp: remove_dir_def split: option.splits if_splits)

lemma tree_wf_map_of:
  "tree_wf t \<longleftrightarrow> distinct (map fst t) \<and> (\<forall>p x. map_of t p = Some x \<longrightarrow>
     p \<noteq> [] \<and> list_all plain_piece p \<and> node_at t (butlast p) = Some Dir)"
  (is "_ \<longleftrightarrow> ?R")
proof
  show "tree_wf t \<Longrightarrow> ?R" by (auto dest: tree_wf_entry tree_wf_distinct)
  assume ?R
  moreover have "\<exists>x. map_of t p = Some x" if "p \<in> fst ` set t" for p
    using that map_of_eq_None_iff[of t p] by auto
  ultimately show "tree_wf t" unfolding tree_wf_def by (metis set_map)
qed

lemma tree_wf_ancestor:
  assumes "tree_wf t"
  shows "map_of t (p @ q) = Some x \<Longrightarrow> q \<noteq> [] \<Longrightarrow> node_at t p = Some Dir"
proof (induction q arbitrary: x rule: rev_induct)
  case (snoc c q)
  from tree_wf_entry[OF assms, of "p @ q @ [c]" x] snoc.prems(1)
  have "node_at t (p @ q) = Some Dir" by (simp add: butlast_append)
  with snoc.IH show ?case
    by (cases "q = []") (auto simp: node_at_def split: if_splits)
qed simp

definition apart :: "path \<Rightarrow> path \<Rightarrow> bool" where
  "apart a b \<longleftrightarrow> \<not> prefix a b \<and> \<not> prefix b a"

lemma map_of_move_list:
  assumes "apart old new" and "\<forall>k \<in> fst ` set t. \<not> prefix new k"
  shows "map_of (map (\<lambda>(p, x). (if prefix old p then new @ drop (length old) p else p, x)) t) p =
    (if prefix new p then map_of t (old @ drop (length new) p)
     else if prefix old p then None else map_of t p)"
  using assms(2)
proof (induction t)
  case (Cons kx t)
  obtain k x where kx: "kx = (k, x)" by (cases kx)
  show ?case
  proof (cases "prefix old k")
    case True
    then obtain r where "k = old @ r" by (auto simp: prefix_def)
    with Cons kx show ?thesis
      using assms(1) by (auto simp: apart_def prefix_def)
  next
    case False
    with Cons kx show ?thesis
      using assms(1) by (auto simp: apart_def)
  qed
qed simp

lemma map_of_move:
  assumes "apart old new" and "\<And>q x. q \<noteq> [] \<Longrightarrow> map_of t (new @ q) \<noteq> Some x"
  shows "map_of (move_entries old new t) p =
    (if prefix new p then map_of t (old @ drop (length new) p)
     else if prefix old p then None else map_of t p)"
proof -
  have "\<not> prefix new k" if k: "k \<in> fst ` set (remove_entry new t)" for k
  proof
    assume "prefix new k"
    then obtain q where q: "k = new @ q" by (auto simp: prefix_def)
    from k have "k \<noteq> new" "k \<in> fst ` set t" by (auto simp: remove_entry_def)
    with q assms(2)[of q] show False
      by (metis map_of_eq_None_iff not_None_eq self_append_conv)
  qed
  moreover have "old @ r \<noteq> new" for r using assms(1) by (auto simp: apart_def)
  ultimately show ?thesis
    unfolding move_entries_def using assms(1)
    by (subst map_of_move_list) (auto simp: map_of_remove_entry)
qed

lemma rename_effect:
  assumes "rename t old new = Some t'" and wf: "tree_wf t"
  obtains eo so en sn x where "dir_entry t old = Some (eo, so)" "dir_entry t new = Some (en, sn)"
    "map_of t eo = Some x" "eo = en \<and> t' = t \<or> apart eo en \<and> t' = move_entries eo en t"
    "\<And>q y. q \<noteq> [] \<Longrightarrow> eo \<noteq> en \<Longrightarrow> map_of t (en @ q) \<noteq> Some y"
    "eo \<noteq> en \<Longrightarrow> map_of t en = Some Dir \<Longrightarrow> x = Dir" "so \<Longrightarrow> x = Dir"
proof -
  from assms(1) obtain eo so en sn x where
    e: "dir_entry t old = Some (eo, so)" "dir_entry t new = Some (en, sn)" "map_of t eo = Some x"
    by (auto simp: rename_def split: option.splits)
  with assms(1) have c: "eo = en \<and> t' = t \<or> eo \<noteq> en \<and> \<not> prefix eo en \<and> t' = move_entries eo en t \<and> may_replace t x en"
    by (simp add: rename_def split: if_splits)
  have sl: "so \<Longrightarrow> x = Dir"
    using assms(1) e by (simp add: rename_def split: if_splits)
  have rep: "map_of t en = Some Dir \<Longrightarrow> eo \<noteq> en \<Longrightarrow> x = Dir \<and> children t en = []"
    using c by (simp add: may_replace_def)
  have below: "map_of t (en @ q) \<noteq> Some y" if "q \<noteq> []" "eo \<noteq> en" for q y
  proof
    assume *: "map_of t (en @ q) = Some y"
    obtain r where q: "q = [hd q] @ r" using \<open>q \<noteq> []\<close> by (metis append_Cons append_Nil list.collapse)
    have "node_at t en = Some Dir" using tree_wf_ancestor[OF wf * \<open>q \<noteq> []\<close>] .
    moreover obtain d c where "en = d @ [c]" using e(2) wf by (rule dir_entry_Some)
    ultimately have "children t en = []" using rep that(2) by simp
    then have "map_of t (en @ [hd q]) = None"
      using children_set[of "hd q" t en] by (simp add: map_of_eq_None_iff)
    moreover have "\<exists>z. map_of t (en @ [hd q]) = Some z"
      using * tree_wf_ancestor[OF wf, of "en @ [hd q]" r y] q
      by (cases "r = []") (auto simp: node_at_def)
    ultimately show False by simp
  qed
  have "\<not> prefix en eo" if "eo \<noteq> en"
    using below[OF _ that] e(3) that by (auto simp: prefix_def)
  with c have "eo = en \<and> t' = t \<or> apart eo en \<and> t' = move_entries eo en t"
    by (auto simp: apart_def)
  with e rep below sl show ?thesis by (intro that[of eo so en sn x]) simp_all
qed

lemma distinct_move:
  assumes "distinct (map fst t)" and "apart old new" and "\<forall>k \<in> fst ` set t. \<not> prefix new k"
  shows "distinct (map fst (map (\<lambda>(p, x). (if prefix old p then new @ drop (length old) p else p, x)) t))"
proof -
  let ?f = "\<lambda>p. if prefix old p then new @ drop (length old) p else p"
  have "inj_on ?f (fst ` set t)"
    using assms(3) by (intro inj_onI) (force simp: prefix_def split: if_splits)
  with assms(1) have "distinct (map ?f (map fst t))"
    by (simp add: distinct_map comp_inj_on)
  then show ?thesis by (simp add: comp_def case_prod_beta)
qed

lemma tree_wf_move:
  assumes wf: "tree_wf t" and ap: "apart old new" and old: "map_of t old = Some x"
    and new: "new = d @ [c]" "node_at t d = Some Dir" "list_all plain_piece new"
    and below: "\<And>q y. q \<noteq> [] \<Longrightarrow> map_of t (new @ q) \<noteq> Some y"
  shows "tree_wf (move_entries old new t)"
proof -
  note lk = map_of_move[OF ap below]
  have dirs: "node_at (move_entries old new t) p = Some Dir"
    if "node_at t p = Some Dir" "\<not> prefix old p" "\<not> prefix new p" for p
    using that by (simp add: node_at_def lk split: if_splits)
  have "p \<noteq> [] \<and> list_all plain_piece p \<and> node_at (move_entries old new t) (butlast p) = Some Dir"
    if p: "map_of (move_entries old new t) p = Some y" for p y
  proof (cases "prefix new p")
    case True
    then obtain q where q: "p = new @ q" by (auto simp: prefix_def)
    with p have src: "map_of t (old @ q) = Some y" by (simp add: lk)
    show ?thesis
    proof (cases "q = []")
      case True
      have "node_at (move_entries old new t) d = Some Dir"
        using ap new by (intro dirs) (auto simp: apart_def dest: prefix_length_le intro: prefix_order.trans)
      with True q new show ?thesis by simp
    next
      case False
      from tree_wf_entry[OF wf src] False have "node_at t (old @ butlast q) = Some Dir" "list_all plain_piece q"
        by (simp_all add: butlast_append)
      moreover have "old \<noteq> []" using tree_wf_entry[OF wf old] by simp
      moreover have "map_of (move_entries old new t) (new @ butlast q) = map_of t (old @ butlast q)"
        by (simp add: lk)
      ultimately show ?thesis
        using q new(1,3) False by (simp add: butlast_append node_at_def)
    qed
  next
    case False
    with p have src: "map_of t p = Some y" and np: "\<not> prefix old p" by (simp_all add: lk split: if_splits)
    from tree_wf_entry[OF wf src] have "p \<noteq> []" "list_all plain_piece p" "node_at t (butlast p) = Some Dir" by auto
    moreover have "\<not> prefix old (butlast p)" "\<not> prefix new (butlast p)"
      using np False prefix_order.trans[OF _ prefixeq_butlast] by blast+
    ultimately show ?thesis by (auto intro: dirs)
  qed
  moreover have "\<forall>k \<in> fst ` set (remove_entry new t). \<not> prefix new k"
    using below by (auto simp: remove_entry_def prefix_def map_of_eq_Some_iff[OF tree_wf_distinct[OF wf]])
  ultimately show ?thesis
    using tree_wf_distinct[OF wf] distinct_move[OF _ ap, of "remove_entry new t"]
    by (auto simp: tree_wf_map_of move_entries_def remove_entry_def distinct_map_filter)
qed

end
