(* ===== verification/Recording_Manager.thy ===== *)
theory Recording_Manager
  imports Mrr_Properties File_Tree "HOL-Library.Char_ord" "HOL-Library.List_Lexorder"
    "HOL-Library.Multiset"
begin

text \<open>
  The recording manager: listing, inspecting, renaming and deleting recordings and directories
  below the recordings directory, and the check that keeps client-supplied names inside it. The
  manager is its base directory; the file tree is passed in and returned. The arguments \<open>os\<close>
  say whether the operating system carries out a call it could carry out (permissions, space),
  \<open>now\<close> is the formatted time stamp and \<open>order\<close> the order in which a directory is read.
\<close>

section \<open>Operations\<close>

datatype manager_error =
    InvalidPath
  | RecordingNotFound string
  | DeleteFailed
  | FileAlreadyExists string
  | RenameFailed
  | InvalidDirectoryName
  | DirectoryAlreadyExists string
  | CreateDirectoryFailed
  | DirectoryNotFound string
  | NotADirectory string
  | DirectoryNotEmpty string nat
  | DeleteDirectoryFailed

record RecordingInfo =
  ri_filename :: string
  ri_path :: path
  ri_size :: u64
  ri_duration_ms :: u64
  ri_frame_count :: u32
  ri_start_time_ms :: u64
  ri_modified_ms :: u64
  ri_radar_brand :: u32
  ri_spokes_per_rev :: u32
  ri_max_spoke_len :: u32
  ri_subdirectory :: "string option"

record DirectoryInfo =
  di_name :: string
  di_recording_count :: nat
  di_total_size :: u64

definition is_valid_name :: "string \<Rightarrow> bool" where
  "is_valid_name name \<longleftrightarrow>
     CHR ''/'' \<notin> set name \<and> CHR 0x5C \<notin> set name \<and> \<not> sublist ''..'' name"

definition sub_dir :: "path \<Rightarrow> string option \<Rightarrow> path" where
  "sub_dir base subdirectory = (case subdirectory of Some s \<Rightarrow> path_join base s | None \<Rightarrow> base)"

definition get_recording_path :: "path \<Rightarrow> string \<Rightarrow> string option \<Rightarrow> path" where
  "get_recording_path base filename subdirectory = path_join (sub_dir base subdirectory) filename"

definition get_recording_info :: "tree \<Rightarrow> path \<Rightarrow> string option \<Rightarrow> RecordingInfo option" where
  "get_recording_info t p subdirectory =
     (case (file_name p, canonicalize t p) of
        (Some filename, Some q) \<Rightarrow>
          (case node_at t q of
             Some (File bs mtime) \<Rightarrow>
               (case on_cursor MrrHeader_read \<lparr>c_data = bs, c_pos = 0\<rparr> of
                  (Inr header, reader) \<Rightarrow>
                    (case try_bind (seek_end FOOTER_SIZE reader) (\<lambda>_. on_cursor MrrFooter_read) of
                       (Inr footer, _) \<Rightarrow>
                         Some \<lparr>ri_filename = filename, ri_path = p, ri_size = of_nat (length bs),
                               ri_duration_ms = f_duration_ms footer,
                               ri_frame_count = f_frame_count footer,
                               ri_start_time_ms = h_start_time_ms header,
                               ri_modified_ms = (case mtime of Some m \<Rightarrow> m | None \<Rightarrow> 0),
                               ri_radar_brand = h_radar_brand header,
                               ri_spokes_per_rev = h_spokes_per_rev header,
                               ri_max_spoke_len = h_max_spoke_len header,
                               ri_subdirectory = subdirectory\<rparr>
                     | _ \<Rightarrow> None)
                | _ \<Rightarrow> None)
           | _ \<Rightarrow> None)
      | _ \<Rightarrow> None)"

definition is_file :: "tree \<Rightarrow> path \<Rightarrow> bool" where
  "is_file t p = (case canonicalize t p of
      Some q \<Rightarrow> (case node_at t q of Some (File _ _) \<Rightarrow> True | _ \<Rightarrow> False) | None \<Rightarrow> False)"

definition read_dir :: "(string list \<Rightarrow> string list) \<Rightarrow> tree \<Rightarrow> path \<Rightarrow> string list option" where
  "read_dir order t p =
     (case canonicalize t p of
        Some d \<Rightarrow> if node_at t d = Some Dir then Some (order (children t d)) else None
      | None \<Rightarrow> None)"

definition list_recordings ::
  "(string list \<Rightarrow> string list) \<Rightarrow> tree \<Rightarrow> path \<Rightarrow> string option \<Rightarrow> RecordingInfo list" where
  "list_recordings order t base subdirectory =
     (if (case subdirectory of Some s \<Rightarrow> \<not> is_valid_name s | None \<Rightarrow> False) then []
      else let dir = sub_dir base subdirectory
      in if \<not> path_exists t dir then []
      else let recordings =
        (case read_dir order t dir of
           None \<Rightarrow> []
         | Some entries \<Rightarrow>
             List.map_filter (\<lambda>entry.
               let p = path_join dir entry
               in if is_file t p \<and> file_extension entry = Some ''mrr''
                  then get_recording_info t p subdirectory else None) entries)
      in rev (sort_key ri_modified_ms (rev recordings)))"

definition list_directories ::
  "(string list \<Rightarrow> string list) \<Rightarrow> tree \<Rightarrow> path \<Rightarrow> DirectoryInfo list" where
  "list_directories order t base =
     (let dirs =
        (case read_dir order t base of
           None \<Rightarrow> []
         | Some entries \<Rightarrow>
             [let recordings = list_recordings order t base (Some name)
              in \<lparr>di_name = name, di_recording_count = length recordings,
                  di_total_size = sum_list (map ri_size recordings)\<rparr>.
              name \<leftarrow> entries, is_dir t (path_join base name)])
      in sort_key di_name dirs)"

definition is_safe_path :: "tree \<Rightarrow> path \<Rightarrow> path \<Rightarrow> bool" where
  "is_safe_path t base p =
     (case canonicalize t base of
        None \<Rightarrow> False
      | Some canonical_base \<Rightarrow>
          (case canonicalize t p of
             Some canonical \<Rightarrow> prefix canonical_base canonical
           | None \<Rightarrow>
               (case path_parent p of
                  Some parent \<Rightarrow>
                    (case canonicalize t parent of
                       Some canonical_parent \<Rightarrow> prefix canonical_base canonical_parent
                     | None \<Rightarrow> False)
                | None \<Rightarrow> False)))"

definition get_recording :: "tree \<Rightarrow> path \<Rightarrow> string \<Rightarrow> string option \<Rightarrow> RecordingInfo option" where
  "get_recording t base filename subdirectory =
     (let p = get_recording_path base filename subdirectory
      in if \<not> is_safe_path t base p then None
         else if path_exists t p then get_recording_info t p subdirectory else None)"

definition delete_recording ::
  "bool \<Rightarrow> path \<Rightarrow> string \<Rightarrow> string option \<Rightarrow> tree \<Rightarrow> (manager_error, unit, tree) io" where
  "delete_recording os base filename subdirectory t =
     (let p = get_recording_path base filename subdirectory
      in if \<not> is_safe_path t base p then (Inl InvalidPath, t)
         else if \<not> path_exists t p then (Inl (RecordingNotFound filename), t)
         else case remove_file t p of
                Some t' \<Rightarrow> if os then (Inr (), t') else (Inl DeleteFailed, t)
              | None \<Rightarrow> (Inl DeleteFailed, t))"

definition ends_with_mrr :: "string \<Rightarrow> bool" where
  "ends_with_mrr s \<longleftrightarrow> suffix ''.mrr'' s"

definition rename_recording ::
  "bool \<Rightarrow> path \<Rightarrow> string \<Rightarrow> string \<Rightarrow> string option \<Rightarrow> tree \<Rightarrow> (manager_error, unit, tree) io" where
  "rename_recording os base filename new_filename subdirectory t =
     (let new_filename = (if ends_with_mrr new_filename then new_filename else new_filename @ ''.mrr'');
          old_path = get_recording_path base filename subdirectory;
          new_path = get_recording_path base new_filename subdirectory
      in if \<not> is_safe_path t base old_path \<or> \<not> is_safe_path t base new_path then (Inl InvalidPath, t)
         else if \<not> path_exists t old_path then (Inl (RecordingNotFound filename), t)
         else if path_exists t new_path then (Inl (FileAlreadyExists new_filename), t)
         else case rename t old_path new_path of
                Some t' \<Rightarrow> if os then (Inr (), t') else (Inl RenameFailed, t)
              | None \<Rightarrow> (Inl RenameFailed, t))"

text \<open>\<open>create_dir_all\<close> creates the missing directories above the last one too.\<close>

function create_dir_all :: "tree \<Rightarrow> path \<Rightarrow> tree option" where
  "create_dir_all t p =
     (case create_dir t p of
        Some t' \<Rightarrow> Some t'
      | None \<Rightarrow>
          if is_dir t p then Some t
          else if dir_entry t p \<noteq> None \<or> p = [] then None
          else (case create_dir_all t (butlast p) of
                  Some t' \<Rightarrow> create_dir t' p
                | None \<Rightarrow> None))"
  by pat_completeness auto
termination
  by (relation "measure (\<lambda>(t, p). length p)") auto

declare create_dir_all.simps [simp del]

definition create_directory ::
  "bool \<Rightarrow> path \<Rightarrow> string \<Rightarrow> tree \<Rightarrow> (manager_error, unit, tree) io" where
  "create_directory os base name t =
     (if \<not> is_valid_name name then (Inl InvalidDirectoryName, t)
      else let p = path_join base name
      in if path_exists t p then (Inl (DirectoryAlreadyExists name), t)
         else case create_dir_all t p of
                Some t' \<Rightarrow> if os then (Inr (), t') else (Inl CreateDirectoryFailed, t)
              | None \<Rightarrow> (Inl CreateDirectoryFailed, t))"

definition delete_directory ::
  "bool \<Rightarrow> path \<Rightarrow> string \<Rightarrow> tree \<Rightarrow> (manager_error, unit, tree) io" where
  "delete_directory os base name t =
     (if \<not> is_valid_name name then (Inl InvalidDirectoryName, t)
      else let p = path_join base name
      in if \<not> path_exists t p then (Inl (DirectoryNotFound name), t)
         else if \<not> is_dir t p then (Inl (NotADirectory name), t)
         else case read_dir (\<lambda>es. es) t p of
                None \<Rightarrow> (Inl DeleteDirectoryFailed, t)
              | Some entries \<Rightarrow>
                  if entries \<noteq> [] then (Inl (DirectoryNotEmpty name (length entries)), t)
                  else case remove_dir t p of
                         Some t' \<Rightarrow> if os then (Inr (), t') else (Inl DeleteDirectoryFailed, t)
                       | None \<Rightarrow> (Inl DeleteDirectoryFailed, t))"

section \<open>A fresh file name\<close>

definition numbered_name :: "string \<Rightarrow> nat \<Rightarrow> string" where
  "numbered_name base_name counter = base_name @ ''_'' @ nat_str counter @ ''.mrr''"

lemma split_path_snoc:
  "CHR ''/'' \<notin> set s \<Longrightarrow> split_path (x @ s) = butlast (split_path x) @ [last (split_path x) @ s]"
proof (induction x rule: split_path.induct)
  case 1
  then show ?case by (simp add: split_path_single)
next
  case (2 c cs)
  obtain p ps where "split_path cs = p # ps" by (metis list.exhaust split_path_nonempty)
  with 2 show ?case by (cases ps) (auto split: list.splits)
qed

lemma split_numbered_name:
  "split_path (numbered_name b k) = butlast (split_path b) @ [last (split_path b) @ ''_'' @ nat_str k @ ''.mrr'']"
  unfolding numbered_name_def by (rule split_path_snoc) (simp add: nat_str_no_char)

lemma path_join_last:
  "last (path_join d s) = last (split_path s) \<and> path_join d s \<noteq> []"
  by (simp add: path_join_def)

lemma resolve_last_entry:
  "resolve n t cur (ps @ [c]) = Some q \<Longrightarrow> \<not> noop_piece c \<and> c \<noteq> ''..'' \<Longrightarrow>
    \<exists>d. map_of t (d @ [c]) \<noteq> None"
proof (induction n t cur ps rule: resolve.induct)
  case (1 n t cur)
  then show ?case by (auto split: option.splits)
next
  case (2 n t cur p ps)
  consider "noop_piece p" | "\<not> noop_piece p" "p = ''..''"
    | "\<not> noop_piece p" "p \<noteq> ''..''" "map_of t (cur @ [p]) = Some Dir"
    | a tg where "\<not> noop_piece p" "p \<noteq> ''..''" "map_of t (cur @ [p]) = Some (Link a tg)"
    using "2.prems"(1) by (auto split: if_splits option.splits node.splits)
  then show ?case
  proof cases
    case 1
    with 2 show ?thesis by simp
  next
    case 2
    with "2.IH"(2) "2.prems" show ?thesis by simp
  next
    case 3
    with "2.IH"(3)[OF 3 refl] "2.prems" show ?thesis by simp
  next
    case 4
    then obtain m where "n = Suc m" "resolve m t (if a then [] else cur) (tg @ ps @ [c]) = Some q"
      using "2.prems"(1) by (auto split: nat.splits)
    with "2.IH"(4)[OF 4 refl] "2.prems"(2) show ?thesis by simp
  qed
qed

lemma existing_entry:
  assumes "path_exists t (ps @ [c])" and "\<not> noop_piece c" and "c \<noteq> ''..''"
  shows "c \<in> last ` fst ` set t"
proof -
  from assms(1) obtain q where "resolve 40 t [] (ps @ [c]) = Some q"
    by (auto simp: path_exists_def canonicalize_def)
  from resolve_last_entry[OF this] assms(2,3) obtain d x where "map_of t (d @ [c]) = Some x"
    by auto
  then have "last (fst (d @ [c], x)) \<in> last ` fst ` set t"
    by (intro imageI) (rule map_of_SomeD)
  then show ?thesis by simp
qed

lemma finite_taken_names: "finite {k. c \<le> k \<and> path_exists t (path_join d (numbered_name b k))}"
proof (rule finite_subset)
  let ?f = "\<lambda>k. last (split_path b) @ ''_'' @ nat_str k @ ''.mrr''"
  show "{k. c \<le> k \<and> path_exists t (path_join d (numbered_name b k))} \<subseteq> ?f -` (last ` fst ` set t)"
  proof
    fix k assume "k \<in> {k. c \<le> k \<and> path_exists t (path_join d (numbered_name b k))}"
    then have "path_exists t (path_join d (numbered_name b k))" by simp
    moreover obtain ps where "path_join d (numbered_name b k) = ps @ [?f k]"
      using path_join_last[of d "numbered_name b k"] split_numbered_name[of b k]
      by (metis append_butlast_last_id last_snoc)
    moreover have "\<not> noop_piece (?f k)" "?f k \<noteq> ''..''"
      by (auto simp: noop_piece_def append_eq_Cons_conv)
    ultimately show "k \<in> ?f -` (last ` fst ` set t)"
      using existing_entry[of t _ "?f k"] by simp
  qed
  have "inj ?f" by (rule injI) simp
  then show "finite (?f -` (last ` fst ` set t))" by (intro finite_vimageI) auto
qed

function unused_name :: "tree \<Rightarrow> path \<Rightarrow> string \<Rightarrow> string \<Rightarrow> nat \<Rightarrow> string" where
  "unused_name t dir base_name name counter =
     (if path_exists t (path_join dir name)
      then unused_name t dir base_name (numbered_name base_name counter) (counter + 1)
      else name)"
  by pat_completeness auto
termination
proof (relation "measure (\<lambda>(t, dir, b, name, counter).
    card {k. counter \<le> k \<and> path_exists t (path_join dir (numbered_name b k))}
    + (if path_exists t (path_join dir name) then 1 else 0))")
  fix t :: tree and dir b name and counter :: nat
  assume ex: "path_exists t (path_join dir name)"
  let ?E = "\<lambda>c. {k. c \<le> k \<and> path_exists t (path_join dir (numbered_name b k))}"
  let ?hit = "path_exists t (path_join dir (numbered_name b counter))"
  have "card (?E counter) = card (?E (Suc counter)) + (if ?hit then 1 else 0)"
  proof (cases ?hit)
    case True
    then have "?E counter = insert counter (?E (Suc counter))" by (auto simp: Suc_le_eq le_less)
    then show ?thesis using True finite_taken_names[of "Suc counter" t dir b] by simp
  next
    case False
    then have "?E counter = ?E (Suc counter)" by (auto simp: Suc_le_eq le_less)
    with False show ?thesis by simp
  qed
  with ex show "((t, dir, b, numbered_name b counter, counter + 1), t, dir, b, name, counter)
      \<in> measure (\<lambda>(t, dir, b, name, counter).
        card {k. counter \<le> k \<and> path_exists t (path_join dir (numbered_name b k))}
        + (if path_exists t (path_join dir name) then 1 else 0))"
    by simp
qed simp

declare unused_name.simps [simp del]

definition generate_filename :: "tree \<Rightarrow> path \<Rightarrow> string \<Rightarrow> string option \<Rightarrow> string option \<Rightarrow> string" where
  "generate_filename t base now prefix_opt subdirectory =
     (let prefix_str = (case prefix_opt of Some p \<Rightarrow> if is_valid_name p then p else ''recording''
                        | None \<Rightarrow> ''recording'');
          base_name = prefix_str @ ''_'' @ now
      in unused_name t (sub_dir base subdirectory) base_name (base_name @ ''.mrr'') 1)"

end
