(* ===== verification/Manager_Correct.thy ===== *)
theory Manager_Correct
  imports Recording_Manager
begin

text \<open>
  What the recording manager guarantees: its operations stay below the recordings directory,
  leave everything alone when they report an error, and do what their names say.
\<close>

section \<open>Operations confined to a directory\<close>

definition path_ok :: "path \<Rightarrow> bool" where
  "path_ok p \<longleftrightarrow> list_all (\<lambda>c. CHR ''/'' \<notin> set c) p"

definition changes_below :: "path \<Rightarrow> tree \<Rightarrow> tree \<Rightarrow> bool" where
  "changes_below b t t' \<longleftrightarrow>
     (\<forall>p. map_of t' p \<noteq> map_of t p \<longrightarrow> prefix b p \<or> (\<exists>a target. map_of t p = Some (Link a target)))"

lemma changes_below_refl [simp]: "changes_below b t t"
  by (simp add: changes_below_def)

text \<open>
  The contract of a manager operation, as the server relies on it: an error leaves the tree as
  it was, the tree stays well-formed, and apart from symbolic links nothing outside the base
  directory changes.
\<close>

locale confined_op =
  fixes oper :: "path \<Rightarrow> tree \<Rightarrow> (manager_error, unit, tree) io"
  assumes error_atomic: "oper base t = (Inl e, t') \<Longrightarrow> t' = t"
    and keeps_wf: "tree_wf t \<Longrightarrow> path_ok base \<Longrightarrow> oper base t = (r, t') \<Longrightarrow> tree_wf t'"
    and confined: "tree_wf t \<Longrightarrow> canonicalize t base = Some b \<Longrightarrow> node_at t b = Some Dir \<Longrightarrow>
      oper base t = (r, t') \<Longrightarrow> changes_below b t t'"
begin

lemma outside_file_kept:
  assumes "tree_wf t" "canonicalize t base = Some b" "node_at t b = Some Dir" "oper base t = (r, t')"
    and "map_of t p = Some (File content mtime)" and "\<not> prefix b p"
  shows "map_of t' p = Some (File content mtime)"
  using confined[OF assms(1-4), unfolded changes_below_def, rule_format, of p] assms(5,6) by auto

lemma outside_nothing_created:
  assumes "tree_wf t" "canonicalize t base = Some b" "node_at t b = Some Dir" "oper base t = (r, t')"
    and "map_of t p = None" and "\<not> prefix b p"
  shows "map_of t' p = None"
  using confined[OF assms(1-4), unfolded changes_below_def, rule_format, of p] assms(5,6)
  by (cases "map_of t' p") auto

end

section \<open>Paths\<close>

lemma path_ok_split [simp]: "path_ok (split_path s)"
proof (induction s rule: split_path.induct)
  case (2 c cs)
  obtain p ps where "split_path cs = p # ps" by (metis list.exhaust split_path_nonempty)
  with 2 show ?case by (auto simp: path_ok_def)
qed (simp add: path_ok_def)

lemma path_ok_join [simp]: "path_ok p \<Longrightarrow> path_ok (path_join p s)"
  using path_ok_split[of s] by (auto simp: path_join_def path_ok_def)

lemma path_ok_sub_dir [simp]: "path_ok base \<Longrightarrow> path_ok (sub_dir base sub)"
  by (simp add: sub_dir_def split: option.splits)

lemma path_ok_recording [simp]: "path_ok base \<Longrightarrow> path_ok (get_recording_path base f sub)"
  by (simp add: get_recording_path_def)

lemma dir_entry_plain:
  assumes "dir_entry t p = Some (e, slash)" and "tree_wf t" and "path_ok p"
  obtains d c where "e = d @ [c]" "node_at t d = Some Dir" "list_all plain_piece d" "plain_piece c"
proof -
  from assms(1,2) obtain d c where *: "e = d @ [c]" "node_at t d = Some Dir" "list_all plain_piece d"
    "c \<noteq> ''..''" "\<not> noop_piece c" "\<exists>q k. p = q @ [c] @ replicate k [] \<and> canonicalize t q = Some d"
    by (rule dir_entry_Some)
  then have "c \<in> set p" by auto
  with assms(3) have "CHR ''/'' \<notin> set c" by (auto simp: path_ok_def list_all_iff)
  with * show ?thesis by (intro that[of d c]) (simp_all add: plain_piece_def)
qed

lemma create_dir_wf: "create_dir t p = Some t' \<Longrightarrow> tree_wf t \<Longrightarrow> path_ok p \<Longrightarrow> tree_wf t'"
  by (elim create_dir_effect dir_entry_plain) (auto intro: tree_wf_add)

lemma path_ok_butlast: "path_ok p \<Longrightarrow> path_ok (butlast p)"
  by (auto simp: path_ok_def list_all_iff dest: in_set_butlastD)

lemma create_dir_all_wf: "create_dir_all t p = Some t' \<Longrightarrow> tree_wf t \<Longrightarrow> path_ok p \<Longrightarrow> tree_wf t'"
proof (induction t p arbitrary: t' rule: create_dir_all.induct)
  case (1 t p)
  show ?case
  proof (cases "create_dir t p")
    case None
    with "1.prems"(1) consider "t' = t"
      | t1 where "\<not> is_dir t p" "\<not> (dir_entry t p \<noteq> None \<or> p = [])"
          "create_dir_all t (butlast p) = Some t1" "create_dir t1 p = Some t'"
      by (subst (asm) create_dir_all.simps) (auto split: option.splits if_splits)
    then show ?thesis
    proof cases
      case 2
      with 1(1)[OF None 2(1,2,3)] "1.prems" show ?thesis
        by (auto intro: create_dir_wf path_ok_butlast)
    qed (use "1.prems" in simp)
  next
    case (Some t1)
    with "1.prems" show ?thesis by (subst (asm) create_dir_all.simps) (auto intro: create_dir_wf)
  qed
qed

section \<open>Deleting\<close>

lemma safe_existing:
  "is_safe_path t base p \<Longrightarrow> canonicalize t base = Some b \<Longrightarrow> canonicalize t p = Some q \<Longrightarrow> prefix b q"
  by (simp add: is_safe_path_def)

lemma delete_recording_cases:
  assumes "delete_recording os base f sub t = (r, t')"
  obtains "t' = t" "r \<noteq> Inr ()"
    | "r = Inr ()" "is_safe_path t base (get_recording_path base f sub)"
      "path_exists t (get_recording_path base f sub)"
      "remove_file t (get_recording_path base f sub) = Some t'"
  using assms by (auto simp: delete_recording_def Let_def split: if_splits option.splits)

interpretation del: confined_op "\<lambda>base. delete_recording os base f sub" for os f sub
proof unfold_locales
  fix base t e t'
  assume "delete_recording os base f sub t = (Inl e, t')"
  then show "t' = t" by (rule delete_recording_cases) auto
next
  fix base t r t'
  assume wf: "tree_wf t" and "path_ok base"
  assume "delete_recording os base f sub t = (r, t')"
  then show "tree_wf t'"
  proof (cases rule: delete_recording_cases)
    case 2
    then obtain e x where e: "dir_entry t (get_recording_path base f sub) = Some (e, False)"
      "map_of t e = Some x" "x \<noteq> Dir" "t' = remove_entry e t"
      by (auto elim: remove_file_effect)
    moreover obtain d c where "e = d @ [c]" using e(1) wf by (rule dir_entry_Some)
    ultimately show ?thesis using wf by (auto intro: tree_wf_remove)
  qed (use wf in simp)
next
  fix base t b r t'
  assume wf: "tree_wf t" and b: "canonicalize t base = Some b"
  assume "delete_recording os base f sub t = (r, t')"
  then show "changes_below b t t'"
  proof (cases rule: delete_recording_cases)
    case 2
    then obtain e x where e: "dir_entry t (get_recording_path base f sub) = Some (e, False)"
      "map_of t e = Some x" "x \<noteq> Dir" "t' = remove_entry e t"
      by (auto elim: remove_file_effect)
    show ?thesis
    proof (cases x)
      case (File bs m)
      with e wf have "canonicalize t (get_recording_path base f sub) = Some e"
        by (auto intro: canonical_entry)
      with 2 b have "prefix b e" by (auto intro: safe_existing)
      with e show ?thesis by (auto simp: changes_below_def map_of_remove_entry)
    qed (use e in \<open>auto simp: changes_below_def map_of_remove_entry\<close>)
  qed simp
qed

section \<open>Renaming\<close>

abbreviation with_mrr :: "string \<Rightarrow> string" where
  "with_mrr f \<equiv> (if ends_with_mrr f then f else f @ ''.mrr'')"

lemma ends_with_mrr_last:
  assumes "ends_with_mrr f"
  shows "\<exists>p x. split_path f = p @ [x @ ''.mrr'']"
proof -
  from assms obtain y where "f = y @ ''.mrr''" by (auto simp: ends_with_mrr_def suffix_def)
  then show ?thesis using split_path_snoc[of "''.mrr''" y] by auto
qed

lemma with_mrr_path:
  obtains q x where "get_recording_path base (with_mrr f) sub = q @ [x @ ''.mrr'']"
proof -
  have "ends_with_mrr (with_mrr f)" by (simp add: ends_with_mrr_def suffix_def)
  from ends_with_mrr_last[OF this] obtain p x where "split_path (with_mrr f) = p @ [x @ ''.mrr'']"
    by blast
  then show ?thesis
    by (intro that[of "(if with_mrr f \<noteq> [] \<and> hd (with_mrr f) = CHR ''/'' then [] else sub_dir base sub) @ p" x])
      (simp add: get_recording_path_def path_join_def)
qed

text \<open>The entry a new file gets lies below the base directory when its path is safe.\<close>

lemma safe_new_entry:
  assumes wf: "tree_wf t" and "is_safe_path t base p" and b: "canonicalize t base = Some b"
    and "\<not> path_exists t p" and p: "p = q @ [x @ ''.mrr'']" and e: "dir_entry t p = Some (e, s)"
  shows "prefix b e \<and> \<not> s"
proof -
  have nn: "\<not> noop_piece (x @ ''.mrr'')" "x @ ''.mrr'' \<noteq> []"
    by (auto simp: noop_piece_def append_eq_Cons_conv)
  then have trim: "trim_right p = p" and parent: "path_parent p = Some (trim_right q)"
    by (simp_all add: p trim_right_def path_parent_def Let_def)
  from nn e p have s: "\<not> s" by (auto simp: dir_entry_def Let_def split: if_splits option.splits)
  moreover from e wf obtain d c where "e = d @ [c]"
    "s \<or> p \<noteq> [] \<and> canonicalize t (butlast p) = Some d \<and> last p = c"
    by (rule dir_entry_Some)
  ultimately have d: "e = d @ [x @ ''.mrr'']" "canonicalize t q = Some d" by (simp_all add: p)
  from assms(2,4) b parent obtain d' where d': "canonicalize t (trim_right q) = Some d'" "prefix b d'"
    by (auto simp: is_safe_path_def path_exists_def split: option.splits)
  with canonicalize_trim[OF wf d(2)] have "d' = d" by simp
  with d d' s show ?thesis by (auto simp: prefix_def)
qed

lemma rename_recording_cases:
  assumes "rename_recording os base f g sub t = (r, t')"
  obtains "t' = t" "r \<noteq> Inr ()"
    | "r = Inr ()" "is_safe_path t base (get_recording_path base f sub)"
      "is_safe_path t base (get_recording_path base (with_mrr g) sub)"
      "path_exists t (get_recording_path base f sub)"
      "\<not> path_exists t (get_recording_path base (with_mrr g) sub)"
      "rename t (get_recording_path base f sub) (get_recording_path base (with_mrr g) sub) = Some t'"
  using assms unfolding rename_recording_def Let_def
  by (auto simp del: append_is_Nil_conv split: if_splits option.splits)

lemma rename_recording_moved:
  assumes "rename_recording os base f g sub t = (Inr (), t')" and wf: "tree_wf t"
    and b: "canonicalize t base = Some b"
  obtains eo so en x where "dir_entry t (get_recording_path base f sub) = Some (eo, so)"
    "dir_entry t (get_recording_path base (with_mrr g) sub) = Some (en, False)"
    "map_of t eo = Some x" "eo = en \<and> t' = t \<or> apart eo en \<and> t' = move_entries eo en t"
    "\<And>q y. q \<noteq> [] \<Longrightarrow> eo \<noteq> en \<Longrightarrow> map_of t (en @ q) \<noteq> Some y" "prefix b en"
    "(\<forall>a target. x \<noteq> Link a target) \<Longrightarrow> prefix b eo"
proof (rule rename_recording_cases[OF assms(1)])
  let ?p = "get_recording_path base f sub" and ?q = "get_recording_path base (with_mrr g) sub"
  assume safe: "is_safe_path t base ?p" "is_safe_path t base ?q"
    and new: "\<not> path_exists t ?q" and ren: "rename t ?p ?q = Some t'"
  obtain q x where q: "?q = q @ [x @ ''.mrr'']" by (rule with_mrr_path)
  from ren wf show ?thesis
  proof (rule rename_effect)
    fix eo so en sn x
    assume e: "dir_entry t ?p = Some (eo, so)" "dir_entry t ?q = Some (en, sn)" "map_of t eo = Some x"
      "eo = en \<and> t' = t \<or> apart eo en \<and> t' = move_entries eo en t"
      "\<And>q y. q \<noteq> [] \<Longrightarrow> eo \<noteq> en \<Longrightarrow> map_of t (en @ q) \<noteq> Some y" "so \<Longrightarrow> x = Dir"
    note pe = safe_new_entry[OF wf safe(2) b new q e(2)]
    have "prefix b eo" if "\<forall>a target. x \<noteq> Link a target"
    proof -
      from that e(6) have "x = Dir \<or> (\<exists>bs m. x = File bs m) \<and> \<not> so" by (cases x) auto
      with e(1,3) wf have "canonicalize t ?p = Some eo" by (auto intro: canonical_entry)
      with safe(1) b show ?thesis by (auto intro: safe_existing)
    qed
    with e pe show ?thesis by (intro that[of eo so en x]) auto
  qed
qed simp

lemma below_nondir:
  "tree_wf t \<Longrightarrow> node_at t e \<noteq> Some Dir \<Longrightarrow> q \<noteq> [] \<Longrightarrow> map_of t (e @ q) = None"
  using tree_wf_ancestor[of t e q] by (cases "map_of t (e @ q)") auto

interpretation ren: confined_op "\<lambda>base. rename_recording os base f g sub" for os f g sub
proof unfold_locales
  fix base t e t'
  assume "rename_recording os base f g sub t = (Inl e, t')"
  then show "t' = t" by (rule rename_recording_cases) auto
next
  fix base t r t'
  assume wf: "tree_wf t" and ok: "path_ok base"
  assume "rename_recording os base f g sub t = (r, t')"
  then show "tree_wf t'"
  proof (cases rule: rename_recording_cases)
    case 2
    from 2(6) wf show ?thesis
    proof (rule rename_effect)
      fix eo so en sn x
      assume e: "dir_entry t (get_recording_path base (with_mrr g) sub) = Some (en, sn)"
        "map_of t eo = Some x" "eo = en \<and> t' = t \<or> apart eo en \<and> t' = move_entries eo en t"
        "\<And>q y. q \<noteq> [] \<Longrightarrow> eo \<noteq> en \<Longrightarrow> map_of t (en @ q) \<noteq> Some y"
      have "path_ok (get_recording_path base (with_mrr g) sub)" using ok by simp
      from e(1) wf this obtain d c where "en = d @ [c]" "node_at t d = Some Dir" "list_all plain_piece d" "plain_piece c"
        by (rule dir_entry_plain)
      note en = this
      show ?thesis
      proof (cases "eo = en")
        case True
        with e(3) wf show ?thesis by (auto simp: apart_def)
      next
        case False
        with e(3) have "apart eo en" "t' = move_entries eo en t" by auto
        with tree_wf_move[OF wf this(1) e(2) en(1,2) _ e(4)[OF _ False]] en show ?thesis by simp
      qed
    qed
  qed (use wf in simp)
next
  fix base t b r t'
  assume wf: "tree_wf t" and b: "canonicalize t base = Some b"
  assume op: "rename_recording os base f g sub t = (r, t')"
  then show "changes_below b t t'"
  proof (cases rule: rename_recording_cases)
    case 2
    from op[unfolded 2(1)] wf b show ?thesis
    proof (rule rename_recording_moved)
      fix eo so en x
      assume e: "map_of t eo = Some x" "eo = en \<and> t' = t \<or> apart eo en \<and> t' = move_entries eo en t"
        "\<And>q y. q \<noteq> [] \<Longrightarrow> eo \<noteq> en \<Longrightarrow> map_of t (en @ q) \<noteq> Some y" "prefix b en"
        "(\<forall>a target. x \<noteq> Link a target) \<Longrightarrow> prefix b eo"
      have "prefix b p \<or> (\<exists>a target. map_of t p = Some (Link a target))"
        if ap: "apart eo en" and t': "t' = move_entries eo en t" and ch: "map_of t' p \<noteq> map_of t p" for p
      proof -
        from ap have ne: "eo \<noteq> en" by (auto simp: apart_def)
        from ch t' map_of_move[OF ap e(3)[OF _ ne]] have "prefix en p \<or> prefix eo p \<and> \<not> prefix en p"
          by (auto split: if_splits)
        then show ?thesis
        proof
          assume old: "prefix eo p \<and> \<not> prefix en p"
          show ?thesis
          proof (cases "p = eo \<or> x = Dir")
            case True
            with e(1,5) old show ?thesis by (cases x) (auto intro: prefix_order.trans)
          next
            case False
            obtain q where q: "p = eo @ q" "q \<noteq> []" using old False by (auto simp: prefix_def)
            have "node_at t eo \<noteq> Some Dir"
              using False e(1) tree_wf_entry[OF wf e(1)] by (simp add: node_at_def)
            from below_nondir[OF wf this q(2)] q(1) have "map_of t p = None" by simp
            with ch t' map_of_move[OF ap e(3)[OF _ ne]] old show ?thesis by simp
          qed
        qed (use e(4) in \<open>auto intro: prefix_order.trans\<close>)
      qed
      with e(2) show ?thesis by (auto simp: changes_below_def)
    qed
  qed simp
qed

section \<open>Directories\<close>

lemma valid_name_piece:
  assumes "is_valid_name name" and "\<not> noop_piece name"
  shows "plain_piece name \<and> path_join base name = base @ [name]"
  using assms by (auto simp: is_valid_name_def plain_piece_def path_join_single)

lemma noop_exists:
  assumes "canonicalize t base = Some b" and "node_at t b = Some Dir" and "noop_piece c"
  shows "canonicalize t (path_join base c) = Some b"
proof -
  have "path_join base c = base @ [c]" using assms(3) by (auto simp: noop_piece_def path_join_def)
  with resolve_noops[of 40 t "[]" base b "[c]"] assms show ?thesis by (simp add: canonicalize_def)
qed

lemma dir_entry_child:
  assumes "canonicalize t base = Some b" and "node_at t b = Some Dir" and "plain_piece c"
  shows "dir_entry t (base @ [c]) = Some (b @ [c], False)"
  using assms by (auto simp: dir_entry_def plain_piece_def noop_piece_def)

text \<open>Creating a directory that does not exist adds one child to the base directory.\<close>

lemma create_directory_child:
  assumes "create_directory os base name t = (r, t')"
    and b: "canonicalize t base = Some b" "node_at t b = Some Dir"
  shows "t' = t \<and> r \<noteq> Inr () \<or>
    r = Inr () \<and> plain_piece name \<and> map_of t (b @ [name]) = None \<and> t' = (b @ [name], Dir) # t"
proof (cases "is_valid_name name \<and> \<not> path_exists t (path_join base name)")
  case True
  then have p: "plain_piece name" "path_join base name = base @ [name]"
    using valid_name_piece[of name base] noop_exists[OF b, of name]
    by (cases "noop_piece name"; simp add: path_exists_def)+
  note de = dir_entry_child[OF b p(1)]
  have cd: "create_dir t (base @ [name]) =
      (if map_of t (b @ [name]) = None then Some ((b @ [name], Dir) # t) else None)"
    by (simp add: create_dir_def de)
  have "create_dir_all t (base @ [name]) =
      (if map_of t (b @ [name]) = None then Some ((b @ [name], Dir) # t) else None)"
    using True p de by (subst create_dir_all.simps) (simp add: cd is_dir_def path_exists_def)
  with assms(1) True p show ?thesis
    by (auto simp: create_directory_def split: if_splits)
qed (use assms in \<open>auto simp: create_directory_def Let_def split: if_splits\<close>)

lemma create_directory_cases:
  assumes "create_directory os base name t = (r, t')"
  obtains "t' = t" "r \<noteq> Inr ()" | "r = Inr ()" "create_dir_all t (path_join base name) = Some t'"
  using assms by (auto simp: create_directory_def Let_def split: if_splits option.splits)

interpretation mkd: confined_op "\<lambda>base. create_directory os base name" for os name
proof unfold_locales
  fix base t e t'
  assume "create_directory os base name t = (Inl e, t')"
  then show "t' = t" by (rule create_directory_cases) auto
next
  fix base t r t'
  assume "tree_wf t" and "path_ok base" and "create_directory os base name t = (r, t')"
  then show "tree_wf t'" by (elim create_directory_cases) (auto intro: create_dir_all_wf)
next
  fix base t b r t'
  assume "canonicalize t base = Some b" "node_at t b = Some Dir" "create_directory os base name t = (r, t')"
  from create_directory_child[OF this(3,1,2)] show "changes_below b t t'"
    by (auto simp: changes_below_def prefix_def)
qed

lemma delete_directory_cases:
  assumes "delete_directory os base name t = (r, t')"
  obtains "t' = t" "r \<noteq> Inr ()"
    | "r = Inr ()" "is_valid_name name" "remove_dir t (path_join base name) = Some t'"
  using assms by (auto simp: delete_directory_def Let_def split: if_splits option.splits)

lemma delete_directory_child:
  assumes "delete_directory os base name t = (Inr (), t')" and wf: "tree_wf t"
    and b: "canonicalize t base = Some b" "node_at t b = Some Dir"
  obtains e where "prefix b e" "map_of t e = Some Dir" "children t e = []" "t' = remove_entry e t"
proof (rule delete_directory_cases[OF assms(1)])
  assume v: "is_valid_name name" and rm: "remove_dir t (path_join base name) = Some t'"
  then obtain e s where e: "dir_entry t (path_join base name) = Some (e, s)" "map_of t e = Some Dir"
    "children t e = []" "t' = remove_entry e t"
    by (auto elim: remove_dir_effect)
  from canonical_entry[OF e(1) wf e(2)] have can: "canonicalize t (path_join base name) = Some e" by simp
  have "prefix b e"
  proof (cases "noop_piece name")
    case True
    with noop_exists[OF b] can show ?thesis by simp
  next
    case False
    from valid_name_piece[OF v this] dir_entry_child[OF b] e(1) show ?thesis
      by (metis Pair_inject option.inject prefixI)
  qed
  with e show ?thesis by (intro that)
qed simp

interpretation rmd: confined_op "\<lambda>base. delete_directory os base name" for os name
proof unfold_locales
  fix base t e t'
  assume "delete_directory os base name t = (Inl e, t')"
  then show "t' = t" by (rule delete_directory_cases) auto
next
  fix base t r t'
  assume wf: "tree_wf t" and "path_ok base" and "delete_directory os base name t = (r, t')"
  then show "tree_wf t'"
    by (elim delete_directory_cases remove_dir_effect)
      (auto intro!: tree_wf_remove dest: tree_wf_entry)
next
  fix base t b r t'
  assume wf: "tree_wf t" and b: "canonicalize t base = Some b" "node_at t b = Some Dir"
    and op: "delete_directory os base name t = (r, t')"
  from op show "changes_below b t t'"
  proof (cases rule: delete_directory_cases)
    case 2
    obtain e where "prefix b e" "t' = remove_entry e t"
      using op[unfolded 2(1)] wf b by (rule delete_directory_child)
    then show ?thesis by (auto simp: changes_below_def map_of_remove_entry)
  qed simp
qed

section \<open>Properties\<close>

datatype manager_request =
    DeleteRecording string "string option"
  | RenameRecording string string "string option"
  | CreateDirectory string
  | DeleteDirectory string

definition manager_step ::
  "bool \<Rightarrow> path \<Rightarrow> manager_request \<Rightarrow> tree \<Rightarrow> (manager_error, unit, tree) io" where
  "manager_step os base req t =
     (case req of
        DeleteRecording f sub \<Rightarrow> delete_recording os base f sub t
      | RenameRecording f g sub \<Rightarrow> rename_recording os base f g sub t
      | CreateDirectory name \<Rightarrow> create_directory os base name t
      | DeleteDirectory name \<Rightarrow> delete_directory os base name t)"

text \<open>A tree for the examples: a recordings directory and a file next to it.\<close>

definition sample_tree :: tree where
  "sample_tree = [([''rec''], Dir), ([''rec'', ''a.mrr''], File [1, 2] None),
     ([''etc''], Dir), ([''etc'', ''passwd''], File [3] None)]"

lemma sample_tree_wf: "tree_wf sample_tree"
  by (simp add: tree_wf_def sample_tree_def node_at_def plain_piece_def noop_piece_def)

lemma sample_base: "canonicalize sample_tree [''rec''] = Some [''rec''] \<and> node_at sample_tree [''rec''] = Some Dir"
  by (simp add: canonicalize_def sample_tree_def node_at_def noop_piece_def)

text \<open>
  C7. No request of a client reaches outside the recordings directory. Whatever file names,
  subdirectories (absolute, with \<open>..\<close>, through symbolic links) a delete, rename, create or remove
  request carries: every file outside the directory keeps its contents, nothing is created
  outside it, a request that reports an error changes nothing, and the tree stays well-formed.
\<close>

theorem manager_confined:
  assumes "tree_wf t" and "path_ok base" and "canonicalize t base = Some b" and "node_at t b = Some Dir"
    and "manager_step os base req t = (r, t')"
  shows "tree_wf t' \<and> (\<forall>e. r = Inl e \<longrightarrow> t' = t)
    \<and> (\<forall>p content mtime. map_of t p = Some (File content mtime) \<and> \<not> prefix b p
        \<longrightarrow> map_of t' p = Some (File content mtime))
    \<and> (\<forall>p. map_of t p = None \<and> \<not> prefix b p \<longrightarrow> map_of t' p = None)"
proof (cases req)
  case (DeleteRecording f sub)
  with assms show ?thesis
    by (auto simp: manager_step_def dest: del.keeps_wf del.error_atomic del.outside_file_kept
        del.outside_nothing_created)
next
  case (RenameRecording f g sub)
  with assms show ?thesis
    by (auto simp: manager_step_def dest: ren.keeps_wf ren.error_atomic ren.outside_file_kept
        ren.outside_nothing_created)
next
  case (CreateDirectory name)
  with assms show ?thesis
    by (auto simp: manager_step_def dest: mkd.keeps_wf mkd.error_atomic mkd.outside_file_kept
        mkd.outside_nothing_created)
next
  case (DeleteDirectory name)
  with assms show ?thesis
    by (auto simp: manager_step_def dest: rmd.keeps_wf rmd.error_atomic rmd.outside_file_kept
        rmd.outside_nothing_created)
qed

theorem manager_confined_witness:
  "manager_step True [''rec''] (DeleteRecording ''../etc/passwd'' None) sample_tree = (Inl InvalidPath, sample_tree)
   \<and> fst (manager_step True [''rec''] (DeleteRecording ''a.mrr'' None) sample_tree) = Inr ()
   \<and> map_of (snd (manager_step True [''rec''] (DeleteRecording ''a.mrr'' None) sample_tree)) [''etc'', ''passwd'']
      = Some (File [3] None)"
proof -
  have ok: "path_ok [''rec'']" by (simp add: path_ok_def)
  have bad: "manager_step True [''rec''] (DeleteRecording ''../etc/passwd'' None) sample_tree = (Inl InvalidPath, sample_tree)"
    by (simp add: manager_step_def delete_recording_def get_recording_path_def sub_dir_def path_join_def
        is_safe_path_def canonicalize_def sample_tree_def node_at_def noop_piece_def)
  have good: "manager_step True [''rec''] (DeleteRecording ''a.mrr'' None) sample_tree
      = (Inr (), remove_entry [''rec'', ''a.mrr''] sample_tree)"
    by (simp add: manager_step_def delete_recording_def get_recording_path_def sub_dir_def path_join_def
        is_safe_path_def canonicalize_def sample_tree_def node_at_def noop_piece_def path_exists_def
        remove_file_def dir_entry_def Let_def)
  have etc: "map_of sample_tree [''etc'', ''passwd''] = Some (File [3] None) \<and> \<not> prefix [''rec''] [''etc'', ''passwd'']"
    by (simp add: sample_tree_def)
  from manager_confined[OF sample_tree_wf ok conjunct1[OF sample_base] conjunct2[OF sample_base] good] etc bad good
  show ?thesis by auto
qed

text \<open>
  C20. A successful rename moves the recording and nothing else: the new name has the node the old
  name had, the old name is gone, and every entry that is neither at or below the old nor at or
  below the new name is as before.
\<close>

theorem rename_recording_moves:
  assumes "tree_wf t" and "canonicalize t base = Some b"
    and "rename_recording os base f g sub t = (Inr (), t')"
    and "dir_entry t (get_recording_path base f sub) = Some (eo, s)"
    and "\<forall>a target. map_of t eo \<noteq> Some (Link a target)"
  shows "\<exists>en. dir_entry t (get_recording_path base (if ends_with_mrr g then g else g @ ''.mrr'') sub) = Some (en, False)
    \<and> prefix b eo \<and> prefix b en \<and> eo \<noteq> en \<and> map_of t eo \<noteq> None
    \<and> map_of t' en = map_of t eo \<and> map_of t' eo = None
    \<and> (\<forall>p. \<not> prefix eo p \<and> \<not> prefix en p \<longrightarrow> map_of t' p = map_of t p)"
  using assms(3,1,2)
proof (rule rename_recording_moved)
  fix eo' so en x
  let ?q = "get_recording_path base (with_mrr g) sub"
  assume e: "dir_entry t (get_recording_path base f sub) = Some (eo', so)"
    "dir_entry t ?q = Some (en, False)" "map_of t eo' = Some x"
    "eo' = en \<and> t' = t \<or> apart eo' en \<and> t' = move_entries eo' en t"
    "\<And>q y. q \<noteq> [] \<Longrightarrow> eo' \<noteq> en \<Longrightarrow> map_of t (en @ q) \<noteq> Some y"
    "prefix b en" "(\<forall>a target. x \<noteq> Link a target) \<Longrightarrow> prefix b eo'"
  from e(1) assms(4) have eo: "eo' = eo" by simp
  have nolink: "\<forall>a target. x \<noteq> Link a target" using assms(5) e(3) by (auto simp: eo)
  have new: "\<not> path_exists t ?q" using assms(3) by (rule rename_recording_cases) auto
  have ne: "eo \<noteq> en"
  proof
    assume "eo = en"
    moreover have "x = Dir \<or> (\<exists>bs m. x = File bs m)" using nolink by (cases x) auto
    ultimately have "canonicalize t ?q = Some en"
      using e(2,3) assms(1) by (auto simp: eo intro: canonical_entry)
    with new show False by (simp add: path_exists_def)
  qed
  with e(4) have ap: "apart eo en" and t': "t' = move_entries eo en t" by (auto simp: eo)
  note mv = map_of_move[OF ap e(5)[unfolded eo, OF _ ne]]
  have "map_of t' en = map_of t eo" "map_of t' eo = None"
    "\<And>p. \<not> prefix eo p \<and> \<not> prefix en p \<Longrightarrow> map_of t' p = map_of t p"
    using ap by (simp_all add: t' mv apart_def)
  with e nolink ne eo show ?thesis by auto
qed

theorem rename_recording_moves_witness:
  "\<exists>t'. rename_recording True [''rec''] ''a.mrr'' ''b'' None sample_tree = (Inr (), t')
    \<and> map_of t' [''rec'', ''b.mrr''] = Some (File [1, 2] None) \<and> map_of t' [''rec'', ''a.mrr''] = None"
proof -
  let ?t' = "move_entries [''rec'', ''a.mrr''] [''rec'', ''b.mrr''] sample_tree"
  have de: "dir_entry sample_tree (get_recording_path [''rec''] ''a.mrr'' None) = Some ([''rec'', ''a.mrr''], False)"
    "dir_entry sample_tree (get_recording_path [''rec''] ''b.mrr'' None) = Some ([''rec'', ''b.mrr''], False)"
    by (simp_all add: dir_entry_def get_recording_path_def sub_dir_def path_join_def canonicalize_def
        sample_tree_def node_at_def noop_piece_def)
  have op: "rename_recording True [''rec''] ''a.mrr'' ''b'' None sample_tree = (Inr (), ?t')"
    by (simp add: rename_recording_def get_recording_path_def sub_dir_def path_join_def is_safe_path_def
        canonicalize_def sample_tree_def node_at_def noop_piece_def path_exists_def rename_def dir_entry_def
        may_replace_def ends_with_mrr_def suffix_Cons path_parent_def trim_right_def Let_def)
  have node: "map_of sample_tree [''rec'', ''a.mrr''] = Some (File [1, 2] None)"
    by (simp add: sample_tree_def)
  from rename_recording_moves[OF sample_tree_wf conjunct1[OF sample_base] op de(1)] node de(2) op
  show ?thesis by (auto simp: ends_with_mrr_def suffix_Cons)
qed

lemma unused_name_fresh:
  "\<not> path_exists t (path_join d (unused_name t d b name k))
   \<and> (ends_with_mrr name \<longrightarrow> ends_with_mrr (unused_name t d b name k))"
proof (induction t d b name k rule: unused_name.induct)
  case (1 t d b name k)
  have "ends_with_mrr (numbered_name b k)"
    by (simp add: ends_with_mrr_def numbered_name_def suffix_def)
  with 1 show ?case
    by (cases "path_exists t (path_join d name)") (subst (1 2) unused_name.simps, simp)+
qed


text \<open>
  C22. What the manager reports of a finished recording is what was recorded: for a file that the
  writer finished, the information has the frame count, the time stamp of the last frame, the
  start time and the radar parameters the writer was given, and the size of the file.
\<close>

theorem finished_recording_info:
  assumes "MrrWriter_new s now brand spr msl pv caps init = (Inr w, s1)"
    and "s_bytes s = []" and "s_pos s = 0"
    and "write_frames fs w = (Inr (), w')" and "MrrWriter_finish w' = (Inr (), s')"
    and "canonicalize t p = Some q" and "node_at t q = Some (File (s_bytes s') mtime)"
    and "file_name p = Some name"
  shows "get_recording_info t p sub =
    Some \<lparr>ri_filename = name, ri_path = p, ri_size = of_nat (length (s_bytes s')),
      ri_duration_ms = (if fs = [] then 0 else fr_timestamp_ms (last fs)),
      ri_frame_count = of_nat (length fs), ri_start_time_ms = now,
      ri_modified_ms = (case mtime of Some m \<Rightarrow> m | None \<Rightarrow> 0), ri_radar_brand = brand,
      ri_spokes_per_rev = spr, ri_max_spoke_len = msl, ri_subdirectory = sub\<rparr>"
proof -
  let ?h = "w_header w" and ?f = "footer_for caps init fs" and ?bs = "s_bytes s'"
  note rec = written_recording[OF assms(1-5)]
  then have "MrrHeader_ok ?h" by (simp add: header_for_def MrrHeader_ok_def)
  obtain rest1 where "?bs = MrrHeader_bytes ?h @ rest1" using rec by (simp add: mrr_file_def)
  then have hd: "on_cursor MrrHeader_read \<lparr>c_data = ?bs, c_pos = 0\<rparr> = (Inr ?h, \<lparr>c_data = ?bs, c_pos = HEADER_SIZE\<rparr>)"
    using on_cursor_dec[of "\<lparr>c_data = ?bs, c_pos = 0\<rparr>" "MrrHeader_bytes ?h" rest1 MrrHeader_read] \<open>MrrHeader_ok ?h\<close>
    by (simp add: header.dec_enc)
  have len: "FOOTER_SIZE \<le> length ?bs" using rec by (simp add: length_mrr_file)
  have "drop (length ?bs - length (MrrFooter_bytes ?f)) ?bs = MrrFooter_bytes ?f"
    using rec by (simp add: mrr_file_def del: length_MrrFooter_bytes)
  then have ft: "on_cursor MrrFooter_read \<lparr>c_data = ?bs, c_pos = length ?bs - FOOTER_SIZE\<rparr>
      = (Inr ?f, \<lparr>c_data = ?bs, c_pos = length ?bs - FOOTER_SIZE + FOOTER_SIZE\<rparr>)"
    using on_cursor_dec[of "\<lparr>c_data = ?bs, c_pos = length ?bs - FOOTER_SIZE\<rparr>" "MrrFooter_bytes ?f" "[]" MrrFooter_read]
      footer.dec_enc[of ?f "[]"]
    by simp
  show ?thesis
    using conjunct2[OF rec] len assms(6-8)
    by (simp add: get_recording_info_def hd seek_end_def ft footer_for_def)
qed

theorem finished_recording_info_witness:
  "\<exists>w s1 w' s'.
    MrrWriter_new \<lparr>s_bytes = [], s_pos = 0, s_fault = None\<rparr> 1000 3 2048 1024 16 [] [] = (Inr w, s1)
    \<and> write_frames [MrrFrame_new 7 [9], MrrFrame_new 12 []] w = (Inr (), w') \<and> MrrWriter_finish w' = (Inr (), s')
    \<and> map_option ri_duration_ms
        (get_recording_info [([''r.mrr''], File (s_bytes s') (Some 5))] [''r.mrr''] None) = Some 12
    \<and> map_option ri_frame_count
        (get_recording_info [([''r.mrr''], File (s_bytes s') (Some 5))] [''r.mrr''] None) = Some 2"
proof -
  let ?s = "\<lparr>s_bytes = [], s_pos = 0, s_fault = None\<rparr>" and ?fs = "[MrrFrame_new 7 [9], MrrFrame_new 12 []]"
  obtain w s1 where w: "MrrWriter_new ?s 1000 3 2048 1024 16 [] [] = (Inr w, s1)" "s_fault (w_writer w) = None"
    using MrrWriter_new_total[of ?s 1000 3 2048 1024 16 "[]" "[]"] by auto
  from write_frames_total[OF w(2)] obtain w' where
    w': "write_frames ?fs w = (Inr (), w')" "s_fault (w_writer w') = None" by blast
  from MrrWriter_finish_total[OF w'(2)] obtain s' where s': "MrrWriter_finish w' = (Inr (), s')" by blast
  let ?t = "[([''r.mrr''], File (s_bytes s') (Some 5))]"
  have "canonicalize ?t [''r.mrr''] = Some [''r.mrr'']" "node_at ?t [''r.mrr''] = Some (File (s_bytes s') (Some 5))"
    "file_name [''r.mrr''] = Some ''r.mrr''"
    by (simp_all add: canonicalize_def node_at_def file_name_def trim_right_def noop_piece_def)
  from finished_recording_info[OF w(1) _ _ w'(1) s' this, of None] w(1) w'(1) s' show ?thesis
    by (auto simp: MrrFrame_new_def)
qed



end
