(* ===== verification/Recorder.thy ===== *)
theory Recorder
  imports Manager_Correct
begin

text \<open>
  The recorder: starting a recording, the task that writes every message of a radar's broadcast
  channel to the file, and the handle through which clients watch and stop it. The task is a
  state machine: its events are the outcomes of waiting on the channel, with the clock's reading
  where the source takes one, interleaved in any way with a client's stop request.
\<close>

section \<open>Brands\<close>

datatype Brand = Furuno | Garmin | Navico | Raymarine | Emulator | Playback

definition brand_to_id :: "Brand \<Rightarrow> u32" where
  "brand_to_id brand =
     (case brand of Furuno \<Rightarrow> 1 | Garmin \<Rightarrow> 2 | Navico \<Rightarrow> 3 | Raymarine \<Rightarrow> 4 | Emulator \<Rightarrow> 5 | Playback \<Rightarrow> 6)"

definition id_to_brand :: "u32 \<Rightarrow> Brand option" where
  "id_to_brand i =
     (if i = 1 then Some Furuno else if i = 2 then Some Garmin else if i = 3 then Some Navico
      else if i = 4 then Some Raymarine else if i = 5 then Some Emulator
      else if i = 6 then Some Playback else None)"

lemma id_to_brand_to_id [simp]: "id_to_brand (brand_to_id b) = Some b"
  by (cases b) (simp_all add: brand_to_id_def id_to_brand_def)

section \<open>The handle of a recording\<close>

record RecordingStatus =
  rs_state :: string
  rs_radar_id :: "string option"
  rs_filename :: "string option"
  rs_subdirectory :: "string option"
  rs_frame_count :: u32
  rs_duration_ms :: u64
  rs_size_bytes :: u64
  rs_start_time_ms :: "u64 option"

definition RecordingStatus_default :: RecordingStatus where
  "RecordingStatus_default =
     \<lparr>rs_state = ''idle'', rs_radar_id = None, rs_filename = None, rs_subdirectory = None,
      rs_frame_count = 0, rs_duration_ms = 0, rs_size_bytes = 0, rs_start_time_ms = None\<rparr>"

record ActiveRecording =
  ar_radar_id :: string
  ar_filename :: string
  ar_subdirectory :: "string option"
  ar_start_time_ms :: u64

text \<open>The variables the handle and the task share.\<close>

record recording_shared =
  stop_flag :: bool
  frame_count :: u32
  duration_ms :: u64
  size_bytes :: u64

definition ActiveRecording_stop :: "recording_shared \<Rightarrow> recording_shared" where
  "ActiveRecording_stop v = v\<lparr>stop_flag := True\<rparr>"

definition ActiveRecording_is_running :: "recording_shared \<Rightarrow> bool" where
  "ActiveRecording_is_running v \<longleftrightarrow> \<not> stop_flag v"

definition ActiveRecording_status :: "ActiveRecording \<Rightarrow> recording_shared \<Rightarrow> RecordingStatus" where
  "ActiveRecording_status a v =
     \<lparr>rs_state = ''recording'', rs_radar_id = Some (ar_radar_id a), rs_filename = Some (ar_filename a),
      rs_subdirectory = ar_subdirectory a, rs_frame_count = frame_count v,
      rs_duration_ms = duration_ms v, rs_size_bytes = size_bytes v,
      rs_start_time_ms = Some (ar_start_time_ms a)\<rparr>"

section \<open>The recording task\<close>

datatype rec_pc = LoopTop | Receiving | Leaving | Done "io_error + unit" sink

record recording_task =
  rt_writer :: MrrWriter
  rt_shared :: recording_shared
  rt_frames :: u32
  rt_approx_size :: u64
  rt_pc :: rec_pc

datatype rec_event =
    StopRequest
  | CheckStop
  | Received u64 bytes
  | Lagged u64
  | Closed
  | TimedOut
  | Finish u64

definition recording_received :: "u64 \<Rightarrow> bytes \<Rightarrow> recording_task \<Rightarrow> recording_task" where
  "recording_received timestamp_ms data t =
     (let frame = MrrFrame_new timestamp_ms data;
          approx_size = rt_approx_size t + of_nat (MrrFrame_size frame)
      in case MrrWriter_write_frame frame (rt_writer t) of
           (Inl e, w) \<Rightarrow> t\<lparr>rt_writer := w, rt_approx_size := approx_size, rt_pc := Leaving\<rparr>
         | (Inr _, w) \<Rightarrow>
             let frames = rt_frames t + 1
             in t\<lparr>rt_writer := w, rt_approx_size := approx_size, rt_frames := frames,
                  rt_shared :=
                    (if frames mod 10 = 0
                     then (rt_shared t)\<lparr>frame_count := frames, duration_ms := timestamp_ms,
                            size_bytes := approx_size\<rparr>
                     else rt_shared t),
                  rt_pc := LoopTop\<rparr>)"

definition recording_finish :: "u64 \<Rightarrow> recording_task \<Rightarrow> recording_task" where
  "recording_finish final_duration t =
     (case MrrWriter_finish (rt_writer t) of
        (r, s) \<Rightarrow>
          t\<lparr>rt_shared := (rt_shared t)\<lparr>frame_count := rt_frames t, duration_ms := final_duration,
               size_bytes := rt_approx_size t, stop_flag := True\<rparr>,
            rt_pc := Done r s\<rparr>)"

fun recording_step :: "rec_event \<Rightarrow> recording_task \<Rightarrow> recording_task option" where
  "recording_step StopRequest t = Some (t\<lparr>rt_shared := ActiveRecording_stop (rt_shared t)\<rparr>)"
| "recording_step CheckStop t =
     (if rt_pc t = LoopTop
      then Some (t\<lparr>rt_pc := if stop_flag (rt_shared t) then Leaving else Receiving\<rparr>) else None)"
| "recording_step (Received ts data) t =
     (if rt_pc t = Receiving then Some (recording_received ts data t) else None)"
| "recording_step (Lagged n) t =
     (if rt_pc t = Receiving then Some (t\<lparr>rt_pc := LoopTop\<rparr>) else None)"
| "recording_step Closed t =
     (if rt_pc t = Receiving then Some (t\<lparr>rt_pc := Leaving\<rparr>) else None)"
| "recording_step TimedOut t =
     (if rt_pc t = Receiving then Some (t\<lparr>rt_pc := LoopTop\<rparr>) else None)"
| "recording_step (Finish elapsed) t =
     (if rt_pc t = Leaving then Some (recording_finish elapsed t) else None)"

primrec recording_run :: "rec_event list \<Rightarrow> recording_task \<Rightarrow> recording_task option" where
  "recording_run [] t = Some t"
| "recording_run (e # es) t = (case recording_step e t of Some t' \<Rightarrow> recording_run es t' | None \<Rightarrow> None)"

definition recording_task_start :: "MrrWriter \<Rightarrow> recording_task" where
  "recording_task_start w =
     \<lparr>rt_writer = w, rt_shared = \<lparr>stop_flag = False, frame_count = 0, duration_ms = 0, size_bytes = 0\<rparr>,
      rt_frames = 0, rt_approx_size = 0, rt_pc = LoopTop\<rparr>"

section \<open>Starting a recording\<close>

datatype start_error =
    InvalidFilename
  | InvalidSubdirectory
  | RecordingExists string
  | SubdirectoryFailed
  | CreateFileFailed
  | WriterFailed io_error

record radar_params =
  rp_user_name :: string
  rp_brand :: Brand
  rp_spokes_per_revolution :: nat
  rp_max_spoke_len :: nat
  rp_pixel_values :: u8

text \<open>
  \<open>dev\<close> is the fault plan of the file that is created, \<open>now\<close> the formatted time, \<open>now_ms\<close> and
  \<open>start_time_ms\<close> the two readings of the clock. The result is the handle and the task, and the tree with the new, still empty file.
\<close>

definition recording_name ::
  "tree \<Rightarrow> path \<Rightarrow> string \<Rightarrow> radar_params \<Rightarrow> string \<Rightarrow> string option \<Rightarrow> string option
    \<Rightarrow> start_error + string" where
  "recording_name t base now radar radar_key filename subdirectory =
     (case filename of
        Some f \<Rightarrow>
          let f = (if ends_with_mrr f then f else f @ ''.mrr'')
          in if path_exists t (get_recording_path base f subdirectory) then Inl (RecordingExists f) else Inr f
      | None \<Rightarrow>
          let pre = map (\<lambda>c. if c = CHR '' '' then CHR ''_'' else c) (rp_user_name radar);
              pre = (if pre = [] then ''radar-'' @ radar_key else pre)
          in Inr (generate_filename t base now (Some pre) subdirectory))"

definition start_recording ::
  "bool \<Rightarrow> path \<Rightarrow> string \<Rightarrow> u64 \<Rightarrow> u64 \<Rightarrow> (nat \<times> nat) option \<Rightarrow> radar_params \<Rightarrow> string \<Rightarrow> string option
    \<Rightarrow> string option \<Rightarrow> bytes \<Rightarrow> bytes \<Rightarrow> tree \<Rightarrow> (start_error, ActiveRecording \<times> recording_task, tree) io" where
  "start_recording os base now now_ms start_time_ms dev radar radar_key filename subdirectory caps init t =
     (if (case filename of Some f \<Rightarrow> \<not> is_valid_name f | None \<Rightarrow> False) then (Inl InvalidFilename, t)
      else if (case subdirectory of Some s \<Rightarrow> \<not> is_valid_name s | None \<Rightarrow> False)
      then (Inl InvalidSubdirectory, t)
      else case recording_name t base now radar radar_key filename subdirectory of
        Inl e \<Rightarrow> (Inl e, t)
      | Inr name \<Rightarrow>
          case (case subdirectory of
                  Some s \<Rightarrow> (let p = path_join base s in if path_exists t p then Some t else create_dir_all t p)
                | None \<Rightarrow> Some t) of
            None \<Rightarrow> (Inl SubdirectoryFailed, t)
          | Some t \<Rightarrow>
              let p = get_recording_path base name subdirectory
              in case (if os then write_file t p [] None else None) of
                   None \<Rightarrow> (Inl CreateFileFailed, t)
                 | Some t \<Rightarrow>
                     case MrrWriter_new \<lparr>s_bytes = [], s_pos = 0, s_fault = dev\<rparr> now_ms
                            (brand_to_id (rp_brand radar)) (of_nat (rp_spokes_per_revolution radar))
                            (of_nat (rp_max_spoke_len radar)) (ucast (rp_pixel_values radar)) caps init of
                       (Inl e, _) \<Rightarrow> (Inl (WriterFailed e), t)
                     | (Inr w, _) \<Rightarrow>
                         (Inr (\<lparr>ar_radar_id = radar_key, ar_filename = name,
                                ar_subdirectory = subdirectory, ar_start_time_ms = start_time_ms\<rparr>,
                               recording_task_start w), t))"

section \<open>The task keeps the recording in order\<close>

fun frame_of :: "rec_event \<Rightarrow> MrrFrame list" where
  "frame_of (Received ts data) = [MrrFrame_new ts data]"
| "frame_of _ = []"

definition frames_of :: "rec_event list \<Rightarrow> MrrFrame list" where
  "frames_of es = concat (map frame_of es)"

lemma frames_of_simps [simp]: "frames_of [] = []" "frames_of (e # es) = frame_of e @ frames_of es"
  by (simp_all add: frames_of_def)

definition rec_inv :: "MrrHeader \<Rightarrow> bytes \<Rightarrow> bytes \<Rightarrow> MrrFrame list \<Rightarrow> recording_task \<Rightarrow> bool" where
  "rec_inv h caps init fs t \<longleftrightarrow>
     (case rt_pc t of
        Done r s \<Rightarrow> r = Inr () \<and> s_bytes s = mrr_file h caps init fs \<and> stop_flag (rt_shared t)
          \<and> frame_count (rt_shared t) = of_nat (length fs) \<and> size_bytes (rt_shared t) = rt_approx_size t
      | _ \<Rightarrow> writer_inv caps init fs (rt_writer t) \<and> w_header (rt_writer t) = h
          \<and> s_fault (w_writer (rt_writer t)) = None
          \<and> frame_count (rt_shared t) = of_nat (10 * (length fs div 10)))
     \<and> rt_frames t = of_nat (length fs)
     \<and> rt_approx_size t = of_nat (sum_list (map MrrFrame_size fs))"

lemma tenth_frame:
  assumes "n < 2 ^ 32"
  shows "(of_nat n :: u32) mod 10 = 0 \<longleftrightarrow> n mod 10 = 0"
proof -
  have "unat ((of_nat n :: u32) mod 10) = n mod 10"
    using assms by (simp add: unat_mod_distrib)
  then show ?thesis by (metis unat_0 unat_eq_zero)
qed

lemma recording_received_inv:
  assumes inv: "rec_inv h caps init fs t" and pc: "rt_pc t = Receiving" and small: "Suc (length fs) < 2 ^ 32"
  shows "rec_inv h caps init (fs @ [MrrFrame_new ts data]) (recording_received ts data t)"
proof -
  let ?f = "MrrFrame_new ts data"
  from inv pc have wi: "writer_inv caps init fs (rt_writer t)" "w_header (rt_writer t) = h"
    "s_fault (w_writer (rt_writer t)) = None"
    by (simp_all add: rec_inv_def)
  from MrrWriter_write_frame_total[OF wi(3)] obtain w where
    w: "MrrWriter_write_frame ?f (rt_writer t) = (Inr (), w)" "s_fault (w_writer w) = None" by blast
  have inv': "writer_inv caps init (fs @ [?f]) w" "w_header w = h"
    using MrrWriter_write_frame_inv[OF w(1) wi(1)] wi(2) by simp_all
  have fr: "rt_frames t + 1 = of_nat (Suc (length fs))" using inv by (simp add: rec_inv_def)
  have cnt: "frame_count (rt_shared t) = of_nat (10 * (length fs div 10))"
    using inv pc by (simp add: rec_inv_def)
  have "Suc (length fs) mod 10 = 0 \<Longrightarrow> 10 * (Suc (length fs) div 10) = Suc (length fs)"
    by (metis add.right_neutral mult_div_mod_eq)
  moreover have "Suc (length fs) mod 10 \<noteq> 0 \<Longrightarrow> Suc (length fs) div 10 = length fs div 10"
    by (simp add: div_Suc)
  moreover have "rt_approx_size t = of_nat (sum_list (map MrrFrame_size fs))" using inv by (simp add: rec_inv_def)
  ultimately show ?thesis
    using w inv' cnt tenth_frame[OF small]
    by (cases "Suc (length fs) mod 10 = 0")
      (simp_all add: recording_received_def Let_def fr rec_inv_def del: of_nat_Suc of_nat_mult)
qed

lemma recording_finish_inv:
  assumes inv: "rec_inv h caps init fs t" and pc: "rt_pc t = Leaving"
  shows "rec_inv h caps init fs (recording_finish elapsed t)"
proof -
  from inv pc have "writer_inv caps init fs (rt_writer t)" "w_header (rt_writer t) = h"
    "s_fault (w_writer (rt_writer t)) = None"
    by (simp_all add: rec_inv_def)
  moreover from MrrWriter_finish_total[OF this(3)] obtain s where
    "MrrWriter_finish (rt_writer t) = (Inr (), s)" by blast
  ultimately show ?thesis
    using inv MrrWriter_finish_file[of "rt_writer t" "()" s caps init fs]
    by (simp add: recording_finish_def rec_inv_def)
qed

lemma recording_step_inv:
  assumes "rec_inv h caps init fs t" and "recording_step e t = Some t'" and "length (fs @ frame_of e) < 2 ^ 32"
  shows "rec_inv h caps init (fs @ frame_of e) t'"
proof (cases e)
  case (Received ts data)
  with assms recording_received_inv[of h caps init fs t ts data] show ?thesis
    by (auto split: if_splits)
next
  case (Finish el)
  with assms recording_finish_inv[of h caps init fs t el] show ?thesis
    by (auto split: if_splits)
qed (use assms in \<open>auto simp: rec_inv_def ActiveRecording_stop_def split: if_splits rec_pc.splits\<close>)

lemma recording_run_inv:
  "rec_inv h caps init fs t \<Longrightarrow> recording_run es t = Some t' \<Longrightarrow> length (fs @ frames_of es) < 2 ^ 32 \<Longrightarrow>
    rec_inv h caps init (fs @ frames_of es) t'"
proof (induction es arbitrary: fs t)
  case (Cons e es)
  then obtain t1 where t1: "recording_step e t = Some t1" "recording_run es t1 = Some t'"
    by (auto split: option.splits)
  with Cons.prems have "rec_inv h caps init (fs @ frame_of e) t1" by (intro recording_step_inv) auto
  from Cons.IH[OF this t1(2)] Cons.prems(3) show ?case by simp
qed simp

lemma recording_start_inv:
  assumes "MrrWriter_new s now brand spr msl pv caps init = (Inr w, s1)"
    and "s = \<lparr>s_bytes = [], s_pos = 0, s_fault = None\<rparr>"
  shows "rec_inv (w_header w) caps init [] (recording_task_start w)"
proof -
  have "s_fault (w_writer w) = None"
    using MrrWriter_new_total[of s now brand spr msl pv caps init] assms by auto
  with MrrWriter_new_inv[OF assms(1)] assms(2) show ?thesis
    by (simp add: rec_inv_def recording_task_start_def)
qed

section \<open>Properties\<close>

lemma start_recording_Inr:
  assumes "start_recording os base now now_ms start_ms dev radar key filename sub caps init t = (Inr (a, task), t')"
  obtains w s1 where
    "MrrWriter_new \<lparr>s_bytes = [], s_pos = 0, s_fault = dev\<rparr> now_ms (brand_to_id (rp_brand radar))
       (of_nat (rp_spokes_per_revolution radar)) (of_nat (rp_max_spoke_len radar))
       (ucast (rp_pixel_values radar)) caps init = (Inr w, s1)"
    "task = recording_task_start w"
    "recording_name t base now radar key filename sub = Inr (ar_filename a)"
    "ar_subdirectory a = sub"
  using assms
  by (auto simp: start_recording_def Let_def split: if_splits sum.splits option.splits prod.splits)

lemma frames_of_norm: "map MrrFrame_norm (frames_of es) = frames_of es"
proof (induction es)
  case (Cons e es)
  then show ?case
    by (cases e) (simp_all add: MrrFrame_new_def MrrFrame_norm_def MrrFrame_write_flags_def)
qed simp

text \<open>
  C5. From the broadcast channel to the file and back: when a recording that was started on a
  device without a fault comes to its end, for whatever reason (a stop request, the channel
  closed) and whatever time-outs and lags there were, the file was finished without error, and
  opening it and reading to the end gives the messages received, in order and with their time
  stamps, under the brand of the radar; the handle reports their number and that it stopped.
\<close>

theorem recording_captures_all:
  assumes "start_recording os base now now_ms start_ms None radar key filename sub caps init t = (Inr (a, task), t')"
    and "recording_run es task = Some task'" and "rt_pc task' = Done r s"
    and "recording_fits caps init (frames_of es)"
  shows "r = Inr () \<and> \<not> ActiveRecording_is_running (rt_shared task')
    \<and> rs_frame_count (ActiveRecording_status a (rt_shared task')) = of_nat (length (frames_of es))
    \<and> (\<exists>rd c rd'. MrrReader_open \<lparr>c_data = s_bytes s, c_pos = 0\<rparr> = (Inr rd, c)
       \<and> r_capabilities rd = caps \<and> r_initial_state rd = init
       \<and> id_to_brand (h_radar_brand (r_header rd)) = Some (rp_brand radar)
       \<and> read_frames (Suc (length (frames_of es))) rd = (Inr (frames_of es), rd'))"
proof -
  from assms(1) obtain w s1 where w:
    "MrrWriter_new \<lparr>s_bytes = [], s_pos = 0, s_fault = None\<rparr> now_ms (brand_to_id (rp_brand radar))
       (of_nat (rp_spokes_per_revolution radar)) (of_nat (rp_max_spoke_len radar))
       (ucast (rp_pixel_values radar)) caps init = (Inr w, s1)" "task = recording_task_start w"
    by (rule start_recording_Inr)
  from recording_start_inv[OF w(1) refl] assms(2,4) w(2)
  have inv: "rec_inv (w_header w) caps init (frames_of es) task'"
    using recording_run_inv[of "w_header w" caps init "[]" task es task'] by (simp add: recording_fits_def)
  then have s: "r = Inr ()" "s_bytes s = mrr_file (w_header w) caps init (frames_of es)"
    using assms(3) by (simp_all add: rec_inv_def)
  from MrrWriter_new_inv[OF w(1)] have h: "header_for caps init (w_header w)"
    "h_radar_brand (w_header w) = brand_to_id (rp_brand radar)"
    by (simp_all add: writer_inv_def)
  note ok = recording_fits_file_ok[OF assms(4) h(1)]
  from MrrReader_open_file[OF ok] obtain rd c where rd:
    "MrrReader_open \<lparr>c_data = s_bytes s, c_pos = 0\<rparr> = (Inr rd, c)"
    "reads_file rd (w_header w) caps init (frames_of es)" "r_capabilities rd = caps" "r_initial_state rd = init"
    "c_pos (r_reader rd) = frame_pos caps init (frames_of es) 0"
    by (auto simp: s)
  from mrr_source.rd_many_view[OF mrr_view_opened[OF ok rd(2,5)], of "Suc (length (frames_of es))"]
  obtain rd' where "read_frames (Suc (length (frames_of es))) rd = (Inr (frames_of es), rd')"
    by (auto simp: read_frames_eq frames_of_norm simp del: mrr_source.rd_many.simps)
  with s rd h inv assms(3) show ?thesis
    by (auto simp: rec_inv_def reads_file_def ActiveRecording_status_def ActiveRecording_is_running_def
        simp del: read_frames.simps)
qed

lemma recording_received_ok:
  assumes "s_fault (w_writer (rt_writer t)) = None"
  shows "rt_pc (recording_received ts data t) = LoopTop
    \<and> stop_flag (rt_shared (recording_received ts data t)) = stop_flag (rt_shared t)
    \<and> s_fault (w_writer (rt_writer (recording_received ts data t))) = None
    \<and> rt_frames (recording_received ts data t) = rt_frames t + 1"
  using MrrWriter_write_frame_total[OF assms, of "MrrFrame_new ts data"]
  by (auto simp: recording_received_def Let_def split: if_splits)

definition sample_events :: "rec_event list" where
  "sample_events = [CheckStop, Received 3 [1, 2], CheckStop, TimedOut, CheckStop, Lagged 2, CheckStop,
     StopRequest, Received 9 [4], CheckStop, Finish 12]"

definition sample_radar :: radar_params where
  "sample_radar = \<lparr>rp_user_name = '''', rp_brand = Navico, rp_spokes_per_revolution = 2048,
     rp_max_spoke_len = 1024, rp_pixel_values = 16\<rparr>"

lemma sample_start:
  "\<exists>a task t'. start_recording True [''rec''] ''now'' 0 0 None sample_radar ''n1'' (Some ''x'') None [] [] sample_tree
      = (Inr (a, task), t')"
proof -
  have "write_file sample_tree [''rec'', ''x.mrr''] [] None = Some (([''rec'', ''x.mrr''], File [] None) # sample_tree)"
    by (simp add: write_file_def canonicalize_def sample_tree_def noop_piece_def dir_entry_def node_at_def)
  moreover obtain w s1 where "MrrWriter_new \<lparr>s_bytes = [], s_pos = 0, s_fault = None\<rparr> 0 (brand_to_id Navico)
       2048 1024 16 [] [] = (Inr w, s1)"
    using MrrWriter_new_total[of "\<lparr>s_bytes = [], s_pos = 0, s_fault = None\<rparr>"] by (metis sink.select_convs(3))
  ultimately show ?thesis
    by (simp add: start_recording_def recording_name_def sample_radar_def is_valid_name_def ends_with_mrr_def
        suffix_Cons path_exists_def canonicalize_def get_recording_path_def sub_dir_def path_join_def
        sample_tree_def noop_piece_def sublist_code Let_def)
qed

theorem recording_captures_all_witness:
  "\<exists>a task t' task' s rd c rd'.
    start_recording True [''rec''] ''now'' 0 0 None sample_radar ''n1'' (Some ''x'') None [] [] sample_tree = (Inr (a, task), t')
    \<and> recording_run sample_events task = Some task' \<and> rt_pc task' = Done (Inr ()) s
    \<and> MrrReader_open \<lparr>c_data = s_bytes s, c_pos = 0\<rparr> = (Inr rd, c)
    \<and> read_frames 3 rd = (Inr [MrrFrame_new 3 [1, 2], MrrFrame_new 9 [4]], rd')"
proof -
  from sample_start obtain a task t' where
    st: "start_recording True [''rec''] ''now'' 0 0 None sample_radar ''n1'' (Some ''x'') None [] [] sample_tree = (Inr (a, task), t')"
    by blast
  then obtain w s1 where w: "MrrWriter_new \<lparr>s_bytes = [], s_pos = 0, s_fault = None\<rparr> 0 (brand_to_id (rp_brand sample_radar))
       (of_nat (rp_spokes_per_revolution sample_radar)) (of_nat (rp_max_spoke_len sample_radar))
       (ucast (rp_pixel_values sample_radar)) [] [] = (Inr w, s1)" "task = recording_task_start w"
    by (rule start_recording_Inr)
  have "rec_inv (w_header w) [] [] [] task" using recording_start_inv[OF w(1) refl] w(2) by simp
  then have f0: "s_fault (w_writer w) = None" using w(2) by (simp add: rec_inv_def recording_task_start_def)
  let ?t1 = "task\<lparr>rt_pc := Receiving\<rparr>"
  obtain t2 where t2: "recording_received 3 [1, 2] ?t1 = t2" "rt_pc t2 = LoopTop" "\<not> stop_flag (rt_shared t2)"
    "s_fault (w_writer (rt_writer t2)) = None"
    using recording_received_ok[of ?t1 3 "[1, 2]"] f0 w(2) by (simp add: recording_task_start_def)
  let ?t3 = "t2\<lparr>rt_pc := Receiving, rt_shared := ActiveRecording_stop (rt_shared t2)\<rparr>"
  obtain t4 where t4: "recording_received 9 [4] ?t3 = t4" "rt_pc t4 = LoopTop" "stop_flag (rt_shared t4)"
    using recording_received_ok[of ?t3 9 "[4]"] t2 by (simp add: ActiveRecording_stop_def)
  obtain task' where run: "recording_run sample_events task = Some task'"
    and t': "task' = recording_finish 12 (t4\<lparr>rt_pc := Leaving\<rparr>)"
    using t2 t4 w(2) by (simp add: sample_events_def recording_task_start_def)
  obtain r s where d: "rt_pc task' = Done r s" by (cases "MrrWriter_finish (rt_writer t4)") (simp add: t' recording_finish_def)
  have fr: "frames_of sample_events = [MrrFrame_new 3 [1, 2], MrrFrame_new 9 [4]]"
    by (simp add: sample_events_def)
  have fits: "recording_fits [] [] (frames_of sample_events)"
    by (simp add: fr recording_fits_def MAX_METADATA_SIZE_def MrrFrame_ok_def MAX_FRAME_DATA_SIZE_def
        frames_base_def HEADER_SIZE_def FOOTER_SIZE_def INDEX_ENTRY_SIZE_def MrrFrame_size_def MrrFrame_new_def)
  have len: "Suc (length (frames_of sample_events)) = 3" by (simp add: fr)
  show ?thesis
    using recording_captures_all[OF st run d fits, unfolded len] st run d unfolding fr by auto
qed

text \<open>
  C24. A stop request is honoured: once the stop flag is set, whatever the channel delivers, at
  most the message the task is already waiting for is still recorded.
\<close>

theorem stop_request_honoured:
  assumes "stop_flag (rt_shared t)" and "recording_run es t = Some t'"
  shows "length (frames_of es) \<le> (if rt_pc t = Receiving then 1 else 0) \<and> stop_flag (rt_shared t')"
  using assms
proof (induction es arbitrary: t)
  case (Cons e es)
  then obtain t1 where t1: "recording_step e t = Some t1" "recording_run es t1 = Some t'"
    by (auto split: option.splits)
  have stop: "stop_flag (rt_shared t1)" and pc: "rt_pc t1 = Receiving \<Longrightarrow> rt_pc t = Receiving \<and> e = StopRequest"
    using t1(1) Cons.prems(1)
    by (cases e; force simp: ActiveRecording_stop_def recording_received_def recording_finish_def Let_def
        split: if_splits prod.splits sum.splits)+
  have "frame_of e \<noteq> [] \<Longrightarrow> length (frame_of e) = 1 \<and> rt_pc t = Receiving"
    using t1(1) by (cases e) (auto split: if_splits)
  with Cons.IH[OF stop t1(2)] pc show ?case
    by (cases "frame_of e = []") (auto split: if_splits)
qed simp

theorem stop_request_honoured_witness:
  "\<exists>t t'. stop_flag (rt_shared t) \<and> rt_pc t = Receiving
    \<and> recording_run [TimedOut, CheckStop] t = Some t' \<and> stop_flag (rt_shared t') \<and> rt_pc t' = Leaving"
proof -
  let ?t = "\<lparr>rt_writer = undefined, rt_shared = \<lparr>stop_flag = True, frame_count = 0, duration_ms = 0, size_bytes = 0\<rparr>,
    rt_frames = 0, rt_approx_size = 0, rt_pc = Receiving\<rparr>"
  have run: "recording_run [TimedOut, CheckStop] ?t = Some (?t\<lparr>rt_pc := Leaving\<rparr>)" by simp
  from stop_request_honoured[OF _ run] show ?thesis
    by (intro exI[of _ ?t] exI[of _ "?t\<lparr>rt_pc := Leaving\<rparr>"]) simp
qed

text \<open>
  C25. Starting a recording never takes an existing file's place: when it succeeds, the name it
  chose, the client's with the extension added or a generated one, ends in \<open>.mrr\<close> and did not
  exist; and a name with a separator or \<open>..\<close> in it is refused before anything is touched.
\<close>

theorem start_recording_fresh:
  "(case start_recording os base now now_ms start_ms dev radar key filename sub caps init t of
      (Inr (a, task), t') \<Rightarrow>
         \<not> path_exists t (get_recording_path base (ar_filename a) sub) \<and> ends_with_mrr (ar_filename a)
         \<and> rt_pc task = LoopTop \<and> ActiveRecording_is_running (rt_shared task)
    | (Inl e, t') \<Rightarrow> True)
   \<and> (\<not> is_valid_name (the filename) \<and> filename \<noteq> None \<longrightarrow>
       start_recording os base now now_ms start_ms dev radar key filename sub caps init t = (Inl InvalidFilename, t))"
proof -
  have "\<not> path_exists t (get_recording_path base name sub) \<and> ends_with_mrr name"
    if "recording_name t base now radar key filename sub = Inr name" for name
    using that unused_name_fresh[of t "sub_dir base sub"]
    by (auto simp: recording_name_def Let_def get_recording_path_def generate_filename_def
        ends_with_mrr_def suffix_def split: option.splits if_splits)
  then have "\<not> path_exists t (get_recording_path base (ar_filename a) sub) \<and> ends_with_mrr (ar_filename a)
      \<and> rt_pc task = LoopTop \<and> ActiveRecording_is_running (rt_shared task)"
    if "start_recording os base now now_ms start_ms dev radar key filename sub caps init t = (Inr (a, task), t')" for a task t'
    using that by (elim start_recording_Inr) (auto simp: recording_task_start_def ActiveRecording_is_running_def)
  moreover have "\<not> is_valid_name (the filename) \<and> filename \<noteq> None \<longrightarrow>
      start_recording os base now now_ms start_ms dev radar key filename sub caps init t = (Inl InvalidFilename, t)"
    by (auto simp: start_recording_def)
  ultimately show ?thesis
    by (auto split: prod.splits sum.splits)
qed

theorem start_recording_fresh_witness:
  "start_recording True [''rec''] ''now'' 0 0 None sample_radar ''n1'' (Some ''../x'') None [] [] sample_tree
     = (Inl InvalidFilename, sample_tree)"
proof -
  have "\<not> is_valid_name ''../x''" by (simp add: is_valid_name_def)
  with start_recording_fresh[where os = True and base = "[''rec'']" and now = "''now''" and now_ms = 0 and start_ms = 0
      and dev = None and radar = sample_radar and key = "''n1''" and filename = "Some ''../x''" and sub = None
      and caps = "[]" and init = "[]" and t = sample_tree]
  show ?thesis by simp
qed

text \<open>
  C26. What a client sees while a recording runs: until the end the published frame count is the
  number of frames written, rounded down to a multiple of ten; at the end it is that number.
\<close>

theorem published_frame_count:
  assumes "MrrWriter_new \<lparr>s_bytes = [], s_pos = 0, s_fault = None\<rparr> now brand spr msl pv caps init = (Inr w, s1)"
    and "recording_run es (recording_task_start w) = Some t" and "length (frames_of es) < 2 ^ 32"
  shows "unat (rs_frame_count (ActiveRecording_status a (rt_shared t))) =
    (case rt_pc t of Done _ _ \<Rightarrow> length (frames_of es) | _ \<Rightarrow> 10 * (length (frames_of es) div 10))"
proof -
  have inv: "rec_inv (w_header w) caps init (frames_of es) t"
    using recording_run_inv[OF recording_start_inv[OF assms(1) refl] assms(2)] assms(3) by simp
  have le: "10 * (length (frames_of es) div 10) \<le> length (frames_of es)" by simp
  then have "unat (of_nat (10 * (length (frames_of es) div 10)) :: u32) = 10 * (length (frames_of es) div 10)"
    using assms(3) le_less_trans by (intro unat_of_nat_u32) blast
  with inv assms(3) show ?thesis
    by (simp add: rec_inv_def ActiveRecording_status_def del: of_nat_mult split: rec_pc.splits)
qed

theorem published_frame_count_witness:
  "\<exists>w s1 t. MrrWriter_new \<lparr>s_bytes = [], s_pos = 0, s_fault = None\<rparr> 0 1 8 8 16 [] [] = (Inr w, s1)
    \<and> recording_run [CheckStop, Received 1 [5], CheckStop] (recording_task_start w) = Some t
    \<and> unat (rs_frame_count (ActiveRecording_status undefined (rt_shared t))) = 0 \<and> rt_frames t = 1"
proof -
  obtain w s1 where w: "MrrWriter_new \<lparr>s_bytes = [], s_pos = 0, s_fault = None\<rparr> 0 1 8 8 16 [] [] = (Inr w, s1)"
    and f: "s_fault (w_writer w) = None"
    using MrrWriter_new_total[of "\<lparr>s_bytes = [], s_pos = 0, s_fault = None\<rparr>" 0 1 8 8 16 "[]" "[]"] by auto
  let ?t1 = "(recording_task_start w)\<lparr>rt_pc := Receiving\<rparr>"
  obtain t2 where t2: "recording_received 1 [5] ?t1 = t2" "rt_pc t2 = LoopTop" "\<not> stop_flag (rt_shared t2)"
    "rt_frames t2 = 1"
    using recording_received_ok[of ?t1 1 "[5]"] f by (simp add: recording_task_start_def)
  have run: "recording_run [CheckStop, Received 1 [5], CheckStop] (recording_task_start w) = Some (t2\<lparr>rt_pc := Receiving\<rparr>)"
    using t2 by (simp add: recording_task_start_def)
  from published_frame_count[OF w run, of undefined] w run t2 show ?thesis
    by (intro exI[of _ w] exI[of _ s1] exI[of _ "t2\<lparr>rt_pc := Receiving\<rparr>"]) simp
qed

end
