(* ===== verification/Player.thy ===== *)
theory Player
  imports Complex_Main Recorder
begin

text \<open>
  Playback: loading a recording, the handle through which clients control it, and the task that
  reads the file and sends its frames. The task is a state machine whose steps are the
  source's accesses to the shared variables; a client's calls may come between any two of
  them. What the file holds when it is opened and how much time has passed are inputs of
  the steps. \<open>delay\<close> is the floating-point computation of the time, in milliseconds, at which
  a frame is due, from its offset and the speed.
\<close>

section \<open>State and client operations\<close>

datatype PlaybackState = Idle | Loaded | Playing | Paused | Stopped

definition PlaybackState_string :: "PlaybackState \<Rightarrow> string" where
  "PlaybackState_string s =
     (case s of Idle \<Rightarrow> ''idle'' | Loaded \<Rightarrow> ''loaded'' | Playing \<Rightarrow> ''playing''
      | Paused \<Rightarrow> ''paused'' | Stopped \<Rightarrow> ''stopped'')"

record PlaybackStatus =
  ps_state :: string
  ps_filename :: "string option"
  ps_radar_id :: "string option"
  ps_position_ms :: u64
  ps_duration_ms :: u64
  ps_frame :: u32
  ps_frame_count :: u32
  ps_speed :: rat
  ps_loop_playback :: bool

definition PlaybackStatus_default :: PlaybackStatus where
  "PlaybackStatus_default =
     \<lparr>ps_state = ''idle'', ps_filename = None, ps_radar_id = None, ps_position_ms = 0,
      ps_duration_ms = 0, ps_frame = 0, ps_frame_count = 0, ps_speed = 1, ps_loop_playback = False\<rparr>"

record ActivePlayback =
  ap_filename :: string
  ap_radar_key :: string
  ap_duration_ms :: u64
  ap_frame_count :: u32

text \<open>The variables shared by the handle and the task.\<close>

record playback_shared =
  pb_stop_flag :: bool
  pb_pause_flag :: bool
  pb_position_ms :: u64
  pb_frame :: u32
  pb_speed :: u32
  pb_loop :: bool
  pb_state :: PlaybackState
  pb_seek_target :: "u64 option"

definition ActivePlayback_stop :: "playback_shared \<Rightarrow> playback_shared" where
  "ActivePlayback_stop v = v\<lparr>pb_stop_flag := True\<rparr>"

definition ActivePlayback_pause :: "playback_shared \<Rightarrow> playback_shared" where
  "ActivePlayback_pause v = v\<lparr>pb_pause_flag := True\<rparr>"

definition ActivePlayback_resume :: "playback_shared \<Rightarrow> playback_shared" where
  "ActivePlayback_resume v = v\<lparr>pb_pause_flag := False\<rparr>"

definition ActivePlayback_is_paused :: "playback_shared \<Rightarrow> bool" where
  "ActivePlayback_is_paused v = pb_pause_flag v"

definition ActivePlayback_is_stopped :: "playback_shared \<Rightarrow> bool" where
  "ActivePlayback_is_stopped v = pb_stop_flag v"

text \<open>\<open>speed_fixed\<close> is the requested speed times 100, cast to an integer.\<close>

definition ActivePlayback_set_speed :: "u32 \<Rightarrow> playback_shared \<Rightarrow> playback_shared" where
  "ActivePlayback_set_speed speed_fixed v = v\<lparr>pb_speed := max 10 (min 1000 speed_fixed)\<rparr>"

definition ActivePlayback_get_speed :: "playback_shared \<Rightarrow> rat" where
  "ActivePlayback_get_speed v = of_nat (unat (pb_speed v)) / 100"

definition ActivePlayback_set_loop :: "bool \<Rightarrow> playback_shared \<Rightarrow> playback_shared" where
  "ActivePlayback_set_loop b v = v\<lparr>pb_loop := b\<rparr>"

definition ActivePlayback_seek :: "u64 \<Rightarrow> playback_shared \<Rightarrow> playback_shared" where
  "ActivePlayback_seek ms v = v\<lparr>pb_seek_target := Some ms\<rparr>"

definition ActivePlayback_status :: "ActivePlayback \<Rightarrow> playback_shared \<Rightarrow> PlaybackStatus" where
  "ActivePlayback_status a v =
     \<lparr>ps_state = PlaybackState_string (pb_state v), ps_filename = Some (ap_filename a),
      ps_radar_id = Some (ap_radar_key a), ps_position_ms = pb_position_ms v,
      ps_duration_ms = ap_duration_ms a, ps_frame = pb_frame v, ps_frame_count = ap_frame_count a,
      ps_speed = ActivePlayback_get_speed v, ps_loop_playback = pb_loop v\<rparr>"

datatype client_call = Stop | Pause | Resume | SetSpeed u32 | SetLoop bool | Seek u64

definition client_apply :: "client_call \<Rightarrow> playback_shared \<Rightarrow> playback_shared" where
  "client_apply c =
     (case c of Stop \<Rightarrow> ActivePlayback_stop | Pause \<Rightarrow> ActivePlayback_pause
      | Resume \<Rightarrow> ActivePlayback_resume | SetSpeed n \<Rightarrow> ActivePlayback_set_speed n
      | SetLoop b \<Rightarrow> ActivePlayback_set_loop b | Seek ms \<Rightarrow> ActivePlayback_seek ms)"

section \<open>The playback task\<close>

datatype play_pc =
    OuterStop | OuterPause | Opening
  | InnerStop | InnerPause | InnerSeek | InnerRead | Timing MrrFrame | Sending MrrFrame
  | InnerLeft | InnerLeft2 | Finishing | Ended

record playback_task =
  pt_shared :: playback_shared
  pt_reader :: "MrrReader option"
  pt_first_frame_ts :: "u64 option"
  pt_frames_played :: u32
  pt_sent :: "bytes list"
  pt_pc :: play_pc

datatype play_input =
    Client client_call
  | Tick
  | FileRead "bytes option"
  | Elapsed nat

definition playback_open :: "bytes option \<Rightarrow> playback_task \<Rightarrow> playback_task" where
  "playback_open file t =
     (case file of
        None \<Rightarrow> t\<lparr>pt_pc := Finishing\<rparr>
      | Some bs \<Rightarrow>
          (case MrrReader_open \<lparr>c_data = bs, c_pos = 0\<rparr> of
             (Inl e, _) \<Rightarrow> t\<lparr>pt_pc := Finishing\<rparr>
           | (Inr r, _) \<Rightarrow>
               let v = pt_shared t;
                   seek_ms = (case pb_seek_target v of Some ms \<Rightarrow> ms | None \<Rightarrow> pb_position_ms v);
                   r = (if 0 < seek_ms then snd (MrrReader_seek_to_timestamp seek_ms r) else r)
               in t\<lparr>pt_shared := v\<lparr>pb_seek_target := None\<rparr>, pt_reader := Some r,
                    pt_first_frame_ts := None, pt_frames_played := 0, pt_pc := InnerStop\<rparr>))"

definition playback_seek :: "MrrReader \<Rightarrow> playback_task \<Rightarrow> playback_task" where
  "playback_seek r t =
     (case pb_seek_target (pt_shared t) of
        Some ms \<Rightarrow>
          t\<lparr>pt_shared := (pt_shared t)\<lparr>pb_seek_target := None\<rparr>,
            pt_reader := Some (snd (MrrReader_seek_to_timestamp ms r)),
            pt_first_frame_ts := None, pt_pc := InnerStop\<rparr>
      | None \<Rightarrow> t\<lparr>pt_pc := InnerRead\<rparr>)"

definition playback_read :: "MrrReader \<Rightarrow> playback_task \<Rightarrow> playback_task" where
  "playback_read r t =
     (case MrrReader_read_frame r of
        (Inr (Some f), r) \<Rightarrow> t\<lparr>pt_reader := Some r, pt_pc := Timing f\<rparr>
      | (Inr None, r) \<Rightarrow>
          (if pb_loop (pt_shared t)
           then (case MrrReader_rewind r of
                   (Inl e, r) \<Rightarrow> t\<lparr>pt_reader := Some r, pt_pc := InnerLeft\<rparr>
                 | (Inr _, r) \<Rightarrow> t\<lparr>pt_reader := Some r, pt_first_frame_ts := None, pt_pc := InnerStop\<rparr>)
           else t\<lparr>pt_reader := Some r, pt_pc := InnerLeft\<rparr>)
      | (Inl e, r) \<Rightarrow> t\<lparr>pt_reader := Some r, pt_pc := InnerLeft\<rparr>)"

text \<open>The elapsed time is in nanoseconds; a frame that is due in more than 100 ms is not sent.\<close>

definition playback_timing :: "(u64 \<Rightarrow> u32 \<Rightarrow> nat) \<Rightarrow> nat \<Rightarrow> MrrFrame \<Rightarrow> playback_task \<Rightarrow> playback_task" where
  "playback_timing delay elapsed f t =
     (let frame_ts = fr_timestamp_ms f;
          first_ts = (case pt_first_frame_ts t of Some ts \<Rightarrow> ts | None \<Rightarrow> frame_ts);
          target_elapsed = delay (frame_ts - first_ts) (pb_speed (pt_shared t)) * 1000000
      in t\<lparr>pt_first_frame_ts := Some first_ts,
           pt_pc := (if elapsed < target_elapsed \<and> 100 * 1000000 < target_elapsed - elapsed
                     then InnerStop else Sending f)\<rparr>)"

definition playback_send :: "MrrFrame \<Rightarrow> playback_task \<Rightarrow> playback_task" where
  "playback_send f t =
     (let frames_played = pt_frames_played t + 1
      in t\<lparr>pt_sent := pt_sent t @ [fr_data f],
           pt_shared := (pt_shared t)\<lparr>pb_position_ms := fr_timestamp_ms f, pb_frame := frames_played\<rparr>,
           pt_frames_played := frames_played, pt_pc := InnerStop\<rparr>)"

definition playback_tick :: "playback_task \<Rightarrow> playback_task option" where
  "playback_tick t =
     (let v = pt_shared t in
      case pt_pc t of
        OuterStop \<Rightarrow> Some (t\<lparr>pt_pc := if pb_stop_flag v then Finishing else OuterPause\<rparr>)
      | OuterPause \<Rightarrow>
          (if pb_pause_flag v
           then Some (t\<lparr>pt_shared := v\<lparr>pb_state := if pb_state v = Playing then Paused else pb_state v\<rparr>,
                        pt_pc := OuterStop\<rparr>)
           else Some (t\<lparr>pt_shared := v\<lparr>pb_state := if pb_state v = Loaded \<or> pb_state v = Paused
                                                   then Playing else pb_state v\<rparr>,
                        pt_pc := Opening\<rparr>))
      | InnerStop \<Rightarrow> Some (t\<lparr>pt_pc := if pb_stop_flag v then InnerLeft else InnerPause\<rparr>)
      | InnerPause \<Rightarrow> Some (t\<lparr>pt_pc := if pb_pause_flag v then InnerLeft else InnerSeek\<rparr>)
      | InnerSeek \<Rightarrow> map_option (\<lambda>r. playback_seek r t) (pt_reader t)
      | InnerRead \<Rightarrow> map_option (\<lambda>r. playback_read r t) (pt_reader t)
      | Sending f \<Rightarrow> Some (playback_send f t)
      | InnerLeft \<Rightarrow> Some (t\<lparr>pt_pc := if pb_stop_flag v then Finishing else InnerLeft2\<rparr>)
      | InnerLeft2 \<Rightarrow>
          Some (t\<lparr>pt_pc := if \<not> pb_pause_flag v \<and> \<not> pb_loop v then Finishing else OuterStop\<rparr>)
      | Finishing \<Rightarrow>
          Some (t\<lparr>pt_shared := v\<lparr>pb_stop_flag := True, pb_state := Stopped\<rparr>, pt_pc := Ended\<rparr>)
      | _ \<Rightarrow> None)"

fun playback_step :: "(u64 \<Rightarrow> u32 \<Rightarrow> nat) \<Rightarrow> play_input \<Rightarrow> playback_task \<Rightarrow> playback_task option" where
  "playback_step delay (Client c) t = Some (t\<lparr>pt_shared := client_apply c (pt_shared t)\<rparr>)"
| "playback_step delay Tick t = playback_tick t"
| "playback_step delay (FileRead file) t =
     (if pt_pc t = Opening then Some (playback_open file t) else None)"
| "playback_step delay (Elapsed n) t =
     (case pt_pc t of Timing f \<Rightarrow> Some (playback_timing delay n f t) | _ \<Rightarrow> None)"

text \<open>The states a task can be in after inputs that satisfy \<open>ok\<close> where they come.\<close>

inductive playback_reach ::
  "(u64 \<Rightarrow> u32 \<Rightarrow> nat) \<Rightarrow> (playback_task \<Rightarrow> play_input \<Rightarrow> bool) \<Rightarrow> playback_task \<Rightarrow> playback_task \<Rightarrow> bool"
  for delay ok t where
  start: "playback_reach delay ok t t"
| step: "playback_reach delay ok t t1 \<Longrightarrow> ok t1 i \<Longrightarrow> playback_step delay i t1 = Some t2 \<Longrightarrow>
    playback_reach delay ok t t2"

primrec playback_run :: "(u64 \<Rightarrow> u32 \<Rightarrow> nat) \<Rightarrow> play_input list \<Rightarrow> playback_task \<Rightarrow> playback_task option" where
  "playback_run delay [] t = Some t"
| "playback_run delay (i # is) t =
     (case playback_step delay i t of Some t' \<Rightarrow> playback_run delay is t' | None \<Rightarrow> None)"

definition playback_start :: "playback_task" where
  "playback_start =
     \<lparr>pt_shared = \<lparr>pb_stop_flag = False, pb_pause_flag = True, pb_position_ms = 0, pb_frame = 0,
        pb_speed = 100, pb_loop = False, pb_state = Loaded, pb_seek_target = None\<rparr>,
      pt_reader = None, pt_first_frame_ts = None, pt_frames_played = 0, pt_sent = [], pt_pc = OuterStop\<rparr>"

section \<open>Loading\<close>

datatype load_error =
    LoadNotFound string
  | LoadOpenFailed
  | LoadParseFailed io_error
  | LoadRegisterFailed string

function trim_mrr :: "string \<Rightarrow> string" where
  "trim_mrr s = (if ends_with_mrr s then trim_mrr (take (length s - 4) s) else s)"
  by pat_completeness auto
termination
  by (relation "measure length") (auto simp: ends_with_mrr_def suffix_def)

declare trim_mrr.simps [simp del]

text \<open>
  The radar registry is a parameter: \<open>key_of\<close> gives the key of a playback radar with a serial
  number, pixel values, spokes per revolution and spoke length, \<open>register\<close> adds it.
\<close>

definition load_recording ::
  "(string \<Rightarrow> u8 \<Rightarrow> nat \<Rightarrow> nat \<Rightarrow> string) \<Rightarrow> (string \<Rightarrow> bool) \<Rightarrow> bool \<Rightarrow> tree \<Rightarrow> path \<Rightarrow> string \<Rightarrow> string option
    \<Rightarrow> load_error + (ActivePlayback \<times> playback_task)" where
  "load_recording key_of register os t base filename subdirectory =
     (let p = get_recording_path base filename subdirectory
      in if \<not> path_exists t p then Inl (LoadNotFound filename)
         else case canonicalize t p of
           None \<Rightarrow> Inl (LoadNotFound filename)
         | Some q \<Rightarrow>
             (case node_at t q of
                Some (File bs _) \<Rightarrow>
                  if \<not> os then Inl LoadOpenFailed
                  else (case MrrReader_open \<lparr>c_data = bs, c_pos = 0\<rparr> of
                    (Inl e, _) \<Rightarrow> Inl (LoadParseFailed e)
                  | (Inr r, _) \<Rightarrow>
                      let header = r_header r; footer = r_footer r;
                          serial_no = ''PB-'' @ trim_mrr filename;
                          radar_key = key_of serial_no (ucast (h_pixel_values header))
                            (unat (h_spokes_per_rev header)) (unat (h_max_spoke_len header))
                      in if register radar_key
                         then Inr (\<lparr>ap_filename = filename, ap_radar_key = radar_key,
                                ap_duration_ms = f_duration_ms footer,
                                ap_frame_count = f_frame_count footer\<rparr>, playback_start)
                         else Inl (LoadRegisterFailed radar_key))
              | _ \<Rightarrow> Inl (LoadParseFailed DeviceError)))"

end
