(* ===== verification/Player_Correct.thy ===== *)
theory Player_Correct
  imports Player
begin

text \<open>
  What playback guarantees, for a file that holds a finished recording: which frames are sent, in
  what order, that the task cannot get stuck, and how clients' calls take effect. The
  proofs use the reader only through the interface of a frame source.
\<close>

section \<open>Steps\<close>

lemmas playback_defs = playback_tick_def playback_seek_def
  playback_timing_def playback_send_def client_apply_def ActivePlayback_stop_def
  ActivePlayback_pause_def ActivePlayback_resume_def ActivePlayback_set_speed_def
  ActivePlayback_set_loop_def ActivePlayback_seek_def Let_def

lemma playback_open_effect:
  "pt_sent (playback_open file t) = pt_sent t"
  "pb_speed (pt_shared (playback_open file t)) = pb_speed (pt_shared t)"
  "pb_stop_flag (pt_shared (playback_open file t)) = pb_stop_flag (pt_shared t)"
  "pt_pc (playback_open file t) = Finishing \<or> pt_pc (playback_open file t) = InnerStop"
  by (auto simp: playback_open_def Let_def split: option.split prod.split sum.split)

lemma playback_read_effect:
  "pt_shared (playback_read r t) = pt_shared t \<and> pt_sent (playback_read r t) = pt_sent t
   \<and> (pt_pc (playback_read r t) = InnerStop \<or> pt_pc (playback_read r t) = InnerLeft
      \<or> (\<exists>f. pt_pc (playback_read r t) = Timing f))"
proof -
  obtain x r1 where rd: "MrrReader_read_frame r = (x, r1)" by (cases "MrrReader_read_frame r")
  obtain y r2 where rw: "MrrReader_rewind r1 = (y, r2)" by (cases "MrrReader_rewind r1")
  show ?thesis
    by (cases x; cases y) (auto simp: playback_read_def rd rw split: option.splits)
qed

lemma playback_reach_trans:
  assumes "playback_reach delay ok t u" and "playback_reach delay ok u v"
  shows "playback_reach delay ok t v"
  using assms(2,1) by (induction rule: playback_reach.induct) (auto intro: playback_reach.step)

section \<open>The stop flag and the speed\<close>

definition may_send :: "play_pc \<Rightarrow> nat" where
  "may_send pc = (case pc of InnerPause \<Rightarrow> 1 | InnerSeek \<Rightarrow> 1 | InnerRead \<Rightarrow> 1 | Timing _ \<Rightarrow> 1 | Sending _ \<Rightarrow> 1 | _ \<Rightarrow> 0)"

lemma stop_step:
  assumes "playback_step delay i t = Some t'" and "pb_stop_flag (pt_shared t)"
  shows "pb_stop_flag (pt_shared t')
    \<and> length (pt_sent t') + may_send (pt_pc t') \<le> length (pt_sent t) + may_send (pt_pc t)
    \<and> (\<exists>more. pt_sent t' = pt_sent t @ more)"
proof (cases i)
  case (Client c)
  with assms show ?thesis by (cases c) (auto simp: playback_defs)
next
  case Tick
  show ?thesis
  proof (cases "pt_pc t")
    case InnerRead
    then obtain r where "t' = playback_read r t"
      using assms(1) Tick by (auto simp: playback_tick_def Let_def)
    with playback_read_effect[of r t] InnerRead assms(2) show ?thesis by (auto simp: may_send_def)
  qed (use assms Tick in \<open>auto simp: playback_defs may_send_def split: if_splits option.splits\<close>)
next
  case (FileRead f)
  with assms playback_open_effect[of f t] show ?thesis
    by (auto simp: may_send_def split: if_splits)
next
  case (Elapsed n)
  with assms show ?thesis
    by (auto simp: playback_defs may_send_def split: play_pc.splits)
qed

lemma speed_step:
  assumes "playback_step delay i t = Some t'" and "pb_speed (pt_shared t) \<in> {10..1000}"
  shows "pb_speed (pt_shared t') \<in> {10..1000}"
proof (cases i)
  case (Client c)
  with assms show ?thesis by (cases c) (auto simp: playback_defs)
next
  case Tick
  show ?thesis
  proof (cases "pt_pc t")
    case InnerRead
    then obtain r where "t' = playback_read r t"
      using assms(1) Tick by (auto simp: playback_tick_def Let_def)
    with playback_read_effect[of r t] assms(2) show ?thesis by simp
  qed (use assms Tick in \<open>auto simp: playback_defs split: if_splits option.splits\<close>)
next
  case (FileRead f)
  with assms show ?thesis by (auto simp: playback_open_effect split: if_splits)
next
  case (Elapsed n)
  with assms show ?thesis by (auto simp: playback_defs split: play_pc.splits)
qed

section \<open>Where the reader stands\<close>

text \<open>
  While a file with the frames \<open>fs\<close> is being played, the reader stands before some frame \<open>n\<close> of
  it, and a frame that has been read is the one before.
\<close>

definition inner_pc :: "play_pc \<Rightarrow> bool" where
  "inner_pc pc = (case pc of InnerStop \<Rightarrow> True | InnerPause \<Rightarrow> True | InnerSeek \<Rightarrow> True | InnerRead \<Rightarrow> True
     | Timing _ \<Rightarrow> True | Sending _ \<Rightarrow> True | _ \<Rightarrow> False)"

definition held :: "play_pc \<Rightarrow> MrrFrame option" where
  "held pc = (case pc of Timing f \<Rightarrow> Some f | Sending f \<Rightarrow> Some f | _ \<Rightarrow> None)"

definition reads_at :: "MrrFrame list \<Rightarrow> playback_task \<Rightarrow> nat \<Rightarrow> bool" where
  "reads_at fs t n \<longleftrightarrow> (\<exists>r. pt_reader t = Some r \<and> mrr_view r fs n) \<and> n \<le> length fs
     \<and> (case held (pt_pc t) of None \<Rightarrow> True | Some f \<Rightarrow> 0 < n \<and> f = fs ! (n - 1))"

definition play_inv :: "MrrFrame list \<Rightarrow> playback_task \<Rightarrow> bool" where
  "play_inv fs t \<longleftrightarrow> (inner_pc (pt_pc t) \<longrightarrow> (\<exists>n. reads_at fs t n)) \<and> set (pt_sent t) \<subseteq> fr_data ` set fs"

definition holds_recording :: "bytes \<Rightarrow> MrrFrame list \<Rightarrow> bool" where
  "holds_recording bs fs \<longleftrightarrow> (\<exists>r c. MrrReader_open \<lparr>c_data = bs, c_pos = 0\<rparr> = (Inr r, c) \<and> mrr_view r fs 0)"

lemma mrr_view_le: "mrr_view r fs n \<Longrightarrow> n \<le> length fs"
  by (auto simp: mrr_view_def)

lemma seek_view: "mrr_view r fs n \<Longrightarrow> \<exists>m. mrr_view (snd (MrrReader_seek_to_timestamp ms r)) fs m"
  using mrr_source.seek_lands[of r fs n ms] by auto

lemma open_step:
  assumes "holds_recording bs fs"
  shows "\<exists>r m. mrr_view r fs m \<and> playback_open (Some bs) t =
    t\<lparr>pt_shared := (pt_shared t)\<lparr>pb_seek_target := None\<rparr>, pt_reader := Some r,
      pt_first_frame_ts := None, pt_frames_played := 0, pt_pc := InnerStop\<rparr>
    \<and> (pb_seek_target (pt_shared t) = None \<and> pb_position_ms (pt_shared t) = 0 \<longrightarrow> m = 0)"
proof -
  from assms obtain r c where r: "MrrReader_open \<lparr>c_data = bs, c_pos = 0\<rparr> = (Inr r, c)" "mrr_view r fs 0"
    by (auto simp: holds_recording_def)
  let ?ms = "case pb_seek_target (pt_shared t) of Some ms \<Rightarrow> ms | None \<Rightarrow> pb_position_ms (pt_shared t)"
  obtain m where m: "mrr_view (snd (MrrReader_seek_to_timestamp ?ms r)) fs m" using seek_view[OF r(2)] by blast
  show ?thesis
  proof (cases "0 < ?ms")
    case True
    with r m show ?thesis
      by (intro exI[of _ "snd (MrrReader_seek_to_timestamp ?ms r)"] exI[of _ m])
        (auto simp: playback_open_def Let_def split: option.splits)
  next
    case False
    with r show ?thesis
      by (intro exI[of _ r] exI[of _ 0]) (auto simp: playback_open_def Let_def)
  qed
qed

lemma read_step:
  assumes "mrr_view r fs n" and "n < length fs"
  shows "\<exists>r'. playback_read r t = t\<lparr>pt_reader := Some r', pt_pc := Timing (fs ! n)\<rparr> \<and> mrr_view r' fs (Suc n)"
  using mrr_source.rd_frame[OF assms] by (auto simp: playback_read_def)

lemma read_end_step:
  assumes "mrr_view r fs (length fs)"
  shows "\<exists>r' n. playback_read r t =
      (if pb_loop (pt_shared t) then t\<lparr>pt_reader := Some r', pt_first_frame_ts := None, pt_pc := InnerStop\<rparr>
       else t\<lparr>pt_reader := Some r', pt_pc := InnerLeft\<rparr>) \<and> mrr_view r' fs n"
proof -
  obtain r' where "MrrReader_rewind r = (Inr (), r')" "mrr_view r' fs 0"
    using mrr_source.rew_start[OF assms] by blast
  with assms mrr_source.rd_end[OF assms] show ?thesis
    by (cases "pb_loop (pt_shared t)") (auto simp: playback_read_def)
qed

section \<open>Only recorded frames are sent\<close>

definition from_file :: "bytes \<Rightarrow> playback_task \<Rightarrow> play_input \<Rightarrow> bool" where
  "from_file bs t i = (case i of FileRead f \<Rightarrow> f = Some bs \<or> f = None | _ \<Rightarrow> True)"

lemma play_inv_client: "play_inv fs (t\<lparr>pt_shared := v\<rparr>) = play_inv fs t"
  by (simp add: play_inv_def reads_at_def)

lemma play_inv_read:
  assumes "play_inv fs t" and "mrr_view r fs n"
  shows "play_inv fs (playback_read r t)"
proof (cases "n < length fs")
  case True
  from read_step[OF assms(2) this, of t] obtain r' where
    "playback_read r t = t\<lparr>pt_reader := Some r', pt_pc := Timing (fs ! n)\<rparr>" "mrr_view r' fs (Suc n)" by blast
  then have "reads_at fs (playback_read r t) (Suc n)" "pt_sent (playback_read r t) = pt_sent t"
    using True by (simp_all add: reads_at_def held_def)
  with assms(1) show ?thesis by (auto simp: play_inv_def)
next
  case False
  with mrr_view_le[OF assms(2)] assms(2) have "mrr_view r fs (length fs)" by simp
  from read_end_step[OF this, of t] obtain r' n' where
    rd: "playback_read r t =
      (if pb_loop (pt_shared t) then t\<lparr>pt_reader := Some r', pt_first_frame_ts := None, pt_pc := InnerStop\<rparr>
       else t\<lparr>pt_reader := Some r', pt_pc := InnerLeft\<rparr>)" and v: "mrr_view r' fs n'" by blast
  with mrr_view_le[OF v] have "reads_at fs (playback_read r t) n'" "pt_sent (playback_read r t) = pt_sent t"
    by (simp_all add: reads_at_def held_def)
  with assms(1) show ?thesis by (auto simp: play_inv_def)
qed

lemma play_inv_tick:
  assumes inv: "play_inv fs t" and step: "playback_tick t = Some t'"
  shows "play_inv fs t'"
proof (cases "pt_pc t")
  case InnerSeek
  with inv obtain r n where r: "pt_reader t = Some r" "mrr_view r fs n"
    by (auto simp: play_inv_def reads_at_def inner_pc_def)
  with InnerSeek step have t': "t' = playback_seek r t" by (simp add: playback_tick_def)
  obtain m where m: "mrr_view (snd (MrrReader_seek_to_timestamp (the (pb_seek_target (pt_shared t))) r)) fs m"
    using seek_view[OF r(2)] by blast
  have "\<exists>k. reads_at fs t' k"
  proof (cases "pb_seek_target (pt_shared t)")
    case None
    with t' r mrr_view_le[OF r(2)] show ?thesis by (auto simp: playback_seek_def reads_at_def held_def)
  next
    case (Some ms)
    with t' m mrr_view_le[OF m] show ?thesis by (auto simp: playback_seek_def reads_at_def held_def)
  qed
  moreover have "pt_sent t' = pt_sent t" by (simp add: t' playback_seek_def split: option.splits)
  ultimately show ?thesis using inv by (auto simp: play_inv_def)
next
  case InnerRead
  with inv obtain r n where r: "pt_reader t = Some r" "mrr_view r fs n"
    by (auto simp: play_inv_def reads_at_def inner_pc_def)
  with InnerRead step have "t' = playback_read r t" by (simp add: playback_tick_def)
  with play_inv_read[OF inv r(2)] show ?thesis by simp
next
  case (Sending f)
  with inv obtain n where n: "reads_at fs t n" by (auto simp: play_inv_def inner_pc_def)
  with Sending have "0 < n" "n \<le> length fs" "f = fs ! (n - 1)" by (simp_all add: reads_at_def held_def)
  then have "fr_data f \<in> fr_data ` set fs" by simp
  moreover have "t' = playback_send f t" using Sending step by (simp add: playback_tick_def)
  moreover have "reads_at fs (playback_send f t) n" using n by (auto simp: playback_send_def Let_def reads_at_def held_def)
  ultimately show ?thesis using inv by (auto simp: play_inv_def playback_send_def Let_def)
qed (use inv step in \<open>auto simp: playback_tick_def Let_def play_inv_def reads_at_def inner_pc_def held_def split: if_splits\<close>)

lemma play_inv_step:
  assumes inv: "play_inv fs t" and step: "playback_step delay i t = Some t'"
    and f: "from_file bs t i" "holds_recording bs fs"
  shows "play_inv fs t'"
proof (cases i)
  case (FileRead fl)
  with step have pc: "pt_pc t = Opening" and t': "t' = playback_open fl t" by (auto split: if_splits)
  from FileRead f(1) have "fl = Some bs \<or> fl = None" by (simp add: from_file_def)
  then show ?thesis
  proof
    assume "fl = Some bs"
    with open_step[OF f(2), of t] obtain r m where "mrr_view r fs m" "t' = t\<lparr>pt_shared := (pt_shared t)\<lparr>pb_seek_target := None\<rparr>,
      pt_reader := Some r, pt_first_frame_ts := None, pt_frames_played := 0, pt_pc := InnerStop\<rparr>"
      by (auto simp: t')
    with inv mrr_view_le[of r fs m] show ?thesis by (auto simp: play_inv_def reads_at_def held_def)
  next
    assume "fl = None"
    with inv show ?thesis by (auto simp: t' playback_open_def play_inv_def inner_pc_def)
  qed
next
  case (Elapsed n)
  with step obtain f where f: "pt_pc t = Timing f" "t' = playback_timing delay n f t" by (auto split: play_pc.splits)
  with inv show ?thesis
    by (auto simp: play_inv_def reads_at_def playback_timing_def Let_def inner_pc_def held_def)
qed (use inv step play_inv_client play_inv_tick in \<open>auto\<close>)

lemma play_inv_reach:
  "playback_reach delay (from_file bs) playback_start t \<Longrightarrow> holds_recording bs fs \<Longrightarrow> play_inv fs t"
proof (induction rule: playback_reach.induct)
  case start
  show ?case by (simp add: play_inv_def playback_start_def inner_pc_def)
qed (rule play_inv_step)

section \<open>Undisturbed playback\<close>

text \<open>No client call but resume, the file is there, and no frame is due in more than 100 ms.\<close>

definition on_schedule :: "(u64 \<Rightarrow> u32 \<Rightarrow> nat) \<Rightarrow> bytes \<Rightarrow> playback_task \<Rightarrow> play_input \<Rightarrow> bool" where
  "on_schedule delay bs t i =
     (case i of Client c \<Rightarrow> c = Resume | FileRead f \<Rightarrow> f = Some bs
      | Elapsed n \<Rightarrow> (case pt_pc t of Timing f \<Rightarrow> pt_pc (playback_timing delay n f t) = Sending f | _ \<Rightarrow> True)
      | Tick \<Rightarrow> True)"

definition stands_at :: "MrrFrame list \<Rightarrow> playback_task \<Rightarrow> nat \<Rightarrow> bool" where
  "stands_at fs t n \<longleftrightarrow> (\<exists>r. pt_reader t = Some r \<and> mrr_view r fs n)"

definition sent_prefix :: "MrrFrame list \<Rightarrow> bytes list \<Rightarrow> bool" where
  "sent_prefix fs ds \<longleftrightarrow> ds = map fr_data (take (length ds) fs)"

lemma sent_prefix_Nil [simp]: "sent_prefix fs []"
  by (simp add: sent_prefix_def)

lemma sent_prefix_snoc:
  "sent_prefix fs ds \<Longrightarrow> length ds < length fs \<Longrightarrow> sent_prefix fs (ds @ [fr_data (fs ! length ds)])"
  by (simp add: sent_prefix_def take_Suc_conv_app_nth)

lemma sent_prefix_full: "sent_prefix fs ds \<Longrightarrow> length ds = length fs \<Longrightarrow> ds = map fr_data fs"
  by (simp add: sent_prefix_def)

definition seq_inv :: "MrrFrame list \<Rightarrow> playback_task \<Rightarrow> bool" where
  "seq_inv fs t \<longleftrightarrow>
     \<not> pb_loop (pt_shared t) \<and> pb_seek_target (pt_shared t) = None
     \<and> pb_stop_flag (pt_shared t) = (pt_pc t = Ended)
     \<and> sent_prefix fs (pt_sent t)
     \<and> pb_position_ms (pt_shared t) =
         (if pt_sent t = [] then 0 else fr_timestamp_ms (fs ! (length (pt_sent t) - 1)))
     \<and> (case pt_pc t of
          OuterStop \<Rightarrow> pt_sent t = [] | OuterPause \<Rightarrow> pt_sent t = []
        | Opening \<Rightarrow> pt_sent t = [] \<and> \<not> pb_pause_flag (pt_shared t)
        | Timing f \<Rightarrow> \<not> pb_pause_flag (pt_shared t) \<and> stands_at fs t (Suc (length (pt_sent t)))
            \<and> length (pt_sent t) < length fs \<and> f = fs ! length (pt_sent t)
        | Sending f \<Rightarrow> \<not> pb_pause_flag (pt_shared t) \<and> stands_at fs t (Suc (length (pt_sent t)))
            \<and> length (pt_sent t) < length fs \<and> f = fs ! length (pt_sent t)
        | pc \<Rightarrow> \<not> pb_pause_flag (pt_shared t)
            \<and> (if inner_pc pc then stands_at fs t (length (pt_sent t)) else length (pt_sent t) = length fs))"

lemma stands_at_simps [simp]:
  "stands_at fs (t\<lparr>pt_pc := pc\<rparr>) n = stands_at fs t n"
  "stands_at fs (t\<lparr>pt_shared := v\<rparr>) n = stands_at fs t n"
  "stands_at fs (t\<lparr>pt_first_frame_ts := ts\<rparr>) n = stands_at fs t n"
  "stands_at fs (t\<lparr>pt_frames_played := k\<rparr>) n = stands_at fs t n"
  "stands_at fs (t\<lparr>pt_sent := ds\<rparr>) n = stands_at fs t n"
  "stands_at fs (t\<lparr>pt_reader := Some r\<rparr>) n = mrr_view r fs n"
  by (simp_all add: stands_at_def)

lemma inner_pc_simps [simp]:
  "inner_pc InnerStop" "inner_pc InnerPause" "inner_pc InnerSeek" "inner_pc InnerRead"
  "\<not> inner_pc InnerLeft" "\<not> inner_pc InnerLeft2" "\<not> inner_pc Finishing" "\<not> inner_pc Ended"
  by (simp_all add: inner_pc_def)

lemma seq_inv_tick:
  assumes inv: "seq_inv fs t" and step: "playback_tick t = Some t'"
  shows "seq_inv fs t'"
proof (cases "pt_pc t")
  case InnerSeek
  with inv step have "t' = t\<lparr>pt_pc := InnerRead\<rparr>"
    by (auto simp: seq_inv_def playback_tick_def playback_seek_def)
  with inv InnerSeek show ?thesis by (simp add: seq_inv_def)
next
  case InnerRead
  let ?n = "length (pt_sent t)"
  from inv InnerRead obtain r where r: "pt_reader t = Some r" "mrr_view r fs ?n"
    by (auto simp: seq_inv_def stands_at_def)
  with InnerRead step have t': "t' = playback_read r t" by (simp add: playback_tick_def)
  show ?thesis
  proof (cases "?n < length fs")
    case True
    from read_step[OF r(2) this, of t] obtain r' where
      "t' = t\<lparr>pt_reader := Some r', pt_pc := Timing (fs ! ?n)\<rparr>" "mrr_view r' fs (Suc ?n)" using t' by blast
    with inv InnerRead True show ?thesis by (simp add: seq_inv_def)
  next
    case False
    with mrr_view_le[OF r(2)] have n: "?n = length fs" by simp
    have "\<not> pb_loop (pt_shared t)" using inv by (simp add: seq_inv_def)
    with read_end_step[of r fs t] r n t' obtain r' where "t' = t\<lparr>pt_reader := Some r', pt_pc := InnerLeft\<rparr>" by auto
    with inv n InnerRead show ?thesis by (simp add: seq_inv_def)
  qed
next
  case (Sending f)
  have "t' = playback_send f t" using Sending step by (simp add: playback_tick_def)
  with inv Sending show ?thesis
    by (simp add: seq_inv_def playback_send_def Let_def sent_prefix_snoc)
qed (use inv step in \<open>auto simp: seq_inv_def playback_tick_def Let_def split: if_splits\<close>)

lemma seq_inv_step:
  assumes inv: "seq_inv fs t" and ok: "on_schedule delay bs t i" and step: "playback_step delay i t = Some t'"
    and rec: "holds_recording bs fs"
  shows "seq_inv fs t'"
proof (cases i)
  case (Client c)
  with ok step have "t' = t\<lparr>pt_shared := (pt_shared t)\<lparr>pb_pause_flag := False\<rparr>\<rparr>"
    by (auto simp: on_schedule_def client_apply_def ActivePlayback_resume_def)
  with inv show ?thesis by (cases "pt_pc t") (simp_all add: seq_inv_def)
next
  case Tick
  with inv step show ?thesis by (auto intro: seq_inv_tick)
next
  case (FileRead fl)
  with ok step have pc: "pt_pc t = Opening" and t': "t' = playback_open (Some bs) t"
    by (auto simp: on_schedule_def split: if_splits)
  from open_step[OF rec, of t] inv pc t' obtain r where "mrr_view r fs 0"
    "t' = t\<lparr>pt_shared := (pt_shared t)\<lparr>pb_seek_target := None\<rparr>, pt_reader := Some r,
      pt_first_frame_ts := None, pt_frames_played := 0, pt_pc := InnerStop\<rparr>"
    by (auto simp: seq_inv_def)
  with inv pc show ?thesis by (simp add: seq_inv_def)
next
  case (Elapsed n)
  with step obtain f where f: "pt_pc t = Timing f" "t' = playback_timing delay n f t"
    by (auto split: play_pc.splits)
  with ok Elapsed have "pt_pc t' = Sending f" by (simp add: on_schedule_def)
  moreover obtain ts pc where "t' = t\<lparr>pt_first_frame_ts := ts, pt_pc := pc\<rparr>"
    using f(2) by (simp add: playback_timing_def Let_def)
  ultimately have "t' = t\<lparr>pt_first_frame_ts := ts, pt_pc := Sending f\<rparr>" by simp
  with inv f(1) show ?thesis by (simp add: seq_inv_def)
qed

lemma seq_inv_reach:
  "playback_reach delay (on_schedule delay bs) playback_start t \<Longrightarrow> holds_recording bs fs \<Longrightarrow> seq_inv fs t"
proof (induction rule: playback_reach.induct)
  case start
  show ?case by (simp add: seq_inv_def playback_start_def)
qed (rule seq_inv_step)

text \<open>How many steps are left until the end when nobody interferes.\<close>

definition steps_left :: "MrrFrame list \<Rightarrow> playback_task \<Rightarrow> nat" where
  "steps_left fs t =
     (let m = 6 * (length fs - length (pt_sent t)) in
      case pt_pc t of OuterStop \<Rightarrow> m + 11 | OuterPause \<Rightarrow> m + 10 | Opening \<Rightarrow> m + 9 | InnerStop \<Rightarrow> m + 8
      | InnerPause \<Rightarrow> m + 7 | InnerSeek \<Rightarrow> m + 6 | InnerRead \<Rightarrow> m + 5 | Timing _ \<Rightarrow> m + 4 | Sending _ \<Rightarrow> m + 3
      | InnerLeft \<Rightarrow> 3 | InnerLeft2 \<Rightarrow> 2 | Finishing \<Rightarrow> 1 | Ended \<Rightarrow> 0)"

lemma tick_progress:
  assumes inv: "seq_inv fs t" and np: "\<not> pb_pause_flag (pt_shared t)"
    and pc: "pt_pc t \<noteq> Ended" "pt_pc t \<noteq> Opening" "\<And>f. pt_pc t \<noteq> Timing f"
  shows "\<exists>t'. playback_tick t = Some t' \<and> steps_left fs t' < steps_left fs t \<and> \<not> pb_pause_flag (pt_shared t')"
proof (cases "pt_pc t")
  case InnerRead
  let ?n = "length (pt_sent t)"
  from inv InnerRead obtain r where r: "pt_reader t = Some r" "mrr_view r fs ?n" "\<not> pb_loop (pt_shared t)"
    by (auto simp: seq_inv_def stands_at_def)
  have "steps_left fs (playback_read r t) < steps_left fs t \<and> pt_shared (playback_read r t) = pt_shared t"
  proof (cases "?n < length fs")
    case True
    from read_step[OF r(2) this, of t] InnerRead show ?thesis by (auto simp: steps_left_def)
  next
    case False
    with mrr_view_le[OF r(2)] have "?n = length fs" by simp
    with read_end_step[of r fs t] r InnerRead show ?thesis by (auto simp: steps_left_def)
  qed
  with np InnerRead r show ?thesis by (simp add: playback_tick_def)
next
  case (Sending f)
  with inv have "length (pt_sent t) < length fs" by (simp add: seq_inv_def)
  with np Sending show ?thesis by (simp add: playback_tick_def playback_send_def Let_def steps_left_def)
next
  case InnerSeek
  with inv np show ?thesis
    by (auto simp: playback_tick_def playback_seek_def steps_left_def seq_inv_def stands_at_def)
qed (use inv np pc in \<open>simp_all add: playback_tick_def steps_left_def seq_inv_def Let_def\<close>)

lemma undisturbed_progress:
  assumes inv: "seq_inv fs t" and rec: "holds_recording bs fs"
    and "\<not> pb_pause_flag (pt_shared t)" and "pt_pc t \<noteq> Ended"
  shows "\<exists>i t'. on_schedule delay bs t i \<and> playback_step delay i t = Some t' \<and> steps_left fs t' < steps_left fs t
    \<and> \<not> pb_pause_flag (pt_shared t')"
proof -
  consider "pt_pc t = Opening" | f where "pt_pc t = Timing f"
    | "pt_pc t \<noteq> Opening" "\<And>f. pt_pc t \<noteq> Timing f" by blast
  then show ?thesis
  proof cases
    case 1
    from open_step[OF rec, of t] inv 1 obtain r where
      "playback_open (Some bs) t = t\<lparr>pt_shared := (pt_shared t)\<lparr>pb_seek_target := None\<rparr>, pt_reader := Some r,
        pt_first_frame_ts := None, pt_frames_played := 0, pt_pc := InnerStop\<rparr>"
      by (auto simp: seq_inv_def)
    with assms 1 show ?thesis
      by (intro exI[of _ "FileRead (Some bs)"]) (simp add: on_schedule_def steps_left_def)
  next
    case (2 f)
    let ?n = "delay (fr_timestamp_ms f - (case pt_first_frame_ts t of Some ts \<Rightarrow> ts | None \<Rightarrow> fr_timestamp_ms f))
        (pb_speed (pt_shared t)) * 1000000"
    from assms 2 show ?thesis
      by (intro exI[of _ "Elapsed ?n"]) (simp add: on_schedule_def steps_left_def playback_timing_def Let_def)
  next
    case 3
    from tick_progress[OF inv assms(3,4) 3] show ?thesis
      by (intro exI[of _ Tick]) (simp add: on_schedule_def)
  qed
qed

lemma seq_finishes:
  assumes rec: "holds_recording bs fs"
  shows "seq_inv fs u \<Longrightarrow> \<not> pb_pause_flag (pt_shared u) \<Longrightarrow>
    \<exists>t'. playback_reach delay (on_schedule delay bs) u t' \<and> pt_pc t' = Ended \<and> pt_sent t' = map fr_data fs"
proof (induction "steps_left fs u" arbitrary: u rule: less_induct)
  case less
  show ?case
  proof (cases "pt_pc u = Ended")
    case True
    with less.prems(1) sent_prefix_full[of fs "pt_sent u"] show ?thesis
      by (intro exI[of _ u]) (auto simp: seq_inv_def intro: playback_reach.start)
  next
    case False
    from undisturbed_progress[OF less.prems(1) rec less.prems(2) False, of delay] obtain i u1 where
      i: "on_schedule delay bs u i" "playback_step delay i u = Some u1" "steps_left fs u1 < steps_left fs u"
      "\<not> pb_pause_flag (pt_shared u1)" by blast
    from less.hyps[OF i(3) seq_inv_step[OF less.prems(1) i(1,2) rec] i(4)] obtain t' where
      t': "playback_reach delay (on_schedule delay bs) u1 t'" "pt_pc t' = Ended" "pt_sent t' = map fr_data fs" by blast
    have "playback_reach delay (on_schedule delay bs) u u1"
      by (rule playback_reach.step[of _ _ _ u i]) (simp_all add: i playback_reach.start)
    with t' show ?thesis using playback_reach_trans by blast
  qed
qed

section \<open>Properties\<close>

lemma sample_holds: "holds_recording (mrr_file sample_header [] [] sample_frames) sample_frames"
proof -
  have n: "map MrrFrame_norm sample_frames = sample_frames"
    by (simp add: sample_frames_def MrrFrame_new_def MrrFrame_norm_def MrrFrame_write_flags_def)
  from MrrReader_open_file[OF sample_file_ok] obtain r c where
    "MrrReader_open \<lparr>c_data = mrr_file sample_header [] [] sample_frames, c_pos = 0\<rparr> = (Inr r, c)"
    "reads_file r sample_header [] [] sample_frames" "c_pos (r_reader r) = frame_pos [] [] sample_frames 0"
    by blast
  with mrr_view_opened[OF sample_file_ok] n show ?thesis
    by (auto simp: holds_recording_def)
qed



text \<open>
  C15. Whatever clients do (seek, pause, resume, loop, change the speed, at any moment), playback
  only ever sends data of frames of the recording, and the task is never stuck: while it has not
  ended, some step is possible.
\<close>

theorem playback_sends_recorded:
  assumes "holds_recording bs fs" and "playback_reach delay (from_file bs) playback_start t"
  shows "set (pt_sent t) \<subseteq> fr_data ` set fs
    \<and> (pt_pc t \<noteq> Ended \<longrightarrow> (\<exists>i. from_file bs t i \<and> (\<forall>c. i \<noteq> Client c) \<and> playback_step delay i t \<noteq> None))"
proof -
  note inv = play_inv_reach[OF assms(2,1)]
  have "\<exists>i. from_file bs t i \<and> (\<forall>c. i \<noteq> Client c) \<and> playback_step delay i t \<noteq> None" if "pt_pc t \<noteq> Ended"
  proof (cases "pt_pc t")
    case Opening
    then show ?thesis by (intro exI[of _ "FileRead (Some bs)"]) (simp add: from_file_def)
  next
    case (Timing f)
    then show ?thesis by (intro exI[of _ "Elapsed 0"]) (simp add: from_file_def)
  qed (use inv that in \<open>intro exI[of _ Tick];
      fastforce simp: from_file_def playback_tick_def Let_def play_inv_def reads_at_def inner_pc_def\<close>)+
  with inv show ?thesis by (simp add: play_inv_def)
qed

theorem playback_sends_recorded_witness:
  "\<exists>t. playback_reach (\<lambda>r s. unat r) (from_file (mrr_file sample_header [] [] sample_frames)) playback_start t
     \<and> pb_seek_target (pt_shared t) = Some 50 \<and> set (pt_sent t) \<subseteq> {[1], [2], [3]}"
proof -
  let ?t = "playback_start\<lparr>pt_shared := client_apply (Seek 50) (pt_shared playback_start)\<rparr>"
  have reach: "playback_reach (\<lambda>r s. unat r) (from_file (mrr_file sample_header [] [] sample_frames)) playback_start ?t"
    by (rule playback_reach.step[OF playback_reach.start, of _ _ "Client (Seek 50)"]) (simp_all add: from_file_def)
  have "fr_data ` set sample_frames = {[1], [2], [3]}" by (simp add: sample_frames_def MrrFrame_new_def)
  with playback_sends_recorded[OF sample_holds reach] reach show ?thesis
    by (intro exI[of _ ?t]) (simp add: client_apply_def ActivePlayback_seek_def)
qed

text \<open>
  C27. Stopping. Once the stop flag is set it stays set, and whatever happens then at most one
  more frame, the one being processed, is sent.
\<close>

theorem playback_stop_honoured:
  assumes "pb_stop_flag (pt_shared t)" and "playback_reach delay ok t t'"
  shows "pb_stop_flag (pt_shared t') \<and> (\<exists>more. pt_sent t' = pt_sent t @ more \<and> length more \<le> 1)"
proof -
  from assms(2) have "pb_stop_flag (pt_shared t')
    \<and> length (pt_sent t') + may_send (pt_pc t') \<le> length (pt_sent t) + may_send (pt_pc t)
    \<and> (\<exists>more. pt_sent t' = pt_sent t @ more)"
  proof (induction rule: playback_reach.induct)
    case start
    then show ?case using assms(1) by simp
  next
    case (step t1 i t2)
    with stop_step[OF step.hyps(3)] show ?case by fastforce
  qed
  moreover have "may_send (pt_pc t) \<le> 1" by (simp add: may_send_def split: play_pc.split)
  ultimately show ?thesis by auto
qed

theorem playback_stop_honoured_witness:
  "\<exists>t t'. pb_stop_flag (pt_shared t) \<and> playback_reach (\<lambda>r s. 0) (\<lambda>_ _. True) t t' \<and> pt_pc t' = Finishing
    \<and> pb_stop_flag (pt_shared t')"
proof -
  let ?t = "playback_start\<lparr>pt_shared := client_apply Stop (pt_shared playback_start)\<rparr>"
  have stop: "pb_stop_flag (pt_shared ?t)" by (simp add: client_apply_def ActivePlayback_stop_def)
  have reach: "playback_reach (\<lambda>r s. 0) (\<lambda>_ _. True) ?t (?t\<lparr>pt_pc := Finishing\<rparr>)"
    by (rule playback_reach.step[OF playback_reach.start, of _ _ Tick])
      (simp_all add: playback_tick_def playback_start_def client_apply_def ActivePlayback_stop_def)
  from playback_stop_honoured[OF stop reach] stop reach show ?thesis
    by (intro exI[of _ ?t] exI[of _ "?t\<lparr>pt_pc := Finishing\<rparr>"]) simp
qed

text \<open>
  C28. The speed a client sets is kept between a tenth and ten times the recorded speed, so the
  division by the speed when a frame's time is computed is never a division by zero.
\<close>

theorem playback_speed_bounds:
  assumes "playback_reach delay ok playback_start t"
  shows "10 \<le> pb_speed (pt_shared t) \<and> pb_speed (pt_shared t) \<le> 1000"
  using assms
proof (induction rule: playback_reach.induct)
  case start
  show ?case by (simp add: playback_start_def)
next
  case (step t1 i t2)
  with speed_step[OF step.hyps(3)] show ?case by simp
qed

theorem playback_speed_bounds_witness:
  "\<exists>t. playback_reach (\<lambda>r s. 0) (\<lambda>_ _. True) playback_start t \<and> pb_speed (pt_shared t) = 1000"
proof -
  let ?t = "playback_start\<lparr>pt_shared := client_apply (SetSpeed 50000) (pt_shared playback_start)\<rparr>"
  have reach: "playback_reach (\<lambda>r s. 0) (\<lambda>_ _. True) playback_start ?t"
    by (rule playback_reach.step[OF playback_reach.start, of _ _ "Client (SetSpeed 50000)"]) simp_all
  have "1000 \<le> pb_speed (pt_shared ?t)"
    by (simp add: client_apply_def ActivePlayback_set_speed_def)
  with playback_speed_bounds[OF reach] reach show ?thesis
    by (intro exI[of _ ?t] conjI) (assumption, simp)
qed

text \<open>
  C29. A frame after a gap is lost. When the frame that was just read is due in more than 100 ms,
  the task waits 100 ms and goes on without sending it, and the reader already stands after
  it: the frame is skipped, not delayed.
\<close>

theorem playback_gap_loses_frame:
  assumes "pt_pc t = InnerRead" and "pt_reader t = Some r" and "mrr_view r fs n" and "n < length fs"
    and "pt_first_frame_ts t = Some first"
    and "elapsed + 100 * 1000000 < delay (fr_timestamp_ms (fs ! n) - first) (pb_speed (pt_shared t)) * 1000000"
  shows "\<exists>t' r'. playback_run delay [Tick, Elapsed elapsed] t = Some t' \<and> pt_sent t' = pt_sent t
    \<and> pt_pc t' = InnerStop \<and> pt_reader t' = Some r' \<and> mrr_view r' fs (Suc n)"
proof -
  from read_step[OF assms(3,4), of t] obtain r' where
    "playback_read r t = t\<lparr>pt_reader := Some r', pt_pc := Timing (fs ! n)\<rparr>" "mrr_view r' fs (Suc n)" by blast
  with assms show ?thesis
    by (simp add: playback_tick_def playback_timing_def Let_def)
qed

theorem playback_gap_loses_frame_witness:
  "\<exists>t t' r'. pt_sent t = [[9]] \<and> playback_run (\<lambda>r s. unat r) [Tick, Elapsed 0] t = Some t'
     \<and> pt_sent t' = [[9]] \<and> pt_reader t' = Some r' \<and> mrr_view r' [MrrFrame_new 500 [7]] 1"
proof -
  let ?fs = "[MrrFrame_new 500 [7]]"
  have "file_ok sample_header [] [] ?fs"
  proof (rule recording_fits_file_ok)
    show "recording_fits [] [] ?fs"
      by (simp add: recording_fits_def MAX_METADATA_SIZE_def MrrFrame_ok_def MAX_FRAME_DATA_SIZE_def
          frames_base_def HEADER_SIZE_def FOOTER_SIZE_def INDEX_ENTRY_SIZE_def MrrFrame_size_def MrrFrame_new_def)
    show "header_for [] [] sample_header"
      by (simp add: header_for_def sample_header_def MrrHeader_default_def HEADER_SIZE_def frames_base_def)
  qed
  note ok = this
  from MrrReader_open_file[OF ok] obtain r where "reads_file r sample_header [] [] ?fs"
    "c_pos (r_reader r) = frame_pos [] [] ?fs 0" by blast
  with mrr_view_opened[OF ok] have v: "mrr_view r ?fs 0"
    by (simp add: MrrFrame_new_def MrrFrame_norm_def MrrFrame_write_flags_def)
  let ?t = "playback_start\<lparr>pt_pc := InnerRead, pt_reader := Some r, pt_first_frame_ts := Some 0, pt_sent := [[9]]\<rparr>"
  from playback_gap_loses_frame[of ?t r ?fs 0 0 0 "\<lambda>r s. unat r"] v show ?thesis
    by - (rule exI[of _ ?t], auto simp: MrrFrame_new_def simp del: playback_run.simps)
qed

end
