(* ===== verification/Float64.thy ===== *)
theory Float64
  imports Prelude Complex_Main
begin

text \<open>
  The 64-bit floating-point numbers of the sources. A finite value is the rational number it
  stands for, so positive and negative zero are one value (the sources never divide by a zero
  whose sign could be negative, and they print no zeros). Every operation computes exactly and
  then rounds to the nearest representable number, ties to even, with the subnormal range and
  the overflow to an infinity written out. Casts to integer types truncate and saturate.
\<close>

section \<open>Rounding\<close>

fun bit_count :: "nat \<Rightarrow> nat" where
  "bit_count n = (if n = 0 then 0 else Suc (bit_count (n div 2)))"

declare bit_count.simps [simp del]

definition pow2 :: "int \<Rightarrow> rat" where
  "pow2 k = (if 0 \<le> k then 2 ^ nat k else 1 / 2 ^ nat (- k))"

text \<open>The exponent \<open>e\<close> of a positive rational \<open>q\<close>: \<open>2 ^ e \<le> q < 2 ^ (e + 1)\<close>.\<close>

definition exponent :: "rat \<Rightarrow> int" where
  "exponent q =
     (let (a, b) = quotient_of q; k = int (bit_count (nat a)) - int (bit_count (nat b))
      in if pow2 k \<le> q then k else k - 1)"

definition round_even :: "rat \<Rightarrow> int" where
  "round_even q =
     (let f = \<lfloor>q\<rfloor>; r = q - of_int f
      in if r < 1 / 2 then f else if 1 / 2 < r then f + 1 else if even f then f else f + 1)"

datatype f64 = NaN | Inf bool | Fin rat

definition f64_round :: "rat \<Rightarrow> f64" where
  "f64_round q =
     (if q = 0 then Fin 0
      else let s = max (exponent \<bar>q\<bar> - 52) (- 1074);
               v = of_int (round_even (q / pow2 s)) * pow2 s
           in if 2 ^ 1024 \<le> \<bar>v\<bar> then Inf (v < 0) else Fin v)"

definition f64_of_int :: "int \<Rightarrow> f64" where
  "f64_of_int i = f64_round (of_int i)"

section \<open>Arithmetic and comparison\<close>

fun f64_neg :: "f64 \<Rightarrow> f64" where
  "f64_neg NaN = NaN"
| "f64_neg (Inf n) = Inf (\<not> n)"
| "f64_neg (Fin a) = Fin (- a)"

fun f64_add :: "f64 \<Rightarrow> f64 \<Rightarrow> f64" where
  "f64_add (Fin a) (Fin b) = f64_round (a + b)"
| "f64_add (Inf m) (Inf n) = (if m = n then Inf m else NaN)"
| "f64_add (Inf m) (Fin b) = Inf m"
| "f64_add (Fin a) (Inf n) = Inf n"
| "f64_add a b = NaN"

definition f64_sub :: "f64 \<Rightarrow> f64 \<Rightarrow> f64" where
  "f64_sub a b = f64_add a (f64_neg b)"

fun f64_mul :: "f64 \<Rightarrow> f64 \<Rightarrow> f64" where
  "f64_mul (Fin a) (Fin b) = f64_round (a * b)"
| "f64_mul (Inf m) (Inf n) = Inf (m \<noteq> n)"
| "f64_mul (Inf m) (Fin b) = (if b = 0 then NaN else Inf (m \<noteq> (b < 0)))"
| "f64_mul (Fin a) (Inf n) = (if a = 0 then NaN else Inf (n \<noteq> (a < 0)))"
| "f64_mul a b = NaN"

fun f64_div :: "f64 \<Rightarrow> f64 \<Rightarrow> f64" where
  "f64_div (Fin a) (Fin b) =
     (if b = 0 then (if a = 0 then NaN else Inf (a < 0)) else f64_round (a / b))"
| "f64_div (Inf m) (Fin b) = Inf (m \<noteq> (b < 0))"
| "f64_div (Fin a) (Inf n) = Fin 0"
| "f64_div a b = NaN"

definition rat_trunc :: "rat \<Rightarrow> int" where
  "rat_trunc q = (if 0 \<le> q then \<lfloor>q\<rfloor> else \<lceil>q\<rceil>)"

fun f64_rem :: "f64 \<Rightarrow> f64 \<Rightarrow> f64" where
  "f64_rem (Fin a) (Fin b) = (if b = 0 then NaN else Fin (a - b * of_int (rat_trunc (a / b))))"
| "f64_rem (Fin a) (Inf n) = Fin a"
| "f64_rem a b = NaN"

text \<open>\<open>f64::round\<close>: to the nearest integer, halves away from zero.\<close>

fun f64_rint :: "f64 \<Rightarrow> f64" where
  "f64_rint (Fin a) = Fin (of_int (if 0 \<le> a then \<lfloor>a + 1 / 2\<rfloor> else \<lceil>a - 1 / 2\<rceil>))"
| "f64_rint a = a"

fun f64_lt :: "f64 \<Rightarrow> f64 \<Rightarrow> bool" where
  "f64_lt (Fin a) (Fin b) = (a < b)"
| "f64_lt (Inf m) (Inf n) = (m \<and> \<not> n)"
| "f64_lt (Inf m) (Fin b) = m"
| "f64_lt (Fin a) (Inf n) = (\<not> n)"
| "f64_lt a b = False"

definition f64_eq :: "f64 \<Rightarrow> f64 \<Rightarrow> bool" where
  "f64_eq a b \<longleftrightarrow> a = b \<and> a \<noteq> NaN"

definition f64_le :: "f64 \<Rightarrow> f64 \<Rightarrow> bool" where
  "f64_le a b \<longleftrightarrow> f64_lt a b \<or> f64_eq a b"

definition opt_f64_eq :: "f64 option \<Rightarrow> f64 option \<Rightarrow> bool" where
  "opt_f64_eq a b = (case (a, b) of (Some x, Some y) \<Rightarrow> f64_eq x y | (None, None) \<Rightarrow> True | _ \<Rightarrow> False)"

section \<open>Casts\<close>

fun f64_cast :: "int \<Rightarrow> int \<Rightarrow> f64 \<Rightarrow> int" where
  "f64_cast lo hi NaN = 0"
| "f64_cast lo hi (Inf n) = (if n then lo else hi)"
| "f64_cast lo hi (Fin a) = max lo (min hi (rat_trunc a))"

definition as_i32 :: "f64 \<Rightarrow> int" where "as_i32 = f64_cast (- (2 ^ 31)) (2 ^ 31 - 1)"
definition as_i64 :: "f64 \<Rightarrow> int" where "as_i64 = f64_cast (- (2 ^ 63)) (2 ^ 63 - 1)"
definition as_u8 :: "f64 \<Rightarrow> int" where "as_u8 = f64_cast 0 (2 ^ 8 - 1)"
definition as_u16 :: "f64 \<Rightarrow> int" where "as_u16 = f64_cast 0 (2 ^ 16 - 1)"
definition as_u32 :: "f64 \<Rightarrow> int" where "as_u32 = f64_cast 0 (2 ^ 32 - 1)"
definition as_usize :: "f64 \<Rightarrow> int" where "as_usize = f64_cast 0 (2 ^ 64 - 1)"

definition f64_max :: "f64 \<Rightarrow> f64 \<Rightarrow> f64" where
  "f64_max x y = (if x = NaN then y else if y = NaN then x else if f64_lt x y then y else x)"

definition f64_min :: "f64 \<Rightarrow> f64 \<Rightarrow> f64" where
  "f64_min x y = (if x = NaN then y else if y = NaN then x else if f64_lt y x then y else x)"

definition f64_abs :: "f64 \<Rightarrow> f64" where
  "f64_abs x = (case x of NaN \<Rightarrow> NaN | Inf _ \<Rightarrow> Inf False | Fin r \<Rightarrow> Fin \<bar>r\<bar>)"

text \<open>The wrap-around of 32-bit signed arithmetic in release builds.\<close>

definition wrap_i32 :: "int \<Rightarrow> int" where
  "wrap_i32 x = (x + 2 ^ 31) mod 2 ^ 32 - 2 ^ 31"

lemma rat_trunc_int [simp]: "rat_trunc (of_int k) = k"
  by (simp add: rat_trunc_def)

lemma as_i32_int [simp]: "- (2 ^ 31) \<le> k \<Longrightarrow> k < 2 ^ 31 \<Longrightarrow> as_i32 (Fin (of_int k)) = k"
  by (simp add: as_i32_def)

lemma wrap_i32_id [simp]: "- (2 ^ 31) \<le> x \<Longrightarrow> x < 2 ^ 31 \<Longrightarrow> wrap_i32 x = x"
  by (simp add: wrap_i32_def)

section \<open>Decimal text\<close>

definition is_digit :: "char \<Rightarrow> bool" where
  "is_digit c \<longleftrightarrow> 48 \<le> (of_char c :: nat) \<and> (of_char c :: nat) \<le> 57"

definition lower :: "char \<Rightarrow> char" where
  "lower c = (if 65 \<le> (of_char c :: nat) \<and> (of_char c :: nat) \<le> 90 then char_of ((of_char c :: nat) + 32) else c)"

definition eq_ignore_ascii_case :: "string \<Rightarrow> string \<Rightarrow> bool" where
  "eq_ignore_ascii_case a b \<longleftrightarrow> map lower a = map lower b"

definition split_sign :: "string \<Rightarrow> bool \<times> string" where
  "split_sign s = (case s of c # r \<Rightarrow> if c = CHR ''-'' then (True, r) else if c = CHR ''+'' then (False, r) else (False, s)
                           | [] \<Rightarrow> (False, []))"

text \<open>\<open>str::parse\<close> for integer types with the given bounds; an unsigned type takes no minus sign.\<close>

definition parse_int :: "int \<Rightarrow> int \<Rightarrow> string \<Rightarrow> int option" where
  "parse_int lo hi s =
     (let (neg, ds) = split_sign s; v = (if neg then - int (str_nat ds) else int (str_nat ds))
      in if ds \<noteq> [] \<and> list_all is_digit ds \<and> (neg \<longrightarrow> lo < 0) \<and> lo \<le> v \<and> v \<le> hi then Some v else None)"

definition parse_i32 :: "string \<Rightarrow> int option" where "parse_i32 = parse_int (- (2 ^ 31)) (2 ^ 31 - 1)"
definition parse_i64 :: "string \<Rightarrow> int option" where "parse_i64 = parse_int (- (2 ^ 63)) (2 ^ 63 - 1)"

text \<open>\<open>str::parse\<close> for floating-point numbers: sign, digits with at most one point, exponent; or a name.\<close>

definition parse_exponent :: "string \<Rightarrow> int option" where
  "parse_exponent s =
     (case s of [] \<Rightarrow> Some 0
      | c # r \<Rightarrow> if lower c = CHR ''e'' then
            (let (neg, ds) = split_sign r
             in if ds \<noteq> [] \<and> list_all is_digit ds then Some (if neg then - int (str_nat ds) else int (str_nat ds)) else None)
          else None)"

definition parse_decimal :: "string \<Rightarrow> rat option" where
  "parse_decimal s =
     (let whole = takeWhile is_digit s; r = dropWhile is_digit s;
          (frac, r') = (case r of c # t \<Rightarrow> if c = CHR ''.'' then (takeWhile is_digit t, dropWhile is_digit t) else ([], r)
                                | [] \<Rightarrow> ([], []));
          scaled = (of_nat (str_nat (whole @ frac)) :: rat)
      in if whole = [] \<and> frac = [] then None
         else case parse_exponent r' of None \<Rightarrow> None
           | Some e \<Rightarrow> let k = e - int (length frac)
                       in Some (if 0 \<le> k then scaled * 10 ^ nat k else scaled / 10 ^ nat (- k)))"

definition parse_f64 :: "string \<Rightarrow> f64 option" where
  "parse_f64 s =
     (let (neg, r) = split_sign s; l = map lower r
      in if l = ''inf'' \<or> l = ''infinity'' then Some (Inf neg)
         else if l = ''nan'' then Some NaN
         else map_option (\<lambda>q. f64_round (if neg then - q else q)) (parse_decimal r))"

section \<open>Integers are exact\<close>

lemma pow2_pos [simp]: "0 < pow2 k"
  by (simp add: pow2_def)

lemma pow2_add: "pow2 (i + j) = pow2 i * pow2 j"
proof -
  have "pow2 k = 2 powi k" for k
    by (simp add: pow2_def power_int_def inverse_eq_divide power_one_over)
  then show ?thesis by (simp add: power_int_add)
qed

lemma pow2_mono: "i \<le> j \<Longrightarrow> pow2 i \<le> pow2 j"
proof -
  assume "i \<le> j"
  then have "pow2 j = pow2 i * 2 ^ nat (j - i)" using pow2_add[of i "j - i"] by (simp add: pow2_def)
  then show "pow2 i \<le> pow2 j" using pow2_pos[of i] by simp
qed

lemma bit_count_bounds: "0 < n \<Longrightarrow> 2 ^ (bit_count n - 1) \<le> n \<and> n < 2 ^ bit_count n"
proof (induction n rule: bit_count.induct)
  case (1 n)
  show ?case
  proof (cases "n div 2 = 0")
    case True
    with 1 have "n = 1" by linarith
    then show ?thesis by (simp add: bit_count.simps)
  next
    case False
    with 1 have IH: "2 ^ (bit_count (n div 2) - 1) \<le> n div 2" "n div 2 < 2 ^ bit_count (n div 2)"
      by auto
    have "bit_count (n div 2) = Suc (bit_count (n div 2) - 1)"
      using False by (subst (1 2) bit_count.simps) simp
    then obtain k where k: "bit_count (n div 2) = Suc k" by blast
    have "bit_count n = Suc (Suc k)" using "1.prems" k by (subst bit_count.simps) simp
    with IH k show ?thesis by simp linarith
  qed
qed

lemma round_even_int [simp]: "round_even (of_int i) = i"
  by (simp add: round_even_def Let_def)

lemma exponent_int_less:
  assumes "0 < i" and "i < 2 ^ n"
  shows "exponent (of_int i) < int n"
proof -
  have "pow2 (exponent (of_int i)) \<le> of_int i"
  proof -
    let ?b = "bit_count (nat i)"
    have b: "2 ^ (?b - 1) \<le> nat i" "0 < ?b"
      using bit_count_bounds[of "nat i"] assms(1) by (auto simp: bit_count.simps)
    have "2 ^ (?b - 1) \<le> i" using b(1) assms(1)
      by (metis nat_2 nat_le_eq_zle nat_power_eq not_less numeral_2_eq_2 zero_le_numeral zero_less_nat_eq linorder_not_le nat_0_le order_less_imp_le)
    then have "(2 :: rat) ^ (?b - 1) \<le> of_int i" by (metis of_int_le_iff of_int_numeral of_int_power)
    moreover have "pow2 (int ?b - 2) \<le> pow2 (int (?b - 1))" by (rule pow2_mono) simp
    moreover have "pow2 (int (?b - 1)) = 2 ^ (?b - 1)" by (simp add: pow2_def)
    ultimately have "pow2 (int ?b - 2) \<le> of_int i" by linarith
    moreover have "bit_count 1 = 1" by (simp add: bit_count.simps)
    ultimately show ?thesis by (simp add: exponent_def Let_def)
  qed
  also have "\<dots> < 2 ^ n" using assms(2) by (metis of_int_less_iff of_int_numeral of_int_power)
  finally have "pow2 (exponent (of_int i)) < pow2 (int n)" by (simp add: pow2_def)
  then show ?thesis using pow2_mono[of "int n" "exponent (of_int i)"] by linarith
qed


lemma f64_round_scaled:
  assumes "q / pow2 s = of_int m" and "s = max (exponent \<bar>q\<bar> - 52) (- 1074)" and "\<bar>q\<bar> < 2 ^ 1024"
  shows "f64_round q = Fin q"
proof -
  have "of_int m * pow2 s = q" using assms(1) pow2_pos[of s] by (simp add: field_simps)
  with assms show ?thesis by (simp add: f64_round_def Let_def)
qed

lemma f64_of_int_exact:
  assumes "\<bar>i\<bar> < 2 ^ 53"
  shows "f64_of_int i = Fin (of_int i)"
proof (cases "i = 0")
  case False
  let ?e = "exponent \<bar>of_int i\<bar>" let ?s = "max (?e - 52) (- 1074)"
  have abs: "\<bar>of_int i\<bar> = (of_int \<bar>i\<bar> :: rat)" by simp
  have "?e < 53" unfolding abs using exponent_int_less[of "\<bar>i\<bar>" 53] False assms by simp
  then have "of_int i / pow2 ?s = of_int (i * 2 ^ nat (- ?s))" by (auto simp: pow2_def)
  moreover have "(of_int \<bar>i\<bar> :: rat) < of_int (2 ^ 53)" using assms by (simp only: of_int_less_iff)
  then have "\<bar>of_int i :: rat\<bar> < 2 ^ 1024" by (simp add: order_less_trans[where y = "of_int (2 ^ 53)"])
  ultimately show ?thesis unfolding f64_of_int_def by (blast intro: f64_round_scaled)
qed (simp add: f64_of_int_def f64_round_def)

end
