(* ===== verification/Control_Id.thy ===== *)
theory Control_Id
  imports Float64
begin

text \<open>
  The identifiers of the controls a radar can have, their numbers and names, and who handles a
  request to change one.
\<close>

section \<open>Control identifiers\<close>

datatype (plugins only: size) ControlId =
    ControlId_Power | ControlId_WarmupTime | ControlId_Range | ControlId_Mode | ControlId_Gain |
    ControlId_ColorGain | ControlId_Sea | ControlId_SeaState | ControlId_Rain | ControlId_Doppler |
    ControlId_DopplerMode | ControlId_ShowAis | ControlId_GuardZone1 | ControlId_GuardZone2 |
    ControlId_DopplerAutoTrack | ControlId_ArpaDetectMaxSpeed | ControlId_ClearTargets |
    ControlId_ExclusionZone1 | ControlId_ExclusionZone2 | ControlId_ExclusionZone3 |
    ControlId_ExclusionZone4 | ControlId_ExclusionRect1 | ControlId_ExclusionRect2 |
    ControlId_ExclusionRect3 | ControlId_ExclusionRect4 | ControlId_TargetTrails |
    ControlId_TrailsMotion | ControlId_DopplerTrailsOnly | ControlId_ClearTrails |
    ControlId_DopplerSpeedThreshold | ControlId_NoiseRejection | ControlId_TargetBoost |
    ControlId_TargetExpansion | ControlId_InterferenceRejection | ControlId_TargetSeparation |
    ControlId_LocalInterferenceRejection | ControlId_BirdMode | ControlId_ScanSpeed |
    ControlId_SideLobeSuppression | ControlId_Tune | ControlId_Ftc | ControlId_RangeUnits |
    ControlId_MainBangSuppression | ControlId_SeaClutterCurve | ControlId_DisplayTiming |
    ControlId_NoTransmitSector1 | ControlId_NoTransmitSector2 | ControlId_NoTransmitSector3 |
    ControlId_NoTransmitSector4 | ControlId_AccentLight | ControlId_AntennaHeight |
    ControlId_AntennaForward | ControlId_AntennaStarboard | ControlId_BearingAlignment |
    ControlId_RotationSpeed | ControlId_MagnetronCurrent | ControlId_SignalStrength |
    ControlId_OperatingTime | ControlId_TransmitTime | ControlId_ModelName |
    ControlId_FirmwareVersion | ControlId_SerialNumber | ControlId_Spokes | ControlId_SpokeLength |
    ControlId_SpokeProcessing | ControlId_UserName | ControlId_TimedIdle | ControlId_TimedRun |
    ControlId_SupplyVoltage | ControlId_DeviceTemperature | ControlId_ScanAverageMode |
    ControlId_ScanAverageSensitivity | ControlId_ParkPosition | ControlId_TransmitChannel |
    ControlId_PulseWidth | ControlId_NearStcCurve | ControlId_MiddleStcCurve | ControlId_FarStcCurve |
    ControlId_StcRange | ControlId_AntiJamming | ControlId_EchoFormat

definition ControlId_list :: "ControlId list" where
  "ControlId_list =
    [ControlId_Power, ControlId_WarmupTime, ControlId_Range, ControlId_Mode, ControlId_Gain,
     ControlId_ColorGain, ControlId_Sea, ControlId_SeaState, ControlId_Rain, ControlId_Doppler,
     ControlId_DopplerMode, ControlId_ShowAis, ControlId_GuardZone1, ControlId_GuardZone2,
     ControlId_DopplerAutoTrack, ControlId_ArpaDetectMaxSpeed, ControlId_ClearTargets,
     ControlId_ExclusionZone1, ControlId_ExclusionZone2, ControlId_ExclusionZone3,
     ControlId_ExclusionZone4, ControlId_ExclusionRect1, ControlId_ExclusionRect2,
     ControlId_ExclusionRect3, ControlId_ExclusionRect4, ControlId_TargetTrails, ControlId_TrailsMotion,
     ControlId_DopplerTrailsOnly, ControlId_ClearTrails, ControlId_DopplerSpeedThreshold,
     ControlId_NoiseRejection, ControlId_TargetBoost, ControlId_TargetExpansion,
     ControlId_InterferenceRejection, ControlId_TargetSeparation, ControlId_LocalInterferenceRejection,
     ControlId_BirdMode, ControlId_ScanSpeed, ControlId_SideLobeSuppression, ControlId_Tune,
     ControlId_Ftc, ControlId_RangeUnits, ControlId_MainBangSuppression, ControlId_SeaClutterCurve,
     ControlId_DisplayTiming, ControlId_NoTransmitSector1, ControlId_NoTransmitSector2,
     ControlId_NoTransmitSector3, ControlId_NoTransmitSector4, ControlId_AccentLight,
     ControlId_AntennaHeight, ControlId_AntennaForward, ControlId_AntennaStarboard,
     ControlId_BearingAlignment, ControlId_RotationSpeed, ControlId_MagnetronCurrent,
     ControlId_SignalStrength, ControlId_OperatingTime, ControlId_TransmitTime, ControlId_ModelName,
     ControlId_FirmwareVersion, ControlId_SerialNumber, ControlId_Spokes, ControlId_SpokeLength,
     ControlId_SpokeProcessing, ControlId_UserName, ControlId_TimedIdle, ControlId_TimedRun,
     ControlId_SupplyVoltage, ControlId_DeviceTemperature, ControlId_ScanAverageMode,
     ControlId_ScanAverageSensitivity, ControlId_ParkPosition, ControlId_TransmitChannel,
     ControlId_PulseWidth, ControlId_NearStcCurve, ControlId_MiddleStcCurve, ControlId_FarStcCurve,
     ControlId_StcRange, ControlId_AntiJamming, ControlId_EchoFormat]"

text \<open>The names the derived conversions use: the variant's name in camel case.\<close>

definition ControlId_names :: "string list" where
  "ControlId_names =
    [''power'', ''warmupTime'', ''range'', ''mode'', ''gain'', ''colorGain'', ''sea'', ''seaState'',
     ''rain'', ''doppler'', ''dopplerMode'', ''showAis'', ''guardZone1'', ''guardZone2'',
     ''dopplerAutoTrack'', ''arpaDetectMaxSpeed'', ''clearTargets'', ''exclusionZone1'',
     ''exclusionZone2'', ''exclusionZone3'', ''exclusionZone4'', ''exclusionRect1'', ''exclusionRect2'',
     ''exclusionRect3'', ''exclusionRect4'', ''targetTrails'', ''trailsMotion'', ''dopplerTrailsOnly'',
     ''clearTrails'', ''dopplerSpeedThreshold'', ''noiseRejection'', ''targetBoost'',
     ''targetExpansion'', ''interferenceRejection'', ''targetSeparation'',
     ''localInterferenceRejection'', ''birdMode'', ''scanSpeed'', ''sideLobeSuppression'', ''tune'',
     ''ftc'', ''rangeUnits'', ''mainBangSuppression'', ''seaClutterCurve'', ''displayTiming'',
     ''noTransmitSector1'', ''noTransmitSector2'', ''noTransmitSector3'', ''noTransmitSector4'',
     ''accentLight'', ''antennaHeight'', ''antennaForward'', ''antennaStarboard'', ''bearingAlignment'',
     ''rotationSpeed'', ''magnetronCurrent'', ''signalStrength'', ''operatingTime'', ''transmitTime'',
     ''modelName'', ''firmwareVersion'', ''serialNumber'', ''spokes'', ''spokeLength'',
     ''spokeProcessing'', ''userName'', ''timedIdle'', ''timedRun'', ''supplyVoltage'',
     ''deviceTemperature'', ''scanAverageMode'', ''scanAverageSensitivity'', ''parkPosition'',
     ''transmitChannel'', ''pulseWidth'', ''nearStcCurve'', ''middleStcCurve'', ''farStcCurve'',
     ''stcRange'', ''antiJamming'', ''echoFormat'']"

definition ControlId_code :: "ControlId \<Rightarrow> nat" where
  "ControlId_code cid = length (takeWhile (\<lambda>x. x \<noteq> cid) ControlId_list)"

definition ControlId_string :: "ControlId \<Rightarrow> string" where
  "ControlId_string cid = ControlId_names ! ControlId_code cid"

definition ControlId_from_u8 :: "nat \<Rightarrow> ControlId option" where
  "ControlId_from_u8 n = (if n < length ControlId_list then Some (ControlId_list ! n) else None)"

definition ControlId_from_str :: "string \<Rightarrow> ControlId option" where
  "ControlId_from_str s =
     map_option fst (find (\<lambda>(_, n). eq_ignore_ascii_case n s) (zip ControlId_list ControlId_names))"

datatype ControlDestination = Dest_ReadOnly | Dest_Internal | Dest_Command | Dest_Trail | Dest_Target

definition get_destination :: "ControlId \<Rightarrow> ControlDestination" where
  "get_destination cid =
     (case cid of
        ControlId_WarmupTime \<Rightarrow> Dest_ReadOnly
      | ControlId_ShowAis \<Rightarrow> Dest_Internal
      | ControlId_GuardZone1 \<Rightarrow> Dest_Target
      | ControlId_GuardZone2 \<Rightarrow> Dest_Target
      | ControlId_DopplerAutoTrack \<Rightarrow> Dest_Target
      | ControlId_ArpaDetectMaxSpeed \<Rightarrow> Dest_Target
      | ControlId_ClearTargets \<Rightarrow> Dest_Target
      | ControlId_ExclusionZone1 \<Rightarrow> Dest_Target
      | ControlId_ExclusionZone2 \<Rightarrow> Dest_Target
      | ControlId_ExclusionZone3 \<Rightarrow> Dest_Target
      | ControlId_ExclusionZone4 \<Rightarrow> Dest_Target
      | ControlId_ExclusionRect1 \<Rightarrow> Dest_Target
      | ControlId_ExclusionRect2 \<Rightarrow> Dest_Target
      | ControlId_ExclusionRect3 \<Rightarrow> Dest_Target
      | ControlId_ExclusionRect4 \<Rightarrow> Dest_Target
      | ControlId_TargetTrails \<Rightarrow> Dest_Trail
      | ControlId_TrailsMotion \<Rightarrow> Dest_Trail
      | ControlId_DopplerTrailsOnly \<Rightarrow> Dest_Trail
      | ControlId_ClearTrails \<Rightarrow> Dest_Trail
      | ControlId_OperatingTime \<Rightarrow> Dest_ReadOnly
      | ControlId_TransmitTime \<Rightarrow> Dest_ReadOnly
      | ControlId_ModelName \<Rightarrow> Dest_ReadOnly
      | ControlId_FirmwareVersion \<Rightarrow> Dest_ReadOnly
      | ControlId_SerialNumber \<Rightarrow> Dest_ReadOnly
      | ControlId_Spokes \<Rightarrow> Dest_ReadOnly
      | ControlId_SpokeLength \<Rightarrow> Dest_ReadOnly
      | ControlId_SpokeProcessing \<Rightarrow> Dest_Internal
      | ControlId_UserName \<Rightarrow> Dest_Internal
      | ControlId_SupplyVoltage \<Rightarrow> Dest_ReadOnly
      | ControlId_DeviceTemperature \<Rightarrow> Dest_ReadOnly
      | ControlId_PulseWidth \<Rightarrow> Dest_ReadOnly
      | _ \<Rightarrow> Dest_Command)"

datatype ApiVersion = V1 | V3

definition ControlId_serialize :: "ApiVersion \<Rightarrow> ControlId \<Rightarrow> string" where
  "ControlId_serialize v cid = (case v of V3 \<Rightarrow> ControlId_string cid | V1 \<Rightarrow> nat_str (ControlId_code cid))"

section \<open>Numbers and names\<close>

lemma takeWhile_position: "x \<in> set xs \<Longrightarrow> xs ! length (takeWhile (\<lambda>y. y \<noteq> x) xs) = x"
  by (induction xs) auto

lemma takeWhile_position_less: "x \<in> set xs \<Longrightarrow> length (takeWhile (\<lambda>y. y \<noteq> x) xs) < length xs"
  by (induction xs) auto

lemma in_ControlId_list: "cid \<in> set ControlId_list"
  by (cases cid) (simp_all add: ControlId_list_def)

lemma ControlId_list_code [simp]: "ControlId_list ! ControlId_code cid = cid"
  unfolding ControlId_code_def by (rule takeWhile_position) (rule in_ControlId_list)

lemma ControlId_code_less [simp]: "ControlId_code cid < length ControlId_list"
  unfolding ControlId_code_def by (rule takeWhile_position_less) (rule in_ControlId_list)

lemma ControlId_from_u8_code [simp]: "ControlId_from_u8 (ControlId_code cid) = Some cid"
  by (simp add: ControlId_from_u8_def)

lemma length_ControlId_lists: "length ControlId_list = 81" "length ControlId_names = 81"
  by (simp_all add: ControlId_list_def ControlId_names_def)

lemma distinct_names: "distinct (map (map lower) ControlId_names)"
  by code_simp

end
