(* ===== verification/Control_Values.thy ===== *)
theory Control_Values
  imports Control_Id
begin

text \<open>
  The vocabulary of control settings: physical units, JSON values, the value a client sends for a control, the errors of setting one, and the power
  states. A panic of the sources is the fault \<open>Panicked\<close>, an error they return is \<open>Failed\<close>.
  Error constructors carry the offending JSON value where the sources carry its printed form.
\<close>

section \<open>JSON values\<close>

datatype Number = Num_Int int | Num_Float f64

datatype Value = Null | Bool bool | Number Number | String string | Array "Value list" | Object "(string \<times> Value) list"

definition Number_from_f64 :: "f64 \<Rightarrow> Number option" where
  "Number_from_f64 x = (case x of Fin q \<Rightarrow> Some (Num_Float x) | _ \<Rightarrow> None)"

fun Number_as_f64 :: "Number \<Rightarrow> f64" where
  "Number_as_f64 (Num_Int i) = f64_of_int i"
| "Number_as_f64 (Num_Float x) = x"

fun Number_as_i64 :: "Number \<Rightarrow> int option" where
  "Number_as_i64 (Num_Int i) = (if - (2 ^ 63) \<le> i \<and> i < 2 ^ 63 then Some i else None)"
| "Number_as_i64 (Num_Float x) = None"

fun Value_as_f64 :: "Value \<Rightarrow> f64 option" where
  "Value_as_f64 (Number n) = Some (Number_as_f64 n)"
| "Value_as_f64 v = None"

section \<open>Errors\<close>

datatype ControlError =
    NotSupported ControlId
  | TooLow ControlId f64 f64
  | TooHigh ControlId f64 f64
  | Invalid ControlId Value
  | NoAuto ControlId

datatype RadarError =
    Io
  | Shutdown
  | InvalidControlId string
  | ControlError ControlError
  | CannotSetControlId ControlId
  | CannotSetControlIdValue ControlId Value
  | NotNumeric ControlId Value
  | ParseJson Value
  | NotConnected

datatype fault = Failed RadarError | Panicked

definition parse_u8 :: "string \<Rightarrow> int option" where "parse_u8 = parse_int 0 255"

definition ControlId_parse_str :: "string \<Rightarrow> RadarError + ControlId" where
  "ControlId_parse_str s =
     (case parse_u8 s of
        Some num \<Rightarrow> (case ControlId_from_u8 (nat num) of Some ct \<Rightarrow> Inr ct
                      | None \<Rightarrow> Inl (InvalidControlId ''invalid ControlId discriminant''))
      | None \<Rightarrow> (case ControlId_from_str s of Some ct \<Rightarrow> Inr ct
                      | None \<Rightarrow> Inl (InvalidControlId ''invalid ControlId discriminant'')))"

section \<open>Units\<close>

datatype Units = U_None | Meters | KiloMeters | NauticalMiles | MetersPerSecond | Knots | Degrees | Radians
  | RadiansPerSecond | RotationsPerMinute | Seconds | Minutes | Hours | Volts | Amps | Celsius | Kelvin

definition f64_PI :: f64 where "f64_PI = f64_round (314159265358979323846264338327950288 / 10 ^ 35)"
definition f64_TAU :: f64 where "f64_TAU = f64_round (628318530717958647692528676655900577 / 10 ^ 35)"

definition to_si_factor :: "Units \<Rightarrow> (Units \<times> f64) option" where
  "to_si_factor u =
     (case u of
        Degrees \<Rightarrow> Some (Radians, f64_div f64_PI (Fin 180))
      | Hours \<Rightarrow> Some (Seconds, Fin 3600)
      | Minutes \<Rightarrow> Some (Seconds, Fin 60)
      | KiloMeters \<Rightarrow> Some (Meters, Fin 1000)
      | Knots \<Rightarrow> Some (MetersPerSecond, f64_div (Fin 1852) (Fin 3600))
      | NauticalMiles \<Rightarrow> Some (Meters, Fin 1852)
      | RotationsPerMinute \<Rightarrow> Some (RotationsPerMinute, f64_div f64_TAU (Fin 60))
      | U_None \<Rightarrow> None
      | Celsius \<Rightarrow> None
      | _ \<Rightarrow> Some (u, Fin 1))"

definition Units_to_si :: "Units \<Rightarrow> f64 \<Rightarrow> fault + Units \<times> f64" where
  "Units_to_si u x =
     (if u = Celsius then Inr (Kelvin, f64_add x (f64_round (27315 / 100)))
      else case to_si_factor u of None \<Rightarrow> Inl Panicked | Some (si, factor) \<Rightarrow> Inr (si, f64_mul x factor))"

definition from_si_factor :: "Units \<Rightarrow> f64 option" where
  "from_si_factor u =
     (case u of
        Degrees \<Rightarrow> Some (f64_div (Fin 180) f64_PI)
      | Hours \<Rightarrow> Some (f64_div (Fin 1) (Fin 3600))
      | Minutes \<Rightarrow> Some (f64_div (Fin 1) (Fin 60))
      | KiloMeters \<Rightarrow> Some (f64_round (1 / 1000))
      | Knots \<Rightarrow> Some (f64_div (Fin 3600) (Fin 1852))
      | NauticalMiles \<Rightarrow> Some (f64_div (Fin 1) (Fin 1852))
      | RotationsPerMinute \<Rightarrow> Some (f64_div (Fin 60) f64_TAU)
      | U_None \<Rightarrow> None
      | Celsius \<Rightarrow> None
      | _ \<Rightarrow> Some (Fin 1))"

definition Units_from_si :: "Units \<Rightarrow> f64 \<Rightarrow> fault + f64" where
  "Units_from_si u x =
     (if u = Celsius then Inr (f64_sub x (f64_round (27315 / 100)))
      else case from_si_factor u of None \<Rightarrow> Inl Panicked | Some factor \<Rightarrow> Inr (f64_mul x factor))"

section \<open>The value a client sends\<close>

record ControlValue =
  cv_id :: ControlId
  cv_value :: "Value option"
  cv_units :: "Units option"
  cv_auto :: "bool option"
  cv_auto_value :: "f64 option"
  cv_end_value :: "f64 option"
  cv_start_distance :: "f64 option"
  cv_end_distance :: "f64 option"
  cv_enabled :: "bool option"
  cv_allowed :: "bool option"
  cv_error :: "string option"
  cv_x1 :: "f64 option"
  cv_y1 :: "f64 option"
  cv_x2 :: "f64 option"
  cv_y2 :: "f64 option"
  cv_width :: "f64 option"
  cv_timestamp :: "int option"

definition ControlValue_new :: "ControlId \<Rightarrow> Value \<Rightarrow> ControlValue" where
  "ControlValue_new cid v =
     \<lparr>cv_id = cid, cv_value = Some v, cv_units = None, cv_auto = None, cv_auto_value = None,
      cv_end_value = None, cv_start_distance = None, cv_end_distance = None, cv_enabled = None,
      cv_allowed = None, cv_error = None, cv_x1 = None, cv_y1 = None, cv_x2 = None, cv_y2 = None,
      cv_width = None, cv_timestamp = None\<rparr>"

definition ControlValue_as_value :: "ControlValue \<Rightarrow> RadarError + Value" where
  "ControlValue_as_value cv =
     (case cv_value cv of None \<Rightarrow> Inl (CannotSetControlId (cv_id cv)) | Some v \<Rightarrow> Inr v)"

definition ControlValue_as_i64 :: "ControlValue \<Rightarrow> RadarError + int" where
  "ControlValue_as_i64 cv =
     res_bind (ControlValue_as_value cv) (\<lambda>v.
       let r = (case v of
           String s \<Rightarrow> parse_i64 s
         | Bool b \<Rightarrow> Some (if b then 1 else 0)
         | Number n \<Rightarrow> (case Number_as_i64 n of Some i \<Rightarrow> Some i | None \<Rightarrow> Some (as_i64 (Number_as_f64 n)))
         | _ \<Rightarrow> None)
       in case r of Some i \<Rightarrow> Inr i | None \<Rightarrow> Inl (CannotSetControlId (cv_id cv)))"

definition ControlValue_as_i32 :: "ControlValue \<Rightarrow> RadarError + int" where
  "ControlValue_as_i32 cv =
     res_bind (ControlValue_as_i64 cv) (\<lambda>i.
       if - (2 ^ 31) \<le> i \<and> i < 2 ^ 31 then Inr i else Inl (CannotSetControlId (cv_id cv)))"

definition ControlValue_as_bool :: "ControlValue \<Rightarrow> RadarError + bool" where
  "ControlValue_as_bool cv = res_bind (ControlValue_as_i64 cv) (\<lambda>n. Inr (n \<noteq> 0))"

definition ControlValue_as_f64 :: "ControlValue \<Rightarrow> RadarError + f64" where
  "ControlValue_as_f64 cv =
     (let r = (case cv_value cv of
           Some (String s) \<Rightarrow> parse_f64 s
         | Some (Bool b) \<Rightarrow> Some (if b then Fin 1 else Fin 0)
         | Some (Number n) \<Rightarrow> Some (Number_as_f64 n)
         | _ \<Rightarrow> None)
      in case r of Some x \<Rightarrow> Inr x | None \<Rightarrow> Inl (CannotSetControlId (cv_id cv)))"

definition ControlValue_end_as_f64 :: "ControlValue \<Rightarrow> RadarError + f64" where
  "ControlValue_end_as_f64 cv =
     (case cv_end_value cv of Some x \<Rightarrow> Inr x | None \<Rightarrow> Inl (CannotSetControlId (cv_id cv)))"

definition ControlValue_auto_as_f64 :: "ControlValue \<Rightarrow> RadarError + f64" where
  "ControlValue_auto_as_f64 cv =
     (case cv_auto_value cv of Some x \<Rightarrow> Inr x | None \<Rightarrow> Inl (CannotSetControlId (cv_id cv)))"

section \<open>Power states\<close>

datatype Power = Off | Standby | Transmit | Preparing

definition Power_from_value :: "Value \<Rightarrow> RadarError + Power" where
  "Power_from_value v =
     (case v of
        Number n \<Rightarrow>
          (let i = Number_as_i64 n; x = Number_as_f64 n
           in if i = Some 0 then Inr Off
              else if i = Some 1 then Inr Standby
              else if i = Some 2 then Inr Transmit
              else if i = Some 3 then Inr Preparing
              else if f64_eq x (Fin 0) then Inr Off
              else if f64_eq x (Fin 1) then Inr Standby
              else if f64_eq x (Fin 2) then Inr Transmit
              else if f64_eq x (Fin 3) then Inr Preparing
              else Inl (ParseJson v))
      | String s \<Rightarrow>
          (let l = map lower s
           in if l = ''0'' \<or> l = ''off'' then Inr Off
              else if l = ''1'' \<or> l = ''standby'' then Inr Standby
              else if l = ''2'' \<or> l = ''transmit'' then Inr Transmit
              else if l = ''3'' \<or> l = ''preparing'' then Inr Preparing
              else Inl (ParseJson v))
      | _ \<Rightarrow> Inl (ParseJson v))"

definition Power_code :: "Power \<Rightarrow> int" where
  "Power_code p = (case p of Off \<Rightarrow> 0 | Standby \<Rightarrow> 1 | Transmit \<Rightarrow> 2 | Preparing \<Rightarrow> 3)"

section \<open>Properties\<close>

lemma lower_id_digit: "is_digit c \<Longrightarrow> lower c = c"
  by (simp add: is_digit_def lower_def)

lemma digit_char_is_digit: "d < 10 \<Longrightarrow> is_digit (digit_char d)"
  by (simp add: is_digit_def)

lemma list_all_digits [simp]: "list_all is_digit (nat_str n)"
  using nat_str_digits digit_char_is_digit by (fastforce simp: list_all_iff)

lemma split_sign_nat_str [simp]: "split_sign (nat_str n) = (False, nat_str n)"
proof (cases "nat_str n")
  case (Cons c r)
  then have "is_digit c" using list_all_digits[of n] by simp
  then have "c \<noteq> CHR ''-''" "c \<noteq> CHR ''+''" by (auto simp: is_digit_def)
  with Cons show ?thesis by (simp add: split_sign_def)
qed simp

lemma parse_int_nat_str: "lo \<le> int n \<Longrightarrow> int n \<le> hi \<Longrightarrow> parse_int lo hi (nat_str n) = Some (int n)"
  by (simp add: parse_int_def)

lemma parse_int_letter:
  assumes "97 \<le> (of_char (lower c) :: nat)"
  shows "parse_int lo hi (c # s) = None"
proof -
  have "\<not> is_digit c" "c \<noteq> CHR ''-''" "c \<noteq> CHR ''+''"
    using assms by (auto simp: is_digit_def lower_def)
  then show ?thesis by (simp add: parse_int_def split_sign_def)
qed

lemma names_start_with_letter:
  "list_all (\<lambda>n. n \<noteq> [] \<and> 97 \<le> (of_char (lower (hd n)) :: nat)) ControlId_names"
  by code_simp

lemma find_distinct_position:
  assumes "distinct (map f ys)" and "length xs = length ys" and "i < length ys" and "f s = f (ys ! i)"
  shows "find (\<lambda>(_, n). f n = f s) (zip xs ys) = Some (xs ! i, ys ! i)"
  unfolding find_Some_iff using assms by (intro exI[of _ i]) (auto simp: distinct_conv_nth)

lemma ControlId_from_str_name:
  assumes "eq_ignore_ascii_case s (ControlId_string cid)"
  shows "ControlId_from_str s = Some cid"
proof -
  have "find (\<lambda>(_, n). map lower n = map lower s) (zip ControlId_list ControlId_names)
      = Some (ControlId_list ! ControlId_code cid, ControlId_names ! ControlId_code cid)"
    using assms distinct_names ControlId_code_less[of cid]
    by (intro find_distinct_position) (simp_all add: eq_ignore_ascii_case_def ControlId_string_def length_ControlId_lists)
  then show ?thesis by (simp add: ControlId_from_str_def eq_ignore_ascii_case_def)
qed

lemma ControlId_parse_name:
  assumes "eq_ignore_ascii_case s (ControlId_string cid)"
  shows "ControlId_parse_str s = Inr cid"
proof -
  have "ControlId_string cid \<in> set ControlId_names"
    using ControlId_code_less[of cid] by (simp add: ControlId_string_def length_ControlId_lists)
  with names_start_with_letter have "ControlId_string cid \<noteq> []" "97 \<le> (of_char (lower (hd (ControlId_string cid))) :: nat)"
    by (simp_all add: list_all_iff)
  then obtain c r where "ControlId_string cid = c # r" "97 \<le> (of_char (lower c) :: nat)"
    by (cases "ControlId_string cid") simp_all
  with assms obtain c' r' where s: "s = c' # r'" and "lower c' = lower c"
    by (cases s) (auto simp: eq_ignore_ascii_case_def)
  with \<open>97 \<le> (of_char (lower c) :: nat)\<close> have "parse_u8 s = None" by (simp add: parse_u8_def parse_int_letter)
  then show ?thesis by (simp add: ControlId_parse_str_def ControlId_from_str_name[OF assms])
qed

text \<open>
  C32. A control identifier survives being sent and parsed: the name the current interface
  sends, the number the first interface sends, and the name in any mixture of upper and lower
  case are all parsed to the identifier.
\<close>

theorem ControlId_roundtrip:
  "ControlId_parse_str (ControlId_serialize v cid) = Inr cid
   \<and> (eq_ignore_ascii_case s (ControlId_string cid) \<longrightarrow> ControlId_parse_str s = Inr cid)"
proof (cases v)
  case V1
  have "ControlId_code cid \<le> 255" using ControlId_code_less[of cid] by (simp add: length_ControlId_lists)
  then have "ControlId_parse_str (nat_str (ControlId_code cid)) = Inr cid"
    by (simp add: ControlId_parse_str_def parse_u8_def parse_int_nat_str)
  with V1 show ?thesis by (simp add: ControlId_parse_name ControlId_serialize_def)
next
  case V3
  then show ?thesis by (simp add: ControlId_serialize_def ControlId_parse_name eq_ignore_ascii_case_def)
qed

theorem ControlId_roundtrip_witness:
  "ControlId_parse_str (ControlId_serialize V1 ControlId_Gain) = Inr ControlId_Gain
   \<and> ControlId_parse_str ''GAIN'' = Inr ControlId_Gain"
proof -
  have "ControlId_string ControlId_Gain = ''gain''"
    by (simp add: ControlId_string_def ControlId_code_def ControlId_list_def ControlId_names_def)
  moreover have "eq_ignore_ascii_case ''GAIN'' ''gain''" by code_simp
  ultimately have "eq_ignore_ascii_case ''GAIN'' (ControlId_string ControlId_Gain)" by simp
  with ControlId_roundtrip[of V1 ControlId_Gain "''GAIN''"] show ?thesis by blast
qed

end
