(* ===== verification/Range_Table.thy ===== *)
theory Range_Table
  imports Prelude "HOL-Library.Multiset"
begin

text \<open>
  The ranges of a radar: the tables of known distances, the classification of a distance as
  metric or nautical, and the lists a radar's supported ranges are kept in. Distances are
  integers (\<open>i32\<close>; no operation here leaves that type), indices natural numbers. \<open>fmt\<close> prints
  the floating-point quotient of its arguments.
\<close>

section \<open>One range\<close>

definition NAUTICAL_MILE :: int where "NAUTICAL_MILE = 1852"

record Range =
  rg_distance :: int
  rg_index :: nat

definition Range_initial :: "int \<Rightarrow> Range" where
  "Range_initial value = \<lparr>rg_distance = value, rg_index = 0\<rparr>"

definition Range_new :: "int \<Rightarrow> nat \<Rightarrow> Range" where
  "Range_new value index = \<lparr>rg_distance = value, rg_index = index\<rparr>"

text \<open>The remainder of the source language has the sign of the dividend.\<close>

definition rem_trunc :: "int \<Rightarrow> int \<Rightarrow> int" where
  "rem_trunc a b = sgn a * (\<bar>a\<bar> mod \<bar>b\<bar>)"

definition div_trunc :: "int \<Rightarrow> int \<Rightarrow> int" where
  "div_trunc a b = sgn a * sgn b * (\<bar>a\<bar> div \<bar>b\<bar>)"

definition Range_near :: "int \<Rightarrow> int \<Rightarrow> bool" where
  "Range_near a b \<longleftrightarrow> rem_trunc a b = 0 \<or> rem_trunc a b = 1 \<or> rem_trunc a b = b - 1"

definition Range_metric :: "int \<Rightarrow> bool" where
  "Range_metric v =
     (if v = 125 then True
      else if v \<le> 100 then Range_near v 25
      else if v \<le> 750 then Range_near v 50
      else Range_near v 500)"

definition Range_is_metric :: "Range \<Rightarrow> bool" where
  "Range_is_metric r = Range_metric (rg_distance r)"

definition Range_is_nautical :: "Range \<Rightarrow> bool" where
  "Range_is_nautical r = (\<not> Range_metric (rg_distance r))"

definition Range_eq :: "Range \<Rightarrow> Range \<Rightarrow> bool" where
  "Range_eq a b \<longleftrightarrow> rg_distance a = rg_distance b"

definition Range_string :: "(int \<Rightarrow> int \<Rightarrow> string) \<Rightarrow> Range \<Rightarrow> string" where
  "Range_string fmt r =
     (let v = rg_distance r; fraction = (\<lambda>n. int_str (div_trunc (v + 1) (NAUTICAL_MILE div n)) @ ''/'')
      in if Range_metric v then
           (if 1000 \<le> v then
              (if rem_trunc v 1000 = 0 then int_str (div_trunc v 1000) @ '' km'' else fmt v 1000 @ '' km'')
            else int_str v @ '' m'')
         else if NAUTICAL_MILE - 1 \<le> v then
           (if Range_near v NAUTICAL_MILE then int_str (div_trunc (v + 1) NAUTICAL_MILE) @ '' nm''
            else fmt v NAUTICAL_MILE @ '' nm'')
         else if Range_near v (NAUTICAL_MILE div 2) then fraction 2 @ ''2 nm''
         else if Range_near v (NAUTICAL_MILE div 4) then fraction 4 @ ''4 nm''
         else if Range_near v (NAUTICAL_MILE div 8) then fraction 8 @ ''8 nm''
         else if Range_near v (NAUTICAL_MILE div 16) then fraction 16 @ ''16 nm''
         else if Range_near v (NAUTICAL_MILE div 32) then fraction 32 @ ''32 nm''
         else fmt v NAUTICAL_MILE @ '' nm'')"

section \<open>Lists of ranges\<close>

record Ranges =
  rs_all :: "Range list"
  rs_metric :: "Range list"
  rs_nautical :: "Range list"
  rs_mixed :: "Range list"
  rs_ordered :: bool

text \<open>Where a distance at position \<open>i\<close> goes: the lists get a range with that index.\<close>

definition classify_range :: "nat \<Rightarrow> int \<Rightarrow> Ranges \<Rightarrow> Ranges" where
  "classify_range i d rs =
     (if Range_metric d
      then rs\<lparr>rs_metric := rs_metric rs @ [Range_new d i],
              rs_mixed := rs_mixed rs @ (if d \<le> 1000 then [Range_new d i] else [])\<rparr>
      else rs\<lparr>rs_nautical := rs_nautical rs @ [Range_new d i],
              rs_mixed := rs_mixed rs @ (if 1500 < d then [Range_new d i] else [])\<rparr>)"

primrec classify_ranges :: "nat \<Rightarrow> Range list \<Rightarrow> Ranges \<Rightarrow> Ranges" where
  "classify_ranges i [] rs = rs"
| "classify_ranges i (r # ranges) rs = classify_ranges (Suc i) ranges (classify_range i (rg_distance r) rs)"

definition Ranges_empty :: Ranges where
  "Ranges_empty = \<lparr>rs_all = [], rs_metric = [], rs_nautical = [], rs_mixed = [], rs_ordered = False\<rparr>"

definition Ranges_new :: "Range list \<Rightarrow> Ranges" where
  "Ranges_new ranges =
     (let ranges = sort_key rg_distance ranges
      in classify_ranges 0 ranges (Ranges_empty\<lparr>rs_all := ranges, rs_ordered := True\<rparr>))"

definition Ranges_new_by_distance :: "int list \<Rightarrow> Ranges" where
  "Ranges_new_by_distance distances =
     Ranges_new (map (\<lambda>(i, value). Range_new value i) (enumerate 0 distances))"

definition Ranges_push :: "Range \<Rightarrow> Ranges \<Rightarrow> bool \<times> Ranges" where
  "Ranges_push new_range rs =
     (if list_ex (\<lambda>r. rg_distance r = rg_distance new_range) (rs_all rs) then (False, rs)
      else (True, classify_range (length (rs_all rs)) (rg_distance new_range) (rs\<lparr>rs_all := rs_all rs @ [new_range]\<rparr>)))"

definition Ranges_get_distance :: "nat \<Rightarrow> Ranges \<Rightarrow> int" where
  "Ranges_get_distance index rs = (if index < length (rs_all rs) then rg_distance (rs_all rs ! index) else 0)"

definition Ranges_len :: "Ranges \<Rightarrow> nat" where
  "Ranges_len rs = length (rs_all rs)"

definition Ranges_is_empty :: "Ranges \<Rightarrow> bool" where
  "Ranges_is_empty rs \<longleftrightarrow> rs_all rs = []"

definition Ranges_string :: "(int \<Rightarrow> int \<Rightarrow> string) \<Rightarrow> Ranges \<Rightarrow> string" where
  "Ranges_string fmt rs =
     concat (map (\<lambda>(i, r). (if i = 0 then '''' else '', '') @ Range_string fmt r
        @ (if \<not> rs_ordered rs \<and> 0 < rg_index r then '' '' else '''')) (enumerate 0 (rs_all rs)))"

definition ALL_POSSIBLE_NAUTICAL_RANGES :: Ranges where
  "ALL_POSSIBLE_NAUTICAL_RANGES = Ranges_new (map Range_initial
     [57, 115, 231, 463, 926, 1389, NAUTICAL_MILE, NAUTICAL_MILE + 926, NAUTICAL_MILE * 2,
      NAUTICAL_MILE * 3, NAUTICAL_MILE * 4, NAUTICAL_MILE * 6, NAUTICAL_MILE * 8,
      NAUTICAL_MILE * 12, NAUTICAL_MILE * 16, NAUTICAL_MILE * 24, NAUTICAL_MILE * 32,
      NAUTICAL_MILE * 36, NAUTICAL_MILE * 40, NAUTICAL_MILE * 48, NAUTICAL_MILE * 64,
      NAUTICAL_MILE * 72, NAUTICAL_MILE * 96, NAUTICAL_MILE * 120])"

definition ALL_POSSIBLE_METRIC_RANGES :: Ranges where
  "ALL_POSSIBLE_METRIC_RANGES = Ranges_new (map Range_initial
     [50, 75, 100, 250, 500, 750, 1000, 1500, 2000, 3000, 4000, 6000, 8000, 12000, 16000, 24000,
      36000, 48000, 64000, 72000, 96000, 120000])"

definition Ranges_from_range :: "int \<Rightarrow> int \<Rightarrow> Ranges" where
  "Ranges_from_range min_m max_m =
     (let distances = filter (\<lambda>d. min_m \<le> d \<and> d \<le> max_m)
        (map rg_distance (rs_all ALL_POSSIBLE_METRIC_RANGES @ rs_all ALL_POSSIBLE_NAUTICAL_RANGES))
      in Ranges_new_by_distance (remdups_adj (sort distances)))"

section \<open>The lists agree\<close>

text \<open>
  The invariant of the lists: each of the three partial lists holds exactly the ranges of its
  kind, in the order of the complete list, with their positions in it.
\<close>

definition positions :: "(int \<Rightarrow> bool) \<Rightarrow> Range list \<Rightarrow> Range list" where
  "positions P rs = [Range_new (rg_distance r) i. (i, r) \<leftarrow> enumerate 0 rs, P (rg_distance r)]"

definition Ranges_ok :: "Ranges \<Rightarrow> bool" where
  "Ranges_ok rs \<longleftrightarrow>
     rs_metric rs = positions Range_metric (rs_all rs)
     \<and> rs_nautical rs = positions (\<lambda>d. \<not> Range_metric d) (rs_all rs)
     \<and> rs_mixed rs = positions (\<lambda>d. if Range_metric d then d \<le> 1000 else 1500 < d) (rs_all rs)"

lemma positions_Nil [simp]: "positions P [] = []"
  by (simp add: positions_def)

lemma positions_snoc:
  "positions P (rs @ [r]) = positions P rs @ (if P (rg_distance r) then [Range_new (rg_distance r) (length rs)] else [])"
  by (simp add: positions_def enumerate_append_eq)

lemma in_positions:
  "q \<in> set (positions P rs) \<longleftrightarrow> (\<exists>i < length rs. q = Range_new (rg_distance (rs ! i)) i \<and> P (rg_distance (rs ! i)))"
  by (induction rs rule: rev_induct) (auto simp: positions_snoc less_Suc_eq nth_append)

lemma classify_range_all [simp]: "rs_all (classify_range i d rs) = rs_all rs"
  by (simp add: classify_range_def)

lemma classify_range_ok:
  assumes "Ranges_ok (rs\<lparr>rs_all := xs\<rparr>)" and "rg_distance r = d"
  shows "Ranges_ok ((classify_range (length xs) d rs)\<lparr>rs_all := xs @ [r]\<rparr>)"
  using assms by (auto simp: Ranges_ok_def classify_range_def positions_snoc)

lemma classify_ranges_ok:
  "Ranges_ok (rs\<lparr>rs_all := xs\<rparr>) \<Longrightarrow> rs_all rs = ys \<Longrightarrow>
    Ranges_ok ((classify_ranges (length xs) zs rs)\<lparr>rs_all := xs @ zs\<rparr>) \<and> rs_all (classify_ranges (length xs) zs rs) = ys"
proof (induction zs arbitrary: xs rs)
  case (Cons z zs)
  from classify_range_ok[OF Cons.prems(1) refl, of z] Cons.prems(2) Cons.IH[where rs = "classify_range (length xs) (rg_distance z) rs" and xs = "xs @ [z]"]
  show ?case by simp
qed simp

lemma Ranges_new_ok: "Ranges_ok (Ranges_new rs) \<and> rs_all (Ranges_new rs) = sort_key rg_distance rs"
proof -
  let ?s = "sort_key rg_distance rs"
  let ?e = "Ranges_empty\<lparr>rs_all := ?s, rs_ordered := True\<rparr>"
  have "Ranges_ok (?e\<lparr>rs_all := []\<rparr>)" by (simp add: Ranges_ok_def Ranges_empty_def)
  from classify_ranges_ok[OF this, of ?s ?s] have
    "Ranges_ok ((classify_ranges 0 ?s ?e)\<lparr>rs_all := ?s\<rparr>)" "rs_all (classify_ranges 0 ?s ?e) = ?s" by simp_all
  moreover have "rs\<lparr>rs_all := rs_all rs\<rparr> = rs" for rs :: Ranges by simp
  ultimately show ?thesis by (metis Ranges_new_def)
qed

lemma Ranges_push_ok:
  assumes "Ranges_ok rs"
  shows "Ranges_ok (snd (Ranges_push r rs))"
proof -
  have "classify_range i d (rs\<lparr>rs_all := ys\<rparr>) = (classify_range i d rs)\<lparr>rs_all := ys\<rparr>" for i d ys
    by (simp add: classify_range_def)
  with classify_range_ok[where rs = rs and xs = "rs_all rs" and r = r] assms show ?thesis
    by (simp add: Ranges_push_def)
qed

section \<open>Properties\<close>

lemma positions_lookup:
  assumes "Ranges_ok rs"
  shows "list_all (\<lambda>q. Ranges_get_distance (rg_index q) rs = rg_distance q) (rs_metric rs @ rs_nautical rs @ rs_mixed rs)"
  using assms by (auto simp: Ranges_ok_def list_all_iff in_positions Ranges_get_distance_def Range_new_def)

lemma positions_split:
  "mset (map rg_distance (positions P rs)) + mset (map rg_distance (positions (\<lambda>d. \<not> P d) rs)) = mset (map rg_distance rs)"
  by (induction rs rule: rev_induct) (simp_all add: positions_snoc Range_new_def)

lemma pushes_ok: "Ranges_ok rs \<Longrightarrow> Ranges_ok (fold (\<lambda>r rs. snd (Ranges_push r rs)) pushed rs)"
  by (induction pushed arbitrary: rs) (simp_all add: Ranges_push_ok)

text \<open>
  C30. However a list of ranges is built, by sorting an initial list and pushing any further
  ranges, its metric and nautical lists together hold every distance of the complete list
  exactly as often, each partial list holds the ranges of its kind in order, and the index of
  every range in a partial list is a position of the complete list that has its distance.
\<close>

theorem ranges_lists_agree:
  "let rs = fold (\<lambda>r rs. snd (Ranges_push r rs)) pushed (Ranges_new initial)
   in Ranges_ok rs
      \<and> mset (map rg_distance (rs_metric rs)) + mset (map rg_distance (rs_nautical rs)) = mset (map rg_distance (rs_all rs))
      \<and> list_all (\<lambda>q. Ranges_get_distance (rg_index q) rs = rg_distance q) (rs_metric rs @ rs_nautical rs @ rs_mixed rs)"
proof -
  let ?rs = "fold (\<lambda>r rs. snd (Ranges_push r rs)) pushed (Ranges_new initial)"
  have ok: "Ranges_ok ?rs" using pushes_ok Ranges_new_ok by blast
  have "mset (map rg_distance (rs_metric ?rs)) + mset (map rg_distance (rs_nautical ?rs)) = mset (map rg_distance (rs_all ?rs))"
    using ok positions_split[of Range_metric "rs_all ?rs"] by (simp add: Ranges_ok_def)
  with ok positions_lookup[OF ok] show ?thesis by (simp add: Let_def)
qed

lemma sorted_enumerated: "sorted ds \<Longrightarrow> sort_key rg_distance (map (\<lambda>(i, d). Range_new d i) (enumerate n ds)) = map (\<lambda>(i, d). Range_new d i) (enumerate n ds)"
  by (rule sort_key_id_if_sorted) (simp add: comp_def case_prod_beta Range_new_def)

lemma new_by_distance_all:
  "sorted ds \<Longrightarrow> rs_all (Ranges_new_by_distance ds) = map (\<lambda>(i, d). Range_new d i) (enumerate 0 ds)"
  by (simp add: Ranges_new_by_distance_def Ranges_new_ok sorted_enumerated)

lemma distances_enumerated [simp]: "map rg_distance (map (\<lambda>(i, d). Range_new d i) (enumerate n ds)) = ds"
  by (simp add: comp_def case_prod_beta Range_new_def)

lemma indices_enumerated: "map rg_index (map (\<lambda>(i, d). Range_new d i) (enumerate n ds)) = [n..<n + length ds]"
  by (simp add: comp_def case_prod_beta Range_new_def)

lemma strict_sorted_remdups_adj: "sorted (ds :: 'a::linorder list) \<Longrightarrow> sorted_wrt (<) (remdups_adj ds)"
  by (induction ds rule: remdups_adj.induct) (auto simp: order.strict_iff_order)

lemma from_range_distances:
  "map rg_distance (rs_all (Ranges_from_range lo hi)) =
     remdups_adj (sort (filter (\<lambda>d. lo \<le> d \<and> d \<le> hi)
       (map rg_distance (rs_all ALL_POSSIBLE_METRIC_RANGES @ rs_all ALL_POSSIBLE_NAUTICAL_RANGES))))"
  by (simp only: Ranges_from_range_def Let_def new_by_distance_all[OF sorted_remdups_adj[OF sorted_sort]] distances_enumerated)

text \<open>The two tables, evaluated: both are written in order and each holds ranges of its kind only.\<close>

lemma metric_table:
  "map rg_distance (rs_all ALL_POSSIBLE_METRIC_RANGES) =
     [50, 75, 100, 250, 500, 750, 1000, 1500, 2000, 3000, 4000, 6000, 8000, 12000, 16000, 24000,
      36000, 48000, 64000, 72000, 96000, 120000]"
  by (simp add: ALL_POSSIBLE_METRIC_RANGES_def Ranges_new_ok sort_key_id_if_sorted Range_initial_def)

lemma nautical_table:
  "map rg_distance (rs_all ALL_POSSIBLE_NAUTICAL_RANGES) =
     [57, 115, 231, 463, 926, 1389, 1852, 2778, 3704, 5556, 7408, 11112, 14816, 22224, 29632, 44448,
      59264, 66672, 74080, 88896, 118528, 133344, 177792, 222240]"
  by (simp add: ALL_POSSIBLE_NAUTICAL_RANGES_def Ranges_new_ok sort_key_id_if_sorted Range_initial_def NAUTICAL_MILE_def)

lemma tables_of_their_kind:
  "list_all Range_metric (map rg_distance (rs_all ALL_POSSIBLE_METRIC_RANGES))"
  "list_all (\<lambda>d. \<not> Range_metric d) (map rg_distance (rs_all ALL_POSSIBLE_NAUTICAL_RANGES))"
  by (simp_all add: metric_table nautical_table Range_metric_def Range_near_def rem_trunc_def)

lemma positions_distances: "rg_distance ` set (positions P rs) = {d \<in> rg_distance ` set rs. P d}"
  by (induction rs rule: rev_induct) (auto simp: positions_snoc Range_new_def)

lemma from_range_set:
  "rg_distance ` set (rs_all (Ranges_from_range lo hi)) =
    {d. lo \<le> d \<and> d \<le> hi \<and> (d \<in> rg_distance ` set (rs_all ALL_POSSIBLE_METRIC_RANGES)
                              \<or> d \<in> rg_distance ` set (rs_all ALL_POSSIBLE_NAUTICAL_RANGES))}"
  using arg_cong[where f = set, OF from_range_distances] by auto

text \<open>
  C31. The ranges offered for a span of distances are exactly the known distances in that span,
  in strictly increasing order and numbered by their position; the metric ones are the known
  metric distances and the nautical ones the known nautical distances in the span.
\<close>

theorem from_range_correct:
  "let rs = Ranges_from_range lo hi
   in sorted_wrt (<) (map rg_distance (rs_all rs))
      \<and> map rg_index (rs_all rs) = [0..<Ranges_len rs]
      \<and> set (map rg_distance (rs_metric rs)) = {d \<in> set (map rg_distance (rs_all ALL_POSSIBLE_METRIC_RANGES)). lo \<le> d \<and> d \<le> hi}
      \<and> set (map rg_distance (rs_nautical rs)) = {d \<in> set (map rg_distance (rs_all ALL_POSSIBLE_NAUTICAL_RANGES)). lo \<le> d \<and> d \<le> hi}"
proof -
  let ?rs = "Ranges_from_range lo hi"
  have ok: "Ranges_ok ?rs"
    by (simp add: Ranges_from_range_def Let_def Ranges_new_by_distance_def Ranges_new_ok)
  have "sorted_wrt (<) (map rg_distance (rs_all ?rs))"
    unfolding from_range_distances by (rule strict_sorted_remdups_adj) simp
  moreover have "map rg_index (rs_all ?rs) = [0..<Ranges_len ?rs]"
    by (simp add: Ranges_from_range_def Let_def new_by_distance_all Ranges_len_def sorted_remdups_adj indices_enumerated
        del: map_map)
  moreover note kinds = tables_of_their_kind[unfolded list_all_iff]
  have "set (map rg_distance (rs_metric ?rs)) = {d \<in> set (map rg_distance (rs_all ALL_POSSIBLE_METRIC_RANGES)). lo \<le> d \<and> d \<le> hi}"
    using ok kinds by (auto simp: Ranges_ok_def positions_distances from_range_set)
  moreover have "set (map rg_distance (rs_nautical ?rs)) = {d \<in> set (map rg_distance (rs_all ALL_POSSIBLE_NAUTICAL_RANGES)). lo \<le> d \<and> d \<le> hi}"
    using ok kinds by (auto simp: Ranges_ok_def positions_distances from_range_set)
  ultimately show ?thesis by (simp only: Let_def)
qed

end
