(* ===== verification/Controls.thy ===== *)
theory Controls
  imports Control_Values Range_Table "HOL-Library.AList"
begin

text \<open>
  One control of a radar: its definition, its current value, the builders the brands use to
  define it and the operations that change it. A dictionary of descriptions is the list of its
  entries in the order it is iterated in; \<open>now\<close> is the current time.
\<close>

section \<open>Definition and state\<close>

datatype ControlDataType = DT_Number | DT_Enum | DT_String | DT_Button | DT_Sector | DT_Zone | DT_Rect

record AutomaticValue =
  av_has_auto :: bool
  av_has_auto_adjustable :: bool
  av_auto_adjust_min_value :: "f64 option"
  av_auto_adjust_max_value :: "f64 option"

definition HAS_AUTO_NOT_ADJUSTABLE :: AutomaticValue where
  "HAS_AUTO_NOT_ADJUSTABLE =
     \<lparr>av_has_auto = True, av_has_auto_adjustable = False, av_auto_adjust_min_value = None, av_auto_adjust_max_value = None\<rparr>"

record ControlDefinition =
  cd_control_id :: ControlId
  cd_data_type :: ControlDataType
  cd_automatic :: "AutomaticValue option"
  cd_has_enabled :: bool
  cd_default_value :: "f64 option"
  cd_min_value :: "f64 option"
  cd_max_value :: "f64 option"
  cd_step_value :: "f64 option"
  cd_wire_scale_factor :: "f64 option"
  cd_wire_offset :: "f64 option"
  cd_wire_units :: "Units option"
  cd_units :: "Units option"
  cd_descriptions :: "(int \<times> string) list option"
  cd_valid_values :: "int list option"
  cd_is_read_only :: bool
  cd_is_send_always :: bool
  cd_max_distance :: "f64 option"

record Control =
  ctl_item :: ControlDefinition
  ctl_value :: "f64 option"
  ctl_auto_value :: "f64 option"
  ctl_end_value :: "f64 option"
  ctl_start_distance :: "f64 option"
  ctl_end_distance :: "f64 option"
  ctl_description :: "string option"
  ctl_auto :: "bool option"
  ctl_enabled :: "bool option"
  ctl_allowed :: "bool option"
  ctl_needs_refresh :: bool
  ctl_x1 :: "f64 option"
  ctl_y1 :: "f64 option"
  ctl_x2 :: "f64 option"
  ctl_y2 :: "f64 option"
  ctl_width :: "f64 option"
  ctl_timestamp :: "int option"

text \<open>
  The definitions the sources build all leave scale, offset, units, valid values and the
  send-always flag unset and set them later through the builder, so only the arguments that
  differ between the calls are arguments here.
\<close>

definition ControlDefinition_new ::
  "ControlId \<Rightarrow> ControlDataType \<Rightarrow> f64 option \<Rightarrow> AutomaticValue option \<Rightarrow> bool \<Rightarrow> f64 option \<Rightarrow> f64 option
   \<Rightarrow> (int \<times> string) list option \<Rightarrow> bool \<Rightarrow> ControlDefinition" where
  "ControlDefinition_new cid data_type default_value automatic has_enabled min_value max_value descriptions is_read_only =
     \<lparr>cd_control_id = cid, cd_data_type = data_type, cd_automatic = automatic, cd_has_enabled = has_enabled,
      cd_default_value = default_value, cd_min_value = min_value, cd_max_value = max_value,
      cd_step_value = (if data_type = DT_Number \<or> data_type = DT_Enum then Some (Fin 1) else None),
      cd_wire_scale_factor = None, cd_wire_offset = None, cd_wire_units = None, cd_units = None,
      cd_descriptions = descriptions, cd_valid_values = None, cd_is_read_only = is_read_only,
      cd_is_send_always = False, cd_max_distance = None\<rparr>"

definition Control_new :: "int \<Rightarrow> ControlDefinition \<Rightarrow> Control" where
  "Control_new now item =
     \<lparr>ctl_item = item, ctl_value = cd_default_value item, ctl_auto_value = None, ctl_end_value = None,
      ctl_start_distance = None, ctl_end_distance = None, ctl_description = None, ctl_auto = None,
      ctl_enabled = None, ctl_allowed = None, ctl_needs_refresh = False, ctl_x1 = None, ctl_y1 = None,
      ctl_x2 = None, ctl_y2 = None, ctl_width = None,
      ctl_timestamp = (if cd_default_value item \<noteq> None then Some now else None)\<rparr>"

section \<open>Builders\<close>

record ControlBuilder =
  cb_control :: Control
  cb_frozen :: bool

definition cb_item :: "(ControlDefinition \<Rightarrow> ControlDefinition) \<Rightarrow> ControlBuilder \<Rightarrow> ControlBuilder" where
  "cb_item f b = b\<lparr>cb_control := (cb_control b)\<lparr>ctl_item := f (ctl_item (cb_control b))\<rparr>\<rparr>"

definition unless_frozen :: "(ControlBuilder \<Rightarrow> ControlBuilder) \<Rightarrow> ControlBuilder \<Rightarrow> fault + ControlBuilder" where
  "unless_frozen f b = (if cb_frozen b then Inl Panicked else Inr (f b))"

definition cb_read_only :: "bool \<Rightarrow> ControlBuilder \<Rightarrow> ControlBuilder" where
  "cb_read_only ro = cb_item (\<lambda>i. i\<lparr>cd_is_read_only := ro\<rparr>)"

definition cb_wire_scale_step :: "f64 \<Rightarrow> ControlBuilder \<Rightarrow> fault + ControlBuilder" where
  "cb_wire_scale_step step = unless_frozen (cb_item (\<lambda>i. i\<lparr>cd_step_value := Some step,
     cd_wire_scale_factor := (case cd_wire_scale_factor i of None \<Rightarrow> Some (f64_div (Fin 1) step) | f \<Rightarrow> f)\<rparr>))"

definition cb_wire_scale_factor :: "f64 \<Rightarrow> bool \<Rightarrow> ControlBuilder \<Rightarrow> fault + ControlBuilder" where
  "cb_wire_scale_factor factor with_step = unless_frozen (cb_item (\<lambda>i. i\<lparr>cd_wire_scale_factor := Some factor,
     cd_step_value := (if with_step then Some (f64_div (Fin 1) factor) else cd_step_value i)\<rparr>))"

definition cb_wire_offset :: "f64 \<Rightarrow> ControlBuilder \<Rightarrow> fault + ControlBuilder" where
  "cb_wire_offset offset = unless_frozen (cb_item (\<lambda>i. i\<lparr>cd_wire_offset := Some offset\<rparr>))"

definition opt_to_si :: "Units \<Rightarrow> f64 option \<Rightarrow> fault + f64 option" where
  "opt_to_si u v = (case v of None \<Rightarrow> Inr None | Some x \<Rightarrow> res_bind (Units_to_si u x) (\<lambda>(_, y). Inr (Some y)))"

definition cb_wire_units :: "Units \<Rightarrow> ControlBuilder \<Rightarrow> fault + ControlBuilder" where
  "cb_wire_units u b =
     (if cb_frozen b then Inl Panicked
      else let i = ctl_item (cb_control b)
           in res_bind (Units_to_si u (Fin 0)) (\<lambda>(si, _).
              res_bind (opt_to_si u (cd_min_value i)) (\<lambda>mn.
              res_bind (opt_to_si u (cd_max_value i)) (\<lambda>mx.
              res_bind (opt_to_si u (cd_step_value i)) (\<lambda>st.
              res_bind (opt_to_si u (cd_default_value i)) (\<lambda>df.
                Inr ((cb_item (\<lambda>i. i\<lparr>cd_wire_units := Some u, cd_units := Some si, cd_min_value := mn,
                   cd_max_value := mx, cd_step_value := st, cd_default_value := df\<rparr>) b)\<lparr>cb_frozen := True\<rparr>)))))))"

definition cb_send_always :: "ControlBuilder \<Rightarrow> ControlBuilder" where
  "cb_send_always = cb_item (\<lambda>i. i\<lparr>cd_is_send_always := True\<rparr>)"

definition cb_has_enabled :: "ControlBuilder \<Rightarrow> ControlBuilder" where
  "cb_has_enabled = cb_item (\<lambda>i. i\<lparr>cd_has_enabled := True\<rparr>)"

definition Control_set_valid_values :: "int list \<Rightarrow> Control \<Rightarrow> Control" where
  "Control_set_valid_values values c = c\<lparr>ctl_item := (ctl_item c)\<lparr>cd_valid_values := Some values\<rparr>\<rparr>"

definition cb_set_valid_values :: "int list \<Rightarrow> ControlBuilder \<Rightarrow> fault + ControlBuilder" where
  "cb_set_valid_values values = unless_frozen (\<lambda>b. b\<lparr>cb_control := Control_set_valid_values values (cb_control b)\<rparr>)"

definition cb_set_value :: "f64 \<Rightarrow> ControlBuilder \<Rightarrow> ControlBuilder" where
  "cb_set_value v b = b\<lparr>cb_control := (cb_control b)\<lparr>ctl_value := Some v\<rparr>\<rparr>"

definition cb_build :: "ControlBuilder \<Rightarrow> (ControlId \<rightharpoonup> Control) \<Rightarrow> (ControlId \<rightharpoonup> Control)" where
  "cb_build b m = m(cd_control_id (ctl_item (cb_control b)) \<mapsto> cb_control b)"

definition cb_take :: "ControlBuilder \<Rightarrow> ControlId \<times> Control" where
  "cb_take b = (cd_control_id (ctl_item (cb_control b)), cb_control b)"

definition new_numeric :: "int \<Rightarrow> ControlId \<Rightarrow> f64 \<Rightarrow> f64 \<Rightarrow> ControlBuilder" where
  "new_numeric now cid mn mx =
     \<lparr>cb_control = Control_new now (ControlDefinition_new cid DT_Number (Some mn) None False (Some mn) (Some mx) None False),
      cb_frozen = False\<rparr>"

definition new_auto :: "int \<Rightarrow> ControlId \<Rightarrow> f64 \<Rightarrow> f64 \<Rightarrow> AutomaticValue \<Rightarrow> ControlBuilder" where
  "new_auto now cid mn mx automatic =
     \<lparr>cb_control = Control_new now (ControlDefinition_new cid DT_Number (Some mn) (Some automatic) False (Some mn) (Some mx) None False),
      cb_frozen = False\<rparr>"

definition new_map :: "int \<Rightarrow> ControlId \<Rightarrow> (int \<times> string) list \<Rightarrow> ControlBuilder" where
  "new_map now cid descriptions =
     \<lparr>cb_control = Control_new now (ControlDefinition_new cid DT_Enum (Some (Fin 0)) None False (Some (Fin 0))
        (Some (f64_of_int (int (length descriptions) - 1))) (Some descriptions) False),
      cb_frozen = False\<rparr>"

text \<open>
  \<open>new_list\<close> numbers its descriptions; the dictionary it makes of them is iterated in the order
  \<open>order\<close> brings them in.
\<close>

definition new_list :: "((int \<times> string) list \<Rightarrow> (int \<times> string) list) \<Rightarrow> int \<Rightarrow> ControlId \<Rightarrow> string list \<Rightarrow> ControlBuilder" where
  "new_list order now cid descriptions =
     \<lparr>cb_control = Control_new now (ControlDefinition_new cid DT_Enum (Some (Fin 0)) None False (Some (Fin 0))
        (Some (f64_of_int (int (length descriptions) - 1)))
        (Some (order (map (\<lambda>(i, n). (int i, n)) (enumerate 0 descriptions)))) False),
      cb_frozen = False\<rparr>"

definition new_string :: "int \<Rightarrow> ControlId \<Rightarrow> ControlBuilder" where
  "new_string now cid =
     \<lparr>cb_control = Control_new now (ControlDefinition_new cid DT_String None None False None None None True), cb_frozen = False\<rparr>"

definition new_button :: "int \<Rightarrow> ControlId \<Rightarrow> ControlBuilder" where
  "new_button now cid =
     \<lparr>cb_control = Control_new now (ControlDefinition_new cid DT_Button None None False None None None False), cb_frozen = False\<rparr>"

definition new_sector :: "int \<Rightarrow> ControlId \<Rightarrow> f64 \<Rightarrow> f64 \<Rightarrow> ControlBuilder" where
  "new_sector now cid mn mx =
     \<lparr>cb_control = Control_new now (ControlDefinition_new cid DT_Sector (Some mn) None True (Some mn) (Some mx) None False),
      cb_frozen = False\<rparr>"

definition new_zone :: "int \<Rightarrow> ControlId \<Rightarrow> f64 \<Rightarrow> f64 \<Rightarrow> f64 \<Rightarrow> ControlBuilder" where
  "new_zone now cid min_angle max_angle max_distance =
     (let c = Control_new now (ControlDefinition_new cid DT_Zone (Some (Fin 0)) None True (Some min_angle) (Some max_angle) None False)
      in \<lparr>cb_control = c\<lparr>ctl_item := (ctl_item c)\<lparr>cd_max_distance := Some max_distance\<rparr>, ctl_value := Some (Fin 0),
            ctl_end_value := Some (Fin 0), ctl_start_distance := Some (Fin 0), ctl_end_distance := Some (Fin 0)\<rparr>,
          cb_frozen = False\<rparr>)"

definition new_rect :: "int \<Rightarrow> ControlId \<Rightarrow> f64 \<Rightarrow> ControlBuilder" where
  "new_rect now cid max_distance =
     (let c = Control_new now (ControlDefinition_new cid DT_Rect (Some (Fin 0)) None True (Some (Fin 0)) (Some max_distance) None False)
      in \<lparr>cb_control = c\<lparr>ctl_item := (ctl_item c)\<lparr>cd_max_distance := Some max_distance\<rparr>, ctl_x1 := Some (Fin 0),
            ctl_y1 := Some (Fin 0), ctl_x2 := Some (Fin 0), ctl_y2 := Some (Fin 0), ctl_width := Some (Fin 0)\<rparr>,
          cb_frozen = False\<rparr>)"

section \<open>Reading a control\<close>

definition Control_to_number :: "f64 \<Rightarrow> fault + Value" where
  "Control_to_number v =
     (if f64_eq v (f64_of_int (as_i32 v)) then Inr (Number (Num_Int (as_i32 v)))
      else case Number_from_f64 v of Some n \<Rightarrow> Inr (Number n) | None \<Rightarrow> Inl Panicked)"

definition Control_value :: "Control \<Rightarrow> fault + Value option" where
  "Control_value c =
     (if cd_data_type (ctl_item c) = DT_String then Inr (map_option String (ctl_description c))
      else case ctl_value c of None \<Rightarrow> Inr None | Some v \<Rightarrow> res_bind (Control_to_number v) (\<lambda>n. Inr (Some n)))"

definition Control_auto_value :: "Control \<Rightarrow> f64 option" where
  "Control_auto_value c = (if cd_data_type (ctl_item c) = DT_String then None else ctl_auto_value c)"

definition Control_end_value :: "Control \<Rightarrow> f64 option" where
  "Control_end_value c =
     (if cd_data_type (ctl_item c) \<noteq> DT_Sector \<and> cd_data_type (ctl_item c) \<noteq> DT_Zone then None else ctl_end_value c)"

definition Control_start_distance :: "Control \<Rightarrow> f64 option" where
  "Control_start_distance c = (if cd_data_type (ctl_item c) \<noteq> DT_Zone then None else ctl_start_distance c)"

definition Control_end_distance :: "Control \<Rightarrow> f64 option" where
  "Control_end_distance c = (if cd_data_type (ctl_item c) \<noteq> DT_Zone then None else ctl_end_distance c)"

definition ControlValue_from :: "Control \<Rightarrow> string option \<Rightarrow> fault + ControlValue" where
  "ControlValue_from c err =
     res_bind (Control_value c) (\<lambda>v. Inr
       \<lparr>cv_id = cd_control_id (ctl_item c), cv_value = v, cv_units = cd_units (ctl_item c), cv_auto = ctl_auto c,
        cv_auto_value = Control_auto_value c, cv_end_value = Control_end_value c,
        cv_start_distance = Control_start_distance c, cv_end_distance = Control_end_distance c,
        cv_enabled = ctl_enabled c, cv_allowed = ctl_allowed c, cv_error = err, cv_x1 = ctl_x1 c, cv_y1 = ctl_y1 c,
        cv_x2 = ctl_x2 c, cv_y2 = ctl_y2 c, cv_width = ctl_width c, cv_timestamp = ctl_timestamp c\<rparr>)"

section \<open>Changing a control\<close>

definition Control_set_valid_ranges ::
  "((int \<times> string) list \<Rightarrow> (int \<times> string) list) \<Rightarrow> (Range \<Rightarrow> string) \<Rightarrow> Range list \<Rightarrow> Control \<Rightarrow> Control" where
  "Control_set_valid_ranges order show_range ranges c =
     (if ranges = [] then c
      else let ds = map rg_distance ranges
           in c\<lparr>ctl_item := (ctl_item c)\<lparr>cd_min_value := Some (f64_of_int (hd ds)),
                 cd_max_value := Some (f64_of_int (last ds)), cd_step_value := None, cd_valid_values := Some ds,
                 cd_descriptions := Some (order (fold (\<lambda>r. AList.update (rg_distance r) (show_range r)) ranges []))\<rparr>\<rparr>)"

definition Control_set_allowed :: "bool \<Rightarrow> Control \<Rightarrow> Control" where
  "Control_set_allowed a c = (if ctl_allowed c \<noteq> Some a then c\<lparr>ctl_allowed := Some a, ctl_needs_refresh := True\<rparr> else c)"

definition Control_set_auto :: "bool \<Rightarrow> Control \<Rightarrow> Control" where
  "Control_set_auto a c = c\<lparr>ctl_needs_refresh := (ctl_auto c \<noteq> Some a), ctl_auto := Some a\<rparr>"

text \<open>From a wire value to the value in the control's own unit: offset, scale, unit.\<close>

definition apply_offset :: "ControlDefinition \<Rightarrow> f64 \<Rightarrow> f64" where
  "apply_offset i v = (case cd_wire_offset i of Some off \<Rightarrow> if f64_lt (Fin 0) off then f64_sub v off else v | None \<Rightarrow> v)"

definition apply_scale :: "ControlDefinition \<Rightarrow> f64 \<Rightarrow> f64" where
  "apply_scale i v = (case cd_wire_scale_factor i of Some f \<Rightarrow> f64_div v f | None \<Rightarrow> v)"

definition wire_to_si :: "ControlDefinition \<Rightarrow> f64 \<Rightarrow> fault + f64" where
  "wire_to_si i v = (case cd_wire_units i of Some u \<Rightarrow> res_bind (Units_to_si u v) (\<lambda>(_, x). Inr x) | None \<Rightarrow> Inr v)"

text \<open>The check against the bounds, with the angles of an offset of -1 brought into them.\<close>

definition range_map :: "ControlDefinition \<Rightarrow> f64 \<Rightarrow> fault + f64" where
  "range_map i v =
     (case (cd_min_value i, cd_max_value i) of
        (Some mn, Some mx) \<Rightarrow>
          (let twice = f64_mul (Fin 2) mx;
               v = (if f64_eq (case cd_wire_offset i of Some off \<Rightarrow> off | None \<Rightarrow> Fin 0) (Fin (- 1))
                       \<and> f64_lt mx v \<and> f64_le v twice
                    then f64_sub v twice else v)
           in if f64_lt v mn then Inl (Failed (ControlError (TooLow (cd_control_id i) v mn)))
              else if f64_lt mx v then Inl (Failed (ControlError (TooHigh (cd_control_id i) v mx)))
              else Inr v)
      | _ \<Rightarrow> Inr v)"

definition round_step :: "f64 \<Rightarrow> f64 \<Rightarrow> f64" where
  "round_step step v =
     (if f64_eq step (f64_round (1 / 10)) then f64_div (f64_of_int (as_i32 (f64_mul v (Fin 10)))) (Fin 10)
      else if f64_eq step (Fin 1) then f64_of_int (as_i32 v)
      else f64_mul (f64_rint (f64_div v step)) step)"

definition cd_step :: "ControlDefinition \<Rightarrow> f64" where
  "cd_step i = (case cd_step_value i of Some s \<Rightarrow> s | None \<Rightarrow> Fin 1)"

text \<open>What every setter does once the control turned out to be unchanged.\<close>

definition unchanged :: "Control \<Rightarrow> (fault, unit option, Control) io" where
  "unchanged c =
     (if ctl_needs_refresh c \<or> cd_is_send_always (ctl_item c) then (Inr (Some ()), c\<lparr>ctl_needs_refresh := False\<rparr>)
      else (Inr None, c))"

definition Control_set ::
  "int \<Rightarrow> f64 \<Rightarrow> f64 option \<Rightarrow> bool option \<Rightarrow> bool option \<Rightarrow> Control \<Rightarrow> (fault, unit option, Control) io" where
  "Control_set now v av auto enabled c =
     (let i = ctl_item c;
          v1 = apply_scale i (apply_offset i v);
          av1 = map_option (apply_scale i) av
      in case res_bind (wire_to_si i v1) (range_map i) of Inl e \<Rightarrow> (Inl e, c)
       | Inr v2 \<Rightarrow>
         let v3 = round_step (cd_step i) v2; av3 = map_option (round_step (cd_step i)) av1
         in case (case av3 of None \<Rightarrow> Inr None | Some a \<Rightarrow> res_bind (wire_to_si i a) (\<lambda>x. Inr (Some x))) of Inl e \<Rightarrow> (Inl e, c)
          | Inr av4 \<Rightarrow>
            if auto \<noteq> None \<and> cd_automatic i = None then (Inl (Failed (ControlError (NoAuto (cd_control_id i)))), c)
            else if \<not> opt_f64_eq (ctl_value c) (Some v3) \<or> \<not> opt_f64_eq (ctl_auto_value c) av4
                    \<or> ctl_auto c \<noteq> auto \<or> ctl_enabled c \<noteq> enabled
            then (Inr (Some ()), c\<lparr>ctl_value := Some v3, ctl_auto_value := av4, ctl_auto := auto, ctl_enabled := enabled,
                    ctl_needs_refresh := False, ctl_timestamp := Some now\<rparr>)
            else unchanged c)"

definition Control_set_sector :: "int \<Rightarrow> f64 \<Rightarrow> f64 \<Rightarrow> bool option \<Rightarrow> Control \<Rightarrow> (fault, unit option, Control) io" where
  "Control_set_sector now start stop enabled c =
     (let i = ctl_item c; scaled = (\<lambda>v. apply_scale i (apply_offset i v))
      in if cd_data_type i \<noteq> DT_Sector then (Inl (Failed (ControlError (NotSupported (cd_control_id i)))), c)
         else case res_bind (wire_to_si i (scaled start)) (\<lambda>s. res_bind (wire_to_si i (scaled stop)) (\<lambda>e.
                   res_bind (range_map i s) (\<lambda>s. res_bind (range_map i e) (\<lambda>e. Inr (s, e))))) of Inl er \<Rightarrow> (Inl er, c)
          | Inr (s, e) \<Rightarrow>
            let s = round_step (cd_step i) s; e = round_step (cd_step i) e
            in if \<not> opt_f64_eq (ctl_value c) (Some s) \<or> \<not> opt_f64_eq (ctl_end_value c) (Some e) \<or> ctl_enabled c \<noteq> enabled
               then (Inr (Some ()), c\<lparr>ctl_value := Some s, ctl_end_value := Some e, ctl_enabled := enabled,
                       ctl_needs_refresh := False, ctl_timestamp := Some now\<rparr>)
               else unchanged c)"

definition Control_set_zone :: "int \<Rightarrow> f64 \<Rightarrow> f64 \<Rightarrow> f64 \<Rightarrow> f64 \<Rightarrow> bool option \<Rightarrow> Control \<Rightarrow> (fault, unit option, Control) io" where
  "Control_set_zone now start_angle end_angle start_distance end_distance enabled c =
     (let i = ctl_item c
      in if cd_data_type i \<noteq> DT_Zone then (Inl (Failed (ControlError (NotSupported (cd_control_id i)))), c)
         else case res_bind (wire_to_si i start_angle) (\<lambda>s. res_bind (wire_to_si i end_angle) (\<lambda>e. Inr (s, e))) of Inl er \<Rightarrow> (Inl er, c)
          | Inr (s, e) \<Rightarrow>
            if \<not> opt_f64_eq (ctl_value c) (Some s) \<or> \<not> opt_f64_eq (ctl_end_value c) (Some e)
               \<or> \<not> opt_f64_eq (ctl_start_distance c) (Some start_distance) \<or> \<not> opt_f64_eq (ctl_end_distance c) (Some end_distance)
               \<or> ctl_enabled c \<noteq> enabled
            then (Inr (Some ()), c\<lparr>ctl_value := Some s, ctl_end_value := Some e, ctl_start_distance := Some start_distance,
                    ctl_end_distance := Some end_distance, ctl_enabled := enabled, ctl_needs_refresh := False,
                    ctl_timestamp := Some now\<rparr>)
            else unchanged c)"

definition Control_set_rect ::
  "int \<Rightarrow> f64 \<Rightarrow> f64 \<Rightarrow> f64 \<Rightarrow> f64 \<Rightarrow> f64 \<Rightarrow> bool option \<Rightarrow> Control \<Rightarrow> (fault, unit option, Control) io" where
  "Control_set_rect now x1 y1 x2 y2 width enabled c =
     (if cd_data_type (ctl_item c) \<noteq> DT_Rect then (Inl (Failed (ControlError (NotSupported (cd_control_id (ctl_item c))))), c)
      else if \<not> opt_f64_eq (ctl_x1 c) (Some x1) \<or> \<not> opt_f64_eq (ctl_y1 c) (Some y1) \<or> \<not> opt_f64_eq (ctl_x2 c) (Some x2)
              \<or> \<not> opt_f64_eq (ctl_y2 c) (Some y2) \<or> \<not> opt_f64_eq (ctl_width c) (Some width) \<or> ctl_enabled c \<noteq> enabled
      then (Inr (Some ()), c\<lparr>ctl_x1 := Some x1, ctl_y1 := Some y1, ctl_x2 := Some x2, ctl_y2 := Some y2, ctl_width := Some width,
              ctl_enabled := enabled, ctl_needs_refresh := False, ctl_timestamp := Some now\<rparr>)
      else unchanged c)"

definition Control_set_string :: "int \<Rightarrow> string \<Rightarrow> Control \<Rightarrow> unit option \<times> Control" where
  "Control_set_string now v c =
     (if ctl_description c \<noteq> Some v
      then (Some (), c\<lparr>ctl_description := Some v, ctl_needs_refresh := False, ctl_timestamp := Some now\<rparr>)
      else if ctl_needs_refresh c then (Some (), c\<lparr>ctl_needs_refresh := False\<rparr>)
      else (None, c))"

definition Control_set_wire_range :: "f64 \<Rightarrow> f64 \<Rightarrow> Control \<Rightarrow> (fault, unit option, Control) io" where
  "Control_set_wire_range mn mx c =
     (let scale = Some (f64_sub mx mn); off = (if f64_eq mn (Fin 0) then None else Some mn)
      in if \<not> opt_f64_eq off (cd_wire_offset (ctl_item c)) \<or> \<not> opt_f64_eq scale (cd_wire_scale_factor (ctl_item c))
         then (Inr None, c\<lparr>ctl_item := (ctl_item c)\<lparr>cd_wire_offset := off, cd_wire_scale_factor := scale\<rparr>\<rparr>)
         else (Inr None, c))"

end
