(* ===== verification/Shared_Controls.thy ===== *)
theory Shared_Controls
  imports Controls
begin

text \<open>
  The controls of one radar as its threads and clients share them: the table of controls, the
  operations that change a control and tell the clients, and the handling of a client's request.
  What is sent on a channel is appended to a list of the state. \<open>order\<close> is the iteration order
  of dictionaries and \<open>show_range\<close> the printing of a range.
\<close>

section \<open>State\<close>

record Cli =
  cli_replay :: bool
  cli_targets_none :: bool
  cli_pass_ais :: bool
  cli_stationary :: bool

record Shared =
  sc_replay :: bool
  sc_controls :: "ControlId \<rightharpoonup> Control"
  sc_all_ranges :: Ranges
  sc_default_range_units :: int
  sc_clients :: "ControlValue list"
  sc_signalk :: "(ControlDefinition option \<times> ControlValue) list"
  sc_commands :: "ControlValue list"
  sc_command_listeners :: nat

type_synonym order = "(int \<times> string) list \<Rightarrow> (int \<times> string) list"
type_synonym controls = "ControlId \<rightharpoonup> Control"

section \<open>Construction\<close>

definition build_in :: "Units \<Rightarrow> ControlBuilder \<Rightarrow> controls \<Rightarrow> fault + controls" where
  "build_in u b m = res_bind (cb_wire_units u b) (\<lambda>b. Inr (cb_build b m))"

definition Controls_insert :: "bool \<Rightarrow> ControlId \<Rightarrow> Control \<Rightarrow> controls \<Rightarrow> controls" where
  "Controls_insert replay cid c m =
     m(cid \<mapsto> c\<lparr>ctl_item := (ctl_item c)\<lparr>cd_is_read_only := (replay \<or> cd_is_read_only (ctl_item c))\<rparr>\<rparr>)"

definition build_unless_present :: "ControlBuilder \<Rightarrow> controls \<Rightarrow> controls" where
  "build_unless_present b m = (if cd_control_id (ctl_item (cb_control b)) \<in> dom m then m else cb_build b m)"

definition replay_read_only :: "Control \<Rightarrow> Control" where
  "replay_read_only c =
     (if get_destination (cd_control_id (ctl_item c)) \<noteq> Dest_Target
      then c\<lparr>ctl_item := (ctl_item c)\<lparr>cd_is_read_only := True\<rparr>\<rparr> else c)"

definition target_controls :: "order \<Rightarrow> int \<Rightarrow> controls \<Rightarrow> controls" where
  "target_controls order now m =
     cb_build (new_button now ControlId_ClearTargets)
      (cb_build (new_list order now ControlId_ArpaDetectMaxSpeed [''Normal'', ''Medium'', ''Fast''])
       (cb_build (new_button now ControlId_ClearTrails)
        (cb_build (new_map now ControlId_TrailsMotion (order [(0, ''Relative''), (1, ''True'')]))
         (cb_build (new_map now ControlId_TargetTrails
            (order [(0, ''Off''), (1, ''15s''), (2, ''30s''), (3, ''1 min''), (4, ''3 min''), (5, ''5 min''), (6, ''10 min'')])) m))))"

definition common_controls :: "order \<Rightarrow> int \<Rightarrow> Cli \<Rightarrow> controls \<Rightarrow> controls" where
  "common_controls order now args m =
     (let m = cb_build (cb_read_only True (new_numeric now ControlId_Spokes (Fin 0) (Fin 9999))) m;
          m = cb_build (cb_read_only True (new_numeric now ControlId_SpokeLength (Fin 0) (Fin 9999))) m;
          m = (if cli_replay args then \<lambda>k. map_option replay_read_only (m k) else m);
          m = build_unless_present (cb_read_only False (new_string now ControlId_UserName)) m;
          m = cb_build (new_list order now ControlId_SpokeProcessing [''Clean'', ''Fill'', ''Reduce'', ''Smooth'']) m;
          m = (if cli_targets_none args then m else target_controls order now m)
      in if cli_pass_ais args
         then cb_build (cb_set_value (Fin 1) (new_list order now ControlId_ShowAis [''Off'', ''On''])) m else m)"

definition Controls_new_base :: "order \<Rightarrow> int \<Rightarrow> Cli \<Rightarrow> nat \<Rightarrow> controls \<Rightarrow> fault + Shared" where
  "Controls_new_base order now args listeners m =
     (let m = build_unless_present (cb_read_only True (new_string now ControlId_ModelName)) m
      in res_bind (build_in Meters (new_numeric now ControlId_Range (Fin 0)
                    (f64_mul (Fin 120) (f64_of_int NAUTICAL_MILE))) m) (\<lambda>m.
         Inr \<lparr>sc_replay = cli_replay args, sc_controls = common_controls order now args m, sc_all_ranges = Ranges_empty,
              sc_default_range_units = 0, sc_clients = [], sc_signalk = [], sc_commands = [],
              sc_command_listeners = listeners\<rparr>))"

definition build_zone :: "int \<Rightarrow> ControlId \<Rightarrow> controls \<Rightarrow> fault + controls" where
  "build_zone now cid = build_in Degrees (new_zone now cid (Fin (- 180)) (Fin 180) (Fin 100000))"

definition build_rect :: "int \<Rightarrow> ControlId \<Rightarrow> controls \<Rightarrow> fault + controls" where
  "build_rect now cid = build_in Meters (new_rect now cid (Fin 100000))"

primrec build_each :: "(ControlId \<Rightarrow> controls \<Rightarrow> fault + controls) \<Rightarrow> ControlId list \<Rightarrow> controls \<Rightarrow> fault + controls" where
  "build_each f [] m = Inr m"
| "build_each f (cid # cids) m = res_bind (f cid m) (build_each f cids)"

definition Shared_new :: "order \<Rightarrow> int \<Rightarrow> Cli \<Rightarrow> nat \<Rightarrow> controls \<Rightarrow> fault + Shared" where
  "Shared_new order now args listeners m =
     res_bind (cb_set_valid_values [1, 2] (new_list order now ControlId_Power [''Off'', ''Standby'', ''Transmit'', ''Preparing''])) (\<lambda>b.
     res_bind (build_each (build_zone now) [ControlId_GuardZone1, ControlId_GuardZone2] (cb_build b m)) (\<lambda>m.
     res_bind (if cli_stationary args
               then res_bind (build_each (build_zone now)
                      [ControlId_ExclusionZone1, ControlId_ExclusionZone2, ControlId_ExclusionZone3, ControlId_ExclusionZone4] m)
                    (build_each (build_rect now)
                      [ControlId_ExclusionRect1, ControlId_ExclusionRect2, ControlId_ExclusionRect3, ControlId_ExclusionRect4])
               else Inr m) (\<lambda>m.
     Controls_new_base order now args listeners m)))"

definition Shared_add :: "ControlBuilder \<Rightarrow> Shared \<Rightarrow> Shared" where
  "Shared_add b sc = (let (cid, c) = cb_take b in sc\<lparr>sc_controls := (sc_controls sc)(cid \<mapsto> c)\<rparr>)"

definition Shared_update_definition :: "ControlBuilder \<Rightarrow> Shared \<Rightarrow> Shared" where
  "Shared_update_definition b sc =
     (let (cid, new) = cb_take b
      in case sc_controls sc cid of
           Some old \<Rightarrow> sc\<lparr>sc_controls := (sc_controls sc)(cid \<mapsto> old\<lparr>ctl_item := (ctl_item new)
             \<lparr>cd_is_read_only := (cd_is_read_only (ctl_item new) \<or> cd_is_read_only (ctl_item old))\<rparr>\<rparr>)\<rparr>
         | None \<Rightarrow> sc\<lparr>sc_controls := (sc_controls sc)(cid \<mapsto> new)\<rparr>)"

definition Shared_insert :: "ControlId \<Rightarrow> Control \<Rightarrow> Shared \<Rightarrow> Shared" where
  "Shared_insert cid c sc = sc\<lparr>sc_controls := Controls_insert (sc_replay sc) cid c (sc_controls sc)\<rparr>"

definition Shared_get :: "ControlId \<Rightarrow> Shared \<Rightarrow> Control option" where
  "Shared_get cid sc = sc_controls sc cid"

definition Shared_get_by_id :: "string \<Rightarrow> Shared \<Rightarrow> Control option" where
  "Shared_get_by_id s sc = (case ControlId_parse_str s of Inr cid \<Rightarrow> Shared_get cid sc | Inl _ \<Rightarrow> None)"

definition contains_key :: "ControlId \<Rightarrow> Shared \<Rightarrow> bool" where
  "contains_key cid sc \<longleftrightarrow> sc_controls sc cid \<noteq> None"

section \<open>Telling the clients\<close>

definition range_units :: "Shared \<Rightarrow> int" where
  "range_units sc =
     (case sc_controls sc ControlId_RangeUnits of
        Some c \<Rightarrow> (case ctl_value c of Some v \<Rightarrow> as_i32 v | None \<Rightarrow> sc_default_range_units sc)
      | None \<Rightarrow> sc_default_range_units sc)"

definition update_valid_ranges :: "order \<Rightarrow> (Range \<Rightarrow> string) \<Rightarrow> Shared \<Rightarrow> fault + Shared" where
  "update_valid_ranges order show_range sc =
     (let u = range_units sc;
          filtered = (if u = 0 then rs_nautical (sc_all_ranges sc) else if u = 1 then rs_metric (sc_all_ranges sc)
                      else rs_mixed (sc_all_ranges sc))
      in case sc_controls sc ControlId_Range of None \<Rightarrow> Inl Panicked
       | Some c \<Rightarrow> Inr (sc\<lparr>sc_controls := (sc_controls sc)(ControlId_Range \<mapsto> Control_set_valid_ranges order show_range filtered c)\<rparr>))"

definition set_valid_ranges :: "order \<Rightarrow> (Range \<Rightarrow> string) \<Rightarrow> Ranges \<Rightarrow> Shared \<Rightarrow> fault + Shared" where
  "set_valid_ranges order show_range ranges sc = update_valid_ranges order show_range (sc\<lparr>sc_all_ranges := ranges\<rparr>)"

definition send_to_all_clients :: "order \<Rightarrow> (Range \<Rightarrow> string) \<Rightarrow> Control \<Rightarrow> Shared \<Rightarrow> fault + Shared" where
  "send_to_all_clients order show_range c sc =
     (let units_changed = (cd_control_id (ctl_item c) = ControlId_RangeUnits)
      in res_bind (if units_changed then update_valid_ranges order show_range sc else Inr sc) (\<lambda>sc.
         res_bind (ControlValue_from c None) (\<lambda>cv.
         let sc = sc\<lparr>sc_clients := sc_clients sc @ [cv]\<rparr>
         in if units_changed
            then (case sc_controls sc ControlId_Range of None \<Rightarrow> Inl Panicked
                  | Some rc \<Rightarrow> Inr (sc\<lparr>sc_signalk := sc_signalk sc @ [(Some (ctl_item rc), cv)]\<rparr>))
            else Inr (sc\<lparr>sc_signalk := sc_signalk sc @ [(None, cv)]\<rparr>))))"

text \<open>
  The setters share one shape: change the control in place, return its error, and tell the
  clients when the change says so. A panic ends the thread and leaves the state unusable, so the
  state it stops in is not described.
\<close>

definition set_and_tell ::
  "order \<Rightarrow> (Range \<Rightarrow> string) \<Rightarrow> ControlId \<Rightarrow> (Control \<Rightarrow> (fault, unit option, Control) io) \<Rightarrow> Shared \<Rightarrow> (fault, Control option, Shared) io" where
  "set_and_tell order show_range cid f sc =
     (case sc_controls sc cid of None \<Rightarrow> (Inl (Failed (ControlError (NotSupported cid))), sc)
      | Some c \<Rightarrow>
        (case f c of
           (Inl e, c') \<Rightarrow> (Inl e, sc\<lparr>sc_controls := (sc_controls sc)(cid \<mapsto> c')\<rparr>)
         | (Inr told, c') \<Rightarrow>
             (let sc' = sc\<lparr>sc_controls := (sc_controls sc)(cid \<mapsto> c')\<rparr>
              in if told = None then (Inr None, sc')
                 else case send_to_all_clients order show_range c' sc' of
                        Inl e \<Rightarrow> (Inl e, sc') | Inr sc'' \<Rightarrow> (Inr (Some c'), sc''))))"

definition told_unit :: "(fault, Control option, Shared) io \<Rightarrow> (fault, unit option, Shared) io" where
  "told_unit m = (case m of (Inl e, sc) \<Rightarrow> (Inl e, sc) | (Inr r, sc) \<Rightarrow> (Inr (map_option (\<lambda>_. ()) r), sc))"

definition told_description :: "(fault, Control option, Shared) io \<Rightarrow> (fault, string option, Shared) io" where
  "told_description m =
     (case m of (Inl e, sc) \<Rightarrow> (Inl e, sc) | (Inr r, sc) \<Rightarrow> (Inr (case r of None \<Rightarrow> None | Some c \<Rightarrow> ctl_description c), sc))"

definition Shared_set_value_auto_enabled ::
  "order \<Rightarrow> (Range \<Rightarrow> string) \<Rightarrow> int \<Rightarrow> ControlId \<Rightarrow> f64 \<Rightarrow> bool option \<Rightarrow> bool option \<Rightarrow> Shared \<Rightarrow> (fault, unit option, Shared) io" where
  "Shared_set_value_auto_enabled order show_range now cid v auto enabled sc =
     told_unit (set_and_tell order show_range cid (Control_set now v None auto enabled) sc)"

definition Shared_set :: "order \<Rightarrow> (Range \<Rightarrow> string) \<Rightarrow> int \<Rightarrow> ControlId \<Rightarrow> f64 \<Rightarrow> bool option \<Rightarrow> Shared \<Rightarrow> (fault, unit option, Shared) io" where
  "Shared_set order show_range now cid v auto sc = told_unit (set_and_tell order show_range cid (Control_set now v None auto None) sc)"

definition Shared_set_value_with_many_auto ::
  "order \<Rightarrow> (Range \<Rightarrow> string) \<Rightarrow> int \<Rightarrow> ControlId \<Rightarrow> f64 \<Rightarrow> f64 \<Rightarrow> Shared \<Rightarrow> (fault, unit option, Shared) io" where
  "Shared_set_value_with_many_auto order show_range now cid v av sc =
     told_unit (set_and_tell order show_range cid (\<lambda>c. Control_set now v (Some av) (ctl_auto c) None c) sc)"

definition Shared_set_wire_range ::
  "order \<Rightarrow> (Range \<Rightarrow> string) \<Rightarrow> ControlId \<Rightarrow> f64 \<Rightarrow> f64 \<Rightarrow> Shared \<Rightarrow> (fault, unit option, Shared) io" where
  "Shared_set_wire_range order show_range cid mn mx sc = told_unit (set_and_tell order show_range cid (Control_set_wire_range mn mx) sc)"

definition lift_string :: "(Control \<Rightarrow> unit option \<times> Control) \<Rightarrow> Control \<Rightarrow> (fault, unit option, Control) io" where
  "lift_string f c = (let (r, c') = f c in (Inr r, c'))"

definition Shared_set_string ::
  "order \<Rightarrow> (Range \<Rightarrow> string) \<Rightarrow> int \<Rightarrow> ControlId \<Rightarrow> string \<Rightarrow> Shared \<Rightarrow> (fault, string option, Shared) io" where
  "Shared_set_string order show_range now cid s sc =
     told_description (set_and_tell order show_range cid (\<lambda>c.
       if cd_data_type (ctl_item c) = DT_String then lift_string (Control_set_string now s) c
       else case parse_i32 s of None \<Rightarrow> (Inl (Failed (ControlError (Invalid cid (String s)))), c)
            | Some i \<Rightarrow> Control_set now (f64_of_int i) None None None c) sc)"

definition number_of_value :: "ControlId \<Rightarrow> Value \<Rightarrow> fault + f64" where
  "number_of_value cid v =
     (case v of
        String s \<Rightarrow> (case parse_i32 s of Some i \<Rightarrow> Inr (f64_of_int i) | None \<Rightarrow> Inl (Failed (ControlError (Invalid cid v))))
      | Bool b \<Rightarrow> Inr (if b then Fin 1 else Fin 0)
      | Number n \<Rightarrow> Inr (Number_as_f64 n)
      | _ \<Rightarrow> Inl (Failed (ControlError (Invalid cid v))))"

definition Shared_set_value ::
  "order \<Rightarrow> (Range \<Rightarrow> string) \<Rightarrow> int \<Rightarrow> ControlId \<Rightarrow> Value \<Rightarrow> Shared \<Rightarrow> (fault, string option, Shared) io" where
  "Shared_set_value order show_range now cid v sc =
     told_description (set_and_tell order show_range cid (\<lambda>c.
       if cd_data_type (ctl_item c) = DT_String
       then (case v of String s \<Rightarrow> lift_string (Control_set_string now s) c
             | _ \<Rightarrow> (Inl (Failed (ControlError (Invalid cid v))), c))
       else case number_of_value cid v of Inl e \<Rightarrow> (Inl e, c) | Inr n \<Rightarrow> Control_set now n None None None c) sc)"

definition Shared_set_sector ::
  "order \<Rightarrow> (Range \<Rightarrow> string) \<Rightarrow> int \<Rightarrow> ControlId \<Rightarrow> f64 \<Rightarrow> f64 \<Rightarrow> bool option \<Rightarrow> Shared \<Rightarrow> (fault, unit option, Shared) io" where
  "Shared_set_sector order show_range now cid start stop enabled sc =
     told_unit (set_and_tell order show_range cid (Control_set_sector now start stop enabled) sc)"

definition Shared_set_zone ::
  "order \<Rightarrow> (Range \<Rightarrow> string) \<Rightarrow> int \<Rightarrow> ControlId \<Rightarrow> f64 \<Rightarrow> f64 \<Rightarrow> f64 \<Rightarrow> f64 \<Rightarrow> bool option \<Rightarrow> Shared \<Rightarrow> (fault, unit option, Shared) io" where
  "Shared_set_zone order show_range now cid sa ea sd ed enabled sc =
     told_unit (set_and_tell order show_range cid (Control_set_zone now sa ea sd ed enabled) sc)"

definition Shared_set_rect ::
  "order \<Rightarrow> (Range \<Rightarrow> string) \<Rightarrow> int \<Rightarrow> ControlId \<Rightarrow> f64 \<Rightarrow> f64 \<Rightarrow> f64 \<Rightarrow> f64 \<Rightarrow> f64 \<Rightarrow> bool option \<Rightarrow> Shared \<Rightarrow> (fault, unit option, Shared) io" where
  "Shared_set_rect order show_range now cid x1 y1 x2 y2 w enabled sc =
     told_unit (set_and_tell order show_range cid (Control_set_rect now x1 y1 x2 y2 w enabled) sc)"

section \<open>Direct changes\<close>

definition change :: "ControlId \<Rightarrow> (Control \<Rightarrow> Control) \<Rightarrow> Shared \<Rightarrow> Shared" where
  "change cid f sc = sc\<lparr>sc_controls := (sc_controls sc)(cid := map_option f (sc_controls sc cid))\<rparr>"

definition set_refresh :: "ControlId \<Rightarrow> Shared \<Rightarrow> Shared" where
  "set_refresh cid = change cid (\<lambda>c. c\<lparr>ctl_needs_refresh := True\<rparr>)"

definition set_allowed :: "ControlId \<Rightarrow> bool \<Rightarrow> Shared \<Rightarrow> Shared" where
  "set_allowed cid a = change cid (Control_set_allowed a)"

definition set_auto_state :: "ControlId \<Rightarrow> bool \<Rightarrow> Shared \<Rightarrow> (fault, unit, Shared) io" where
  "set_auto_state cid a sc =
     (if contains_key cid sc then (Inr (), change cid (Control_set_auto a) sc)
      else (Inl (Failed (ControlError (NotSupported cid))), sc))"

definition set_valid_values_bitmask :: "ControlId \<Rightarrow> u8 \<Rightarrow> Shared \<Rightarrow> Shared" where
  "set_valid_values_bitmask cid msk sc =
     (if msk = 0 then sc
      else let values = map int (filter (\<lambda>b. bit msk b) [0..<8])
           in change cid (\<lambda>c. c\<lparr>ctl_item := (ctl_item c)\<lparr>cd_min_value := Some (f64_of_int (hd values)),
                cd_max_value := Some (f64_of_int (last values)), cd_valid_values := Some values\<rparr>\<rparr>) sc)"

definition set_user_name :: "int \<Rightarrow> string \<Rightarrow> Shared \<Rightarrow> fault + Shared" where
  "set_user_name now name sc =
     (if contains_key ControlId_UserName sc
      then Inr (change ControlId_UserName (\<lambda>c. snd (Control_set_string now name c)) sc) else Inl Panicked)"

definition user_name :: "Shared \<Rightarrow> fault + string" where
  "user_name sc = (case Shared_get ControlId_UserName sc of None \<Rightarrow> Inl Panicked
     | Some c \<Rightarrow> (case ctl_description c of None \<Rightarrow> Inl Panicked | Some n \<Rightarrow> Inr n))"

definition set_model_name :: "int \<Rightarrow> string \<Rightarrow> Shared \<Rightarrow> fault + Shared" where
  "set_model_name now name sc =
     (if contains_key ControlId_ModelName sc
      then Inr (change ControlId_ModelName (\<lambda>c. snd (Control_set_string now name c)) sc) else Inl Panicked)"

definition model_name :: "Shared \<Rightarrow> string option" where
  "model_name sc = (case Shared_get ControlId_ModelName sc of None \<Rightarrow> None | Some c \<Rightarrow> ctl_description c)"

definition silently_set :: "int \<Rightarrow> f64 \<Rightarrow> Control \<Rightarrow> Control" where
  "silently_set now v c = snd (Control_set now v None None None c)"

definition set_spoke_processing :: "int \<Rightarrow> int \<Rightarrow> Shared \<Rightarrow> fault + Shared" where
  "set_spoke_processing now v sc =
     (if contains_key ControlId_SpokeProcessing sc
      then Inr (change ControlId_SpokeProcessing (silently_set now (f64_of_int v)) sc) else Inl Panicked)"

definition set_range_units :: "int \<Rightarrow> int \<Rightarrow> Shared \<Rightarrow> fault + Shared" where
  "set_range_units now v sc =
     (if contains_key ControlId_RangeUnits sc then Inr (change ControlId_RangeUnits (silently_set now (f64_of_int v)) sc)
      else if v \<noteq> sc_default_range_units sc then Inl Panicked else Inr sc)"

definition set_arpa_max_speed :: "int \<Rightarrow> int \<Rightarrow> Shared \<Rightarrow> Shared" where
  "set_arpa_max_speed now v = change ControlId_ArpaDetectMaxSpeed (silently_set now (f64_of_int v))"

definition set_doppler_auto_track :: "int \<Rightarrow> bool \<Rightarrow> Shared \<Rightarrow> Shared" where
  "set_doppler_auto_track now b = change ControlId_DopplerAutoTrack (silently_set now (if b then Fin 1 else Fin 0))"

definition int_of_control :: "ControlId \<Rightarrow> int \<Rightarrow> Shared \<Rightarrow> int" where
  "int_of_control cid dflt sc =
     (case Shared_get cid sc of None \<Rightarrow> dflt | Some c \<Rightarrow> (case ctl_value c of None \<Rightarrow> dflt | Some v \<Rightarrow> as_i32 v))"

definition spoke_processing :: "Shared \<Rightarrow> int" where
  "spoke_processing = int_of_control ControlId_SpokeProcessing 0"

definition arpa_detect_max_speed :: "Shared \<Rightarrow> int" where
  "arpa_detect_max_speed = int_of_control ControlId_ArpaDetectMaxSpeed 0"

definition doppler_auto_track :: "Shared \<Rightarrow> bool" where
  "doppler_auto_track sc =
     (case Shared_get ControlId_DopplerAutoTrack sc of None \<Rightarrow> False
      | Some c \<Rightarrow> (case ctl_value c of None \<Rightarrow> False | Some v \<Rightarrow> \<not> f64_eq v (Fin 0)))"

definition get_status :: "Shared \<Rightarrow> fault + Power option" where
  "get_status sc =
     (case Shared_get ControlId_Power sc of None \<Rightarrow> Inr None
      | Some c \<Rightarrow> res_bind (Control_value c) (\<lambda>v.
          Inr (case v of None \<Rightarrow> None | Some x \<Rightarrow> (case Power_from_value x of Inl _ \<Rightarrow> None | Inr p \<Rightarrow> Some p))))"

record GuardZone =
  gz_start_angle :: f64
  gz_end_angle :: f64
  gz_start_distance :: f64
  gz_end_distance :: f64
  gz_enabled :: bool

definition guard_zone :: "ControlId \<Rightarrow> Shared \<Rightarrow> GuardZone option" where
  "guard_zone cid sc =
     (case Shared_get cid sc of None \<Rightarrow> None
      | Some c \<Rightarrow>
        (case (ctl_value c, ctl_end_value c, ctl_start_distance c, ctl_end_distance c) of
           (Some sa, Some ea, Some sd, Some ed) \<Rightarrow>
             Some \<lparr>gz_start_angle = sa, gz_end_angle = ea, gz_start_distance = sd, gz_end_distance = ed,
                   gz_enabled = (ctl_enabled c = Some True)\<rparr>
         | _ \<Rightarrow> None))"

definition set_guard_zone :: "int \<Rightarrow> ControlId \<Rightarrow> GuardZone \<Rightarrow> Shared \<Rightarrow> Shared" where
  "set_guard_zone now cid z = change cid (\<lambda>c. c\<lparr>ctl_value := Some (gz_start_angle z), ctl_end_value := Some (gz_end_angle z),
     ctl_start_distance := Some (gz_start_distance z), ctl_end_distance := Some (gz_end_distance z),
     ctl_enabled := Some (gz_enabled z), ctl_timestamp := Some now\<rparr>)"

record ExclusionRect =
  er_x1 :: f64
  er_y1 :: f64
  er_x2 :: f64
  er_y2 :: f64
  er_width :: f64
  er_enabled :: bool

definition exclusion_rect :: "ControlId \<Rightarrow> Shared \<Rightarrow> ExclusionRect option" where
  "exclusion_rect cid sc =
     (case Shared_get cid sc of None \<Rightarrow> None
      | Some c \<Rightarrow>
        (case (ctl_x1 c, ctl_y1 c, ctl_x2 c, ctl_y2 c, ctl_width c) of
           (Some x1, Some y1, Some x2, Some y2, Some w) \<Rightarrow>
             Some \<lparr>er_x1 = x1, er_y1 = y1, er_x2 = x2, er_y2 = y2, er_width = w, er_enabled = (ctl_enabled c = Some True)\<rparr>
         | _ \<Rightarrow> None))"

definition set_exclusion_rect :: "int \<Rightarrow> ControlId \<Rightarrow> ExclusionRect \<Rightarrow> Shared \<Rightarrow> Shared" where
  "set_exclusion_rect now cid r = change cid (\<lambda>c. c\<lparr>ctl_x1 := Some (er_x1 r), ctl_y1 := Some (er_y1 r),
     ctl_x2 := Some (er_x2 r), ctl_y2 := Some (er_y2 r), ctl_width := Some (er_width r),
     ctl_enabled := Some (er_enabled r), ctl_timestamp := Some now\<rparr>)"

section \<open>A client's request\<close>

definition normalize_value :: "Value \<Rightarrow> Control \<Rightarrow> fault + Value" where
  "normalize_value v c =
     (case v of
        String s \<Rightarrow>
          (case parse_f64 s of
             Some num \<Rightarrow> (case Number_from_f64 num of Some n \<Rightarrow> Inr (Number n)
                          | None \<Rightarrow> Inl (Failed (CannotSetControlIdValue (cd_control_id (ctl_item c)) v)))
           | None \<Rightarrow>
             (case cd_descriptions (ctl_item c) of None \<Rightarrow> Inr v
              | Some ds \<Rightarrow>
                let idx = length (takeWhile (\<lambda>(_, d). \<not> eq_ignore_ascii_case d s) ds)
                in if idx < length ds then Inr (Number (Num_Int (int idx))) else Inr v))
      | Array _ \<Rightarrow> Inl (Failed (CannotSetControlIdValue (cd_control_id (ctl_item c)) v))
      | Object _ \<Rightarrow> Inl (Failed (CannotSetControlIdValue (cd_control_id (ctl_item c)) v))
      | _ \<Rightarrow> Inr v)"

definition convert_to_wire_number :: "Units option \<Rightarrow> Value option \<Rightarrow> Control \<Rightarrow> fault + Units option \<times> Value option" where
  "convert_to_wire_number units v c =
     (let i = ctl_item c
      in if cd_data_type i = DT_Button \<or> cd_data_type i = DT_String then Inr (None, v)
         else case v of None \<Rightarrow> Inr (units, None)
          | Some value \<Rightarrow>
            res_bind (normalize_value value c) (\<lambda>value.
            case Value_as_f64 value of None \<Rightarrow> Inl (Failed (NotNumeric (cd_control_id i) value))
            | Some x \<Rightarrow>
              res_bind (case units of Some u \<Rightarrow> Units_to_si u x | None \<Rightarrow> Inr (U_None, x)) (\<lambda>(u, x).
              res_bind (case cd_wire_units i of Some w \<Rightarrow> res_bind (Units_from_si w x) (\<lambda>x. Inr (w, x)) | None \<Rightarrow> Inr (u, x)) (\<lambda>(u, x).
              case Number_from_f64 x of None \<Rightarrow> Inl (Failed (NotNumeric (cd_control_id i) value))
              | Some n \<Rightarrow> Inr (if u = U_None then None else Some u, Some (Number n))))))"

definition convert_f64_to_wire :: "Units option \<Rightarrow> f64 option \<Rightarrow> Control \<Rightarrow> fault + f64 option" where
  "convert_f64_to_wire units v c =
     (let value = (case v of None \<Rightarrow> None | Some x \<Rightarrow> map_option Number (Number_from_f64 x))
      in res_bind (convert_to_wire_number units value c) (\<lambda>(_, r). Inr (case r of None \<Rightarrow> None | Some x \<Rightarrow> Value_as_f64 x)))"

definition send_to_command_handler :: "ControlValue \<Rightarrow> Shared \<Rightarrow> (fault, unit, Shared) io" where
  "send_to_command_handler cv sc =
     (if sc_command_listeners sc = 0 then (Inl (Failed Shutdown), sc)
      else (Inr (), sc\<lparr>sc_commands := sc_commands sc @ [cv]\<rparr>))"

definition wire_control_value :: "ControlValue \<Rightarrow> Control \<Rightarrow> fault + ControlValue" where
  "wire_control_value cv c =
     res_bind (convert_to_wire_number (cv_units cv) (cv_value cv) c) (\<lambda>(units, v).
     res_bind (convert_f64_to_wire (cv_units cv) (cv_end_value cv) c) (\<lambda>ev.
     res_bind (convert_f64_to_wire (cv_units cv) (cv_auto_value cv) c) (\<lambda>av.
       Inr (cv\<lparr>cv_units := units, cv_value := v, cv_auto_value := av, cv_end_value := ev\<rparr>))))"

text \<open>The check of a value against the values the radar accepts; the result is the value refused.\<close>

definition refused_value :: "Control \<Rightarrow> ControlValue \<Rightarrow> int option" where
  "refused_value c cv =
     (case (cd_valid_values (ctl_item c), cv_value cv) of
        (Some valid, Some v) \<Rightarrow>
          (case Value_as_f64 v of None \<Rightarrow> None | Some f \<Rightarrow> if as_i32 f \<in> set valid then None else Some (as_i32 f))
      | _ \<Rightarrow> None)"

definition or_zero :: "f64 option \<Rightarrow> f64" where
  "or_zero v = (case v of Some x \<Rightarrow> x | None \<Rightarrow> Fin 0)"

text \<open>
  What happens to an acceptable request: zones and rectangles are stored here and forwarded,
  other controls are handled by whoever they belong to.
\<close>

definition dispatch_request ::
  "order \<Rightarrow> (Range \<Rightarrow> string) \<Rightarrow> int \<Rightarrow> Control \<Rightarrow> ControlValue \<Rightarrow> Shared \<Rightarrow> (fault, unit, Shared) io" where
  "dispatch_request order show_range now c cv sc =
     (if cd_data_type (ctl_item c) = DT_Zone then
        try_bind (Shared_set_zone order show_range now (cv_id cv)
            (or_zero (case cv_value cv of None \<Rightarrow> None | Some v \<Rightarrow> Value_as_f64 v)) (or_zero (cv_end_value cv))
            (or_zero (cv_start_distance cv)) (or_zero (cv_end_distance cv)) (cv_enabled cv) sc)
          (\<lambda>_. send_to_command_handler cv)
      else if cd_data_type (ctl_item c) = DT_Rect then
        try_bind (Shared_set_rect order show_range now (cv_id cv) (or_zero (cv_x1 cv)) (or_zero (cv_y1 cv))
            (or_zero (cv_x2 cv)) (or_zero (cv_y2 cv)) (or_zero (cv_width cv)) (cv_enabled cv) sc)
          (\<lambda>_. send_to_command_handler cv)
      else case get_destination (cv_id cv) of
        Dest_Internal \<Rightarrow>
          (case cv_value cv of
             Some v \<Rightarrow> try_bind (Shared_set_value order show_range now (cv_id cv) v sc) (\<lambda>_ sc. (Inr (), sc))
           | None \<Rightarrow> (Inl (Failed (CannotSetControlId (cv_id cv))), sc))
      | Dest_ReadOnly \<Rightarrow> (Inl (Failed (CannotSetControlId (cv_id cv))), sc)
      | _ \<Rightarrow> send_to_command_handler cv sc)"

definition process_client_request ::
  "order \<Rightarrow> (Range \<Rightarrow> string) \<Rightarrow> int \<Rightarrow> ControlValue \<Rightarrow> Shared \<Rightarrow> (fault, unit, Shared) io" where
  "process_client_request order show_range now request sc =
     (case Shared_get (cv_id request) sc of None \<Rightarrow> (Inl (Failed (CannotSetControlId (cv_id request))), sc)
      | Some c \<Rightarrow>
        case wire_control_value request c of Inl e \<Rightarrow> (Inl e, sc)
        | Inr cv \<Rightarrow>
          case refused_value c cv of
            Some i \<Rightarrow> (Inl (Failed (ControlError (Invalid (cv_id cv) (Number (Num_Int i))))), sc)
          | None \<Rightarrow> dispatch_request order show_range now c cv sc)"

end
