(* ===== verification/Controls_Correct.thy ===== *)
theory Controls_Correct
  imports Shared_Controls
begin

text \<open>
  Correctness of the controls: values stay in bounds, every change is told to the clients, a
  failed request changes nothing, and what a client can and cannot reach.
\<close>

section \<open>Values stay in bounds\<close>

text \<open>The definitions with whole-number bounds around zero and a step of one, which most controls have.\<close>

definition int_control :: "int \<Rightarrow> int \<Rightarrow> ControlDefinition \<Rightarrow> bool" where
  "int_control lo hi i \<longleftrightarrow>
     cd_min_value i = Some (Fin (of_int lo)) \<and> cd_max_value i = Some (Fin (of_int hi)) \<and> cd_step i = Fin 1
     \<and> lo \<le> 0 \<and> 0 \<le> hi \<and> - (2 ^ 31) \<le> lo \<and> hi < 2 ^ 31"

definition int_value :: "int \<Rightarrow> int \<Rightarrow> Control \<Rightarrow> bool" where
  "int_value lo hi c =
     (case ctl_value c of None \<Rightarrow> True
      | Some v \<Rightarrow> v = Fin (of_int (as_i32 v)) \<and> lo \<le> as_i32 v \<and> as_i32 v \<le> hi)"

lemma tenth_not_one: "\<not> f64_eq (Fin 1) (f64_round (1 / 10))"
  by code_simp

lemma f64_eq_Fin [simp]: "f64_eq (Fin a) (Fin b) \<longleftrightarrow> a = b"
  by (simp add: f64_eq_def)

lemma round_step_one [simp]: "round_step (Fin 1) v = f64_of_int (as_i32 v)"
  by (simp add: round_step_def tenth_not_one)

lemma range_map_bounds:
  assumes "range_map i v = Inr w" and "cd_min_value i = Some (Fin a)" and "cd_max_value i = Some (Fin b)"
  shows "w = NaN \<or> (\<exists>q. w = Fin q \<and> a \<le> q \<and> q \<le> b)"
proof -
  have "\<not> f64_lt w (Fin a)" "\<not> f64_lt (Fin b) w"
    using assms by (simp_all add: range_map_def Let_def split: if_splits)
  then show ?thesis by (cases w) auto
qed

lemma rat_trunc_between:
  assumes "of_int lo \<le> q" and "q \<le> of_int hi" and "lo \<le> 0" and "0 \<le> hi"
  shows "lo \<le> rat_trunc q" and "rat_trunc q \<le> hi"
  using assms by (auto simp: rat_trunc_def le_floor_iff ceiling_le_iff floor_le_iff le_ceiling_iff)

lemma as_i32_between:
  assumes "w = NaN \<or> (\<exists>q. w = Fin q \<and> of_int lo \<le> q \<and> q \<le> of_int hi)" and "lo \<le> 0" and "0 \<le> hi"
    and "- (2 ^ 31) \<le> lo" and "hi < 2 ^ 31"
  shows "lo \<le> as_i32 w \<and> as_i32 w \<le> hi"
  using assms rat_trunc_between[of lo _ hi] by (fastforce simp: as_i32_def max_def min_def)

lemma f64_of_int_i32 [simp]: "- (2 ^ 31) \<le> k \<Longrightarrow> k < 2 ^ 31 \<Longrightarrow> f64_of_int k = Fin (of_int k)"
  by (rule f64_of_int_exact) auto

lemma Control_set_item [simp]: "ctl_item (snd (Control_set now v av auto en c)) = ctl_item c"
  by (simp add: Control_set_def Let_def unchanged_def split: sum.splits option.splits)

lemma Control_set_value:
  assumes "int_control lo hi (ctl_item c)" and "int_value lo hi c"
  shows "int_value lo hi (snd (Control_set now v av auto en c))"
proof -
  let ?i = "ctl_item c"
  have step: "cd_step ?i = Fin 1" using assms(1) by (simp add: int_control_def)
  have keep: "int_value lo hi (snd (unchanged c))" using assms(2) by (simp add: unchanged_def int_value_def)
  show ?thesis
  proof (cases "res_bind (wire_to_si ?i (apply_scale ?i (apply_offset ?i v))) (range_map ?i)")
    case (Inl e)
    then show ?thesis using assms(2) by (simp add: Control_set_def Let_def)
  next
    case (Inr w)
    then obtain x where "range_map ?i x = Inr w" by (auto simp: res_bind_eq_Inr)
    with assms(1) have w: "lo \<le> as_i32 w \<and> as_i32 w \<le> hi"
      by (intro as_i32_between) (auto simp: int_control_def dest: range_map_bounds)
    then have "- (2 ^ 31) \<le> as_i32 w" "as_i32 w < 2 ^ 31" using assms(1) by (auto simp: int_control_def)
    with w have new: "int_value lo hi (c'\<lparr>ctl_value := Some (f64_of_int (as_i32 w))\<rparr>)" for c' :: Control
      by (simp add: int_value_def)
    show ?thesis
      unfolding Control_set_def Let_def Inr step using assms(2) keep new
      by (simp add: int_value_def split: sum.splits)
  qed
qed

text \<open>A control stored as a whole number can always be shown to a client.\<close>

lemma int_value_shown:
  assumes "int_control lo hi (ctl_item c)" and "int_value lo hi c"
  shows "Control_value c \<noteq> Inl Panicked"
proof (cases "ctl_value c")
  case (Some v)
  then have v: "v = Fin (of_int (as_i32 v))" and "- (2 ^ 31) \<le> as_i32 v" "as_i32 v < 2 ^ 31"
    using assms by (auto simp: int_value_def int_control_def)
  then have "f64_of_int (as_i32 v) = v" by simp
  then have "Control_to_number v \<noteq> Inl Panicked" using v by (metis Control_to_number_def Inl_Inr_False f64_eq_Fin)
  with Some show ?thesis by (cases "Control_to_number v") (auto simp: Control_value_def)
qed (simp add: Control_value_def)

definition set_all :: "(int \<times> f64 \<times> f64 option \<times> bool option \<times> bool option) list \<Rightarrow> Control \<Rightarrow> Control" where
  "set_all updates c = fold (\<lambda>(now, v, av, auto, en) c. snd (Control_set now v av auto en c)) updates c"

lemma set_all_inv:
  "int_control lo hi (ctl_item c) \<Longrightarrow> int_value lo hi c \<Longrightarrow>
    int_control lo hi (ctl_item (set_all us c)) \<and> int_value lo hi (set_all us c)"
proof (induction us arbitrary: c)
  case (Cons u us)
  obtain now v av auto en where u: "u = (now, v, av, auto, en)" by (cases u)
  have "set_all (u # us) c = set_all us (snd (Control_set now v av auto en c))"
    by (simp add: set_all_def u)
  with Cons.IH[of "snd (Control_set now v av auto en c)"] Cons.prems show ?case
    by (simp add: Control_set_value)
qed (simp add: set_all_def)



section \<open>Every change is told\<close>

text \<open>
  What a client knows: the value of each control as of the last message about it, starting from
  the snapshot it is sent when it connects.
\<close>

definition shown :: "Control \<Rightarrow> ControlValue option" where
  "shown c = (case ControlValue_from c None of Inl _ \<Rightarrow> None | Inr cv \<Rightarrow> Some cv)"

definition snapshot :: "Shared \<Rightarrow> ControlId \<rightharpoonup> ControlValue" where
  "snapshot sc cid = (case sc_controls sc cid of None \<Rightarrow> None | Some c \<Rightarrow> shown c)"

definition client_view :: "(ControlId \<rightharpoonup> ControlValue) \<Rightarrow> ControlValue list \<Rightarrow> ControlId \<rightharpoonup> ControlValue" where
  "client_view known msgs = foldl (\<lambda>m cv. m(cv_id cv \<mapsto> cv)) known msgs"

definition keyed :: "Shared \<Rightarrow> bool" where
  "keyed sc \<longleftrightarrow> (\<forall>cid c. sc_controls sc cid = Some c \<longrightarrow> cd_control_id (ctl_item c) = cid)"

definition informed :: "Shared \<Rightarrow> Shared \<Rightarrow> bool" where
  "informed sc sc' \<longleftrightarrow> keyed sc' \<and>
     (\<exists>msgs. sc_clients sc' = sc_clients sc @ msgs \<and> client_view (snapshot sc) msgs = snapshot sc')"

lemma informed_trans: "informed sc sc' \<Longrightarrow> informed sc' sc'' \<Longrightarrow> informed sc sc''"
  by (auto simp: informed_def client_view_def)

lemma informed_refl: "keyed sc \<Longrightarrow> informed sc sc"
  by (simp add: informed_def client_view_def)

lemma ControlValue_from_id: "ControlValue_from c err = Inr cv \<Longrightarrow> cv_id cv = cd_control_id (ctl_item c)"
  by (auto simp: ControlValue_from_def res_bind_eq_Inr)

lemma valid_ranges_shown_alike:
  "ControlValue_from (Control_set_valid_ranges order show_range rs c) err = ControlValue_from c err"
  "cd_control_id (ctl_item (Control_set_valid_ranges order show_range rs c)) = cd_control_id (ctl_item c)"
  by (simp_all add: Control_set_valid_ranges_def Let_def ControlValue_from_def Control_value_def
      Control_auto_value_def Control_end_value_def Control_start_distance_def Control_end_distance_def)

lemma snapshot_changed: "snapshot (sc\<lparr>sc_controls := (sc_controls sc)(cid \<mapsto> c)\<rparr>) = (snapshot sc)(cid := shown c)"
  by (simp add: snapshot_def fun_eq_iff)

lemma keyed_changed:
  "keyed sc \<Longrightarrow> cd_control_id (ctl_item c) = cid \<Longrightarrow> keyed (sc\<lparr>sc_controls := (sc_controls sc)(cid \<mapsto> c)\<rparr>)"
  by (simp add: keyed_def)

lemma update_valid_ranges_effect:
  assumes "update_valid_ranges order show_range sc = Inr sc'"
  shows "snapshot sc' = snapshot sc \<and> sc_clients sc' = sc_clients sc \<and> (keyed sc \<longrightarrow> keyed sc')"
proof -
  from assms obtain c rs where c: "sc_controls sc ControlId_Range = Some c"
    and sc': "sc' = sc\<lparr>sc_controls := (sc_controls sc)(ControlId_Range \<mapsto> Control_set_valid_ranges order show_range rs c)\<rparr>"
    by (auto simp: update_valid_ranges_def Let_def split: option.splits)
  have "shown (Control_set_valid_ranges order show_range rs c) = shown c"
    by (simp add: shown_def valid_ranges_shown_alike)
  moreover have "snapshot sc ControlId_Range = shown c" using c by (simp add: snapshot_def)
  ultimately have "snapshot sc' = snapshot sc" unfolding sc' snapshot_changed by (metis fun_upd_triv)
  moreover have "keyed sc \<longrightarrow> keyed sc'"
    unfolding sc' using c by (auto simp: keyed_def valid_ranges_shown_alike intro!: keyed_changed)
  ultimately show ?thesis by (simp add: sc')
qed

text \<open>Telling the clients: the ranges first where they depend on the change, then the message.\<close>

lemma send_to_all_clients_steps:
  assumes "send_to_all_clients order show_range c sc = Inr sc'"
  obtains sc1 cv where
    "(if cd_control_id (ctl_item c) = ControlId_RangeUnits then update_valid_ranges order show_range sc else Inr sc) = Inr sc1"
    and "ControlValue_from c None = Inr cv"
    and "sc_controls sc' = sc_controls sc1" and "sc_clients sc' = sc_clients sc1 @ [cv]"
proof -
  from assms obtain sc1 where
    1: "(if cd_control_id (ctl_item c) = ControlId_RangeUnits then update_valid_ranges order show_range sc else Inr sc) = Inr sc1"
    and 2: "res_bind (ControlValue_from c None) (\<lambda>cv.
         let sc = sc1\<lparr>sc_clients := sc_clients sc1 @ [cv]\<rparr>
         in if cd_control_id (ctl_item c) = ControlId_RangeUnits
            then (case sc_controls sc ControlId_Range of None \<Rightarrow> Inl Panicked
                  | Some rc \<Rightarrow> Inr (sc\<lparr>sc_signalk := sc_signalk sc @ [(Some (ctl_item rc), cv)]\<rparr>))
            else Inr (sc\<lparr>sc_signalk := sc_signalk sc @ [(None, cv)]\<rparr>)) = Inr sc'"
    unfolding send_to_all_clients_def Let_def res_bind_eq_Inr by blast
  from 2 obtain cv where "ControlValue_from c None = Inr cv" "sc_controls sc' = sc_controls sc1" "sc_clients sc' = sc_clients sc1 @ [cv]"
    unfolding res_bind_eq_Inr Let_def by (elim exE conjE) (auto split: if_splits option.splits)
  with 1 that show thesis by blast
qed

lemma send_effect:
  assumes "send_to_all_clients order show_range c sc = Inr sc'"
  shows "\<exists>cv. ControlValue_from c None = Inr cv \<and> sc_clients sc' = sc_clients sc @ [cv]
           \<and> snapshot sc' = snapshot sc \<and> (keyed sc \<longrightarrow> keyed sc')"
proof -
  obtain sc1 cv where
    up: "(if cd_control_id (ctl_item c) = ControlId_RangeUnits then update_valid_ranges order show_range sc else Inr sc) = Inr sc1"
    and cv: "ControlValue_from c None = Inr cv" "sc_controls sc' = sc_controls sc1" "sc_clients sc' = sc_clients sc1 @ [cv]"
    using send_to_all_clients_steps[OF assms] .
  from up have "snapshot sc1 = snapshot sc \<and> sc_clients sc1 = sc_clients sc \<and> (keyed sc \<longrightarrow> keyed sc1)"
    by (auto split: if_splits dest: update_valid_ranges_effect)
  moreover have "snapshot sc' = snapshot sc1" "keyed sc' = keyed sc1"
    using cv(2) by (simp_all add: snapshot_def fun_eq_iff keyed_def)
  ultimately show ?thesis using cv(1,3) by simp
qed

definition only_panics :: "fault + 'a \<Rightarrow> bool" where
  "only_panics m \<longleftrightarrow> (\<forall>e. m \<noteq> Inl (Failed e))"

lemma only_panics_rules [simp]:
  "only_panics (Inr a)" "only_panics (Inl Panicked)"
  "only_panics m \<Longrightarrow> (\<And>a. only_panics (f a)) \<Longrightarrow> only_panics (res_bind m f)"
  by (auto simp: only_panics_def res_bind_def split: sum.splits)

lemma send_only_panics: "only_panics (send_to_all_clients order show_range c sc)"
proof -
  have "only_panics (update_valid_ranges order show_range sc)"
    by (simp add: update_valid_ranges_def Let_def split: option.split)
  moreover have "only_panics (Control_to_number v)" for v
    by (simp add: Control_to_number_def split: option.split)
  then have "only_panics (ControlValue_from c None)"
    by (simp add: ControlValue_from_def Control_value_def split: option.split)
  ultimately show ?thesis
    by (simp add: send_to_all_clients_def Let_def split: option.split)
qed

lemma send_never_fails: "send_to_all_clients order show_range c sc \<noteq> Inl (Failed e)"
  using send_only_panics by (simp add: only_panics_def)

text \<open>
  The interface between a control and the shared table: an operation on a control that fails
  leaves it as it was, one that reports no change leaves what a client is shown as it was, and
  none changes which control it is.
\<close>

locale control_op =
  fixes f :: "Control \<Rightarrow> (fault, unit option, Control) io"
  assumes failed: "fst (f c) = Inl e \<Longrightarrow> snd (f c) = c"
    and quiet: "fst (f c) = Inr None \<Longrightarrow> ControlValue_from (snd (f c)) None = ControlValue_from c None"
    and keeps_id: "cd_control_id (ctl_item (snd (f c))) = cd_control_id (ctl_item c)"
begin

lemma failure_changes_nothing:
  assumes "set_and_tell order show_range cid f sc = (Inl (Failed e), sc')"
  shows "sc' = sc"
proof (cases "sc_controls sc cid")
  case (Some c)
  then have "(sc_controls sc)(cid \<mapsto> c) = sc_controls sc" by auto
  with Some assms failed[of c] show ?thesis
    by (cases "f c") (auto simp: set_and_tell_def Let_def send_never_fails split: sum.splits if_splits)
qed (use assms in \<open>simp add: set_and_tell_def\<close>)

lemma change_is_told:
  assumes "keyed sc" and "set_and_tell order show_range cid f sc = (r, sc')" and "r \<noteq> Inl Panicked"
  shows "informed sc sc'"
proof (cases r)
  case (Inl e)
  then obtain e' where "e = Failed e'" using assms(3) by (cases e) auto
  with Inl assms failure_changes_nothing informed_refl show ?thesis by blast
next
  case (Inr told)
  with assms(2) obtain c res where c: "sc_controls sc cid = Some c" "fst (f c) = Inr res"
    by (cases "sc_controls sc cid") (auto simp: set_and_tell_def Let_def split: sum.splits prod.splits)
  let ?c' = "snd (f c)" let ?sc = "sc\<lparr>sc_controls := (sc_controls sc)(cid \<mapsto> ?c')\<rparr>"
  have id': "cd_control_id (ctl_item ?c') = cid" using keeps_id assms(1) c(1) by (simp add: keyed_def)
  then have keyed': "keyed ?sc" using assms(1) by (simp add: keyed_changed)
  show ?thesis
  proof (cases res)
    case None
    with c Inr assms(2) have "sc' = ?sc" by (cases "f c") (simp add: set_and_tell_def)
    moreover have "shown ?c' = snapshot sc cid" using quiet[of c] c None by (simp add: snapshot_def shown_def)
    then have "snapshot ?sc = snapshot sc" by (simp add: snapshot_changed)
    ultimately show ?thesis using keyed' by (simp add: informed_def client_view_def)
  next
    case (Some u)
    with c Inr assms(2) have "send_to_all_clients order show_range ?c' ?sc = Inr sc'"
      by (cases "f c") (auto simp: set_and_tell_def Let_def split: sum.splits)
    then obtain cv where cv: "ControlValue_from ?c' None = Inr cv" "sc_clients sc' = sc_clients sc @ [cv]"
        "snapshot sc' = snapshot ?sc" "keyed sc'"
      using send_effect[of order show_range ?c' ?sc sc'] keyed' by auto
    moreover have "snapshot ?sc = (snapshot sc)(cv_id cv \<mapsto> cv)"
      using cv(1) id' by (simp add: snapshot_changed shown_def ControlValue_from_id)
    ultimately show ?thesis by (auto simp: informed_def client_view_def)
  qed
qed

end

text \<open>The three ways a setter can end.\<close>

definition setter_outcome :: "Control \<Rightarrow> (fault, unit option, Control) io \<Rightarrow> bool" where
  "setter_outcome c m \<longleftrightarrow> (\<exists>e. m = (Inl e, c)) \<or> (\<exists>c'. m = (Inr (Some ()), c') \<and> ctl_item c' = ctl_item c) \<or> m = (Inr None, c)"

lemma setter_outcomes [simp]:
  "setter_outcome c (Inl e, c)"
  "setter_outcome c (Inr None, c)"
  "ctl_item c' = ctl_item c \<Longrightarrow> setter_outcome c (Inr (Some ()), c')"
  "setter_outcome c (unchanged c)"
  by (simp_all add: setter_outcome_def unchanged_def)

lemma outcome_op: "(\<And>c. setter_outcome c (f c)) \<Longrightarrow> control_op f"
  unfolding control_op_def setter_outcome_def by (metis fst_conv snd_conv sum.distinct(1) sum.inject(2) option.distinct(1))

lemma Control_set_outcome: "setter_outcome c (Control_set now v av auto en c)"
  by (simp add: Control_set_def Let_def split: sum.splits)

interpretation number_op: control_op "Control_set now v av auto en"
  by (rule outcome_op) (rule Control_set_outcome)

lemma sector_outcome: "setter_outcome c (Control_set_sector now a b en c)"
  by (simp add: Control_set_sector_def Let_def split: sum.splits prod.splits)

interpretation sector_op: control_op "Control_set_sector now a b en"
  by (rule outcome_op) (rule sector_outcome)

lemma zone_outcome: "setter_outcome c (Control_set_zone now sa ea sd ed en c)"
  by (simp add: Control_set_zone_def Let_def split: sum.splits prod.splits)

interpretation zone_op: control_op "Control_set_zone now sa ea sd ed en"
  by (rule outcome_op) (rule zone_outcome)

lemma rect_outcome: "setter_outcome c (Control_set_rect now x1 y1 x2 y2 w en c)"
  by (simp add: Control_set_rect_def)

interpretation rect_op: control_op "Control_set_rect now x1 y1 x2 y2 w en"
  by (rule outcome_op) (rule rect_outcome)

lemma string_outcome: "setter_outcome c (lift_string (Control_set_string now s) c)"
  by (simp add: lift_string_def Control_set_string_def)

interpretation wire_range_op: control_op "Control_set_wire_range mn mx"
  by unfold_locales (auto simp: Control_set_wire_range_def Let_def ControlValue_from_def Control_value_def
      Control_auto_value_def Control_end_value_def Control_start_distance_def Control_end_distance_def)

section \<open>The operations on the shared controls\<close>

datatype (plugins only: size) setter =
    Set_number f64 "bool option" "bool option"
  | Set_many_auto f64 f64
  | Set_wire_range f64 f64
  | Set_text string
  | Set_json Value
  | Set_sector f64 f64 "bool option"
  | Set_zone f64 f64 f64 f64 "bool option"
  | Set_rect f64 f64 f64 f64 f64 "bool option"

definition discard :: "(fault, 'a, Shared) io \<Rightarrow> (fault, unit, Shared) io" where
  "discard m = (case m of (Inl e, sc) \<Rightarrow> (Inl e, sc) | (Inr _, sc) \<Rightarrow> (Inr (), sc))"

definition run_setter :: "order \<Rightarrow> (Range \<Rightarrow> string) \<Rightarrow> int \<Rightarrow> ControlId \<Rightarrow> setter \<Rightarrow> Shared \<Rightarrow> (fault, unit, Shared) io" where
  "run_setter order show_range now cid s sc =
     (case s of
        Set_number v auto en \<Rightarrow> discard (Shared_set_value_auto_enabled order show_range now cid v auto en sc)
      | Set_many_auto v av \<Rightarrow> discard (Shared_set_value_with_many_auto order show_range now cid v av sc)
      | Set_wire_range mn mx \<Rightarrow> discard (Shared_set_wire_range order show_range cid mn mx sc)
      | Set_text t \<Rightarrow> discard (Shared_set_string order show_range now cid t sc)
      | Set_json v \<Rightarrow> discard (Shared_set_value order show_range now cid v sc)
      | Set_sector a b en \<Rightarrow> discard (Shared_set_sector order show_range now cid a b en sc)
      | Set_zone a b d e en \<Rightarrow> discard (Shared_set_zone order show_range now cid a b d e en sc)
      | Set_rect x1 y1 x2 y2 w en \<Rightarrow> discard (Shared_set_rect order show_range now cid x1 y1 x2 y2 w en sc))"

text \<open>All of them are one operation on a control, told to the clients.\<close>

lemma discard_told [simp]: "discard (told_unit m) = discard m" "discard (told_description m) = discard m"
  by (cases m; cases "fst m"; simp add: discard_def told_unit_def told_description_def)+

lemma discard_Inl: "discard m = (Inl e, sc) \<longleftrightarrow> m = (Inl e, sc)"
  by (cases m; cases "fst m") (auto simp: discard_def)

lemma discard_result: "discard m = (r, sc) \<Longrightarrow> \<exists>r'. m = (r', sc) \<and> (\<forall>e. r = Inl e \<longleftrightarrow> r' = Inl e)"
  by (cases m; cases "fst m") (auto simp: discard_def)

definition setter_fun :: "int \<Rightarrow> ControlId \<Rightarrow> setter \<Rightarrow> Control \<Rightarrow> (fault, unit option, Control) io" where
  "setter_fun now cid s c =
     (case s of
        Set_number v auto en \<Rightarrow> Control_set now v None auto en c
      | Set_many_auto v av \<Rightarrow> Control_set now v (Some av) (ctl_auto c) None c
      | Set_wire_range mn mx \<Rightarrow> Control_set_wire_range mn mx c
      | Set_text t \<Rightarrow>
          if cd_data_type (ctl_item c) = DT_String then lift_string (Control_set_string now t) c
          else (case parse_i32 t of None \<Rightarrow> (Inl (Failed (ControlError (Invalid cid (String t)))), c)
                | Some i \<Rightarrow> Control_set now (f64_of_int i) None None None c)
      | Set_json v \<Rightarrow>
          if cd_data_type (ctl_item c) = DT_String
          then (case v of String t \<Rightarrow> lift_string (Control_set_string now t) c
                | _ \<Rightarrow> (Inl (Failed (ControlError (Invalid cid v))), c))
          else (case number_of_value cid v of Inl e \<Rightarrow> (Inl e, c) | Inr n \<Rightarrow> Control_set now n None None None c)
      | Set_sector a b en \<Rightarrow> Control_set_sector now a b en c
      | Set_zone a b d e en \<Rightarrow> Control_set_zone now a b d e en c
      | Set_rect x1 y1 x2 y2 w en \<Rightarrow> Control_set_rect now x1 y1 x2 y2 w en c)"

lemma run_setter_eq: "run_setter order show_range now cid s sc = discard (set_and_tell order show_range cid (setter_fun now cid s) sc)"
  by (cases s) (simp_all add: run_setter_def setter_fun_def[abs_def] Shared_set_value_auto_enabled_def
      Shared_set_value_with_many_auto_def Shared_set_wire_range_def Shared_set_string_def Shared_set_value_def
      Shared_set_sector_def Shared_set_zone_def Shared_set_rect_def)

lemma setter_fun_outcome: "\<forall>mn mx. s \<noteq> Set_wire_range mn mx \<Longrightarrow> setter_outcome c (setter_fun now cid s c)"
  using sector_outcome zone_outcome rect_outcome
  by (cases s) (simp_all add: setter_fun_def Control_set_outcome string_outcome split: option.split sum.split Value.split)

interpretation any_setter: control_op "setter_fun now cid s"
proof (cases "\<exists>mn mx. s = Set_wire_range mn mx")
  case True
  then obtain mn mx where s: "s = Set_wire_range mn mx" by blast
  have "setter_fun now cid s = Control_set_wire_range mn mx" by (simp add: s setter_fun_def fun_eq_iff)
  then show "control_op (setter_fun now cid s)" using wire_range_op.control_op_axioms by simp
next
  case False
  then show "control_op (setter_fun now cid s)" using setter_fun_outcome by (blast intro: outcome_op)
qed

text \<open>The states reached by setters that do not panic; one that fails is passed over.\<close>

inductive setters_reach :: "order \<Rightarrow> (Range \<Rightarrow> string) \<Rightarrow> Shared \<Rightarrow> Shared \<Rightarrow> bool" for order show_range where
  start: "setters_reach order show_range sc sc"
| step: "setters_reach order show_range sc sc1 \<Longrightarrow> run_setter order show_range now cid s sc1 = (r, sc2) \<Longrightarrow> r \<noteq> Inl Panicked
    \<Longrightarrow> setters_reach order show_range sc sc2"

lemma setter_informs:
  assumes "keyed sc" and "run_setter order show_range now cid s sc = (r, sc')" and "r \<noteq> Inl Panicked"
  shows "informed sc sc'"
proof -
  from assms(2) obtain r' where "set_and_tell order show_range cid (setter_fun now cid s) sc = (r', sc')" "r' \<noteq> Inl Panicked"
    using assms(3) discard_result unfolding run_setter_eq by blast
  then show ?thesis using assms(1) any_setter.change_is_told by blast
qed



definition example_controls :: Shared where
  "example_controls =
     \<lparr>sc_replay = False, sc_controls = [ControlId_Gain \<mapsto> cb_control (new_numeric 0 ControlId_Gain (Fin 0) (Fin 100))],
      sc_all_ranges = Ranges_empty, sc_default_range_units = 0, sc_clients = [], sc_signalk = [], sc_commands = [],
      sc_command_listeners = 1\<rparr>"

lemma as_i32_numeral [simp]: "(numeral k :: int) < 2 ^ 31 \<Longrightarrow> as_i32 (Fin (numeral k)) = numeral k"
  using as_i32_int[of "numeral k"] by simp


section \<open>Requests\<close>

lemma try_told [simp]:
  "try_bind (told_unit m) (\<lambda>_. k) = try_bind (discard m) (\<lambda>_. k)"
  "try_bind (told_description m) (\<lambda>_. k) = try_bind (discard m) (\<lambda>_. k)"
  by (cases m; cases "fst m"; simp add: told_unit_def told_description_def discard_def)+

lemma dispatch_request_eq:
  "dispatch_request order show_range now c cv sc =
     (if cd_data_type (ctl_item c) = DT_Zone then
        try_bind (run_setter order show_range now (cv_id cv)
            (Set_zone (or_zero (case cv_value cv of None \<Rightarrow> None | Some v \<Rightarrow> Value_as_f64 v)) (or_zero (cv_end_value cv))
              (or_zero (cv_start_distance cv)) (or_zero (cv_end_distance cv)) (cv_enabled cv)) sc)
          (\<lambda>_. send_to_command_handler cv)
      else if cd_data_type (ctl_item c) = DT_Rect then
        try_bind (run_setter order show_range now (cv_id cv)
            (Set_rect (or_zero (cv_x1 cv)) (or_zero (cv_y1 cv)) (or_zero (cv_x2 cv)) (or_zero (cv_y2 cv)) (or_zero (cv_width cv)) (cv_enabled cv)) sc)
          (\<lambda>_. send_to_command_handler cv)
      else case get_destination (cv_id cv) of
        Dest_Internal \<Rightarrow>
          (case cv_value cv of
             Some v \<Rightarrow> try_bind (run_setter order show_range now (cv_id cv) (Set_json v) sc) (\<lambda>_ sc. (Inr (), sc))
           | None \<Rightarrow> (Inl (Failed (CannotSetControlId (cv_id cv))), sc))
      | Dest_ReadOnly \<Rightarrow> (Inl (Failed (CannotSetControlId (cv_id cv))), sc)
      | _ \<Rightarrow> send_to_command_handler cv sc)"
  by (simp add: dispatch_request_def run_setter_def Shared_set_zone_def Shared_set_rect_def Shared_set_value_def
      cong: if_cong ControlDestination.case_cong option.case_cong)

lemma send_command_effect:
  assumes "send_to_command_handler cv sc = (r, sc')"
  shows "(r = Inl (Failed Shutdown) \<and> sc' = sc) \<or> (r = Inr () \<and> sc' = sc\<lparr>sc_commands := sc_commands sc @ [cv]\<rparr>)"
  using assms by (auto simp: send_to_command_handler_def split: if_splits)

lemma setter_failure:
  assumes "run_setter order show_range now cid s sc = (Inl (Failed e), sc')"
  shows "sc' = sc"
proof -
  from assms have "set_and_tell order show_range cid (setter_fun now cid s) sc = (Inl (Failed e), sc')"
    by (simp add: run_setter_eq discard_Inl)
  then show ?thesis by (rule any_setter.failure_changes_nothing)
qed

lemma setter_commands:
  assumes "run_setter order show_range now cid s sc = (r, sc')"
  shows "sc_commands sc' = sc_commands sc"
proof -
  have "sc_commands sc'' = sc_commands sc'" if "send_to_all_clients order show_range c sc' = Inr sc''" for c sc' sc''
    using that by (auto simp: send_to_all_clients_def update_valid_ranges_def Let_def res_bind_eq_Inr split: if_splits option.splits)
  then have "sc_commands (snd (set_and_tell order show_range cid f sc)) = sc_commands sc" for f
    by (simp add: set_and_tell_def Let_def split: option.split sum.split prod.split)
  then show ?thesis using assms discard_result unfolding run_setter_eq by (metis snd_conv)
qed

text \<open>A request is refused, or stored by one setter and perhaps forwarded, or forwarded.\<close>

lemma dispatch_cases:
  assumes "dispatch_request order show_range now c cv sc = (r, sc')"
  obtains (refused) e where "r = Inl (Failed e)" and "sc' = sc"
  | (stored) s where "try_bind (run_setter order show_range now (cv_id cv) s sc) (\<lambda>_. send_to_command_handler cv) = (r, sc')"
  | (internal) s where "try_bind (run_setter order show_range now (cv_id cv) s sc) (\<lambda>_ sc. (Inr (), sc)) = (r, sc')"
  | (forwarded) "send_to_command_handler cv sc = (r, sc')"
  using assms unfolding dispatch_request_eq
  by (auto split: if_splits ControlDestination.splits option.splits)

lemma dispatch_commands:
  assumes "dispatch_request order show_range now c cv sc = (r, sc')"
  shows "sc_commands sc' = sc_commands sc \<or> (r = Inr () \<and> sc_commands sc' = sc_commands sc @ [cv])"
  using assms
proof (cases rule: dispatch_cases)
  case (stored s)
  then show ?thesis
    by (auto simp: try_bind_def split: prod.splits sum.splits dest!: send_command_effect setter_commands)
next
  case (internal s)
  then show ?thesis by (auto simp: try_bind_def split: prod.splits sum.splits dest!: setter_commands)
qed (auto dest: send_command_effect)

lemma dispatch_failure:
  assumes "dispatch_request order show_range now c cv sc = (Inl (Failed e), sc')" and "e \<noteq> Shutdown"
  shows "sc' = sc"
  using assms(1)
proof (cases rule: dispatch_cases)
  case (stored s)
  then show ?thesis using assms(2)
    by (auto simp: try_bind_def split: prod.splits sum.splits dest: send_command_effect setter_failure)
next
  case (internal s)
  then show ?thesis by (auto simp: try_bind_def split: prod.splits sum.splits dest: setter_failure)
qed (use assms(2) in \<open>auto dest: send_command_effect\<close>)

text \<open>What comes before: the control is looked up, the value translated and checked.\<close>

lemma request_cases:
  assumes "process_client_request order show_range now request sc = (r, sc')"
  obtains (refused) e where "r = Inl e" and "sc' = sc"
  | (accepted) c cv where "sc_controls sc (cv_id request) = Some c" and "wire_control_value request c = Inr cv"
      and "refused_value c cv = None" and "dispatch_request order show_range now c cv sc = (r, sc')"
  using assms
  by (auto simp: process_client_request_def Shared_get_def split: option.splits sum.splits)

lemma wire_control_value_id: "wire_control_value request c = Inr cv \<Longrightarrow> cv_id cv = cv_id request"
  by (auto simp: wire_control_value_def res_bind_eq_Inr)


text \<open>
  C12. A client request that is answered with an error, other than that nobody listens for
  commands any more, has changed nothing: no control, no message to a client, no command.
\<close>

theorem failed_request_changes_nothing:
  assumes "process_client_request order show_range now request sc = (Inl (Failed e), sc')" and "e \<noteq> Shutdown"
  shows "sc' = sc"
  using assms(1) by (cases rule: request_cases) (auto dest: dispatch_failure[OF _ assms(2)])

theorem failed_request_changes_nothing_witness:
  "process_client_request id (\<lambda>_. []) 1 (ControlValue_new ControlId_Sea (Bool True)) example_controls
     = (Inl (Failed (CannotSetControlId ControlId_Sea)), example_controls)"
proof -
  let ?p = "process_client_request id (\<lambda>_. []) 1 (ControlValue_new ControlId_Sea (Bool True)) example_controls"
  have "fst ?p = Inl (Failed (CannotSetControlId ControlId_Sea))"
    by (simp add: process_client_request_def Shared_get_def example_controls_def ControlValue_new_def)
  moreover from this have "?p = (Inl (Failed (CannotSetControlId ControlId_Sea)), snd ?p)" by (metis prod.collapse)
  from failed_request_changes_nothing[OF this] have "snd ?p = example_controls" by simp
  ultimately show ?thesis by (metis prod.collapse)
qed


text \<open>The power control, for which the shared controls accept standby and transmit only.\<close>

definition power_control :: "order \<Rightarrow> Control" where
  "power_control order = Control_set_valid_values [1, 2]
     (cb_control (new_list order 0 ControlId_Power [''Off'', ''Standby'', ''Transmit'', ''Preparing'']))"

definition power_only :: "order \<Rightarrow> Shared" where
  "power_only order = example_controls\<lparr>sc_controls := [ControlId_Power \<mapsto> power_control order]\<rparr>"

lemmas power_defs = power_control_def Control_set_valid_values_def new_list_def Control_new_def ControlDefinition_new_def

lemma power_item [simp]:
  "cd_data_type (ctl_item (power_control order)) = DT_Enum" "cd_valid_values (ctl_item (power_control order)) = Some [1, 2]"
  "cd_wire_units (ctl_item (power_control order)) = None" "cd_control_id (ctl_item (power_control order)) = ControlId_Power"
  "cd_descriptions (ctl_item (power_control order)) = Some (order [(0, ''Off''), (1, ''Standby''), (2, ''Transmit''), (3, ''Preparing'')])"
  by (simp_all add: power_defs)





text \<open>
  C35. A request for a numeric control whose unit is the empty text, which a client may send,
  makes the server panic: the empty text is read as the unit "none", for which the conversion
  to SI units has no case.
\<close>

theorem empty_unit_panics:
  assumes "sc_controls sc (cv_id request) = Some c" and "cd_data_type (ctl_item c) \<notin> {DT_Button, DT_String}"
    and "cv_units request = Some U_None" and "cv_value request = Some (Number n)"
  shows "fst (process_client_request order show_range now request sc) = Inl Panicked"
proof -
  have "Units_to_si U_None x = Inl Panicked" for x by (simp add: Units_to_si_def to_si_factor_def)
  then have "wire_control_value request c = Inl Panicked"
    using assms by (simp add: wire_control_value_def convert_to_wire_number_def normalize_value_def Let_def)
  then show ?thesis using assms(1) by (simp add: process_client_request_def Shared_get_def)
qed

theorem empty_unit_panics_witness:
  "fst (process_client_request id (\<lambda>_. []) 1
     ((ControlValue_new ControlId_Gain (Number (Num_Int 10)))\<lparr>cv_units := Some U_None\<rparr>) example_controls) = Inl Panicked"
  by (rule empty_unit_panics[where n = "Num_Int 10" and c = "cb_control (new_numeric 0 ControlId_Gain (Fin 0) (Fin 100))"])
    (simp_all add: example_controls_def ControlValue_new_def new_numeric_def Control_new_def ControlDefinition_new_def)


section \<open>The controls every radar has\<close>

definition mandatory :: "ControlId set" where
  "mandatory = {ControlId_Power, ControlId_GuardZone1, ControlId_GuardZone2, ControlId_ModelName, ControlId_Range,
     ControlId_Spokes, ControlId_SpokeLength, ControlId_UserName, ControlId_SpokeProcessing}"

definition keyed_map :: "controls \<Rightarrow> bool" where
  "keyed_map m \<longleftrightarrow> (\<forall>cid c. m cid = Some c \<longrightarrow> cd_control_id (ctl_item c) = cid)"

text \<open>Building a control adds it under its own identifier and removes none.\<close>

definition grows :: "ControlId set \<Rightarrow> controls \<Rightarrow> controls \<Rightarrow> bool" where
  "grows cids m m' \<longleftrightarrow> dom m \<union> cids \<subseteq> dom m' \<and> (keyed_map m \<longrightarrow> keyed_map m')"

lemma grows_trans: "grows a m m' \<Longrightarrow> grows b m' m'' \<Longrightarrow> grows (a \<union> b) m m''"
  unfolding grows_def by (meson Un_least le_sup_iff order_trans)

lemma grows_refl: "grows {} m m"
  by (simp add: grows_def)

lemma grows_build: "grows {cd_control_id (ctl_item (cb_control b))} m (cb_build b m)"
  by (auto simp: grows_def cb_build_def keyed_map_def)

lemma grows_build_unless_present: "grows {cd_control_id (ctl_item (cb_control b))} m (build_unless_present b m)"
  using grows_build[of b m] by (auto simp: build_unless_present_def grows_def)

lemma grows_replay: "grows {} m (\<lambda>k. map_option replay_read_only (m k))"
  by (auto simp: grows_def keyed_map_def replay_read_only_def)

lemma Units_to_si_total: "u \<noteq> U_None \<Longrightarrow> \<exists>p. Units_to_si u x = Inr p"
  by (cases u) (auto simp: Units_to_si_def to_si_factor_def)

lemma opt_to_si_total: "u \<noteq> U_None \<Longrightarrow> \<exists>v'. opt_to_si u v = Inr v'"
  using Units_to_si_total[of u] by (cases v) (auto simp: opt_to_si_def res_bind_eq_Inr)

lemma build_in_grows:
  assumes "u \<noteq> U_None" and "\<not> cb_frozen b"
  shows "\<exists>m'. build_in u b m = Inr m' \<and> grows {cd_control_id (ctl_item (cb_control b))} m m'"
proof -
  have "\<exists>b'. cb_wire_units u b = Inr b' \<and> cd_control_id (ctl_item (cb_control b')) = cd_control_id (ctl_item (cb_control b))"
  proof -
    from Units_to_si_total[OF assms(1), of "Fin 0"] obtain p where p: "Units_to_si u (Fin 0) = Inr p" by blast
    obtain g where "\<And>v. opt_to_si u v = Inr (g v)" using opt_to_si_total[OF assms(1)] by metis
    with p assms(2) show ?thesis by (simp add: cb_wire_units_def Let_def cb_item_def split: prod.split)
  qed
  then obtain b' where "cb_wire_units u b = Inr b'" "cd_control_id (ctl_item (cb_control b')) = cd_control_id (ctl_item (cb_control b))"
    by blast
  then show ?thesis using grows_build[of b' m] by (simp add: build_in_def)
qed

lemma build_each_grows:
  assumes "\<And>cid m. \<exists>m'. f cid m = Inr m' \<and> grows {cid} m m'"
  shows "\<exists>m'. build_each f cids m = Inr m' \<and> grows (set cids) m m'"
proof (induction cids arbitrary: m)
  case (Cons cid cids)
  from assms[of cid m] obtain m1 where m1: "f cid m = Inr m1" "grows {cid} m m1" by blast
  from Cons.IH[of m1] obtain m2 where "build_each f cids m1 = Inr m2" "grows (set cids) m1 m2" by blast
  with m1 grows_trans[of "{cid}" m m1 "set cids" m2] show ?case by simp
qed (simp add: grows_refl)

lemma build_zone_grows: "\<exists>m'. build_zone now cid m = Inr m' \<and> grows {cid} m m'"
  using build_in_grows[of Degrees "new_zone now cid (Fin (- 180)) (Fin 180) (Fin 100000)" m]
  by (simp add: build_zone_def new_zone_def Control_new_def ControlDefinition_new_def Let_def)

lemma build_rect_grows: "\<exists>m'. build_rect now cid m = Inr m' \<and> grows {cid} m m'"
  using build_in_grows[of Meters "new_rect now cid (Fin 100000)" m]
  by (simp add: build_rect_def new_rect_def Control_new_def ControlDefinition_new_def Let_def)


lemmas builder_defs = new_string_def new_numeric_def new_list_def new_map_def new_button_def cb_read_only_def cb_set_value_def
  cb_item_def Control_new_def ControlDefinition_new_def

lemma grows_mono: "grows b m m' \<Longrightarrow> a \<subseteq> b \<Longrightarrow> grows a m m'"
  by (auto simp: grows_def)

lemma target_controls_grows: "grows {} m (target_controls order now m)"
  unfolding target_controls_def
  by (rule grows_mono, (rule grows_trans[OF _ grows_build])+, rule grows_refl) simp

lemma grows_if: "grows a m x \<Longrightarrow> grows a m y \<Longrightarrow> grows a m (if b then x else y)"
  by simp

lemma common_controls_grows:
  "grows {ControlId_Spokes, ControlId_SpokeLength, ControlId_UserName, ControlId_SpokeProcessing} m (common_controls order now args m)"
proof -
  have build: "cd_control_id (ctl_item (cb_control b)) = cid \<Longrightarrow> grows {cid} k (cb_build b k)" for b cid k
    using grows_build by blast
  have user: "grows {ControlId_UserName} k (build_unless_present (cb_read_only False (new_string now ControlId_UserName)) k)" for k
    using grows_build_unless_present[of "cb_read_only False (new_string now ControlId_UserName)" k] by (simp add: builder_defs)
  have replay: "grows {} k (if cli_replay args then \<lambda>x. map_option replay_read_only (k x) else k)" for k
    by (simp add: grows_replay grows_refl)
  have targets: "grows {} k (if cli_targets_none args then k else target_controls order now k)" for k
    by (simp add: target_controls_grows grows_refl)
  have ais: "grows {} k (if cli_pass_ais args then cb_build b k else k)" for k b
    using grows_build by (auto simp: grows_refl intro: grows_mono)
  show ?thesis
    unfolding common_controls_def Let_def
    apply (rule grows_mono)
     apply (rule grows_trans[OF _ ais])
     apply (rule grows_trans[OF _ targets])
     apply (rule grows_trans[OF _ build[where cid = ControlId_SpokeProcessing]])
      apply (rule grows_trans[OF _ user])
      apply (rule grows_trans[OF _ replay])
      apply (rule grows_trans[OF build[where cid = ControlId_Spokes] build[where cid = ControlId_SpokeLength]])
    by (auto simp: builder_defs)
qed

lemma new_base_grows:
  "\<exists>sc. Controls_new_base order now args n m = Inr sc
    \<and> grows {ControlId_ModelName, ControlId_Range, ControlId_Spokes, ControlId_SpokeLength, ControlId_UserName, ControlId_SpokeProcessing}
        m (sc_controls sc)"
proof -
  let ?range = "new_numeric now ControlId_Range (Fin 0) (f64_mul (Fin 120) (f64_of_int NAUTICAL_MILE))"
  let ?m1 = "build_unless_present (cb_read_only True (new_string now ControlId_ModelName)) m"
  have 1: "grows {ControlId_ModelName} m ?m1"
    using grows_build_unless_present[of "cb_read_only True (new_string now ControlId_ModelName)" m]
    by (simp add: builder_defs)
  obtain m2 where m2: "build_in Meters ?range ?m1 = Inr m2" and 2: "grows {ControlId_Range} ?m1 m2"
    using build_in_grows[of Meters ?range ?m1] by (auto simp: builder_defs)
  have "grows {ControlId_ModelName, ControlId_Range, ControlId_Spokes, ControlId_SpokeLength, ControlId_UserName, ControlId_SpokeProcessing}
      m (common_controls order now args m2)"
    using grows_trans[OF grows_trans[OF 1 2] common_controls_grows] by (rule grows_mono) auto
  then show ?thesis by (simp add: Controls_new_base_def m2)
qed

lemma Shared_new_grows:
  "\<exists>sc. Shared_new order now args n m = Inr sc \<and> grows mandatory m (sc_controls sc)"
proof -
  let ?b = "(new_list order now ControlId_Power [''Off'', ''Standby'', ''Transmit'', ''Preparing''])"
  obtain b where b: "cb_set_valid_values [1, 2] ?b = Inr b" "cd_control_id (ctl_item (cb_control b)) = ControlId_Power"
    by (simp add: cb_set_valid_values_def unless_frozen_def Control_set_valid_values_def builder_defs)
  have 1: "grows {ControlId_Power} m (cb_build b m)" using grows_build[of b m] b(2) by simp
  obtain m2 where m2: "build_each (build_zone now) [ControlId_GuardZone1, ControlId_GuardZone2] (cb_build b m) = Inr m2"
    and 2: "grows (set [ControlId_GuardZone1, ControlId_GuardZone2]) (cb_build b m) m2"
    using build_each_grows[of "build_zone now", OF build_zone_grows] by blast
  let ?ez = "[ControlId_ExclusionZone1, ControlId_ExclusionZone2, ControlId_ExclusionZone3, ControlId_ExclusionZone4]"
  let ?er = "[ControlId_ExclusionRect1, ControlId_ExclusionRect2, ControlId_ExclusionRect3, ControlId_ExclusionRect4]"
  let ?x = "if cli_stationary args then res_bind (build_each (build_zone now) ?ez m2) (build_each (build_rect now) ?er) else Inr m2"
  obtain m3 where m3: "build_each (build_zone now) ?ez m2 = Inr m3" "grows (set ?ez) m2 m3"
    using build_each_grows[of "build_zone now", OF build_zone_grows] by blast
  obtain m4 where m4: "build_each (build_rect now) ?er m3 = Inr m4" "grows (set ?er) m3 m4"
    using build_each_grows[of "build_rect now", OF build_rect_grows] by blast
  have "\<exists>m5. ?x = Inr m5 \<and> grows {} m2 m5"
    using m3 m4 grows_refl grows_mono[OF grows_trans[OF m3(2) m4(2)], of "{}"] by simp
  then obtain m5 where m5: "?x = Inr m5" and 3: "grows {} m2 m5" by blast
  obtain sc where sc: "Controls_new_base order now args n m5 = Inr sc"
    and 4: "grows {ControlId_ModelName, ControlId_Range, ControlId_Spokes, ControlId_SpokeLength, ControlId_UserName, ControlId_SpokeProcessing}
        m5 (sc_controls sc)"
    using new_base_grows by blast
  have "grows mandatory m (sc_controls sc)"
    using grows_trans[OF grows_trans[OF grows_trans[OF 1 2] 3] 4] by (rule grows_mono) (auto simp: mandatory_def)
  moreover have "Shared_new order now args n m = Inr sc"
    unfolding Shared_new_def b(1) res_bind_simps m2 m5 sc ..
  ultimately show ?thesis by blast
qed


lemma update_valid_ranges_dom: "update_valid_ranges order show_range sc = Inr sc' \<Longrightarrow> dom (sc_controls sc') = dom (sc_controls sc)"
  by (auto simp: update_valid_ranges_def Let_def dom_fun_upd insert_absorb domIff split: option.splits if_splits)

lemma set_and_tell_dom: "dom (sc_controls (snd (set_and_tell order show_range cid f sc))) = dom (sc_controls sc)"
proof -
  have "dom (sc_controls s') = dom (sc_controls s)" if sent: "send_to_all_clients order show_range c s = Inr s'" for c s s'
  proof -
    obtain s1 where "(if cd_control_id (ctl_item c) = ControlId_RangeUnits then update_valid_ranges order show_range s else Inr s) = Inr s1"
        "sc_controls s' = sc_controls s1"
      using send_to_all_clients_steps[OF sent] by metis
    then show ?thesis by (simp add: update_valid_ranges_dom split: if_splits)
  qed
  then show ?thesis
    by (auto simp: set_and_tell_def Let_def insert_absorb domIff split: option.split sum.split prod.split)
qed

lemma setters_keep_controls:
  assumes "setters_reach order show_range sc sc'"
  shows "dom (sc_controls sc') = dom (sc_controls sc)"
  using assms
proof induction
  case (step sc sc1 now cid s r sc2)
  then have "sc2 = snd (set_and_tell order show_range cid (setter_fun now cid s) sc1)"
    using discard_result unfolding run_setter_eq by (metis snd_conv)
  with step show ?case by (simp add: set_and_tell_dom)
qed simp

text \<open>
  C13. The controls the code takes for granted are there: building the shared controls of a radar
  never panics, whatever the brand adds and whatever the command line says, and from then on,
  after any set operations, changing the user name, the model name, the spoke processing or the
  valid ranges never panics.
\<close>

theorem mandatory_controls_present:
  "\<exists>sc. Shared_new order now args listeners brand_controls = Inr sc
    \<and> (setters_reach order show_range sc sc' \<longrightarrow>
         set_user_name now name sc' \<noteq> Inl Panicked \<and> set_model_name now name sc' \<noteq> Inl Panicked
         \<and> set_spoke_processing now k sc' \<noteq> Inl Panicked \<and> set_valid_ranges order show_range ranges sc' \<noteq> Inl Panicked)"
proof -
  obtain sc where sc: "Shared_new order now args listeners brand_controls = Inr sc" "grows mandatory brand_controls (sc_controls sc)"
    using Shared_new_grows by blast
  have "set_user_name now name sc' \<noteq> Inl Panicked \<and> set_model_name now name sc' \<noteq> Inl Panicked
      \<and> set_spoke_processing now k sc' \<noteq> Inl Panicked \<and> set_valid_ranges order show_range ranges sc' \<noteq> Inl Panicked"
    if "setters_reach order show_range sc sc'"
  proof -
    have "mandatory \<subseteq> dom (sc_controls sc')" using sc(2) setters_keep_controls[OF that] by (simp add: grows_def)
    then show ?thesis
      by (auto simp: mandatory_def set_user_name_def set_model_name_def set_spoke_processing_def set_valid_ranges_def
          update_valid_ranges_def contains_key_def Let_def)
  qed
  with sc(1) show ?thesis by blast
qed

theorem mandatory_controls_present_witness:
  "let sc = projr (Shared_new id 0 \<lparr>cli_replay = True, cli_targets_none = False, cli_pass_ais = True, cli_stationary = True\<rparr> 1 Map.empty)
   in set_user_name 0 ''radar'' sc \<noteq> Inl Panicked"
  using mandatory_controls_present[of id 0 "\<lparr>cli_replay = True, cli_targets_none = False, cli_pass_ais = True, cli_stationary = True\<rparr>" 1
      Map.empty "\<lambda>_. []" _ "''radar''"] setters_reach.start by (metis sum.sel(2))

end
