(* ===== verification/Hex.thy ===== *)
theory Hex
  imports Float64
begin

text \<open>
  Numbers in base sixteen: the printing with upper-case or lower-case digits and the parsing of
  a byte, with the round trip between them.
\<close>

definition hex_char :: "nat \<Rightarrow> char" where
  "hex_char n = (if n < 10 then digit_char n else char_of (55 + n))"

definition hex_char_lower :: "nat \<Rightarrow> char" where
  "hex_char_lower n = (if n < 10 then digit_char n else char_of (87 + n))"

fun hex_str :: "nat \<Rightarrow> string" where
  "hex_str n = (if n < 16 then [hex_char n] else hex_str (n div 16) @ [hex_char (n mod 16)])"

declare hex_str.simps [simp del]

definition hex_val :: "char \<Rightarrow> nat option" where
  "hex_val c =
     (let n = of_char c :: nat
      in if 48 \<le> n \<and> n \<le> 57 then Some (n - 48) else if 65 \<le> n \<and> n \<le> 70 then Some (n - 55)
         else if 97 \<le> n \<and> n \<le> 102 then Some (n - 87) else None)"

primrec hex_digits :: "nat \<Rightarrow> string \<Rightarrow> nat option" where
  "hex_digits acc [] = Some acc"
| "hex_digits acc (c # cs) = (case hex_val c of None \<Rightarrow> None | Some d \<Rightarrow> hex_digits (16 * acc + d) cs)"

text \<open>One leading plus sign is accepted when a digit follows it.\<close>

definition u8_from_hex :: "string \<Rightarrow> nat option" where
  "u8_from_hex s =
     (let ds = (case s of c # d # cs \<Rightarrow> if c = CHR ''+'' then d # cs else s | _ \<Rightarrow> s)
      in if ds = [] then None
         else case hex_digits 0 ds of Some n \<Rightarrow> if n < 256 then Some n else None | None \<Rightarrow> None)"


lemma hex_val_char: "n < 16 \<Longrightarrow> hex_val (hex_char n) = Some n"
  by (simp add: hex_val_def hex_char_def digit_char_def)

lemma hex_val_lower: "n < 16 \<Longrightarrow> hex_val (hex_char_lower n) = Some n"
  by (simp add: hex_val_def hex_char_lower_def digit_char_def)

lemma hex_val_plus [simp]: "hex_val CHR ''+'' = None"
  by (simp add: hex_val_def)

lemma hex_digits_append:
  "hex_digits acc (xs @ ys) = (case hex_digits acc xs of None \<Rightarrow> None | Some n \<Rightarrow> hex_digits n ys)"
  by (induction xs arbitrary: acc) (auto split: option.splits)

lemma hex_digits_str: "hex_digits 0 (hex_str n) = Some n"
proof (induction n rule: hex_str.induct)
  case (1 n)
  then show ?case
    by (subst hex_str.simps) (simp add: hex_digits_append hex_val_char)
qed

lemma hex_str_not_empty [simp]: "hex_str n \<noteq> []"
  by (subst hex_str.simps) simp

lemma hex_str_digits: "c \<in> set (hex_str n) \<Longrightarrow> hex_val c \<noteq> None"
proof (induction n rule: hex_str.induct)
  case (1 n)
  then show ?case
    by (subst (asm) (2) hex_str.simps) (auto simp: hex_val_char split: if_splits)
qed

lemma no_plus:
  assumes "CHR ''+'' \<notin> set s"
  shows "(case s of c # d # cs \<Rightarrow> if c = CHR ''+'' then d # cs else s | _ \<Rightarrow> s) = s"
  using assms by (auto split: list.splits)

lemma u8_from_hex_str:
  assumes "n < 256" shows "u8_from_hex (hex_str n) = Some n"
proof -
  have "(case hex_str n of c # d # cs \<Rightarrow> if c = CHR ''+'' then d # cs else hex_str n | _ \<Rightarrow> hex_str n) = hex_str n"
    by (rule no_plus) (use hex_str_digits in fastforce)
  then show ?thesis using assms by (simp add: u8_from_hex_def hex_digits_str)
qed

definition hex2_lower :: "nat \<Rightarrow> string" where
  "hex2_lower n = [hex_char_lower (n div 16), hex_char_lower (n mod 16)]"

lemma u8_from_hex2: 
  assumes "n < 256" shows "u8_from_hex (hex2_lower n) = Some n"
proof -
  have d: "n div 16 < 16" using assms by auto
  have "hex_char_lower (n div 16) \<noteq> CHR ''+''"
    using hex_val_lower[OF d] by (metis hex_val_plus option.distinct(1))
  then show ?thesis
    using assms d by (simp add: u8_from_hex_def hex2_lower_def hex_val_lower)
qed

end
