(* ===== verification/Legend.thy ===== *)
theory Legend
  imports Hex
begin

text \<open>
  The legend of a radar: which pixel value stands for which class of return and in which colour
  it is drawn. Bytes are words, so sums wrap as in the release build. Text is its UTF-8 bytes;
  slicing it inside a character is a panic (\<open>None\<close>).
\<close>

section \<open>Colours\<close>

datatype TargetMode = Arpa | Trails | TargetMode_None

datatype PixelType = Normal | DopplerApproaching | DopplerReceding | DopplerRain | History

record Color =
  co_r :: u8
  co_g :: u8
  co_b :: u8
  co_a :: u8

definition Color_of :: "u8 \<Rightarrow> u8 \<Rightarrow> u8 \<Rightarrow> u8 \<Rightarrow> Color" where
  "Color_of r g b a = \<lparr>co_r = r, co_g = g, co_b = b, co_a = a\<rparr>"

definition is_continuation :: "char \<Rightarrow> bool" where
  "is_continuation c = (of_char c div 64 = (2::nat))"

definition is_char_boundary :: "nat \<Rightarrow> string \<Rightarrow> bool" where
  "is_char_boundary i s = (i = length s \<or> i < length s \<and> \<not> is_continuation (s ! i))"

definition str_slice :: "nat \<Rightarrow> nat \<Rightarrow> string \<Rightarrow> string option" where
  "str_slice a b s =
     (if a \<le> b \<and> b \<le> length s \<and> is_char_boundary a s \<and> is_char_boundary b s then Some (take (b - a) (drop a s)) else None)"

definition hex_or_zero :: "string \<Rightarrow> u8" where
  "hex_or_zero s = (case u8_from_hex s of Some n \<Rightarrow> of_nat n | None \<Rightarrow> 0)"

definition color_digit :: "nat \<Rightarrow> string \<Rightarrow> u8 option" where
  "color_digit i s = map_option (\<lambda>t. hex_or_zero t * 17) (str_slice i (i + 1) s)"

definition color_pair :: "nat \<Rightarrow> string \<Rightarrow> u8 option" where
  "color_pair i s = map_option hex_or_zero (str_slice (2 * i) (2 * i + 2) s)"

definition color_parts :: "(nat \<Rightarrow> string \<Rightarrow> u8 option) \<Rightarrow> bool \<Rightarrow> string \<Rightarrow> Color option" where
  "color_parts part alpha s =
     Option.bind (part 0 s) (\<lambda>r. Option.bind (part 1 s) (\<lambda>g. Option.bind (part 2 s) (\<lambda>b.
       if alpha then map_option (Color_of r g b) (part 3 s) else Some (Color_of r g b 255))))"

definition from_css :: "string \<Rightarrow> Color option" where
  "from_css s0 =
     (let s = dropWhile (\<lambda>c. c = CHR ''#'') s0
      in if length s = 3 then color_parts color_digit False s
         else if length s = 4 then color_parts color_digit True s
         else if length s = 6 then color_parts color_pair False s
         else if length s = 8 then color_parts color_pair True s
         else Some (Color_of 0 0 0 255))"

definition Color_string :: "Color \<Rightarrow> string" where
  "Color_string c =
     ''#'' @ hex2_lower (unat (co_r c)) @ hex2_lower (unat (co_g c)) @ hex2_lower (unat (co_b c)) @ hex2_lower (unat (co_a c))"

section \<open>The default legend\<close>

record Lookup =
  lk_type :: PixelType
  lk_color :: Color

record Legend =
  lg_doppler_approaching :: "(u8 \<times> u8) option"
  lg_doppler_receding :: "(u8 \<times> u8) option"
  lg_doppler_rain :: "(u8 \<times> u8) option"
  lg_history_start :: u8
  lg_low_return :: u8
  lg_medium_return :: u8
  lg_strong_return :: u8
  lg_pixel_colors :: u8
  lg_pixels :: "Lookup list"
  lg_static_background :: "u8 option"

definition BLOB_HISTORY_COLORS :: u8 where
  "BLOB_HISTORY_COLORS = 32"

definition OPAQUE :: u8 where
  "OPAQUE = 255"

definition Lookup_of :: "PixelType \<Rightarrow> Color \<Rightarrow> Lookup" where
  "Lookup_of t c = \<lparr>lk_type = t, lk_color = c\<rparr>"

definition ramp :: "nat \<Rightarrow> nat \<Rightarrow> u8" where
  "ramp k one_third = of_int (as_u8 (f64_div (f64_mul (f64_of_int 255) (f64_of_int (int k))) (f64_of_int (int one_third))))"

definition intensity_color :: "nat \<Rightarrow> nat \<Rightarrow> Color" where
  "intensity_color pixels_with_color v =
     (let one_third = pixels_with_color div 3; two_thirds = one_third * 2
      in Color_of
           (if two_thirds \<le> v then ramp (v - two_thirds) one_third else 0)
           (if one_third \<le> v \<and> v < two_thirds then ramp (v - one_third) one_third
            else if two_thirds \<le> v then ramp (pixels_with_color - v) one_third else 0)
           (if v < one_third then ramp v one_third
            else if one_third \<le> v \<and> v < two_thirds then ramp (two_thirds - v) one_third else 0)
           OPAQUE)"

definition brightness :: "nat \<Rightarrow> nat \<Rightarrow> u8" where
  "brightness levels i = (if levels = 1 then 255 else 64 + of_nat (i * 191 div (levels - 1)))"

definition shades :: "PixelType \<Rightarrow> (u8 \<Rightarrow> Color) \<Rightarrow> nat \<Rightarrow> Lookup list" where
  "shades t colour levels = map (\<lambda>i. Lookup_of t (colour (brightness levels i))) [0..<levels]"

definition history_shades :: "Lookup list" where
  "history_shades =
     map (\<lambda>i. Lookup_of History (Color_of (255 - 6 * of_nat i) (255 - 6 * of_nat i) (255 - 6 * of_nat i) OPAQUE))
       [0..<unat BLOB_HISTORY_COLORS]"

text \<open>
  Sections are pushed one after the other, each remembering the number of pixels before it,
  truncated to a byte. A section of no levels is left out together with its entry.
\<close>

definition len_u8 :: "'a list \<Rightarrow> u8" where
  "len_u8 xs = of_nat (length xs)"

definition section_at :: "Lookup list \<Rightarrow> u8 \<Rightarrow> (u8 \<times> u8) option" where
  "section_at before levels = (if levels = 0 then None else Some (len_u8 before, levels))"

definition usable_pixels :: "TargetMode \<Rightarrow> u8 \<Rightarrow> u8 \<Rightarrow> u8 \<Rightarrow> u8" where
  "usable_pixels targets doppler_levels rain_levels pixel_values =
     min pixel_values
       (255 - (if targets \<noteq> TargetMode_None then BLOB_HISTORY_COLORS else 0) - 1 - (if targets = Arpa then 1 else 0)
        - (doppler_levels * 2 + rain_levels))"

definition default_legend :: "TargetMode \<Rightarrow> u8 \<Rightarrow> bool \<Rightarrow> u8 \<Rightarrow> Legend" where
  "default_legend targets doppler_levels has_rain_class pixel_values =
     (let rain_levels = (if has_rain_class \<and> 0 < doppler_levels then doppler_levels else 0);
          n = usable_pixels targets doppler_levels rain_levels pixel_values;
          transparent = Lookup_of Normal (Color_of 0 0 0 0);
          one_third = (n - 1) div 3;
          normal = transparent # map (\<lambda>v. Lookup_of Normal (intensity_color (unat n - 1) v)) [1..<unat n];
          background = (if targets = Arpa then [Lookup_of History (Color_of 80 80 80 255)] else []);
          p1 = normal @ background;
          p2 = p1 @ shades DopplerApproaching (\<lambda>b. Color_of b 0 b OPAQUE) (unat doppler_levels);
          p3 = p2 @ shades DopplerReceding (\<lambda>b. Color_of 0 b 0 OPAQUE) (unat doppler_levels);
          p4 = p3 @ shades DopplerRain (\<lambda>b. Color_of 0 0 b OPAQUE) (unat rain_levels)
      in if n = 0
         then \<lparr>lg_doppler_approaching = None, lg_doppler_receding = None, lg_doppler_rain = None, lg_history_start = 0,
               lg_low_return = 0, lg_medium_return = 0, lg_strong_return = 0, lg_pixel_colors = 0,
               lg_pixels = [transparent], lg_static_background = None\<rparr>
         else \<lparr>lg_doppler_approaching = section_at p1 doppler_levels, lg_doppler_receding = section_at p2 doppler_levels,
               lg_doppler_rain = section_at p3 rain_levels,
               lg_history_start = (if targets = TargetMode_None then 0 else len_u8 p4),
               lg_low_return = max 1 (one_third div 3), lg_medium_return = one_third, lg_strong_return = one_third * 2,
               lg_pixel_colors = n,
               lg_pixels = (if targets = TargetMode_None then p4 else p4 @ history_shades),
               lg_static_background = (if targets = Arpa then Some (len_u8 normal) else None)\<rparr>)"

section \<open>Colours as text\<close>

lemma hex_or_zero_hex2 [simp]: "hex_or_zero (hex2_lower (unat b)) = b" for b :: u8
  using u8_from_hex2[of "unat b"] unat_byte_less[of b] by (simp add: hex_or_zero_def)

lemma length_hex2 [simp]: "length (hex2_lower n) = 2"
  by (simp add: hex2_lower_def)

lemma hex_val_ascii: "hex_val c = Some d \<Longrightarrow> \<not> is_continuation c"
  by (auto simp: hex_val_def is_continuation_def Let_def split: if_splits)

lemma hex2_not_continuation: "n < 256 \<Longrightarrow> c \<in> set (hex2_lower n) \<Longrightarrow> \<not> is_continuation c \<and> c \<noteq> CHR ''#''"
proof -
  assume n: "n < 256" and c: "c \<in> set (hex2_lower n)"
  have "n div 16 < 16" using n by auto
  then obtain d where "d < 16" "c = hex_char_lower d"
    using that[of "n div 16"] that[of "n mod 16"] c by (auto simp: hex2_lower_def)
  then have v: "hex_val c = Some d" by (simp add: hex_val_lower)
  moreover have "hex_val CHR ''#'' = None" by (simp add: hex_val_def)
  ultimately show ?thesis using hex_val_ascii by auto
qed

lemma str_slice_append:
  assumes "\<forall>c \<in> set (xs @ ys @ zs). \<not> is_continuation c"
  shows "str_slice (length xs) (length xs + length ys) (xs @ ys @ zs) = Some ys"
  using assms by (auto simp: str_slice_def is_char_boundary_def nth_append)

lemma color_pair_of_parts:
  assumes "\<forall>c \<in> set (concat ps). \<not> is_continuation c" "\<forall>p \<in> set ps. length p = 2" "i < length ps"
  shows "color_pair i (concat ps) = Some (hex_or_zero (ps ! i))"
proof -
  let ?a = "concat (take i ps)" and ?c = "concat (drop (Suc i) ps)"
  have split: "concat ps = ?a @ ps ! i @ ?c"
    using id_take_nth_drop[OF assms(3)] by (metis concat.simps(2) concat_append)
  have "length (concat qs) = 2 * length qs" if "\<forall>p \<in> set qs. length p = 2" for qs :: "string list"
    using that by (induction qs) auto
  then have "length ?a = 2 * i" using assms(2,3) by (metis in_set_takeD length_take min.absorb4)
  moreover have "length (ps ! i) = 2" using assms(2,3) by simp
  moreover have "str_slice (length ?a) (length ?a + length (ps ! i)) (?a @ ps ! i @ ?c) = Some (ps ! i)"
    by (rule str_slice_append) (use assms(1) split in simp)
  ultimately show ?thesis using split by (simp add: color_pair_def)
qed

text \<open>
  C40. The text of a colour reads back as that colour, for every colour, so what a client is
  sent and what a client sends back mean the same.
\<close>
theorem Color_roundtrip: "from_css (Color_string c) = Some c"
proof -
  define ps where "ps = map (\<lambda>f. hex2_lower (unat (f c :: u8))) [co_r, co_g, co_b, co_a]"
  have shown: "Color_string c = CHR ''#'' # concat ps" by (simp add: Color_string_def ps_def)
  have plain: "\<forall>x \<in> set (concat ps). \<not> is_continuation x \<and> x \<noteq> CHR ''#''"
    unfolding ps_def using hex2_not_continuation[OF unat_byte_less] by auto
  have len: "\<forall>p \<in> set ps. length p = 2" "length (concat ps) = 8" by (auto simp: ps_def)
  have "dropWhile (\<lambda>x. x = CHR ''#'') (concat ps) = concat ps"
    using plain by (metis dropWhile_eq_self_iff list.set_sel(1))
  then have "from_css (Color_string c) = color_parts color_pair True (concat ps)"
    using len by (simp add: from_css_def shown)
  moreover have "color_pair i (concat ps) = Some (hex_or_zero (ps ! i))" if "i < 4" for i
    using color_pair_of_parts[of ps i] plain len that by (simp add: ps_def)
  ultimately show ?thesis
    by (simp add: color_parts_def ps_def Color_of_def)
qed

section \<open>The layout of the legend\<close>

definition section_ok :: "PixelType \<Rightarrow> Lookup list \<Rightarrow> (u8 \<times> u8) option \<Rightarrow> bool" where
  "section_ok t ps sec =
     (case sec of None \<Rightarrow> True
      | Some (s, n) \<Rightarrow> 0 < n \<and> unat s + unat n \<le> length ps \<and> (\<forall>p \<in> set (take (unat n) (drop (unat s) ps)). lk_type p = t))"

definition legend_ok :: "TargetMode \<Rightarrow> Legend \<Rightarrow> bool" where
  "legend_ok targets l =
     (length (lg_pixels l) \<le> 255
      \<and> section_ok Normal (lg_pixels l) (Some (0, lg_pixel_colors l))
      \<and> section_ok DopplerApproaching (lg_pixels l) (lg_doppler_approaching l)
      \<and> section_ok DopplerReceding (lg_pixels l) (lg_doppler_receding l)
      \<and> section_ok DopplerRain (lg_pixels l) (lg_doppler_rain l)
      \<and> section_ok History (lg_pixels l) (map_option (\<lambda>i. (i, 1)) (lg_static_background l))
      \<and> section_ok History (lg_pixels l)
          (if targets = TargetMode_None then None else Some (lg_history_start l, BLOB_HISTORY_COLORS))
      \<and> lg_medium_return l \<le> lg_strong_return l \<and> lg_strong_return l \<le> lg_pixel_colors l)"

lemma length_shades [simp]: "length (shades t c n) = n"
  by (simp add: shades_def)

lemma shades_types: "p \<in> set (shades t c n) \<Longrightarrow> lk_type p = t"
  by (auto simp: shades_def Lookup_of_def)

lemma unat_len_u8: "length xs < 256 \<Longrightarrow> unat (len_u8 xs) = length xs"
  by (simp add: len_u8_def unat_of_nat)

lemma section_middle:
  assumes "length xs < 256" "length ys = unat n" "0 < n" "\<And>p. p \<in> set ys \<Longrightarrow> lk_type p = t"
  shows "section_ok t (xs @ ys @ zs) (Some (len_u8 xs, n))"
  using assms by (simp add: section_ok_def unat_len_u8)

lemma section_at_ok:
  assumes "length xs < 256"
  shows "section_ok t (xs @ shades t c (unat n) @ zs) (section_at xs n)"
proof (cases "n = 0")
  case True
  then show ?thesis by (simp add: section_at_def section_ok_def)
next
  case False
  then have "0 < n" by (simp add: word_gt_0)
  then show ?thesis using False assms by (auto simp: section_at_def intro!: section_middle dest: shades_types)
qed

definition reserved_pixels :: "TargetMode \<Rightarrow> nat" where
  "reserved_pixels targets = (case targets of Arpa \<Rightarrow> 34 | Trails \<Rightarrow> 33 | TargetMode_None \<Rightarrow> 1)"

lemma usable_pixels_bound:
  assumes "unat d \<le> 73" "unat r \<le> unat d"
  shows "unat (usable_pixels targets d r pv) = min (unat pv) (255 - reserved_pixels targets - (2 * unat d + unat r))"
proof -
  let ?k = "2 * unat d + unat r"
  have k: "reserved_pixels targets + ?k \<le> 255" using assms by (simp add: reserved_pixels_def split: TargetMode.split)
  have "d * 2 + r = of_nat ?k" by simp
  then have "255 - (if targets \<noteq> TargetMode_None then BLOB_HISTORY_COLORS else 0) - 1 - (if targets = Arpa then 1 else 0) - (d * 2 + r)
      = (of_nat (255 - reserved_pixels targets - ?k) :: u8)"
    using k by (cases targets) (simp_all add: reserved_pixels_def BLOB_HISTORY_COLORS_def of_nat_diff)
  then show ?thesis
    by (simp add: usable_pixels_def min_def word_le_nat_alt unat_of_nat)
qed

lemma thirds_ordered:
  fixes n :: u8 assumes "0 < n"
  shows "(n - 1) div 3 \<le> (n - 1) div 3 * 2 \<and> (n - 1) div 3 * 2 \<le> n"
proof -
  have m: "unat (n - 1) = unat n - 1" using assms by (simp add: unat_minus_one word_gt_0)
  have t: "unat ((n - 1) div 3) = (unat n - 1) div 3" by (simp add: unat_div m)
  have "(unat n - 1) div 3 * 2 < 256" using unat_byte_less[of n] by linarith
  then have "unat ((n - 1) div 3 * 2) = (unat n - 1) div 3 * 2"
    using t by (simp add: unat_word_ariths)
  then show ?thesis using t by (simp add: word_le_nat_alt)
qed

lemma history_shades_ok: "length history_shades = unat BLOB_HISTORY_COLORS" "p \<in> set history_shades \<Longrightarrow> lk_type p = History"
  by (auto simp: history_shades_def Lookup_of_def)

lemma background_ok:
  assumes "length bg \<le> 1" "\<forall>x \<in> set bg. lk_type x = History"
    and "length (p @ bg) < 256"
  shows "section_ok History (p @ bg @ q) (map_option (\<lambda>i. (i, 1)) (if bg \<noteq> [] then Some (len_u8 p) else None))"
proof (cases bg)
  case Nil
  then show ?thesis by (simp add: section_ok_def)
next
  case (Cons b bs)
  then have bs: "bg = [b]" using assms(1) by simp
  have "section_ok History (p @ [b] @ q) (Some (len_u8 p, 1))"
    by (rule section_middle) (use bs assms in auto)
  then show ?thesis using bs by simp
qed

lemma default_legend_ok:
  assumes d: "unat d \<le> 73" and pv: "0 < pv"
  shows "legend_ok targets (default_legend targets d rain pv)"
proof -
  define r where "r = (if rain \<and> 0 < d then d else 0)"
  define n where "n = usable_pixels targets d r pv"
  define normal where "normal = Lookup_of Normal (Color_of 0 0 0 0) # map (\<lambda>v. Lookup_of Normal (intensity_color (unat n - 1) v)) [1..<unat n]"
  define bg where "bg = (if targets = Arpa then [Lookup_of History (Color_of 80 80 80 255)] else [])"
  define p1 where "p1 = normal @ bg"
  define s2 where "s2 = shades DopplerApproaching (\<lambda>b. Color_of b 0 b OPAQUE) (unat d)"
  define s3 where "s3 = shades DopplerReceding (\<lambda>b. Color_of 0 b 0 OPAQUE) (unat d)"
  define s4 where "s4 = shades DopplerRain (\<lambda>b. Color_of 0 0 b OPAQUE) (unat r)"
  define h where "h = (if targets = TargetMode_None then [] else history_shades)"
  have un: "unat n = min (unat pv) (255 - reserved_pixels targets - (2 * unat d + unat r))" and r: "unat r \<le> unat d"
    using usable_pixels_bound[of d r targets pv] d by (simp_all add: n_def r_def)
  have n0: "0 < unat n"
    using un pv d r by (auto simp: reserved_pixels_def word_gt_0 unat_gt_0 split: TargetMode.splits)
  have ln: "length normal = unat n" using n0 by (simp add: normal_def)
  have total: "unat n + length bg + 2 * unat d + unat r + length h \<le> 255"
    using un d r by (cases targets) (auto simp: reserved_pixels_def bg_def h_def history_shades_ok BLOB_HISTORY_COLORS_def)
  let ?l = "default_legend targets d rain pv"
  have nz: "n \<noteq> 0" using n0 by auto
  have ps: "lg_pixels ?l = normal @ bg @ s2 @ s3 @ s4 @ h"
    using nz unfolding default_legend_def Let_def r_def[symmetric] n_def[symmetric]
    by (simp add: normal_def bg_def s2_def s3_def s4_def h_def)
  have fields: "lg_pixel_colors ?l = n" "lg_doppler_approaching ?l = section_at (normal @ bg) d"
    "lg_doppler_receding ?l = section_at (normal @ bg @ s2) d" "lg_doppler_rain ?l = section_at (normal @ bg @ s2 @ s3) r"
    "lg_static_background ?l = (if bg \<noteq> [] then Some (len_u8 normal) else None)"
    "targets \<noteq> TargetMode_None \<Longrightarrow> lg_history_start ?l = len_u8 (normal @ bg @ s2 @ s3 @ s4)"
    "lg_medium_return ?l = (n - 1) div 3" "lg_strong_return ?l = (n - 1) div 3 * 2"
    using nz unfolding default_legend_def Let_def r_def[symmetric] n_def[symmetric]
    by (simp_all add: normal_def bg_def s2_def s3_def s4_def)
  have types: "p \<in> set normal \<Longrightarrow> lk_type p = Normal" for p by (auto simp: normal_def Lookup_of_def)
  have normal: "section_ok Normal ([] @ normal @ bg @ s2 @ s3 @ s4 @ h) (Some (len_u8 ([] :: Lookup list), n))"
    by (rule section_middle) (use ln nz types in \<open>simp_all add: word_gt_0\<close>)
  have appr: "section_ok DopplerApproaching ((normal @ bg) @ s2 @ s3 @ s4 @ h) (section_at (normal @ bg) d)"
    unfolding s2_def by (rule section_at_ok) (use total ln in simp)
  have recd: "section_ok DopplerReceding ((normal @ bg @ s2) @ s3 @ s4 @ h) (section_at (normal @ bg @ s2) d)"
    unfolding s3_def by (rule section_at_ok) (use total ln in \<open>simp add: s2_def\<close>)
  have rn: "section_ok DopplerRain ((normal @ bg @ s2 @ s3) @ s4 @ h) (section_at (normal @ bg @ s2 @ s3) r)"
    unfolding s4_def by (rule section_at_ok) (use total ln in \<open>simp add: s2_def s3_def\<close>)
  have bck: "section_ok History (normal @ bg @ s2 @ s3 @ s4 @ h)
      (map_option (\<lambda>i. (i, 1)) (if bg \<noteq> [] then Some (len_u8 normal) else None))"
    by (rule background_ok) (use total ln in \<open>auto simp: bg_def Lookup_of_def\<close>)
  have hist: "section_ok History ((normal @ bg @ s2 @ s3 @ s4) @ history_shades @ [])
      (Some (len_u8 (normal @ bg @ s2 @ s3 @ s4), BLOB_HISTORY_COLORS))"
    by (rule section_middle) (use total ln history_shades_ok in \<open>auto simp: s2_def s3_def s4_def BLOB_HISTORY_COLORS_def\<close>)
  have all: "length (normal @ bg @ s2 @ s3 @ s4 @ h) \<le> 255" using total ln by (simp add: s2_def s3_def s4_def)
  have hist': "section_ok History (normal @ bg @ s2 @ s3 @ s4 @ h)
      (if targets = TargetMode_None then None else Some (lg_history_start ?l, BLOB_HISTORY_COLORS))"
  proof (cases "targets = TargetMode_None")
    case True
    then show ?thesis by (simp add: section_ok_def)
  next
    case False
    with hist show ?thesis by (simp add: h_def fields(6))
  qed
  have zero: "len_u8 ([] :: Lookup list) = 0" by (simp add: len_u8_def)
  have n1: "0 < n" using nz by (simp add: word_gt_0)
  show ?thesis
    unfolding legend_ok_def ps fields(1-5) fields(7-8)
    using normal appr recd rn bck hist' thirds_ordered[OF n1] all
    by (simp only: zero append_assoc append_Nil)
qed

end
