(* ===== verification/Radar_Info.thy ===== *)
theory Radar_Info
  imports Legend Shared_Controls
begin

text \<open>
  What is known of one radar, the changes of its capabilities, which rebuild its legend, and the
  setters a report receiver uses, which log an error and go on. The iteration order of
  dictionaries, the printing of a range and the clock are collected in an environment. The
  addresses and channels of a radar play no part here.
\<close>

record env =
  en_order :: order
  en_show_range :: "Range \<Rightarrow> string"
  en_now :: int

section \<open>The radar\<close>

record RadarInfo =
  ri_key :: string
  ri_targets :: TargetMode
  ri_replay :: bool
  ri_serial_no :: "string option"
  ri_dual :: "string option"
  ri_pixel_values :: u8
  ri_spokes_per_revolution :: nat
  ri_max_spoke_len :: nat
  ri_legend :: Legend
  ri_controls :: Shared
  ri_ranges :: Ranges
  ri_doppler :: bool
  ri_doppler_levels :: u8
  ri_has_rain_class :: bool
  ri_dual_range :: bool
  ri_sparse_spokes :: bool
  ri_stationary :: bool

definition last_four :: "string \<Rightarrow> fault + string" where
  "last_four s = (case str_slice (length s - 4) (length s) s of Some t \<Rightarrow> Inr t | None \<Rightarrow> Inl Panicked)"

definition hex4_lower :: "nat \<Rightarrow> string" where
  "hex4_lower n = hex2_lower (n div 256 mod 256) @ hex2_lower (n mod 256)"

definition radar_key :: "string \<Rightarrow> string option \<Rightarrow> nat \<Rightarrow> string option \<Rightarrow> fault + string" where
  "radar_key prefix serial_no ip dual =
     res_bind (case serial_no of Some s \<Rightarrow> last_four s | None \<Rightarrow> Inr (hex4_lower (ip mod 65536))) (\<lambda>t.
       Inr (prefix @ t @ (case dual of Some d \<Rightarrow> d | None \<Rightarrow> [])))"

definition RadarInfo_new ::
  "TargetMode \<Rightarrow> bool \<Rightarrow> bool \<Rightarrow> string \<Rightarrow> string option \<Rightarrow> string option \<Rightarrow> u8 \<Rightarrow> nat \<Rightarrow> nat \<Rightarrow> nat \<Rightarrow> (string \<Rightarrow> fault + Shared) \<Rightarrow> bool \<Rightarrow> bool \<Rightarrow> fault + RadarInfo" where
  "RadarInfo_new targets replay stationary prefix serial_no dual pixel_values spokes_per_revolution max_spoke_len ip controls_fn doppler sparse =
     (let doppler_levels = (if doppler then 1 else 0)
      in res_bind (radar_key prefix serial_no ip dual) (\<lambda>key. res_bind (controls_fn key) (\<lambda>controls.
           Inr \<lparr>ri_key = key, ri_targets = targets, ri_replay = replay, ri_serial_no = serial_no, ri_dual = dual,
                ri_pixel_values = pixel_values, ri_spokes_per_revolution = spokes_per_revolution mod 65536,
                ri_max_spoke_len = max_spoke_len mod 65536, ri_legend = default_legend targets doppler_levels False pixel_values,
                ri_controls = controls, ri_ranges = Ranges_empty, ri_doppler = doppler, ri_doppler_levels = doppler_levels,
                ri_has_rain_class = False, ri_dual_range = False, ri_sparse_spokes = sparse, ri_stationary = stationary\<rparr>)))"

definition rebuild_legend :: "RadarInfo \<Rightarrow> RadarInfo" where
  "rebuild_legend ri =
     ri\<lparr>ri_legend := default_legend (ri_targets ri) (ri_doppler_levels ri) (ri_has_rain_class ri) (ri_pixel_values ri)\<rparr>"

definition RadarInfo_set_ranges :: "env \<Rightarrow> Ranges \<Rightarrow> RadarInfo \<Rightarrow> fault + RadarInfo" where
  "RadarInfo_set_ranges en ranges ri =
     res_bind (set_valid_ranges (en_order en) (en_show_range en) ranges (ri_controls ri)) (\<lambda>sc.
       Inr (ri\<lparr>ri_ranges := ranges, ri_controls := sc\<rparr>))"

definition set_doppler :: "bool \<Rightarrow> RadarInfo \<Rightarrow> RadarInfo" where
  "set_doppler doppler ri =
     (if doppler \<noteq> ri_doppler ri
      then rebuild_legend (ri\<lparr>ri_doppler := doppler, ri_doppler_levels := (if doppler then 1 else 0)\<rparr>) else ri)"

definition set_doppler_levels :: "u8 \<Rightarrow> RadarInfo \<Rightarrow> RadarInfo" where
  "set_doppler_levels levels ri = rebuild_legend (ri\<lparr>ri_doppler := (0 < levels), ri_doppler_levels := levels\<rparr>)"

definition set_has_rain_class :: "bool \<Rightarrow> RadarInfo \<Rightarrow> RadarInfo" where
  "set_has_rain_class rain ri =
     (if rain \<noteq> ri_has_rain_class ri then rebuild_legend (ri\<lparr>ri_has_rain_class := rain\<rparr>) else ri)"

definition set_pixel_values :: "u8 \<Rightarrow> RadarInfo \<Rightarrow> RadarInfo" where
  "set_pixel_values pixel_values ri =
     (let ri' = (if pixel_values \<noteq> ri_pixel_values ri
                 then ri\<lparr>ri_legend := default_legend (ri_targets ri) (ri_doppler_levels ri) (ri_has_rain_class ri) pixel_values\<rparr>
                 else ri)
      in ri'\<lparr>ri_pixel_values := pixel_values\<rparr>)"

section \<open>The setters of a report receiver\<close>

definition logged :: "(fault, 'a, Shared) io \<Rightarrow> fault + Shared" where
  "logged m = (case m of (Inl Panicked, _) \<Rightarrow> Inl Panicked | (_, sc) \<Rightarrow> Inr sc)"

definition on_controls :: "(Shared \<Rightarrow> fault + Shared) \<Rightarrow> RadarInfo \<Rightarrow> fault + RadarInfo" where
  "on_controls f ri = res_bind (f (ri_controls ri)) (\<lambda>sc. Inr (ri\<lparr>ri_controls := sc\<rparr>))"

definition common_set :: "env \<Rightarrow> ControlId \<Rightarrow> f64 \<Rightarrow> bool option \<Rightarrow> bool option \<Rightarrow> RadarInfo \<Rightarrow> fault + RadarInfo" where
  "common_set en cid v auto enabled =
     on_controls (\<lambda>sc. logged (Shared_set_value_auto_enabled (en_order en) (en_show_range en) (en_now en) cid v auto enabled sc))"

definition common_set_value :: "env \<Rightarrow> ControlId \<Rightarrow> f64 \<Rightarrow> RadarInfo \<Rightarrow> fault + RadarInfo" where
  "common_set_value en cid v = common_set en cid v None None"

definition common_set_value_auto :: "env \<Rightarrow> ControlId \<Rightarrow> f64 \<Rightarrow> int \<Rightarrow> RadarInfo \<Rightarrow> fault + RadarInfo" where
  "common_set_value_auto en cid v auto = common_set en cid v (Some (0 < auto)) None"

definition common_set_value_enabled :: "env \<Rightarrow> ControlId \<Rightarrow> f64 \<Rightarrow> int \<Rightarrow> RadarInfo \<Rightarrow> fault + RadarInfo" where
  "common_set_value_enabled en cid v enabled = common_set en cid v None (Some (0 < enabled))"

definition common_set_string :: "env \<Rightarrow> ControlId \<Rightarrow> string \<Rightarrow> RadarInfo \<Rightarrow> fault + RadarInfo" where
  "common_set_string en cid s =
     on_controls (\<lambda>sc. logged (Shared_set_string (en_order en) (en_show_range en) (en_now en) cid s sc))"

definition common_set_wire_range :: "env \<Rightarrow> ControlId \<Rightarrow> u8 \<Rightarrow> u8 \<Rightarrow> RadarInfo \<Rightarrow> fault + RadarInfo" where
  "common_set_wire_range en cid mn mx =
     on_controls (\<lambda>sc. logged (Shared_set_wire_range (en_order en) (en_show_range en) cid
       (f64_of_int (uint mn)) (f64_of_int (uint mx)) sc))"

definition common_set_value_with_many_auto :: "env \<Rightarrow> ControlId \<Rightarrow> f64 \<Rightarrow> f64 \<Rightarrow> RadarInfo \<Rightarrow> fault + RadarInfo" where
  "common_set_value_with_many_auto en cid v av =
     on_controls (\<lambda>sc. logged (Shared_set_value_with_many_auto (en_order en) (en_show_range en) (en_now en) cid v av sc))"

definition common_set_sector :: "env \<Rightarrow> ControlId \<Rightarrow> f64 \<Rightarrow> f64 \<Rightarrow> bool option \<Rightarrow> RadarInfo \<Rightarrow> fault + RadarInfo" where
  "common_set_sector en cid start stop enabled =
     on_controls (\<lambda>sc. logged (Shared_set_sector (en_order en) (en_show_range en) (en_now en) cid start stop enabled sc))"

section \<open>The legend is that of the current capabilities\<close>

definition legend_current :: "RadarInfo \<Rightarrow> bool" where
  "legend_current ri \<longleftrightarrow>
     ri_legend ri = default_legend (ri_targets ri) (ri_doppler_levels ri) (ri_has_rain_class ri) (ri_pixel_values ri)"

named_theorems keeps_legend

lemma rebuild_legend_current [keeps_legend, simp]: "legend_current (rebuild_legend ri)"
  by (simp add: legend_current_def rebuild_legend_def)

lemma set_doppler_legend [keeps_legend]: "legend_current ri \<Longrightarrow> legend_current (set_doppler b ri)"
  by (simp add: set_doppler_def)

lemma set_doppler_levels_legend [keeps_legend]: "legend_current (set_doppler_levels n ri)"
  by (simp add: set_doppler_levels_def)

lemma set_has_rain_class_legend [keeps_legend]: "legend_current ri \<Longrightarrow> legend_current (set_has_rain_class b ri)"
  by (simp add: set_has_rain_class_def)

lemma set_pixel_values_legend [keeps_legend]: "legend_current ri \<Longrightarrow> legend_current (set_pixel_values n ri)"
  by (simp add: set_pixel_values_def legend_current_def Let_def)

lemma RadarInfo_new_legend [keeps_legend]:
  "RadarInfo_new t r s p sn du pv spr msl ip f d sp = Inr ri \<Longrightarrow> legend_current ri"
  by (auto simp: RadarInfo_new_def legend_current_def Let_def res_bind_def split: sum.splits if_splits)

lemma on_controls_legend [keeps_legend]: "on_controls f ri = Inr ri' \<Longrightarrow> legend_current ri' = legend_current ri"
  by (auto simp: on_controls_def legend_current_def res_bind_def split: sum.splits)

end
