(* ===== verification/Furuno_Protocol.thy ===== *)
theory Furuno_Protocol
  imports Range_Table Control_Values "HOL-Library.Sublist"
begin

text \<open>
  The vocabulary of the Furuno wire protocol: radar models and how they are recognised, command
  modes and numbers, and the tables that translate between distances and the slots of the radar's
  range switch.
\<close>

section \<open>Models\<close>

datatype RadarModel = Unknown | FAR21x7 | DRS | FAR14x7 | DRS4DL | FAR3000 | DRS4DNXT | DRS6ANXT | DRS6AXCLASS | FAR15x3 | FAR14x6 | DRS4W | DRS12ANXT | DRS25ANXT

text \<open>\<open>str::contains\<close> and \<open>str::starts_with\<close>.\<close>

definition contains :: "string \<Rightarrow> string \<Rightarrow> bool" where
  "contains s p = list_ex (prefix p) (suffixes s)"

definition from_part_number :: "string \<Rightarrow> RadarModel" where
  "from_part_number part =
     (case map_of
       [(''0359235'', DRS), (''0359255'', FAR14x7), (''0359204'', FAR21x7), (''0359321'', FAR14x7),
        (''0359338'', DRS4DL), (''0359367'', DRS4DL), (''0359281'', FAR3000), (''0359286'', FAR3000),
        (''0359477'', FAR3000), (''0359360'', DRS4DNXT), (''0359421'', DRS6ANXT), (''0359329'', DRS4W),
        (''0359355'', DRS6AXCLASS), (''0359344'', FAR15x3), (''0359397'', FAR14x6), (''0359560'', FAR21x7)] part
      of Some m \<Rightarrow> m | None \<Rightarrow> Unknown)"

definition from_model_name :: "string \<Rightarrow> RadarModel" where
  "from_model_name name =
     (if contains name ''DRS4D-NXT'' \<or> contains name ''DRS4DNXT'' then DRS4DNXT
      else if contains name ''DRS6A-NXT'' \<or> contains name ''DRS6ANXT'' then DRS6ANXT
      else if contains name ''DRS12A-NXT'' \<or> contains name ''DRS12ANXT'' then DRS12ANXT
      else if contains name ''DRS25A-NXT'' \<or> contains name ''DRS25ANXT'' then DRS25ANXT
      else if contains name ''DRS6A'' \<and> contains name ''CLASS'' then DRS6AXCLASS
      else if contains name ''DRS4W'' then DRS4W
      else if contains name ''DRS4DL'' then DRS4DL
      else if prefix ''DRS'' name then DRS
      else if contains name ''FAR-21'' \<or> contains name ''FAR21'' then FAR21x7
      else if contains name ''FAR-14'' \<and> contains name ''7'' then FAR14x7
      else if contains name ''FAR-14'' \<and> contains name ''6'' then FAR14x6
      else if contains name ''FAR-15'' \<or> contains name ''FAR15'' then FAR15x3
      else if contains name ''FAR-3'' \<or> contains name ''FAR3'' then FAR3000
      else Unknown)"

definition RadarModel_string :: "RadarModel \<Rightarrow> string" where
  "RadarModel_string m =
     (case m of
        Unknown \<Rightarrow> ''Unknown''
      | FAR21x7 \<Rightarrow> ''FAR21x7''
      | DRS \<Rightarrow> ''DRS''
      | FAR14x7 \<Rightarrow> ''FAR14x7''
      | DRS4DL \<Rightarrow> ''DRS4DL''
      | FAR3000 \<Rightarrow> ''FAR3000''
      | DRS4DNXT \<Rightarrow> ''DRS4DNXT''
      | DRS6ANXT \<Rightarrow> ''DRS6ANXT''
      | DRS6AXCLASS \<Rightarrow> ''DRS6AXCLASS''
      | FAR15x3 \<Rightarrow> ''FAR15x3''
      | FAR14x6 \<Rightarrow> ''FAR14x6''
      | DRS4W \<Rightarrow> ''DRS4W''
      | DRS12ANXT \<Rightarrow> ''DRS12ANXT''
      | DRS25ANXT \<Rightarrow> ''DRS25ANXT'')"

definition is_low_power :: "RadarModel \<Rightarrow> bool" where
  "is_low_power m \<longleftrightarrow> m = DRS4W \<or> m = DRS"

definition is_nxt :: "RadarModel \<Rightarrow> bool" where
  "is_nxt m \<longleftrightarrow> m = DRS4DNXT \<or> m = DRS6ANXT \<or> m = DRS12ANXT \<or> m = DRS25ANXT"

section \<open>Commands\<close>

datatype CommandMode = Mode_Set | Mode_Request | Mode_New | Mode_X | Mode_E | Mode_O

definition CommandMode_to_char :: "CommandMode \<Rightarrow> char" where
  "CommandMode_to_char m =
     (case m of Mode_Set \<Rightarrow> CHR ''S'' | Mode_Request \<Rightarrow> CHR ''R'' | Mode_New \<Rightarrow> CHR ''N''
      | Mode_X \<Rightarrow> CHR ''X'' | Mode_E \<Rightarrow> CHR ''E'' | Mode_O \<Rightarrow> CHR ''O'')"

definition CommandMode_from :: "char \<Rightarrow> CommandMode" where
  "CommandMode_from c =
     (if c = CHR ''S'' then Mode_Set else if c = CHR ''R'' then Mode_Request else if c = CHR ''N'' then Mode_New
      else if c = CHR ''X'' then Mode_X else if c = CHR ''E'' then Mode_E else if c = CHR ''O'' then Mode_O else Mode_New)"

datatype (plugins only: size) CommandId =
    CommandId_Connect | CommandId_DispMode | CommandId_Range | CommandId_Gain | CommandId_Sea |
    CommandId_Rain | CommandId_CustomPictureAll | CommandId_SignalProcessing | CommandId_PulseWidth |
    CommandId_Status | CommandId_U6D | CommandId_AntennaType | CommandId_GuardStatus | CommandId_Tune |
    CommandId_TuneIndicator | CommandId_BlindSector | CommandId_Alarm | CommandId_Att |
    CommandId_MainBangSize | CommandId_AntennaHeight | CommandId_NearSTC | CommandId_MiddleSTC |
    CommandId_FarSTC | CommandId_RingSuppression | CommandId_ScanSpeed | CommandId_AntennaSwitch |
    CommandId_AntennaNo | CommandId_OnTime | CommandId_TxTime | CommandId_Modules | CommandId_GuardMode |
    CommandId_GuardFan | CommandId_Drift | CommandId_TrailMode | CommandId_ConningPosition |
    CommandId_WakeUpCount | CommandId_ArpaAlarm | CommandId_ImoEchoSwitch | CommandId_STCRange |
    CommandId_CustomMemory | CommandId_BuildUpTime | CommandId_DisplayUnitInformation |
    CommandId_TrailProcess | CommandId_CustomATFSettings | CommandId_AliveCheck | CommandId_JammingAble |
    CommandId_ATFSettings | CommandId_BirdMode | CommandId_RezBoost | CommandId_TargetAnalyzer |
    CommandId_AutoAcquire | CommandId_NN3Command | CommandId_RangeSelect

definition CommandId_table :: "(CommandId \<times> nat) list" where
  "CommandId_table =
    [(CommandId_Connect, 0x60), (CommandId_DispMode, 0x61), (CommandId_Range, 0x62), (CommandId_Gain, 0x63),
     (CommandId_Sea, 0x64), (CommandId_Rain, 0x65), (CommandId_CustomPictureAll, 0x66),
     (CommandId_SignalProcessing, 0x67), (CommandId_PulseWidth, 0x68), (CommandId_Status, 0x69),
     (CommandId_U6D, 0x6D), (CommandId_AntennaType, 0x6E), (CommandId_GuardStatus, 0x70),
     (CommandId_Tune, 0x75), (CommandId_TuneIndicator, 0x76), (CommandId_BlindSector, 0x77),
     (CommandId_Alarm, 0x7D), (CommandId_Att, 0x80), (CommandId_MainBangSize, 0x83),
     (CommandId_AntennaHeight, 0x84), (CommandId_NearSTC, 0x85), (CommandId_MiddleSTC, 0x86),
     (CommandId_FarSTC, 0x87), (CommandId_RingSuppression, 0x88), (CommandId_ScanSpeed, 0x89),
     (CommandId_AntennaSwitch, 0x8A), (CommandId_AntennaNo, 0x8D), (CommandId_OnTime, 0x8E),
     (CommandId_TxTime, 0x8F), (CommandId_Modules, 0x96), (CommandId_GuardMode, 0x98),
     (CommandId_GuardFan, 0x99), (CommandId_Drift, 0x9E), (CommandId_TrailMode, 0xA3),
     (CommandId_ConningPosition, 0xAA), (CommandId_WakeUpCount, 0xAC), (CommandId_ArpaAlarm, 0xAF),
     (CommandId_ImoEchoSwitch, 0xB8), (CommandId_STCRange, 0xD2), (CommandId_CustomMemory, 0xD3),
     (CommandId_BuildUpTime, 0xD4), (CommandId_DisplayUnitInformation, 0xD5), (CommandId_TrailProcess, 0xE1),
     (CommandId_CustomATFSettings, 0xE0), (CommandId_AliveCheck, 0xE3), (CommandId_JammingAble, 0xE8),
     (CommandId_ATFSettings, 0xEA), (CommandId_BirdMode, 0xED), (CommandId_RezBoost, 0xEE),
     (CommandId_TargetAnalyzer, 0xEF), (CommandId_AutoAcquire, 0xF0), (CommandId_NN3Command, 0xF5),
     (CommandId_RangeSelect, 0xFE)]"

definition CommandId_code :: "CommandId \<Rightarrow> nat" where
  "CommandId_code c = the (map_of CommandId_table c)"

definition CommandId_from_u8 :: "nat \<Rightarrow> CommandId option" where
  "CommandId_from_u8 n = map_option fst (find (\<lambda>(_, k). k = n) CommandId_table)"

section \<open>Range slots\<close>

definition WIRE_UNIT_NM :: int where "WIRE_UNIT_NM = 0"
definition WIRE_UNIT_KM :: int where "WIRE_UNIT_KM = 1"

definition WIRE_INDEX_TABLE :: "(int \<times> int) list" where
  "WIRE_INDEX_TABLE =
    [(21, 116), (0, 231), (1, 463), (2, 926), (3, 1389), (4, 1852), (5, 2778), (6, 3704), (7, 5556),
     (8, 7408), (9, 11112), (10, 14816), (11, 22224), (12, 29632), (13, 44448), (14, 59264), (19, 66672),
     (15, 88896), (20, 118528), (16, 133344), (17, 177792), (18, 222240)]"

definition WIRE_INDEX_TABLE_KM :: "(int \<times> int) list" where
  "WIRE_INDEX_TABLE_KM =
    [(0, 125), (1, 250), (2, 500), (3, 750), (4, 1000), (5, 1500), (6, 2000), (7, 3000), (8, 4000),
     (9, 6000), (10, 8000), (11, 12000), (12, 16000), (13, 24000), (14, 32000), (19, 36000), (15, 48000),
     (20, 64000), (16, 72000), (17, 96000), (18, 120000)]"

text \<open>\<open>Iterator::min_by_key\<close>: the first of the entries with the least key.\<close>

fun min_by_key :: "('a \<Rightarrow> int) \<Rightarrow> 'a list \<Rightarrow> 'a option" where
  "min_by_key k [] = None"
| "min_by_key k (x # xs) =
     (case min_by_key k xs of None \<Rightarrow> Some x | Some y \<Rightarrow> if k y < k x then Some y else Some x)"

definition lookup_wire_index :: "(int \<times> int) list \<Rightarrow> int \<Rightarrow> int" where
  "lookup_wire_index table meters =
     (case min_by_key (\<lambda>(_, m). \<bar>m - meters\<bar>) table of Some (idx, _) \<Rightarrow> idx | None \<Rightarrow> 15)"

definition meters_to_wire_index :: "int \<Rightarrow> int" where
  "meters_to_wire_index = lookup_wire_index WIRE_INDEX_TABLE"

definition meters_to_wire_index_km :: "int \<Rightarrow> int" where
  "meters_to_wire_index_km = lookup_wire_index WIRE_INDEX_TABLE_KM"

definition meters_to_wire_index_for_unit :: "int \<Rightarrow> int \<Rightarrow> int" where
  "meters_to_wire_index_for_unit meters wire_unit =
     (if wire_unit = WIRE_UNIT_KM then meters_to_wire_index_km meters else meters_to_wire_index meters)"

definition wire_index_to_meters :: "int \<Rightarrow> int option" where
  "wire_index_to_meters wire_index = map_option snd (find (\<lambda>(idx, _). idx = wire_index) WIRE_INDEX_TABLE)"

definition wire_index_to_meters_km :: "int \<Rightarrow> int option" where
  "wire_index_to_meters_km wire_index = map_option snd (find (\<lambda>(idx, _). idx = wire_index) WIRE_INDEX_TABLE_KM)"

definition wire_index_to_meters_for_unit :: "int \<Rightarrow> int \<Rightarrow> int option" where
  "wire_index_to_meters_for_unit wire_index wire_unit =
     (if wire_unit = WIRE_UNIT_KM then wire_index_to_meters_km wire_index else wire_index_to_meters wire_index)"

definition wire_unit_for_meters :: "int \<Rightarrow> int" where
  "wire_unit_for_meters meters =
     (if list_ex (\<lambda>(_, m). m = meters) WIRE_INDEX_TABLE_KM \<and> Range_metric meters then WIRE_UNIT_KM else WIRE_UNIT_NM)"

definition wire_table :: "int \<Rightarrow> (int \<times> int) list" where
  "wire_table wire_unit = (if wire_unit = WIRE_UNIT_KM then WIRE_INDEX_TABLE_KM else WIRE_INDEX_TABLE)"

section \<open>Constants\<close>

definition SPOKES :: nat where "SPOKES = 8192"
definition SPOKE_LEN :: nat where "SPOKE_LEN = 1024"
definition PIXEL_VALUES :: nat where "PIXEL_VALUES = 252"
definition FRAME_MAGIC :: u8 where "FRAME_MAGIC = 0x02"
definition FRAME_SPOKE_DATA_LEN_HIGH_BIT :: u8 where "FRAME_SPOKE_DATA_LEN_HIGH_BIT = 0x01"
definition FRAME_SWEEP_LEN_HIGH_MASK :: u8 where "FRAME_SWEEP_LEN_HIGH_MASK = 0x07"
definition FRAME_ENCODING_MASK :: u8 where "FRAME_ENCODING_MASK = 0x18"
definition FRAME_ENCODING_SHIFT :: nat where "FRAME_ENCODING_SHIFT = 3"
definition FRAME_HEADING_VALID_BIT :: u8 where "FRAME_HEADING_VALID_BIT = 0x20"
definition FRAME_WIRE_INDEX_MASK :: u8 where "FRAME_WIRE_INDEX_MASK = 0x3F"
definition FRAME_SCALE_HIGH_MASK :: u8 where "FRAME_SCALE_HIGH_MASK = 0x07"
definition FRAME_DUAL_RANGE_BIT :: u8 where "FRAME_DUAL_RANGE_BIT = 0x40"
definition SPOKE_ANGLE_HIGH_MASK :: u8 where "SPOKE_ANGLE_HIGH_MASK = 0x1F"
definition ENCODING_1_REPEAT_DEFAULT :: nat where "ENCODING_1_REPEAT_DEFAULT = 0x80"
definition ENCODING_3_REPEAT_DEFAULT :: nat where "ENCODING_3_REPEAT_DEFAULT = 0x40"
definition ECHO_FLOOR :: nat where "ECHO_FLOOR = 10"
definition TILE_MAGIC :: u32 where "TILE_MAGIC = 2"
definition TILE_SCALE :: nat where "TILE_SCALE = 496"
definition TILE_REPEAT_DEFAULT :: nat where "TILE_REPEAT_DEFAULT = 128"
definition GUARD_MODE_OFF :: int where "GUARD_MODE_OFF = 0"
definition GUARD_MODE_FAN :: int where "GUARD_MODE_FAN = 1"

section \<open>Properties\<close>

lemma min_by_key_least:
  "xs \<noteq> [] \<Longrightarrow> \<exists>x. min_by_key k xs = Some x \<and> x \<in> set xs \<and> (\<forall>y \<in> set xs. k x \<le> k y)"
proof (induction xs)
  case (Cons x xs)
  show ?case
  proof (cases "xs = []")
    case False
    with Cons obtain y where "min_by_key k xs = Some y" "y \<in> set xs" "\<forall>z \<in> set xs. k y \<le> k z" by auto
    then show ?thesis by fastforce
  qed simp
qed simp

lemma wire_table_lookup:
  "meters_to_wire_index_for_unit m u = lookup_wire_index (wire_table u) m"
  "wire_index_to_meters_for_unit w u = map_option snd (find (\<lambda>(idx, _). idx = w) (wire_table u))"
  by (simp_all add: meters_to_wire_index_for_unit_def meters_to_wire_index_def meters_to_wire_index_km_def
      wire_index_to_meters_for_unit_def wire_index_to_meters_def wire_index_to_meters_km_def wire_table_def)

lemma wire_table_facts: "wire_table u \<noteq> []" "distinct (map fst (wire_table u))" "distinct (map snd (wire_table u))"
  by (simp_all add: wire_table_def WIRE_INDEX_TABLE_def WIRE_INDEX_TABLE_KM_def)

lemma find_key: "distinct (map fst xs) \<Longrightarrow> (a, b) \<in> set xs \<Longrightarrow> map_option snd (find (\<lambda>(k, _). k = a) xs) = Some b"
  by (induction xs) (auto simp: image_iff)

lemma lookup_wire_index_nearest:
  obtains m where "wire_index_to_meters_for_unit (meters_to_wire_index_for_unit meters u) u = Some m"
    and "m \<in> snd ` set (wire_table u)" and "\<And>m'. m' \<in> snd ` set (wire_table u) \<Longrightarrow> \<bar>m - meters\<bar> \<le> \<bar>m' - meters\<bar>"
proof -
  from min_by_key_least[OF wire_table_facts(1), of "\<lambda>(_, m). \<bar>m - meters\<bar>" u] obtain i m where
    "min_by_key (\<lambda>(_, m). \<bar>m - meters\<bar>) (wire_table u) = Some (i, m)" "(i, m) \<in> set (wire_table u)"
    "\<forall>(_, m') \<in> set (wire_table u). \<bar>m - meters\<bar> \<le> \<bar>m' - meters\<bar>" by (auto simp: case_prod_beta)
  with that[of m] show thesis
    by (force simp: wire_table_lookup lookup_wire_index_def find_key[OF wire_table_facts(2)])
qed

text \<open>
  C36. The range slot chosen for a distance is the one whose distance is nearest, in the unit
  that is used; a distance that has a slot of its own is sent as that slot, and the radar's
  answer is read back as the same distance.
\<close>

theorem wire_index_nearest:
  "\<exists>m. wire_index_to_meters_for_unit (meters_to_wire_index_for_unit meters u) u = Some m
     \<and> list_all (\<lambda>(_, m'). \<bar>m - meters\<bar> \<le> \<bar>m' - meters\<bar>) (wire_table u)
     \<and> (list_ex (\<lambda>(_, m'). m' = meters) (wire_table u) \<longrightarrow> m = meters)"
proof -
  obtain m where m: "wire_index_to_meters_for_unit (meters_to_wire_index_for_unit meters u) u = Some m"
    "m \<in> snd ` set (wire_table u)" "\<And>m'. m' \<in> snd ` set (wire_table u) \<Longrightarrow> \<bar>m - meters\<bar> \<le> \<bar>m' - meters\<bar>"
    using lookup_wire_index_nearest[of meters u] by blast
  have "m = meters" if "list_ex (\<lambda>(_, m'). m' = meters) (wire_table u)"
  proof -
    from that have "meters \<in> snd ` set (wire_table u)" by (force simp: list_ex_iff)
    from m(3)[OF this] show ?thesis by simp
  qed
  moreover have "list_all (\<lambda>(_, m'). \<bar>m - meters\<bar> \<le> \<bar>m' - meters\<bar>) (wire_table u)"
    using m(3) by (force simp: list_all_iff)
  ultimately show ?thesis using m(1) by blast
qed

theorem wire_index_nearest_witness:
  "wire_index_to_meters_for_unit (meters_to_wire_index_for_unit 66672 0) 0 = Some 66672"
  using wire_index_nearest[of 66672 0] by (auto simp: wire_table_def WIRE_INDEX_TABLE_def WIRE_UNIT_KM_def)

end
