(* ===== verification/Furuno_Settings.thy ===== *)
theory Furuno_Settings
  imports Radar_Info Furuno_Protocol
begin

text \<open>
  The controls, ranges and capabilities of the Furuno models: what every radar of the brand has
  before its model is known, and what is added once it is.
\<close>

section \<open>Capabilities\<close>

record Capabilities =
  cp_auto_gain :: bool
  cp_auto_sea :: bool
  cp_auto_rain :: bool
  cp_dual_range :: bool
  cp_scan_speed :: bool
  cp_sector_blanking :: bool
  cp_main_bang_suppression :: bool
  cp_rez_boost :: bool
  cp_bird_mode :: bool
  cp_target_analyzer :: bool
  cp_target_analyzer_rain :: bool
  cp_noise_rejection :: bool
  cp_interference_rejection_levels :: nat
  cp_tune :: bool
  cp_antenna_height :: bool
  cp_watchman :: bool
  cp_pulse_width :: bool

definition capabilities :: "RadarModel \<Rightarrow> Capabilities" where
  "capabilities model =
     (let cap_DRS4DNXT = \<lparr>cp_auto_gain = True, cp_auto_sea = True, cp_auto_rain = True, cp_dual_range = True, cp_scan_speed =
            True, cp_sector_blanking = True, cp_main_bang_suppression = True, cp_rez_boost = True, cp_bird_mode = True,
            cp_target_analyzer = True, cp_target_analyzer_rain = True, cp_noise_rejection = True,
            cp_interference_rejection_levels = 2, cp_tune = True, cp_antenna_height = True, cp_watchman = True,
            cp_pulse_width = False\<rparr>;
          cap_DRS6AXCLASS = \<lparr>cp_auto_gain = True, cp_auto_sea = True, cp_auto_rain = True, cp_dual_range = False, cp_scan_speed =
            False, cp_sector_blanking = False, cp_main_bang_suppression = False, cp_rez_boost = False, cp_bird_mode =
            True, cp_target_analyzer = False, cp_target_analyzer_rain = False, cp_noise_rejection = False,
            cp_interference_rejection_levels = 0, cp_tune = True, cp_antenna_height = False, cp_watchman = False,
            cp_pulse_width = True\<rparr>;
          cap_DRS4DL = \<lparr>cp_auto_gain = False, cp_auto_sea = True, cp_auto_rain = True, cp_dual_range = False, cp_scan_speed =
            False, cp_sector_blanking = False, cp_main_bang_suppression = False, cp_rez_boost = False, cp_bird_mode =
            False, cp_target_analyzer = False, cp_target_analyzer_rain = False, cp_noise_rejection = False,
            cp_interference_rejection_levels = 2, cp_tune = True, cp_antenna_height = False, cp_watchman = False,
            cp_pulse_width = True\<rparr>;
          cap_DRS = \<lparr>cp_auto_gain = True, cp_auto_sea = True, cp_auto_rain = True, cp_dual_range = False, cp_scan_speed =
            False, cp_sector_blanking = False, cp_main_bang_suppression = False, cp_rez_boost = False, cp_bird_mode =
            False, cp_target_analyzer = False, cp_target_analyzer_rain = False, cp_noise_rejection = False,
            cp_interference_rejection_levels = 0, cp_tune = True, cp_antenna_height = False, cp_watchman = False,
            cp_pulse_width = False\<rparr>;
          cap_FAR21x7 = \<lparr>cp_auto_gain = False, cp_auto_sea = False, cp_auto_rain = False, cp_dual_range = False, cp_scan_speed
            = False, cp_sector_blanking = False, cp_main_bang_suppression = False, cp_rez_boost = False, cp_bird_mode =
            False, cp_target_analyzer = False, cp_target_analyzer_rain = False, cp_noise_rejection = False,
            cp_interference_rejection_levels = 4, cp_tune = True, cp_antenna_height = False, cp_watchman = False,
            cp_pulse_width = True\<rparr>;
          cap_FAR15x3 = \<lparr>cp_auto_gain = False, cp_auto_sea = True, cp_auto_rain = True, cp_dual_range = False, cp_scan_speed =
            False, cp_sector_blanking = False, cp_main_bang_suppression = False, cp_rez_boost = False, cp_bird_mode =
            False, cp_target_analyzer = False, cp_target_analyzer_rain = False, cp_noise_rejection = True,
            cp_interference_rejection_levels = 4, cp_tune = True, cp_antenna_height = False, cp_watchman = False,
            cp_pulse_width = True\<rparr>;
          cap_Unknown = \<lparr>cp_auto_gain = True, cp_auto_sea = True, cp_auto_rain = True, cp_dual_range = False, cp_scan_speed =
            False, cp_sector_blanking = False, cp_main_bang_suppression = False, cp_rez_boost = False, cp_bird_mode =
            False, cp_target_analyzer = False, cp_target_analyzer_rain = False, cp_noise_rejection = False,
            cp_interference_rejection_levels = 0, cp_tune = True, cp_antenna_height = False, cp_watchman = False,
            cp_pulse_width = False\<rparr>
      in case model of
        DRS4DNXT \<Rightarrow> cap_DRS4DNXT
      | DRS6ANXT \<Rightarrow> cap_DRS4DNXT
      | DRS12ANXT \<Rightarrow> cap_DRS4DNXT
      | DRS25ANXT \<Rightarrow> cap_DRS4DNXT
      | DRS6AXCLASS \<Rightarrow> cap_DRS6AXCLASS
      | DRS4DL \<Rightarrow> cap_DRS4DL
      | DRS \<Rightarrow> cap_DRS
      | DRS4W \<Rightarrow> cap_DRS
      | FAR21x7 \<Rightarrow> cap_FAR21x7
      | FAR14x7 \<Rightarrow> cap_FAR21x7
      | FAR14x6 \<Rightarrow> cap_FAR21x7
      | FAR15x3 \<Rightarrow> cap_FAR15x3
      | FAR3000 \<Rightarrow> cap_FAR15x3
      | Unknown \<Rightarrow> cap_Unknown)"

section \<open>Ranges\<close>

definition RANGE_TABLE_DRS_NXT :: "int list" where
  "RANGE_TABLE_DRS_NXT =
     [116, 231, 463, 926, 1389, 1852, 2778, 3704, 5556, 7408, 11112, 14816, 22224, 29632, 44448, 59264, 66672, 88896]"

definition RANGE_TABLE_DRS_NXT_EXTENDED :: "int list" where
  "RANGE_TABLE_DRS_NXT_EXTENDED =
     [116, 231, 463, 926, 1389, 1852, 2778, 3704, 5556, 7408, 11112, 14816, 22224, 29632, 44448, 59264, 66672,
      88896, 118528, 133344, 177792]"

definition RANGE_TABLE_DRS_NXT_KM :: "int list" where
  "RANGE_TABLE_DRS_NXT_KM =
     [125, 250, 500, 750, 1000, 1500, 2000, 3000, 4000, 6000, 8000, 12000, 16000, 24000, 32000, 36000, 48000, 64000]"

definition RANGE_TABLE_DRS_NXT_EXTENDED_KM :: "int list" where
  "RANGE_TABLE_DRS_NXT_EXTENDED_KM =
     [125, 250, 500, 750, 1000, 1500, 2000, 3000, 4000, 6000, 8000, 12000, 16000, 24000, 32000, 36000, 48000, 64000,
      72000, 96000]"

definition RANGE_TABLE_DRS_KM :: "int list" where
  "RANGE_TABLE_DRS_KM =
     [125, 250, 500, 750, 1000, 1500, 2000, 3000, 4000, 6000, 8000, 12000, 16000, 24000, 32000, 36000, 48000, 64000,
      72000, 96000]"

definition RANGE_TABLE_FAR_KM :: "int list" where
  "RANGE_TABLE_FAR_KM =
     [125, 250, 500, 750, 1000, 1500, 2000, 3000, 4000, 6000, 8000, 12000, 16000, 24000, 32000, 48000, 96000]"

definition RANGE_TABLE_DRS4W :: "int list" where
  "RANGE_TABLE_DRS4W =
     [231, 463, 926, 1389, 1852, 2778, 3704, 5556, 7408, 11112, 14816, 22224, 29632, 44448]"

definition RANGE_TABLE_DRS4W_KM :: "int list" where
  "RANGE_TABLE_DRS4W_KM =
     [125, 250, 500, 750, 1000, 1500, 2000, 3000, 4000, 6000, 8000, 12000, 16000, 24000]"

definition RANGE_TABLE_DRS :: "int list" where
  "RANGE_TABLE_DRS =
     [116, 231, 463, 926, 1389, 1852, 2778, 3704, 5556, 7408, 11112, 14816, 22224, 29632, 44448, 59264, 66672]"

definition RANGE_TABLE_FAR :: "int list" where
  "RANGE_TABLE_FAR =
     [231, 463, 926, 1389, 1852, 2778, 3704, 5556, 7408, 11112, 14816, 22224, 29632, 44448, 59264, 88896, 177792]"

definition get_ranges_by_model :: "RadarModel \<Rightarrow> int list" where
  "get_ranges_by_model model =
     (case model of
        DRS12ANXT \<Rightarrow> RANGE_TABLE_DRS_NXT_EXTENDED @ RANGE_TABLE_DRS_NXT_EXTENDED_KM
      | DRS25ANXT \<Rightarrow> RANGE_TABLE_DRS_NXT_EXTENDED @ RANGE_TABLE_DRS_NXT_EXTENDED_KM
      | DRS4DNXT \<Rightarrow> RANGE_TABLE_DRS_NXT @ RANGE_TABLE_DRS_NXT_KM
      | DRS6ANXT \<Rightarrow> RANGE_TABLE_DRS_NXT @ RANGE_TABLE_DRS_NXT_KM
      | FAR21x7 \<Rightarrow> RANGE_TABLE_FAR @ RANGE_TABLE_FAR_KM
      | FAR3000 \<Rightarrow> RANGE_TABLE_FAR @ RANGE_TABLE_FAR_KM
      | FAR15x3 \<Rightarrow> RANGE_TABLE_FAR @ RANGE_TABLE_FAR_KM
      | FAR14x6 \<Rightarrow> RANGE_TABLE_FAR @ RANGE_TABLE_FAR_KM
      | FAR14x7 \<Rightarrow> RANGE_TABLE_FAR @ RANGE_TABLE_FAR_KM
      | DRS4W \<Rightarrow> RANGE_TABLE_DRS4W @ RANGE_TABLE_DRS4W_KM
      | Unknown \<Rightarrow> RANGE_TABLE_DRS @ RANGE_TABLE_DRS_KM
      | DRS \<Rightarrow> RANGE_TABLE_DRS @ RANGE_TABLE_DRS_KM
      | DRS4DL \<Rightarrow> RANGE_TABLE_DRS @ RANGE_TABLE_DRS_KM
      | DRS6AXCLASS \<Rightarrow> RANGE_TABLE_DRS @ RANGE_TABLE_DRS_KM)"

section \<open>Controls\<close>

definition Furuno_controls :: "env \<Rightarrow> Cli \<Rightarrow> nat \<Rightarrow> fault + Shared" where
  "Furuno_controls en args listeners =
     (let now = en_now en;
          m = cb_build (cb_read_only False (new_string now ControlId_UserName)) (\<lambda>_. None);
          m = cb_build (new_numeric now ControlId_Gain (Fin 0) (Fin 100)) m;
          m = cb_build (new_numeric now ControlId_Sea (Fin 0) (Fin 100)) m;
          m = cb_build (new_numeric now ControlId_Rain (Fin 0) (Fin 100)) m
      in res_bind (build_in Seconds (cb_read_only True (new_numeric now ControlId_OperatingTime (Fin 0) (Fin 999999999))) m) (\<lambda>m.
         res_bind (build_in Seconds (cb_read_only True (new_numeric now ControlId_TransmitTime (Fin 0) (Fin 999999999))) m) (\<lambda>m.
           let m = cb_build (new_string now ControlId_SerialNumber) m;
               m = cb_build (new_list (en_order en) now ControlId_RangeUnits [''Nautical'', ''Metric'']) m
           in Shared_new (en_order en) now args listeners m)))"

definition name_radar :: "env \<Rightarrow> RadarModel \<Rightarrow> RadarInfo \<Rightarrow> fault + RadarInfo" where
  "name_radar en model ri =
     res_bind (set_model_name (en_now en) (RadarModel_string model) (ri_controls ri)) (\<lambda>sc.
     res_bind (user_name sc) (\<lambda>name.
       if name = ri_key ri
       then res_bind (case ri_serial_no ri of
                        Some s \<Rightarrow> res_bind (last_four s) (\<lambda>t. Inr (RadarModel_string model @ '' '' @ t))
                      | None \<Rightarrow> Inr (RadarModel_string model)) (\<lambda>new_name.
            res_bind (set_user_name (en_now en) new_name sc) (\<lambda>sc. Inr (ri\<lparr>ri_controls := sc\<rparr>)))
       else Inr (ri\<lparr>ri_controls := sc\<rparr>)))"

definition auto_or_numeric :: "env \<Rightarrow> bool \<Rightarrow> ControlId \<Rightarrow> Shared \<Rightarrow> Shared" where
  "auto_or_numeric en auto cid =
     Shared_update_definition
       (if auto then new_auto (en_now en) cid (Fin 0) (Fin 100) HAS_AUTO_NOT_ADJUSTABLE
        else new_numeric (en_now en) cid (Fin 0) (Fin 100))"

definition add_when :: "bool \<Rightarrow> ControlBuilder \<Rightarrow> Shared \<Rightarrow> Shared" where
  "add_when b cb sc = (if b then Shared_add cb sc else sc)"

definition add_list :: "env \<Rightarrow> ControlId \<Rightarrow> string list \<Rightarrow> bool \<Rightarrow> Shared \<Rightarrow> Shared" where
  "add_list en cid names b = add_when b (new_list (en_order en) (en_now en) cid names)"

definition add_sector :: "env \<Rightarrow> ControlId \<Rightarrow> Shared \<Rightarrow> fault + Shared" where
  "add_sector en cid sc =
     res_bind (cb_wire_offset (Fin (- 1)) (new_sector (en_now en) cid (Fin (- 180)) (Fin 180))) (\<lambda>b.
     res_bind (cb_wire_units Degrees b) (\<lambda>b. Inr (Shared_add (cb_has_enabled b) sc)))"

definition add_common_controls :: "env \<Rightarrow> Capabilities \<Rightarrow> string \<Rightarrow> Shared \<Rightarrow> fault + Shared" where
  "add_common_controls en cap version sc =
     (let sc = Shared_add (new_string (en_now en) ControlId_FirmwareVersion) sc
      in case Shared_set_string (en_order en) (en_show_range en) (en_now en) ControlId_FirmwareVersion version sc of
           (Inl _, _) \<Rightarrow> Inl Panicked
         | (Inr _, sc) \<Rightarrow>
             (let sc = add_when (cp_pulse_width cap) (new_string (en_now en) ControlId_PulseWidth) sc;
                  sc = add_list en ControlId_NearStcCurve [''0'', ''1'', ''2'', ''3'', ''4''] True sc;
                  sc = add_list en ControlId_MiddleStcCurve [''0'', ''1'', ''2'', ''3''] True sc;
                  sc = add_list en ControlId_FarStcCurve [''0'', ''1'', ''2''] True sc;
                  sc = add_list en ControlId_AntiJamming [''Off'', ''On''] True sc
              in Inr (add_when (cp_tune cap)
                   (new_auto (en_now en) ControlId_Tune (Fin 0) (Fin 2000) HAS_AUTO_NOT_ADJUSTABLE) sc)))"

definition add_antenna_controls :: "env \<Rightarrow> Capabilities \<Rightarrow> Shared \<Rightarrow> fault + Shared" where
  "add_antenna_controls en cap sc =
     res_bind (if cp_sector_blanking cap
               then res_bind (add_sector en ControlId_NoTransmitSector1 sc) (add_sector en ControlId_NoTransmitSector2)
               else Inr sc) (\<lambda>sc.
       let sc = add_list en ControlId_ScanSpeed [''Normal'', ''Fast'', ''Auto''] (cp_scan_speed cap) sc;
           sc = add_when (cp_main_bang_suppression cap) (new_numeric (en_now en) ControlId_MainBangSuppression (Fin 0) (Fin 100)) sc
       in if cp_antenna_height cap
          then res_bind (cb_wire_units Meters (new_numeric (en_now en) ControlId_AntennaHeight (Fin 0) (Fin 30)))
                 (\<lambda>b. Inr (Shared_add b sc))
          else Inr sc)"

definition add_processing_controls :: "env \<Rightarrow> Capabilities \<Rightarrow> Shared \<Rightarrow> Shared" where
  "add_processing_controls en cap sc =
     (let sc = add_list en ControlId_InterferenceRejection [''Off'', ''On''] (cp_interference_rejection_levels cap = 2) sc;
          sc = add_list en ControlId_InterferenceRejection [''Off'', ''Low'', ''Medium'', ''High'']
                 (cp_interference_rejection_levels cap = 4) sc;
          sc = add_list en ControlId_NoiseRejection [''Off'', ''On''] (cp_noise_rejection cap) sc;
          sc = add_list en ControlId_TargetSeparation [''Off'', ''Low'', ''Medium'', ''High''] (cp_rez_boost cap) sc
      in add_list en ControlId_BirdMode [''Off'', ''Low'', ''Medium'', ''High''] (cp_bird_mode cap) sc)"

definition add_doppler :: "env \<Rightarrow> Capabilities \<Rightarrow> RadarInfo \<Rightarrow> RadarInfo" where
  "add_doppler en cap ri =
     (if cp_target_analyzer cap
      then set_doppler_levels 16 (set_has_rain_class True
             (ri\<lparr>ri_controls := add_list en ControlId_Doppler
                (if cp_target_analyzer_rain cap then [''Off'', ''Target'', ''Rain''] else [''Off'', ''Target'']) True (ri_controls ri)\<rparr>))
      else ri)"

definition add_remaining :: "env \<Rightarrow> RadarModel \<Rightarrow> Capabilities \<Rightarrow> Shared \<Rightarrow> fault + Shared" where
  "add_remaining en model cap sc =
     res_bind (if cp_watchman cap
               then res_bind (cb_wire_units Seconds (new_numeric (en_now en) ControlId_TimedRun (Fin 10) (Fin 120)))
                      (\<lambda>b. Inr (Shared_add b (add_list en ControlId_TimedIdle [''Off'', ''On''] True sc)))
               else Inr sc) (\<lambda>sc. Inr (add_list en ControlId_EchoFormat [''IMO'', ''Tile''] (is_nxt model) sc))"

definition update_when_model_known :: "env \<Rightarrow> RadarModel \<Rightarrow> string \<Rightarrow> RadarInfo \<Rightarrow> fault + RadarInfo" where
  "update_when_model_known en model version ri =
     (let cap = capabilities model
      in res_bind (name_radar en model ri) (\<lambda>ri.
         res_bind (RadarInfo_set_ranges en (Ranges_new_by_distance (get_ranges_by_model model)) ri) (\<lambda>ri.
         res_bind (on_controls (\<lambda>sc.
           res_bind (add_common_controls en cap version
             (auto_or_numeric en (cp_auto_rain cap) ControlId_Rain (auto_or_numeric en (cp_auto_sea cap) ControlId_Sea
               (auto_or_numeric en (cp_auto_gain cap) ControlId_Gain sc)))) (\<lambda>sc.
           res_bind (add_antenna_controls en cap sc) (\<lambda>sc. Inr (add_processing_controls en cap sc)))) ri) (\<lambda>ri.
         res_bind (on_controls (add_remaining en model cap) (add_doppler en cap ri)) (\<lambda>ri.
         Inr (if cp_dual_range cap then ri\<lparr>ri_dual_range := True\<rparr> else ri))))))"

section \<open>Every range of a model is a range of the wire\<close>

definition on_wire :: "int \<Rightarrow> bool" where
  "on_wire d \<longleftrightarrow>
     wire_index_to_meters_for_unit (meters_to_wire_index_for_unit d (wire_unit_for_meters d)) (wire_unit_for_meters d) = Some d"

lemma tables_on_wire:
  "list_all on_wire RANGE_TABLE_DRS_NXT_EXTENDED" "list_all on_wire RANGE_TABLE_DRS_NXT_EXTENDED_KM"
  by code_simp+

lemmas range_tables = RANGE_TABLE_DRS_NXT_def RANGE_TABLE_DRS_NXT_KM_def RANGE_TABLE_DRS_KM_def RANGE_TABLE_FAR_KM_def
  RANGE_TABLE_DRS4W_def RANGE_TABLE_DRS4W_KM_def RANGE_TABLE_DRS_def RANGE_TABLE_FAR_def

lemma ranges_of_model_on_wire: "list_all on_wire (get_ranges_by_model model)"
  using tables_on_wire
  by (induction model) (simp_all add: get_ranges_by_model_def range_tables
      RANGE_TABLE_DRS_NXT_EXTENDED_def RANGE_TABLE_DRS_NXT_EXTENDED_KM_def)

text \<open>
  Every range a model offers to its clients is one its radar has: the command that selects
  it names a slot of exactly that distance, so the range the radar reports back is the range
  that was chosen.
\<close>

theorem model_ranges_on_wire:
  "list_all (\<lambda>d. wire_index_to_meters_for_unit (meters_to_wire_index_for_unit d (wire_unit_for_meters d)) (wire_unit_for_meters d) = Some d)
     (get_ranges_by_model model)"
  using ranges_of_model_on_wire[of model] by (simp only: on_wire_def[abs_def])

end
