(* ===== verification/Furuno_Command.thy ===== *)
theory Furuno_Command
  imports Furuno_Protocol Shared_Controls Hex
begin

text \<open>
  The sender of commands to a Furuno radar: the text of a command, the start-up queries and the
  translation of a control value into commands. The connection is the text written to it so
  far; it may start failing after any number of writes. Two tables of controls play a part: the
  sender's own and that of the range a value is for.
\<close>

section \<open>The connection\<close>

record connection =
  cn_sent :: "string list"
  cn_good_writes :: "nat option"

record Command =
  fc_write :: "connection option"
  fc_controls :: Shared
  fc_ranges :: Ranges
  fc_dual_range_id :: int
  fc_has_dual_range :: bool

definition Command_new :: "Shared \<Rightarrow> Ranges \<Rightarrow> bool \<Rightarrow> Command" where
  "Command_new controls ranges has_dual_range =
     \<lparr>fc_write = None, fc_controls = controls, fc_ranges = ranges, fc_dual_range_id = 0, fc_has_dual_range = has_dual_range\<rparr>"

definition set_writer :: "connection \<Rightarrow> Command \<Rightarrow> Command" where
  "set_writer w c = c\<lparr>fc_write := Some w\<rparr>"

definition set_ranges :: "Ranges \<Rightarrow> Command \<Rightarrow> Command" where
  "set_ranges rs c = c\<lparr>fc_ranges := rs\<rparr>"

type_synonym 'a sending = "(RadarError, 'a, Command) io"

definition write_message :: "string \<Rightarrow> Command \<Rightarrow> unit sending" where
  "write_message message c =
     (case fc_write c of None \<Rightarrow> (Inl NotConnected, c)
      | Some w \<Rightarrow>
        (case cn_good_writes w of
           Some 0 \<Rightarrow> (Inl Io, c)
         | left \<Rightarrow> (Inr (), c\<lparr>fc_write := Some (w\<lparr>cn_sent := cn_sent w @ [message],
                     cn_good_writes := map_option (\<lambda>n. n - 1) left\<rparr>)\<rparr>)))"

section \<open>The text of a command\<close>

definition command_text :: "CommandMode \<Rightarrow> CommandId \<Rightarrow> int list \<Rightarrow> nat \<Rightarrow> string" where
  "command_text cm cid args commas =
     ''$'' @ [CommandMode_to_char cm] @ hex_str (CommandId_code cid)
     @ concat (map (\<lambda>a. CHR '','' # int_str a) args) @ replicate commas CHR '',''
     @ (if commas = 0 then [CHR 0x0D] else []) @ [CHR 0x0A]"

definition send_with_commas :: "CommandMode \<Rightarrow> CommandId \<Rightarrow> int list \<Rightarrow> nat \<Rightarrow> Command \<Rightarrow> unit sending" where
  "send_with_commas cm cid args commas c = write_message (command_text cm cid args commas) c"

definition send :: "CommandMode \<Rightarrow> CommandId \<Rightarrow> int list \<Rightarrow> Command \<Rightarrow> unit sending" where
  "send cm cid args = send_with_commas cm cid args 0"

primrec send_each :: "(CommandMode \<times> CommandId \<times> int list) list \<Rightarrow> Command \<Rightarrow> unit sending" where
  "send_each [] c = (Inr (), c)"
| "send_each (m # ms) c = (case m of (cm, cid, args) \<Rightarrow> try_bind (send cm cid args c) (\<lambda>_. send_each ms))"

section \<open>Start-up\<close>

definition when_present :: "Command \<Rightarrow> ControlId \<Rightarrow> 'a list \<Rightarrow> 'a list" where
  "when_present c cid ms = (if contains_key cid (fc_controls c) then ms else [])"

definition init_queries :: "Command \<Rightarrow> (CommandMode \<times> CommandId \<times> int list) list" where
  "init_queries c =
     (let q = (\<lambda>cid args. (Mode_Request, cid, args))
      in [q CommandId_Modules [], q CommandId_OnTime [0], q CommandId_TxTime [0], q CommandId_Status [], q CommandId_Range []]
         @ when_present c ControlId_PulseWidth [q CommandId_PulseWidth []]
         @ [q CommandId_Gain [], q CommandId_Sea [], q CommandId_Rain []]
         @ when_present c ControlId_Tune [q CommandId_Tune []]
         @ when_present c ControlId_ScanSpeed [q CommandId_ScanSpeed []]
         @ when_present c ControlId_MainBangSuppression [q CommandId_MainBangSize [0, 0]]
         @ [q CommandId_BlindSector [], q CommandId_JammingAble []]
         @ when_present c ControlId_NearStcCurve [q CommandId_NearSTC [], q CommandId_MiddleSTC [], q CommandId_FarSTC []]
         @ when_present c ControlId_BirdMode
             [q CommandId_SignalProcessing [0, 3], q CommandId_SignalProcessing [0, 0], q CommandId_RezBoost [],
              q CommandId_BirdMode [], q CommandId_TargetAnalyzer []])"

definition Command_init :: "Command \<Rightarrow> unit sending" where
  "Command_init c = send_each (init_queries c) c"

definition send_report_requests :: "Command \<Rightarrow> unit sending" where
  "send_report_requests c = try_bind (send Mode_Request CommandId_AliveCheck [] c) (\<lambda>_. Command_init)"

section \<open>Setting a control\<close>

definition get_timed_idle_enabled :: "Shared \<Rightarrow> int" where
  "get_timed_idle_enabled = int_of_control ControlId_TimedIdle 0"

definition get_timed_idle_transmit :: "Shared \<Rightarrow> int" where
  "get_timed_idle_transmit = int_of_control ControlId_TimedRun 60"

definition get_timed_idle_standby :: "Shared \<Rightarrow> int" where
  "get_timed_idle_standby controls = max (wrap_i32 (600 - get_timed_idle_transmit controls)) 60"

definition get_zone_values :: "ControlId \<Rightarrow> Command \<Rightarrow> int \<times> int \<times> bool" where
  "get_zone_values cid c =
     (case Shared_get cid (fc_controls c) of None \<Rightarrow> (0, 0, False)
      | Some ctl \<Rightarrow>
         ((case ctl_value ctl of Some v \<Rightarrow> as_i32 v | None \<Rightarrow> 0), (case ctl_end_value ctl of Some v \<Rightarrow> as_i32 v | None \<Rightarrow> 0),
          ctl_enabled ctl = Some True))"

definition sector_width :: "int \<Rightarrow> int \<Rightarrow> int" where
  "sector_width start stop = (if start \<le> stop then wrap_i32 (stop - start) else wrap_i32 (360 + stop - start))"

definition fill_blind_sector :: "(int \<times> int \<times> bool) option \<Rightarrow> (int \<times> int \<times> bool) option \<Rightarrow> Command \<Rightarrow> int list" where
  "fill_blind_sector zone1 zone2 c =
     (let (s1_start, s1_end, _) = (case zone1 of Some z \<Rightarrow> z | None \<Rightarrow> get_zone_values ControlId_NoTransmitSector1 c);
          (s2_start, s2_end, s2_enabled) = (case zone2 of Some z \<Rightarrow> z | None \<Rightarrow> get_zone_values ControlId_NoTransmitSector2 c);
          s1_width = sector_width s1_start s1_end; s2_width = sector_width s2_start s2_end
      in [if s2_enabled \<and> 0 < s2_width then 1 else 0, s1_start, s1_width, s2_start, s2_width])"

definition radians_to_spokes :: "f64 \<Rightarrow> int" where
  "radians_to_spokes r =
     as_i32 (f64_rint (f64_mul (f64_div r f64_TAU) (f64_of_int (int SPOKES)))) mod int SPOKES"

definition guard_zone_commands :: "int \<Rightarrow> GuardZone option \<Rightarrow> (CommandMode \<times> CommandId \<times> int list) list" where
  "guard_zone_commands zone_index zone =
     (case zone of
        Some z \<Rightarrow>
          if gz_enabled z
          then [(Mode_Set, CommandId_GuardFan,
                  [zone_index, radians_to_spokes (gz_start_angle z), radians_to_spokes (gz_end_angle z),
                   as_i32 (gz_start_distance z), as_i32 (gz_end_distance z)]),
                (Mode_Set, CommandId_GuardMode, [GUARD_MODE_FAN, 0, zone_index])]
          else [(Mode_Set, CommandId_GuardMode, [GUARD_MODE_OFF, 0, zone_index])]
      | None \<Rightarrow> [(Mode_Set, CommandId_GuardMode, [GUARD_MODE_OFF, 0, zone_index])])"

definition request_value :: "ControlValue \<Rightarrow> Shared \<Rightarrow> RadarError + int" where
  "request_value cv controls =
     (case ControlValue_as_i32 cv of
        Inr v \<Rightarrow> Inr v
      | Inl e \<Rightarrow> if cv_auto cv \<noteq> None \<and> cv_value cv = None then Inr (int_of_control (cv_id cv) 0 controls) else Inl e)"

definition doppler_args :: "int \<Rightarrow> int list" where
  "doppler_args v = (if v = 1 then [1, 0, 0] else if v = 2 then [1, 1, 0] else [0, 0, 0])"

text \<open>
  The command a value is translated to; guard zones are translated by themselves. The controls
  of signal processing and of the STC curves are translated independently of the table.
\<close>

definition feature_command :: "ControlValue \<Rightarrow> int \<Rightarrow> Command \<Rightarrow> RadarError + CommandId \<times> int list" where
  "feature_command cv v c =
     (case cv_id cv of
        ControlId_MainBangSuppression \<Rightarrow> Inr (CommandId_MainBangSize, [div_trunc (wrap_i32 (v * 255)) 100, 0])
      | ControlId_NoiseRejection \<Rightarrow> Inr (CommandId_SignalProcessing, [0, 3, if 0 < v then 1 else 0, 0])
      | ControlId_InterferenceRejection \<Rightarrow> Inr (CommandId_SignalProcessing, [0, 0, if 0 < v then 2 else 0, 0])
      | ControlId_TargetSeparation \<Rightarrow> Inr (CommandId_RezBoost, [v, 0])
      | ControlId_BirdMode \<Rightarrow> Inr (CommandId_BirdMode, [v, 0])
      | ControlId_AntiJamming \<Rightarrow> Inr (CommandId_JammingAble, [v])
      | ControlId_EchoFormat \<Rightarrow> Inr (CommandId_ImoEchoSwitch, [v])
      | ControlId_Doppler \<Rightarrow> Inr (CommandId_TargetAnalyzer, doppler_args v)
      | ControlId_NearStcCurve \<Rightarrow> Inr (CommandId_NearSTC, [v, fc_dual_range_id c])
      | ControlId_MiddleStcCurve \<Rightarrow> Inr (CommandId_MiddleSTC, [v, fc_dual_range_id c])
      | ControlId_FarStcCurve \<Rightarrow> Inr (CommandId_FarSTC, [v, fc_dual_range_id c])
      | ControlId_StcRange \<Rightarrow> Inr (CommandId_STCRange, [v, fc_dual_range_id c])
      | _ \<Rightarrow> Inl (CannotSetControlId (cv_id cv)))"

definition control_command :: "ControlValue \<Rightarrow> Shared \<Rightarrow> int \<Rightarrow> Command \<Rightarrow> RadarError + CommandId \<times> int list" where
  "control_command cv controls v c =
     (let auto = (if cv_auto cv = Some True then 1 else 0);
          drid = fc_dual_range_id c;
          stop = (case ControlValue_end_as_f64 cv of Inr e \<Rightarrow> as_i32 e | Inl _ \<Rightarrow> 0);
          enabled = (cv_enabled cv = Some True)
      in case cv_id cv of
           ControlId_Power \<Rightarrow>
             res_bind (ControlValue_as_value cv) (\<lambda>value.
               Inr (CommandId_Status,
                 [case Power_from_value value of Inr Transmit \<Rightarrow> 2 | _ \<Rightarrow> 1, drid, get_timed_idle_enabled controls,
                  get_timed_idle_transmit controls, get_timed_idle_standby controls, 0]))
         | ControlId_TimedIdle \<Rightarrow>
             (let w_send = get_timed_idle_transmit controls
              in Inr (CommandId_Status,
                   [if int_of_control ControlId_Power (Power_code Standby) controls = Power_code Transmit then 2 else 1,
                    drid, v, w_send, max (wrap_i32 (600 - w_send)) 60, 0]))
         | ControlId_TimedRun \<Rightarrow>
             Inr (CommandId_Status,
               [if int_of_control ControlId_Power (Power_code Standby) controls = Power_code Transmit then 2 else 1,
                drid, get_timed_idle_enabled controls, v, max (wrap_i32 (600 - v)) 60, 0])
         | ControlId_Range \<Rightarrow>
             (let u = wire_unit_for_meters v in Inr (CommandId_Range, [meters_to_wire_index_for_unit v u, u, drid]))
         | ControlId_RangeUnits \<Rightarrow>
             (let u = (if v = 1 then WIRE_UNIT_KM else WIRE_UNIT_NM)
              in Inr (CommandId_Range, [meters_to_wire_index_for_unit (int_of_control ControlId_Range 11112 controls) u, u, drid]))
         | ControlId_Gain \<Rightarrow> Inr (CommandId_Gain, [auto, v, drid, 80, 0])
         | ControlId_Sea \<Rightarrow> Inr (CommandId_Sea, [auto, v, 50, drid, 0, 0])
         | ControlId_Rain \<Rightarrow> Inr (CommandId_Rain, [auto, v, 0, drid, 0, 0])
         | ControlId_NoTransmitSector1 \<Rightarrow> Inr (CommandId_BlindSector, fill_blind_sector (Some (v, stop, enabled)) None c)
         | ControlId_NoTransmitSector2 \<Rightarrow> Inr (CommandId_BlindSector, fill_blind_sector None (Some (v, stop, enabled)) c)
         | ControlId_ScanSpeed \<Rightarrow> Inr (CommandId_ScanSpeed, [v, 0])
         | ControlId_Tune \<Rightarrow> Inr (CommandId_Tune, [auto, v, drid])
         | ControlId_AntennaHeight \<Rightarrow> Inr (CommandId_AntennaHeight, [0, v, 0])
         | _ \<Rightarrow> feature_command cv v c)"

definition set_control :: "ControlValue \<Rightarrow> Shared \<Rightarrow> Command \<Rightarrow> unit sending" where
  "set_control cv controls c =
     (case request_value cv controls of Inl e \<Rightarrow> (Inl e, c)
      | Inr v \<Rightarrow>
        if cv_id cv = ControlId_GuardZone1 \<or> cv_id cv = ControlId_GuardZone2
        then send_each (guard_zone_commands (if cv_id cv = ControlId_GuardZone1 then 0 else 1) (guard_zone (cv_id cv) controls)) c
        else case control_command cv controls v c of Inl e \<Rightarrow> (Inl e, c)
          | Inr (cid, args) \<Rightarrow>
            send_each ([(Mode_Set, cid, args), (Mode_Request, CommandId_CustomPictureAll, [])]
              @ when_present c ControlId_PulseWidth [(Mode_Request, CommandId_PulseWidth, [])]) c)"

end
