(* ===== verification/Furuno_Echo.thy ===== *)
theory Furuno_Echo
  imports Furuno_Protocol Legend
begin

text \<open>
  The echo data of a Furuno radar: the three run-length encodings of a sweep and the Tile
  encoding, the stretching of a sweep to the length clients expect, and the table from wire
  bytes to pixel values of the legend. The power function of the standard library, whose last
  bits differ between platforms, is the parameter \<open>powf\<close>. A slice or index out of bounds is a
  panic.
\<close>

unbundle bit_operations_syntax

section \<open>Sweeps\<close>

definition SPOKE_ALIGNMENT :: nat where "SPOKE_ALIGNMENT = 4"

definition align_sweep :: "nat \<Rightarrow> nat" where
  "align_sweep used = (used + 3) div SPOKE_ALIGNMENT * SPOKE_ALIGNMENT"

definition repeat_count :: "nat \<Rightarrow> nat \<Rightarrow> nat" where
  "repeat_count dflt n = (if n = 0 then dflt else n)"

definition prev_at :: "bytes \<Rightarrow> nat \<Rightarrow> u8" where
  "prev_at prev_spoke i = (if i < length prev_spoke then prev_spoke ! i else 0)"

primrec push_prev :: "nat \<Rightarrow> bytes \<Rightarrow> bytes \<Rightarrow> bytes" where
  "push_prev 0 prev_spoke spoke = spoke"
| "push_prev (Suc n) prev_spoke spoke = push_prev n prev_spoke (spoke @ [prev_at prev_spoke (length spoke)])"

definition decode_sweep_encoding_0 :: "bytes \<Rightarrow> bytes \<times> nat" where
  "decode_sweep_encoding_0 sweep = (sweep, length sweep)"

primrec decode_1_loop :: "nat \<Rightarrow> bytes \<Rightarrow> bytes \<Rightarrow> nat \<Rightarrow> u8 \<Rightarrow> bytes \<times> nat" where
  "decode_1_loop sweep_len [] spoke used strength = (spoke, used)"
| "decode_1_loop sweep_len (b # bs) spoke used strength =
     (if length spoke < sweep_len
      then if b AND 0x01 = 0 then decode_1_loop sweep_len bs (spoke @ [b]) (used + 1) b
           else decode_1_loop sweep_len bs
                  (spoke @ replicate (repeat_count ENCODING_1_REPEAT_DEFAULT (unat (drop_bit 1 b))) strength) (used + 1) strength
      else (spoke, used))"

definition decode_sweep_encoding_1 :: "bytes \<Rightarrow> nat \<Rightarrow> bytes \<times> nat" where
  "decode_sweep_encoding_1 sweep sweep_len =
     (let (spoke, used) = decode_1_loop sweep_len sweep [] 0 0 in (spoke, align_sweep used))"

primrec decode_2_loop :: "nat \<Rightarrow> bytes \<Rightarrow> bytes \<Rightarrow> bytes \<Rightarrow> nat \<Rightarrow> bytes \<times> nat" where
  "decode_2_loop sweep_len prev_spoke [] spoke used = (spoke, used)"
| "decode_2_loop sweep_len prev_spoke (b # bs) spoke used =
     (if length spoke < sweep_len
      then if b AND 0x01 = 0 then decode_2_loop sweep_len prev_spoke bs (spoke @ [b]) (used + 1)
           else decode_2_loop sweep_len prev_spoke bs
                  (push_prev (repeat_count ENCODING_1_REPEAT_DEFAULT (unat (drop_bit 1 b))) prev_spoke spoke) (used + 1)
      else (spoke, used))"

definition decode_sweep_encoding_2 :: "bytes \<Rightarrow> bytes \<Rightarrow> nat \<Rightarrow> bytes \<times> nat" where
  "decode_sweep_encoding_2 sweep prev_spoke sweep_len =
     (let (spoke, used) = decode_2_loop sweep_len prev_spoke sweep [] 0 in (spoke, align_sweep used))"

primrec decode_3_loop :: "nat \<Rightarrow> bytes \<Rightarrow> bytes \<Rightarrow> bytes \<Rightarrow> nat \<Rightarrow> u8 \<Rightarrow> bytes \<times> nat" where
  "decode_3_loop sweep_len prev_spoke [] spoke used strength = (spoke, used)"
| "decode_3_loop sweep_len prev_spoke (b # bs) spoke used strength =
     (if length spoke < sweep_len
      then if b AND 0x03 = 0 then decode_3_loop sweep_len prev_spoke bs (spoke @ [b]) (used + 1) b
           else let n = repeat_count ENCODING_3_REPEAT_DEFAULT (unat (drop_bit 2 b))
                in if b AND 0x01 = 0
                   then let spoke' = push_prev n prev_spoke spoke
                        in decode_3_loop sweep_len prev_spoke bs spoke' (used + 1) (last spoke')
                   else decode_3_loop sweep_len prev_spoke bs (spoke @ replicate n strength) (used + 1) strength
      else (spoke, used))"

definition decode_sweep_encoding_3 :: "bytes \<Rightarrow> bytes \<Rightarrow> nat \<Rightarrow> bytes \<times> nat" where
  "decode_sweep_encoding_3 sweep prev_spoke sweep_len =
     (let (spoke, used) = decode_3_loop sweep_len prev_spoke sweep [] 0 0 in (spoke, align_sweep used))"

definition stretch_spoke :: "bytes \<Rightarrow> nat \<Rightarrow> nat \<Rightarrow> bytes" where
  "stretch_spoke src src_effective dst_len =
     (if src = [] \<or> dst_len = 0 then replicate dst_len 0
      else let effective = max (min src_effective (length src)) 1
           in if dst_len \<le> effective then take dst_len src
              else map (\<lambda>i. src ! (i * effective div dst_len)) [0..<dst_len])"

section \<open>Tiles\<close>

definition tile_literal :: "u8 \<Rightarrow> u8" where
  "tile_literal b = drop_bit 1 (b AND 0x7F) OR push_bit 7 (b AND 1)"

definition angle_of :: "u8 \<Rightarrow> u8 \<Rightarrow> nat" where
  "angle_of lo hi = unat (hi AND SPOKE_ANGLE_HIGH_MASK) * 256 + unat lo"

primrec tile_pixels :: "nat \<Rightarrow> bytes \<Rightarrow> bytes \<Rightarrow> bytes \<times> bytes" where
  "tile_pixels pixel_count [] spoke = (spoke, [])"
| "tile_pixels pixel_count (b # bs) spoke =
     (if length spoke < pixel_count
      then if b AND 0x80 = 0 then tile_pixels pixel_count bs (spoke @ [tile_literal b])
           else tile_pixels pixel_count bs
                  (spoke @ replicate (min (repeat_count TILE_REPEAT_DEFAULT (unat (b AND 0x7F))) (pixel_count - length spoke))
                     (if spoke = [] then 0 else last spoke))
      else (spoke, b # bs))"

definition resize :: "nat \<Rightarrow> bytes \<Rightarrow> bytes" where
  "resize n xs = take n xs @ replicate (n - length xs) 0"

lemma tile_pixels_rest: "length (snd (tile_pixels n bs spoke)) \<le> length bs"
proof (induction bs arbitrary: spoke)
  case (Cons b bs)
  show ?case
    using Cons[of "spoke @ [tile_literal b]"] Cons by (auto intro: le_SucI)
qed simp

lemma tile_pixels_shorter: "(spoke', rest') = tile_pixels n bs spoke \<Longrightarrow> length rest' \<le> length bs"
  using tile_pixels_rest[of n bs spoke] by (simp flip: surjective_pairing add: prod_eq_iff)

text \<open>The spokes of a Tile frame: angle, heading, number of pixels and the pixels.\<close>

function tile_spokes :: "bytes \<Rightarrow> (nat \<times> nat \<times> nat \<times> bytes) list" where
  "tile_spokes bs =
     (case bs of
        a0 # a1 # h0 # h1 # flag # rest \<Rightarrow>
          (let pixel_count = (if flag AND 0x80 \<noteq> 0 then 256 else 64);
               (spoke, rest') = tile_pixels pixel_count rest [tile_literal flag]
           in (angle_of a0 a1, angle_of h0 h1, pixel_count, resize TILE_SCALE spoke) # tile_spokes rest')
      | _ \<Rightarrow> [])"
  by auto

termination
  by (relation "measure length") (auto dest!: tile_pixels_shorter)

section \<open>From wire bytes to pixel values\<close>

datatype DopplerWireMode = Doppler_Off | Doppler_On

definition wire_to_legend_off :: "(f64 \<Rightarrow> f64 \<Rightarrow> f64) \<Rightarrow> Legend \<Rightarrow> bool \<Rightarrow> bytes" where
  "wire_to_legend_off powf legend low_power =
     (let pixel_max = unat (lg_pixel_colors legend) - 1;
          usable = pixel_max - ECHO_FLOOR;
          mapped = (\<lambda>raw. if low_power
            then (ECHO_FLOOR + nat (as_u16 (f64_mul (powf (f64_div (f64_of_int (int raw)) (f64_of_int (int PIXEL_VALUES)))
                   (f64_div (Fin 1) (Fin 18))) (f64_of_int (int usable))))) mod 65536
            else ECHO_FLOOR + raw * usable div PIXEL_VALUES)
      in map (\<lambda>raw. if raw = 0 then 0 else of_nat (min (mapped raw) pixel_max)) [0..<256])"

definition band_pixel :: "(u8 \<times> u8) option \<Rightarrow> nat \<Rightarrow> u8 \<Rightarrow> u8" where
  "band_pixel sec b otherwise =
     (case sec of Some (start, n) \<Rightarrow> if 0 < n then start + of_nat (b div 4) * n div 16 else otherwise | None \<Rightarrow> otherwise)"

definition wire_to_legend_on :: "(f64 \<Rightarrow> f64 \<Rightarrow> f64) \<Rightarrow> Legend \<Rightarrow> bool \<Rightarrow> bytes" where
  "wire_to_legend_on powf legend low_power =
     (let stationary_lut = wire_to_legend_off powf legend low_power
      in map (\<lambda>i. let b = i mod 64; stationary = stationary_lut ! (64 + b)
           in if i = 0 \<or> 60 < b then 0
              else if i div 64 = 0 then band_pixel (lg_doppler_rain legend) b stationary
              else if i div 64 = 1 then stationary
              else if i div 64 = 2 then band_pixel (lg_doppler_approaching legend) b stationary
              else 0) [0..<256])"

definition wire_to_legend :: "(f64 \<Rightarrow> f64 \<Rightarrow> f64) \<Rightarrow> Legend \<Rightarrow> DopplerWireMode \<Rightarrow> bool \<Rightarrow> bytes" where
  "wire_to_legend powf legend mode low_power =
     (case mode of Doppler_Off \<Rightarrow> wire_to_legend_off powf legend low_power
      | Doppler_On \<Rightarrow> wire_to_legend_on powf legend low_power)"

declare tile_spokes.simps [simp del]

section \<open>The encodings as runs\<close>

text \<open>
  A reference for the three encodings: a sweep is a sequence of runs, each of one value, of the
  value before it, or of the previous sweep's values at the same places.
\<close>

datatype run = Value u8 | Again nat | Previous nat

definition run_1 :: "u8 \<Rightarrow> run" where
  "run_1 b = (if even (unat b) then Value b else Again (repeat_count 128 (unat b div 2)))"

definition run_2 :: "u8 \<Rightarrow> run" where
  "run_2 b = (if even (unat b) then Value b else Previous (repeat_count 128 (unat b div 2)))"

definition run_3 :: "u8 \<Rightarrow> run" where
  "run_3 b =
     (if unat b mod 4 = 0 then Value b
      else if unat b mod 4 = 2 then Previous (repeat_count 64 (unat b div 4)) else Again (repeat_count 64 (unat b div 4)))"

definition last_value :: "bytes \<Rightarrow> u8" where
  "last_value spoke = (if spoke = [] then 0 else last spoke)"

fun put_run :: "bytes \<Rightarrow> bytes \<Rightarrow> run \<Rightarrow> bytes" where
  "put_run prev_spoke spoke (Value v) = spoke @ [v]"
| "put_run prev_spoke spoke (Again n) = spoke @ replicate n (last_value spoke)"
| "put_run prev_spoke spoke (Previous n) = spoke @ map (prev_at prev_spoke) [length spoke..<length spoke + n]"

definition put_runs :: "bytes \<Rightarrow> run list \<Rightarrow> bytes" where
  "put_runs prev_spoke = foldl (put_run prev_spoke) []"

text \<open>The bytes of a sweep: as many as are needed for \<open>sweep_len\<close> samples, or all there are.\<close>

definition runs_needed :: "nat \<Rightarrow> bytes \<Rightarrow> run list \<Rightarrow> nat" where
  "runs_needed sweep_len prev_spoke runs =
     length (takeWhile (\<lambda>k. length (put_runs prev_spoke (take k runs)) < sweep_len) [0..<length runs])"

primrec run_loop :: "nat \<Rightarrow> bytes \<Rightarrow> run list \<Rightarrow> bytes \<Rightarrow> nat \<Rightarrow> bytes \<times> nat" where
  "run_loop n prev_spoke [] spoke used = (spoke, used)"
| "run_loop n prev_spoke (r # rs) spoke used =
     (if length spoke < n then run_loop n prev_spoke rs (put_run prev_spoke spoke r) (used + 1) else (spoke, used))"

lemma unat_and_1: "(b AND 1 = 0) = even (unat b)" for b :: u8
proof -
  have "unat (b AND 1) = unat b mod 2" by (simp add: and_one_eq unat_mod)
  then show ?thesis by (metis even_iff_mod_2_eq_zero unat_eq_zero)
qed

lemma unat_and_3: "(b AND 3 = 0) = (unat b mod 4 = 0)" for b :: u8
proof -
  have "unat (b AND 3) = unat b AND mask 2" by (simp add: unsigned_and_eq mask_eq_exp_minus_1)
  also have "\<dots> = unat b mod 4" by (simp add: take_bit_eq_mod flip: take_bit_eq_mask)
  finally show ?thesis by (metis unat_eq_zero)
qed

lemma unat_drop: "unat (drop_bit (Suc 0) b) = unat b div 2" "unat (drop_bit 2 b) = unat b div 4" for b :: u8
  by (simp_all add: drop_bit_eq_div unat_div)

lemma push_prev_eq: "push_prev n prev_spoke spoke = spoke @ map (prev_at prev_spoke) [length spoke..<length spoke + n]"
proof (induction n arbitrary: spoke)
  case (Suc n)
  have "[length spoke..<length spoke + Suc n] = length spoke # [Suc (length spoke)..<length spoke + Suc n]"
    by (simp add: upt_rec)
  with Suc show ?case by simp
qed simp

lemma push_prev_last:
  assumes "0 < n" shows "last (push_prev n prev_spoke spoke) = last_value (push_prev n prev_spoke spoke)"
  using assms by (simp add: last_value_def push_prev_eq)

lemma last_value_again: "last_value (spoke @ replicate n (last_value spoke)) = last_value spoke"
  by (auto simp: last_value_def)

lemma last_value_snoc [simp]: "last_value (spoke @ [b]) = b"
  by (simp add: last_value_def)

lemma repeat_count_pos: "0 < d \<Longrightarrow> 0 < repeat_count d n"
  by (simp add: repeat_count_def)

lemma decode_1_runs:
  "decode_1_loop n sweep spoke used (last_value spoke) = run_loop n prev_spoke (map run_1 sweep) spoke used"
proof (induction sweep arbitrary: spoke used)
  case (Cons b bs)
  show ?case
    using Cons[of "spoke @ [b]"] Cons[of "spoke @ replicate _ (last_value spoke)"]
    by (simp add: run_1_def unat_and_1 unat_drop ENCODING_1_REPEAT_DEFAULT_def last_value_again)
qed simp

lemma decode_2_runs: "decode_2_loop n prev_spoke sweep spoke used = run_loop n prev_spoke (map run_2 sweep) spoke used"
  by (induction sweep arbitrary: spoke used)
    (simp_all add: run_2_def unat_and_1 unat_drop ENCODING_1_REPEAT_DEFAULT_def push_prev_eq)

lemma even_mod_4: "even k \<longleftrightarrow> k mod 4 = 0 \<or> k mod 4 = 2" for k :: nat
  by presburger

lemma decode_3_runs:
  "decode_3_loop n prev_spoke sweep spoke used (last_value spoke) = run_loop n prev_spoke (map run_3 sweep) spoke used"
proof (induction sweep arbitrary: spoke used)
  case (Cons b bs)
  let ?n = "repeat_count 64 (unat b div 4)"
  have l: "last (push_prev ?n prev_spoke spoke) = last_value (push_prev ?n prev_spoke spoke)"
    by (rule push_prev_last) (simp add: repeat_count_pos)
  show ?case
    using Cons[of "spoke @ [b]"] Cons[of "spoke @ replicate ?n (last_value spoke)"] Cons[of "push_prev ?n prev_spoke spoke"]
    by (simp add: run_3_def unat_and_1 unat_and_3 unat_drop ENCODING_3_REPEAT_DEFAULT_def last_value_again l Let_def
        even_mod_4 push_prev_eq[symmetric])
qed simp

lemma takeWhile_Suc:
  assumes "P 0" shows "length (takeWhile P [0..<Suc n]) = Suc (length (takeWhile (\<lambda>k. P (Suc k)) [0..<n]))"
proof -
  have "[0..<Suc n] = 0 # map Suc [0..<n]" by (simp add: upt_conv_Cons map_Suc_upt)
  then show ?thesis using assms by (simp add: takeWhile_map comp_def)
qed

lemma run_loop_eq:
  "run_loop n prev_spoke rs spoke used =
     (let k = length (takeWhile (\<lambda>k. length (foldl (put_run prev_spoke) spoke (take k rs)) < n) [0..<length rs])
      in (foldl (put_run prev_spoke) spoke (take k rs), used + k))"
proof (induction rs arbitrary: spoke used)
  case (Cons r rs)
  show ?case
  proof (cases "length spoke < n")
    case True
    then show ?thesis
      using Cons takeWhile_Suc[of "\<lambda>k. length (foldl (put_run prev_spoke) spoke (take k (r # rs))) < n" "length rs"]
      by (simp add: Let_def del: upt_Suc)
  next
    case False
    then have "takeWhile (\<lambda>k. length (foldl (put_run prev_spoke) spoke (take k (r # rs))) < n) [0..<Suc (length rs)] = []"
      by (simp add: upt_conv_Cons del: upt_Suc)
    with False show ?thesis by (simp add: Let_def del: upt_Suc)
  qed
qed simp

lemma run_loop_start:
  "run_loop n prev_spoke rs [] 0 = (put_runs prev_spoke (take (runs_needed n prev_spoke rs) rs), runs_needed n prev_spoke rs)"
  by (simp add: run_loop_eq runs_needed_def put_runs_def Let_def)

text \<open>
  C4. The three run-length decoders compute what the runs mean: each decodes its bytes one by
  one, and the result is the expansion of as many runs as are needed for a full sweep (or all
  runs), with the number of bytes these runs took, rounded up to whole words.
\<close>

theorem decoders_expand_runs:
  "decode_sweep_encoding_1 sweep sweep_len =
     (let rs = map run_1 sweep; k = runs_needed sweep_len prev_spoke rs in (put_runs prev_spoke (take k rs), align_sweep k))
   \<and> decode_sweep_encoding_2 sweep prev_spoke sweep_len =
     (let rs = map run_2 sweep; k = runs_needed sweep_len prev_spoke rs in (put_runs prev_spoke (take k rs), align_sweep k))
   \<and> decode_sweep_encoding_3 sweep prev_spoke sweep_len =
     (let rs = map run_3 sweep; k = runs_needed sweep_len prev_spoke rs in (put_runs prev_spoke (take k rs), align_sweep k))"
  using decode_1_runs[of sweep_len sweep "[]" 0 prev_spoke] decode_2_runs[of sweep_len prev_spoke sweep "[]" 0]
    decode_3_runs[of sweep_len prev_spoke sweep "[]" 0]
  by (simp_all add: decode_sweep_encoding_1_def decode_sweep_encoding_2_def decode_sweep_encoding_3_def
      run_loop_start last_value_def Let_def)

section \<open>Pixels keep the class of their echo\<close>

lemma section_entry:
  assumes "section_ok t ps (Some (s, n))" "unat s \<le> i" "i < unat s + unat n"
  shows "i < length ps \<and> lk_type (ps ! i) = t"
proof -
  have len: "i < length ps" and ty: "\<forall>p \<in> set (take (unat n) (drop (unat s) ps)). lk_type p = t"
    using assms by (auto simp: section_ok_def)
  have "ps ! i = take (unat n) (drop (unat s) ps) ! (i - unat s)" using assms len by simp
  moreover have "i - unat s < length (take (unat n) (drop (unat s) ps))" using assms(2,3) len by simp linarith
  ultimately have "ps ! i \<in> set (take (unat n) (drop (unat s) ps))" by (metis nth_mem)
  then show ?thesis using len ty by blast
qed

definition has_class :: "Legend \<Rightarrow> PixelType \<Rightarrow> u8 \<Rightarrow> bool" where
  "has_class l t v \<longleftrightarrow> unat v < length (lg_pixels l) \<and> lk_type (lg_pixels l ! unat v) = t"

lemma normal_class: "legend_ok targets l \<Longrightarrow> unat v < unat (lg_pixel_colors l) \<Longrightarrow> has_class l Normal v"
  using section_entry[of Normal "lg_pixels l" 0 "lg_pixel_colors l" "unat v"] by (simp add: legend_ok_def has_class_def)

lemma zero_class: "legend_ok targets l \<Longrightarrow> has_class l Normal 0"
  by (rule normal_class) (auto simp: legend_ok_def section_ok_def word_gt_0 unat_gt_0)

lemma off_class:
  assumes "legend_ok targets l" "raw < 256"
  shows "has_class l Normal (wire_to_legend_off powf l low_power ! raw)"
proof -
  have n: "0 < unat (lg_pixel_colors l)" using assms(1) by (simp add: legend_ok_def section_ok_def word_gt_0 unat_gt_0)
  have "unat (of_nat (min m (unat (lg_pixel_colors l) - 1)) :: u8) < unat (lg_pixel_colors l)" for m
  proof -
    have "min m (unat (lg_pixel_colors l) - 1) < 256" using unat_byte_less[of "lg_pixel_colors l"] by linarith
    then show ?thesis using n by (simp add: unat_of_nat)
  qed
  then show ?thesis
    using assms zero_class normal_class by (auto simp: wire_to_legend_off_def Let_def)
qed

lemma band_class:
  assumes "section_ok t (lg_pixels l) (Some (s, n))" "length (lg_pixels l) \<le> 255" "unat n \<le> 17" "b \<le> 60"
  shows "has_class l t (band_pixel (Some (s, n)) b v)"
proof -
  have n: "0 < n" "unat s + unat n \<le> 255" using assms(1,2) by (auto simp: section_ok_def)
  let ?q = "b div 4 * unat n div 16"
  have "b div 4 * unat n \<le> 15 * 17" by (rule mult_le_mono) (use assms(3,4) in auto)
  then have m: "unat (of_nat (b div 4) * n) = b div 4 * unat n"
    using assms(4) by (simp add: unat_word_ariths unat_of_nat)
  have "b div 4 * unat n < 16 * unat n" using assms(4) n by (simp add: word_gt_0 unat_gt_0)
  then have q: "?q < unat n" by (simp add: less_mult_imp_div_less mult.commute)
  have "unat (s + of_nat (b div 4) * n div 16) = unat s + ?q"
    using m q n(2) by (simp add: unat_word_ariths unat_div)
  then show ?thesis
    using section_entry[OF assms(1), of "unat s + ?q"] q n by (simp add: band_pixel_def has_class_def)
qed

definition wire_class :: "Legend \<Rightarrow> DopplerWireMode \<Rightarrow> nat \<Rightarrow> PixelType" where
  "wire_class l mode raw =
     (if mode = Doppler_Off \<or> raw = 0 \<or> 60 < raw mod 64 then Normal
      else if raw div 64 = 0 \<and> lg_doppler_rain l \<noteq> None then DopplerRain
      else if raw div 64 = 2 \<and> lg_doppler_approaching l \<noteq> None then DopplerApproaching else Normal)"

lemma optional_band_class:
  assumes "section_ok t (lg_pixels l) sec" "length (lg_pixels l) \<le> 255" "\<And>s n. sec = Some (s, n) \<Longrightarrow> unat n \<le> 17"
    "b \<le> 60" "has_class l Normal v"
  shows "has_class l (if sec = None then Normal else t) (band_pixel sec b v)"
proof (cases sec)
  case None
  then show ?thesis using assms(5) by (simp add: band_pixel_def)
next
  case (Some p)
  then show ?thesis using assms band_class[of t l "fst p" "snd p" b v] by (cases p) auto
qed

lemma on_class:
  assumes l: "legend_ok targets l" and raw: "raw < 256"
    and r: "\<And>s n. lg_doppler_rain l = Some (s, n) \<Longrightarrow> unat n \<le> 17"
    and a: "\<And>s n. lg_doppler_approaching l = Some (s, n) \<Longrightarrow> unat n \<le> 17"
  shows "has_class l (wire_class l Doppler_On raw) (wire_to_legend_on powf l low_power ! raw)"
proof (cases "raw = 0 \<or> 60 < raw mod 64")
  case True
  then show ?thesis using raw zero_class[OF l] by (auto simp: wire_to_legend_on_def wire_class_def Let_def)
next
  case False
  then have b: "raw mod 64 \<le> 60" by simp
  have s: "has_class l Normal (wire_to_legend_off powf l low_power ! (64 + raw mod 64))"
    by (rule off_class[OF l]) simp
  have ok: "section_ok DopplerRain (lg_pixels l) (lg_doppler_rain l)" "length (lg_pixels l) \<le> 255"
    "section_ok DopplerApproaching (lg_pixels l) (lg_doppler_approaching l)" using l by (auto simp: legend_ok_def)
  have rain: "has_class l (if lg_doppler_rain l = None then Normal else DopplerRain)
      (band_pixel (lg_doppler_rain l) (raw mod 64) (wire_to_legend_off powf l low_power ! (64 + raw mod 64)))"
    by (rule optional_band_class[OF ok(1,2) _ b s]) (rule r)
  have appr: "has_class l (if lg_doppler_approaching l = None then Normal else DopplerApproaching)
      (band_pixel (lg_doppler_approaching l) (raw mod 64) (wire_to_legend_off powf l low_power ! (64 + raw mod 64)))"
    by (rule optional_band_class[OF ok(3,2) _ b s]) (rule a)
  have at: "wire_to_legend_on powf l low_power ! raw =
      (let stationary = wire_to_legend_off powf l low_power ! (64 + raw mod 64)
       in if raw div 64 = 0 then band_pixel (lg_doppler_rain l) (raw mod 64) stationary
          else if raw div 64 = 1 then stationary
          else if raw div 64 = 2 then band_pixel (lg_doppler_approaching l) (raw mod 64) stationary else 0)"
    using False raw by (simp add: wire_to_legend_on_def Let_def)
  show ?thesis
  proof (cases "raw div 64 = 0 \<or> raw div 64 = 2")
    case True
    then show ?thesis using False rain appr by (auto simp only: at wire_class_def Let_def split: if_split_asm)
  next
    case False
    then show ?thesis using s zero_class[OF l] by (simp add: at wire_class_def Let_def)
  qed
qed

lemma default_sections:
  "lg_doppler_approaching (default_legend t d rain pv) = Some (s, n) \<Longrightarrow> n = d"
  "lg_doppler_rain (default_legend t d rain pv) = Some (s, n) \<Longrightarrow> n = d"
  by (auto simp: default_legend_def Let_def section_at_def split: if_splits)

lemma wire_to_legend_class:
  assumes "unat d \<le> 17" "0 < pv" "raw < 256"
  shows "has_class (default_legend t d rain pv) (wire_class (default_legend t d rain pv) mode raw)
     (wire_to_legend powf (default_legend t d rain pv) mode low_power ! raw)"
proof -
  let ?l = "default_legend t d rain pv"
  have l: "legend_ok t ?l" by (rule default_legend_ok) (use assms in auto)
  show ?thesis
  proof (cases mode)
    case Doppler_Off
    then show ?thesis using off_class[OF l assms(3)] by (simp add: wire_to_legend_def wire_class_def)
  next
    case Doppler_On
    have "has_class ?l (wire_class ?l Doppler_On raw) (wire_to_legend_on powf ?l low_power ! raw)"
      by (rule on_class[OF l assms(3)]) (use default_sections[of t d rain pv] assms(1) in blast)+
    then show ?thesis using Doppler_On by (simp add: wire_to_legend_def)
  qed
qed

lemma length_stretch_spoke: "length (stretch_spoke src n dst_len) = dst_len"
proof (cases "src = []")
  case False
  then have "1 \<le> length src" by (cases src) auto
  then have "max (min n (length src)) 1 \<le> length src" by simp
  then show ?thesis by (auto simp: stretch_spoke_def Let_def)
qed (simp add: stretch_spoke_def)

lemma length_wire_to_legend [simp]: "length (wire_to_legend powf l mode low_power) = 256"
  by (cases mode) (simp_all add: wire_to_legend_def wire_to_legend_off_def wire_to_legend_on_def Let_def)

end
