(* ===== verification/Furuno_Report.thy ===== *)
theory Furuno_Report
  imports Furuno_Settings Furuno_Command Furuno_Echo
begin

text \<open>
  The receiver of a Furuno radar: the reports it reads from the command connection and the echo
  frames it reads from the network, for one range or two. A report that is refused changes
  nothing; a panic ends the receiver. The spokes of a frame are handed over as one message and
  the radars whose description changed are listed in the order they were published.
\<close>

section \<open>The receiver\<close>

record Receiver =
  fr_a :: RadarInfo
  fr_b :: "RadarInfo option"
  fr_command :: "Command option"
  fr_model_known :: bool
  fr_model :: RadarModel
  fr_prev_spoke :: "bytes \<times> bytes"
  fr_prev_angle :: "nat \<times> nat"
  fr_guard_zone_alarm :: "bool \<times> bool"
  fr_alarm_active :: bool
  fr_wire_to_legend :: "bytes \<times> bytes"
  fr_published :: "RadarInfo list"

record furuno_env =
  fe_env :: env
  fe_powf :: "f64 \<Rightarrow> f64 \<Rightarrow> f64"
  fe_heading :: "f64 option"

datatype report_fault = Rejected | Report_Panicked

type_synonym reporting = "report_fault + Receiver"

definition pick :: "bool \<Rightarrow> 'a \<times> 'a \<Rightarrow> 'a" where
  "pick second p = (if second then snd p else fst p)"

definition put :: "bool \<Rightarrow> 'a \<Rightarrow> 'a \<times> 'a \<Rightarrow> 'a \<times> 'a" where
  "put second x p = (if second then (fst p, x) else (x, snd p))"

definition Receiver_new :: "furuno_env \<Rightarrow> bool \<Rightarrow> RadarInfo \<Rightarrow> Receiver" where
  "Receiver_new fe replay ri =
     (let model = (case model_name (ri_controls ri) of Some name \<Rightarrow> from_model_name name | None \<Rightarrow> Unknown);
          lut = wire_to_legend (fe_powf fe) (ri_legend ri) Doppler_Off (is_low_power model)
      in \<lparr>fr_a = ri, fr_b = None,
          fr_command = (if replay then None else Some (Command_new (ri_controls ri) (ri_ranges ri) False)),
          fr_model_known = (replay \<and> model \<noteq> Unknown), fr_model = model, fr_prev_spoke = ([], []), fr_prev_angle = (0, 0),
          fr_guard_zone_alarm = (False, False), fr_alarm_active = False, fr_wire_to_legend = (lut, lut), fr_published = []\<rparr>)"

definition set_range_b :: "RadarInfo \<Rightarrow> Receiver \<Rightarrow> Receiver" where
  "set_range_b info_b r =
     r\<lparr>fr_b := Some info_b, fr_command := map_option (\<lambda>c. c\<lparr>fc_has_dual_range := True\<rparr>) (fr_command r)\<rparr>"

definition range_info :: "bool \<Rightarrow> Receiver \<Rightarrow> RadarInfo" where
  "range_info b r = (if b then (case fr_b r of Some ri \<Rightarrow> ri | None \<Rightarrow> fr_a r) else fr_a r)"

definition panics :: "fault + 'a \<Rightarrow> report_fault + 'a" where
  "panics m = (case m of Inr x \<Rightarrow> Inr x | Inl _ \<Rightarrow> Inl Report_Panicked)"

text \<open>The range a report is about; range A when there is no range B.\<close>

definition common_for_range :: "int \<Rightarrow> (RadarInfo \<Rightarrow> fault + RadarInfo) \<Rightarrow> Receiver \<Rightarrow> reporting" where
  "common_for_range drid f r =
     (case fr_b r of
        Some b \<Rightarrow> if drid = 1 then res_bind (panics (f b)) (\<lambda>b. Inr (r\<lparr>fr_b := Some b\<rparr>))
                  else res_bind (panics (f (fr_a r))) (\<lambda>a. Inr (r\<lparr>fr_a := a\<rparr>))
      | None \<Rightarrow> res_bind (panics (f (fr_a r))) (\<lambda>a. Inr (r\<lparr>fr_a := a\<rparr>)))"

definition number_at :: "nat \<Rightarrow> f64 list \<Rightarrow> f64" where
  "number_at i numbers = (if i < length numbers then numbers ! i else Fin 0)"

definition extract_drid :: "CommandId \<Rightarrow> f64 list \<Rightarrow> Receiver \<Rightarrow> int" where
  "extract_drid cid numbers r =
     (if fr_b r = None then 0
      else as_u8
        (case cid of
           CommandId_Status \<Rightarrow> number_at 1 numbers
         | CommandId_Gain \<Rightarrow> number_at 2 numbers
         | CommandId_Range \<Rightarrow> number_at 2 numbers
         | CommandId_Tune \<Rightarrow> number_at 2 numbers
         | CommandId_TargetAnalyzer \<Rightarrow> number_at 2 numbers
         | CommandId_Sea \<Rightarrow> number_at 3 numbers
         | CommandId_Rain \<Rightarrow> number_at 3 numbers
         | _ \<Rightarrow> if numbers = [] then Fin 0 else last numbers))"

definition doppler_wire_mode_for :: "bool \<Rightarrow> Receiver \<Rightarrow> DopplerWireMode" where
  "doppler_wire_mode_for b r =
     (let v = (case Shared_get ControlId_Doppler (ri_controls (range_info b r)) of
                 Some c \<Rightarrow> (case ctl_value c of Some v \<Rightarrow> v | None \<Rightarrow> Fin 0) | None \<Rightarrow> Fin 0)
      in if f64_eq v (Fin 0) then Doppler_Off else Doppler_On)"

section \<open>The text of a report\<close>

fun split_on :: "char \<Rightarrow> string \<Rightarrow> string list" where
  "split_on c [] = [[]]"
| "split_on c (x # xs) = (if x = c then [] # split_on c xs else (x # hd (split_on c xs)) # tl (split_on c xs))"

fun trim_crlf_rev :: "string \<Rightarrow> string" where
  "trim_crlf_rev (a # b # s) = (if a = CHR 0x0A \<and> b = CHR 0x0D then trim_crlf_rev s else a # b # s)"
| "trim_crlf_rev s = s"

definition trim_crlf :: "string \<Rightarrow> string" where
  "trim_crlf s = rev (trim_crlf_rev (rev s))"

text \<open>White space in UTF-8, as far as the standard library removes it at the ends of a text.\<close>

definition white_space :: "string list" where
  "white_space =
     map (\<lambda>n. [char_of n]) [9, 10, 11, 12, 13, 32 :: nat]
     @ map (map char_of) [[0xC2, 0x85 :: nat], [0xC2, 0xA0], [0xE1, 0x9A, 0x80], [0xE2, 0x80, 0xA8], [0xE2, 0x80, 0xA9],
         [0xE2, 0x80, 0xAF], [0xE2, 0x81, 0x9F], [0xE3, 0x80, 0x80]]
     @ map (\<lambda>n. map char_of [0xE2, 0x80, n]) [0x80..<0x8B :: nat]"

fun strip_prefixes :: "nat \<Rightarrow> string list \<Rightarrow> string \<Rightarrow> string" where
  "strip_prefixes 0 ws s = s"
| "strip_prefixes (Suc n) ws s =
     (case find (\<lambda>w. take (length w) s = w) ws of Some w \<Rightarrow> strip_prefixes n ws (drop (length w) s) | None \<Rightarrow> s)"

definition trim :: "string \<Rightarrow> string" where
  "trim s =
     (let front = strip_prefixes (length s) white_space s
      in rev (strip_prefixes (length front) (map rev white_space) (rev front)))"

definition report_number :: "string \<Rightarrow> f64" where
  "report_number s = (case parse_f64 (trim s) of Some v \<Rightarrow> v | None \<Rightarrow> Fin 0)"

text \<open>A line without a dollar sign and a command that is not known are ignored.\<close>

definition parse_report :: "string \<Rightarrow> report_fault + (CommandId \<times> string list) option" where
  "parse_report text =
     (let line = dropWhile (\<lambda>c. c \<noteq> CHR ''$'') text
      in if line = [] then Inr None
         else if length line < 2 then Inl Rejected
         else if \<not> is_char_boundary 2 line then Inl Report_Panicked
         else if take 2 line \<noteq> ''$N'' then Inl Rejected
         else let parts = split_on CHR '','' (trim_crlf (drop 2 line))
              in case u8_from_hex (hd parts) of None \<Rightarrow> Inl Rejected
                 | Some cmd \<Rightarrow>
                     (case CommandId_from_u8 cmd of None \<Rightarrow> Inr None | Some cid \<Rightarrow> Inr (Some (cid, tl parts))))"

section \<open>What a report changes\<close>

definition needs :: "nat \<Rightarrow> f64 list \<Rightarrow> reporting \<Rightarrow> reporting" where
  "needs n numbers m = (if length numbers < n then Inl Rejected else m)"

definition split_once :: "char \<Rightarrow> string \<Rightarrow> (string \<times> string) option" where
  "split_once c s =
     (let front = takeWhile (\<lambda>x. x \<noteq> c) s in if front = s then None else Some (front, drop (length front + 1) s))"

definition model_lut :: "furuno_env \<Rightarrow> bool \<Rightarrow> RadarModel \<Rightarrow> Receiver \<Rightarrow> bytes" where
  "model_lut fe b model r =
     wire_to_legend (fe_powf fe) (ri_legend (range_info b r)) (doppler_wire_mode_for b r) (is_low_power model)"

definition parse_modules :: "furuno_env \<Rightarrow> string list \<Rightarrow> Receiver \<Rightarrow> reporting" where
  "parse_modules fe values r =
     (if fr_model_known r then Inr r
      else case values of [] \<Rightarrow> Inl Report_Panicked
       | v # _ \<Rightarrow>
         (let r = r\<lparr>fr_model_known := True\<rparr>
          in case split_once CHR ''-'' v of None \<Rightarrow> Inr r
           | Some (part, version) \<Rightarrow>
             (let model = from_part_number part;
                  r = r\<lparr>fr_model := model\<rparr>;
                  r = r\<lparr>fr_wire_to_legend := put False (model_lut fe False model r) (fr_wire_to_legend r)\<rparr>;
                  r = (if fr_b r = None then r
                       else r\<lparr>fr_wire_to_legend := put True (model_lut fe True model r) (fr_wire_to_legend r)\<rparr>)
              in res_bind (panics (update_when_model_known (fe_env fe) model version (fr_a r))) (\<lambda>a.
                   let r = r\<lparr>fr_a := a, fr_command := map_option (set_ranges (ri_ranges a)) (fr_command r),
                             fr_published := fr_published r @ [a]\<rparr>
                   in case fr_b r of None \<Rightarrow> Inr r
                      | Some b \<Rightarrow> res_bind (panics (update_when_model_known (fe_env fe) model version b)) (\<lambda>b.
                          Inr (r\<lparr>fr_b := Some b, fr_published := fr_published r @ [b]\<rparr>))))))"

definition power_of_report :: "f64 \<Rightarrow> Power" where
  "power_of_report v =
     (if f64_eq v (Fin 0) then Preparing else if f64_eq v (Fin 1) then Standby else if f64_eq v (Fin 2) then Transmit else Off)"

definition report_status :: "furuno_env \<Rightarrow> f64 list \<Rightarrow> Receiver \<Rightarrow> reporting" where
  "report_status fe numbers r =
     needs 1 numbers
       (let en = fe_env fe;
            power_value = f64_of_int (Power_code (power_of_report (numbers ! 0)));
            drid = extract_drid CommandId_Status numbers r
        in res_bind (common_for_range drid (\<lambda>ri.
             res_bind (common_set_value en ControlId_Power power_value ri) (\<lambda>ri.
               if 5 \<le> length numbers
               then res_bind (common_set_value en ControlId_TimedIdle (f64_of_int (as_i32 (numbers ! 2))) ri)
                      (common_set_value en ControlId_TimedRun (numbers ! 3))
               else Inr ri)) r) (\<lambda>r.
           if fr_b r = None then Inr r
           else common_for_range (if drid = 1 then 0 else 1) (common_set_value en ControlId_Power power_value) r))"

definition report_auto :: "furuno_env \<Rightarrow> CommandId \<Rightarrow> ControlId \<Rightarrow> f64 list \<Rightarrow> Receiver \<Rightarrow> reporting" where
  "report_auto fe cid control numbers r =
     common_for_range (extract_drid cid numbers r)
       (common_set_value_auto (fe_env fe) control (numbers ! 1) (as_u8 (numbers ! 0))) r"

definition report_shared :: "furuno_env \<Rightarrow> ControlId \<Rightarrow> f64 \<Rightarrow> Receiver \<Rightarrow> reporting" where
  "report_shared fe control v r = common_for_range 0 (common_set_value (fe_env fe) control v) r"

definition sector_end :: "f64 \<Rightarrow> f64 \<Rightarrow> f64" where
  "sector_end start width = f64_rem (f64_add start width) (Fin 360)"

definition report_blind_sector :: "furuno_env \<Rightarrow> f64 list \<Rightarrow> Receiver \<Rightarrow> reporting" where
  "report_blind_sector fe numbers r =
     needs 5 numbers
       (common_for_range 0 (\<lambda>ri.
          res_bind (common_set_sector (fe_env fe) ControlId_NoTransmitSector1 (numbers ! 1)
            (sector_end (numbers ! 1) (numbers ! 2)) (Some (\<not> f64_eq (numbers ! 2) (Fin 0))) ri)
          (common_set_sector (fe_env fe) ControlId_NoTransmitSector2 (numbers ! 3)
            (sector_end (numbers ! 3) (numbers ! 4)) (Some (\<not> f64_eq (numbers ! 0) (Fin 0))))) r)"

definition report_range :: "furuno_env \<Rightarrow> f64 list \<Rightarrow> Receiver \<Rightarrow> reporting" where
  "report_range fe numbers r =
     needs 3 numbers
       (let wire_unit = as_i32 (numbers ! 1)
        in case wire_index_to_meters_for_unit (as_i32 (numbers ! 0)) wire_unit of None \<Rightarrow> Inl Rejected
           | Some range_meters \<Rightarrow>
             common_for_range (extract_drid CommandId_Range numbers r) (\<lambda>ri.
               res_bind (common_set_value (fe_env fe) ControlId_Range (f64_of_int range_meters) ri)
                 (common_set_value (fe_env fe) ControlId_RangeUnits (if wire_unit = WIRE_UNIT_KM then Fin 1 else Fin 0))) r)"

definition report_signal_processing :: "furuno_env \<Rightarrow> f64 list \<Rightarrow> Receiver \<Rightarrow> reporting" where
  "report_signal_processing fe numbers r =
     needs 2 numbers
       (let (feature, v) = (if 4 \<le> length numbers \<and> f64_eq (numbers ! 0) (Fin 0)
              then (as_i32 (numbers ! 1), as_i32 (numbers ! 2)) else (as_i32 (numbers ! 0), as_i32 (numbers ! 1)))
        in if feature = 0 then report_shared fe ControlId_InterferenceRejection (if v = 2 then Fin 1 else Fin 0) r
           else if feature = 3 then report_shared fe ControlId_NoiseRejection (if v = 1 then Fin 1 else Fin 0) r
           else Inr r)"

definition report_target_analyzer :: "furuno_env \<Rightarrow> f64 list \<Rightarrow> Receiver \<Rightarrow> reporting" where
  "report_target_analyzer fe numbers r =
     needs 2 numbers
       (let v = (if as_i32 (numbers ! 0) = 0 then Fin 0 else if as_i32 (numbers ! 1) = 0 then Fin 1 else Fin 2);
            drid = extract_drid CommandId_TargetAnalyzer numbers r;
            b = (drid = 1 \<and> fr_b r \<noteq> None)
        in res_bind (common_for_range drid (common_set_value (fe_env fe) ControlId_Doppler v) r) (\<lambda>r'.
             if doppler_wire_mode_for b r \<noteq> doppler_wire_mode_for b r'
             then Inr (r'\<lparr>fr_wire_to_legend := put b (model_lut fe b (fr_model r') r') (fr_wire_to_legend r')\<rparr>)
             else Inr r'))"

definition pulse_width_name :: "int \<Rightarrow> string" where
  "pulse_width_name pulse =
     (if pulse = 0 then ''S1'' else if pulse = 1 then ''S2'' else if pulse = 2 then ''M1'' else if pulse = 3 then ''M2''
      else if pulse = 4 then ''M3'' else if pulse = 5 then ''L'' else ''Unknown'')"

definition report_pulse_width :: "furuno_env \<Rightarrow> f64 list \<Rightarrow> Receiver \<Rightarrow> reporting" where
  "report_pulse_width fe numbers r =
     (case numbers of [] \<Rightarrow> Inr r
      | pulse # _ \<Rightarrow> common_for_range (extract_drid CommandId_PulseWidth numbers r)
          (common_set_string (fe_env fe) ControlId_PulseWidth (pulse_width_name (as_i32 pulse))) r)"

definition report_alarm :: "f64 list \<Rightarrow> Receiver \<Rightarrow> Receiver" where
  "report_alarm numbers r =
     (if 4 \<le> length numbers
      then if as_u32 (numbers ! 0) \<noteq> 0 \<and> \<not> fr_alarm_active r then r\<lparr>fr_alarm_active := True\<rparr>
           else if fr_alarm_active r then r\<lparr>fr_alarm_active := False\<rparr> else r
      else r)"

definition report_guard_status :: "f64 list \<Rightarrow> Receiver \<Rightarrow> Receiver" where
  "report_guard_status numbers r =
     (if 3 \<le> length numbers
      then r\<lparr>fr_guard_zone_alarm := (as_i32 (numbers ! 1) \<noteq> 0, as_i32 (numbers ! 2) \<noteq> 0)\<rparr> else r)"

definition report_stc :: "furuno_env \<Rightarrow> CommandId \<Rightarrow> ControlId \<Rightarrow> f64 list \<Rightarrow> Receiver \<Rightarrow> reporting" where
  "report_stc fe cid control numbers r =
     (case numbers of [] \<Rightarrow> Inr r
      | v # _ \<Rightarrow> common_for_range (if 1 < length numbers then extract_drid cid numbers r else 0)
          (common_set_value (fe_env fe) control v) r)"

text \<open>The first argument of a report that does not check how many it has.\<close>

definition unchecked_first :: "f64 list \<Rightarrow> (f64 \<Rightarrow> reporting) \<Rightarrow> reporting" where
  "unchecked_first numbers f = (case numbers of [] \<Rightarrow> Inl Report_Panicked | v # _ \<Rightarrow> f v)"

definition handle_report :: "furuno_env \<Rightarrow> CommandId \<Rightarrow> string list \<Rightarrow> Receiver \<Rightarrow> reporting" where
  "handle_report fe cid strings r =
     (let numbers = map report_number strings
      in case cid of
           CommandId_Modules \<Rightarrow> parse_modules fe strings r
         | CommandId_Status \<Rightarrow> report_status fe numbers r
         | CommandId_Gain \<Rightarrow> needs 2 numbers (report_auto fe cid ControlId_Gain numbers r)
         | CommandId_Sea \<Rightarrow> needs 2 numbers (report_auto fe cid ControlId_Sea numbers r)
         | CommandId_Rain \<Rightarrow> needs 2 numbers (report_auto fe cid ControlId_Rain numbers r)
         | CommandId_ScanSpeed \<Rightarrow> needs 1 numbers (report_shared fe ControlId_ScanSpeed (numbers ! 0) r)
         | CommandId_BlindSector \<Rightarrow> report_blind_sector fe numbers r
         | CommandId_Range \<Rightarrow> report_range fe numbers r
         | CommandId_OnTime \<Rightarrow> unchecked_first numbers (\<lambda>v. report_shared fe ControlId_OperatingTime v r)
         | CommandId_TxTime \<Rightarrow> unchecked_first numbers (\<lambda>v. report_shared fe ControlId_TransmitTime v r)
         | CommandId_MainBangSize \<Rightarrow> needs 1 numbers (report_shared fe ControlId_MainBangSuppression
             (f64_of_int (div_trunc (wrap_i32 (as_i32 (numbers ! 0) * 100)) 255)) r)
         | CommandId_SignalProcessing \<Rightarrow> report_signal_processing fe numbers r
         | CommandId_RezBoost \<Rightarrow> needs 1 numbers (report_shared fe ControlId_TargetSeparation (numbers ! 0) r)
         | CommandId_BirdMode \<Rightarrow> needs 1 numbers (report_shared fe ControlId_BirdMode (numbers ! 0) r)
         | CommandId_JammingAble \<Rightarrow> needs 1 numbers (report_shared fe ControlId_AntiJamming (numbers ! 0) r)
         | CommandId_TargetAnalyzer \<Rightarrow> report_target_analyzer fe numbers r
         | CommandId_Tune \<Rightarrow> if 2 \<le> length numbers then report_auto fe cid ControlId_Tune numbers r else Inr r
         | CommandId_PulseWidth \<Rightarrow> report_pulse_width fe numbers r
         | CommandId_Alarm \<Rightarrow> Inr (report_alarm numbers r)
         | CommandId_GuardStatus \<Rightarrow> Inr (report_guard_status numbers r)
         | CommandId_NearSTC \<Rightarrow> report_stc fe cid ControlId_NearStcCurve numbers r
         | CommandId_MiddleSTC \<Rightarrow> report_stc fe cid ControlId_MiddleStcCurve numbers r
         | CommandId_FarSTC \<Rightarrow> report_stc fe cid ControlId_FarStcCurve numbers r
         | CommandId_STCRange \<Rightarrow> report_stc fe cid ControlId_StcRange numbers r
         | _ \<Rightarrow> Inr r)"

definition process_report :: "furuno_env \<Rightarrow> string \<Rightarrow> Receiver \<Rightarrow> reporting" where
  "process_report fe text r =
     res_bind (parse_report text) (\<lambda>parsed.
       case parsed of None \<Rightarrow> Inr r | Some (cid, strings) \<Rightarrow> handle_report fe cid strings r)"

section \<open>Echo frames\<close>

record FurunoSpokeMetadata =
  md_sweep_count :: nat
  md_sweep_len :: nat
  md_encoding :: nat
  md_have_heading :: nat
  md_range :: nat
  md_radar_no :: nat
  md_scale :: nat

definition parse_metadata_header :: "bytes \<Rightarrow> Receiver \<Rightarrow> FurunoSpokeMetadata" where
  "parse_metadata_header data r =
     (let sweep_len = unat (data ! 11 AND FRAME_SWEEP_LEN_HIGH_MASK) * 256 + unat (data ! 10);
          radar_no = unat (drop_bit 6 (data ! 15 AND FRAME_DUAL_RANGE_BIT));
          wire_index = int (unat (data ! 12 AND FRAME_WIRE_INDEX_MASK));
          wire_unit = (case Shared_get ControlId_RangeUnits (ri_controls (range_info (radar_no = 1) r)) of
             Some c \<Rightarrow> (case ctl_value c of Some v \<Rightarrow> if as_i32 v = 1 then WIRE_UNIT_KM else WIRE_UNIT_NM | None \<Rightarrow> WIRE_UNIT_NM)
           | None \<Rightarrow> WIRE_UNIT_NM);
          scale = unat (data ! 15 AND FRAME_SCALE_HIGH_MASK) * 256 + unat (data ! 14)
      in \<lparr>md_sweep_count = unat (drop_bit 1 (data ! 9)), md_sweep_len = sweep_len,
          md_encoding = unat (drop_bit FRAME_ENCODING_SHIFT (data ! 11 AND FRAME_ENCODING_MASK)),
          md_have_heading = unat (drop_bit 5 (data ! 11 AND FRAME_HEADING_VALID_BIT)),
          md_range = (case wire_index_to_meters_for_unit wire_index wire_unit of Some m \<Rightarrow> nat m | None \<Rightarrow> 0),
          md_radar_no = radar_no, md_scale = (if scale = 0 then sweep_len else scale)\<rparr>)"

record spoke =
  sp_range :: nat
  sp_angle :: nat
  sp_heading :: "nat option"
  sp_data :: bytes

definition decode_sweep :: "nat \<Rightarrow> nat \<Rightarrow> bytes \<Rightarrow> bytes \<Rightarrow> nat \<Rightarrow> bytes \<times> nat" where
  "decode_sweep encoding sweep_idx sweep prev_spoke sweep_len =
     (if encoding = 0 then decode_sweep_encoding_0 sweep
      else if encoding = 1 then decode_sweep_encoding_1 sweep sweep_len
      else if encoding = 2
           then if sweep_idx = 0 then decode_sweep_encoding_1 sweep sweep_len
                else decode_sweep_encoding_2 sweep prev_spoke sweep_len
      else decode_sweep_encoding_3 sweep prev_spoke sweep_len)"

text \<open>
  The sweeps of a frame: angle, heading and samples. The first argument is the number of sweeps
  that are still to come.
\<close>

primrec decode_sweeps :: "nat \<Rightarrow> FurunoSpokeMetadata \<Rightarrow> nat \<Rightarrow> bytes \<Rightarrow> bytes \<Rightarrow> report_fault + (nat \<times> nat \<times> bytes) list" where
  "decode_sweeps 0 md sweep_idx prev_spoke sweep = Inr []"
| "decode_sweeps (Suc n) md sweep_idx prev_spoke sweep =
     (case sweep of
        a0 # a1 # h0 # h1 # x # xs \<Rightarrow>
          (let (spoke, used) = decode_sweep (md_encoding md) sweep_idx (x # xs) prev_spoke (md_sweep_len md);
               generic_spoke = (if length spoke < md_sweep_len md then resize (md_sweep_len md) spoke else spoke)
           in if length (x # xs) < used then Inl Report_Panicked
              else res_bind (decode_sweeps n md (sweep_idx + 1) generic_spoke (drop used (x # xs))) (\<lambda>rest.
                     Inr ((angle_of a0 a1, angle_of h0 h1, generic_spoke) # rest)))
      | _ \<Rightarrow> Inr [])"

definition add_spoke_to_common ::
  "furuno_env \<Rightarrow> FurunoSpokeMetadata \<Rightarrow> nat \<Rightarrow> nat \<Rightarrow> bytes \<Rightarrow> bytes \<Rightarrow> RadarInfo \<Rightarrow> fault + RadarInfo \<times> spoke" where
  "add_spoke_to_common fe md angle heading sweep lut ri =
     res_bind (if ri_replay ri
               then res_bind (common_set_value (fe_env fe) ControlId_Range (f64_of_int (int (md_range md))) ri)
                      (common_set_value (fe_env fe) ControlId_Power (f64_of_int (Power_code Transmit)))
               else Inr ri) (\<lambda>ri.
       Inr (ri, \<lparr>sp_range = md_range md, sp_angle = angle,
         sp_heading = (if 0 < md_have_heading md then Some heading
           else map_option (\<lambda>h. nat (as_u16 (f64_div (f64_mul h (f64_of_int (int SPOKES))) f64_TAU))) (fe_heading fe)),
         sp_data = map (\<lambda>b. lut ! unat b) sweep\<rparr>))"

primrec add_spokes ::
  "furuno_env \<Rightarrow> (nat \<Rightarrow> FurunoSpokeMetadata) \<Rightarrow> bytes \<Rightarrow> (nat \<times> nat \<times> nat \<times> bytes) list \<Rightarrow> RadarInfo \<Rightarrow> fault + RadarInfo \<times> spoke list" where
  "add_spokes fe md lut [] ri = Inr (ri, [])"
| "add_spokes fe md lut (s # ss) ri =
     (case s of (angle, heading, n, samples) \<Rightarrow>
        res_bind (add_spoke_to_common fe (md n) angle heading (stretch_spoke samples (md_scale (md n)) SPOKE_LEN) lut ri) (\<lambda>(ri, sp).
        res_bind (add_spokes fe md lut ss ri) (\<lambda>(ri, sps). Inr (ri, sp # sps))))"

text \<open>The spokes of a frame for one range, and the receiver after them.\<close>

definition hand_over ::
  "furuno_env \<Rightarrow> bool \<Rightarrow> (nat \<Rightarrow> FurunoSpokeMetadata) \<Rightarrow> (nat \<times> nat \<times> nat \<times> bytes) list \<Rightarrow> Receiver \<Rightarrow> report_fault + spoke list \<times> Receiver" where
  "hand_over fe b md sweeps r =
     res_bind (panics (add_spokes fe md (pick b (fr_wire_to_legend r)) sweeps (range_info b r))) (\<lambda>(ri, sps).
       Inr (sps, (if b then r\<lparr>fr_b := Some ri\<rparr> else r\<lparr>fr_a := ri\<rparr>)
         \<lparr>fr_prev_angle := (if sweeps = [] then fr_prev_angle r else put b (fst (last sweeps)) (fr_prev_angle r))\<rparr>))"

definition process_tile_frame :: "furuno_env \<Rightarrow> bytes \<Rightarrow> Receiver \<Rightarrow> report_fault + spoke list \<times> Receiver" where
  "process_tile_frame fe data r =
     (if length data < 24 then Inr ([], r)
      else let content_length = from_le (take 4 (drop 8 data)) mod 2048;
               radar_no = unat (drop_bit 6 (data ! 15) AND 1);
               b = (radar_no = 1 \<and> fr_b r \<noteq> None);
               r = r\<lparr>fr_prev_spoke := put b [] (fr_prev_spoke r)\<rparr>;
               range_v = (case Shared_get ControlId_Range (ri_controls (range_info b r)) of
                 Some c \<Rightarrow> (case ctl_value c of Some v \<Rightarrow> v | None \<Rightarrow> Fin 0) | None \<Rightarrow> Fin 0);
               frame_end = min (content_length + 7) (length data)
           in hand_over fe b
                (\<lambda>pixel_count. \<lparr>md_sweep_count = 1, md_sweep_len = pixel_count, md_encoding = 0, md_have_heading = 1,
                   md_range = nat (as_u32 range_v), md_radar_no = radar_no, md_scale = TILE_SCALE\<rparr>)
                (tile_spokes (drop 24 (take frame_end data))) r)"

definition process_frame :: "furuno_env \<Rightarrow> bytes \<Rightarrow> Receiver \<Rightarrow> report_fault + spoke list \<times> Receiver" where
  "process_frame fe data r =
     (if length data < 16 then Inr ([], r)
      else if from_le (take 4 (drop 8 data)) div 2 ^ 29 = unat TILE_MAGIC then process_tile_frame fe data r
      else if data ! 0 \<noteq> FRAME_MAGIC then Inr ([], r)
      else let md = parse_metadata_header data r;
               b = (md_radar_no md = 1 \<and> fr_b r \<noteq> None)
           in res_bind (decode_sweeps (md_sweep_count md) md 0 (pick b (fr_prev_spoke r)) (drop 16 data)) (\<lambda>sweeps.
              res_bind (hand_over fe b (\<lambda>_. md) (map (\<lambda>(angle, heading, samples). (angle, heading, 0, samples)) sweeps) r) (\<lambda>(sps, r').
                Inr (sps, r'\<lparr>fr_prev_spoke :=
                  (if sweeps = [] then fr_prev_spoke r' else put b (snd (snd (last sweeps))) (fr_prev_spoke r'))\<rparr>))))"

end
