(* ===== verification/Furuno_Correct.thy ===== *)
theory Furuno_Correct
  imports Furuno_Report
begin

text \<open>
  What the Furuno receiver and sender do together: a command reads back as it was written, a
  range that is chosen is the range that is confirmed, frames become spokes of the right shape
  and class; and the inputs that end the receiver.
\<close>

section \<open>Reading what was written\<close>

definition plain :: "char \<Rightarrow> bool" where
  "plain c \<longleftrightarrow> of_char c = (45 :: nat) \<or> is_digit c"

lemma nat_str_is_digit: "c \<in> set (nat_str n) \<Longrightarrow> is_digit c"
  using nat_str_digits[of c n] by (auto simp: is_digit_def)

lemma int_str_plain: "c \<in> set (int_str i) \<Longrightarrow> plain c"
  using nat_str_is_digit by (auto simp: int_str_def plain_def split: if_splits)

lemma int_str_nonempty [simp]: "int_str i \<noteq> []"
  by (simp add: int_str_def)

lemma white_space_first: "w \<in> set white_space \<Longrightarrow> w \<noteq> [] \<and> \<not> plain (hd w) \<and> \<not> plain (last w)"
  by (auto simp: white_space_def plain_def is_digit_def)

lemma strip_none:
  assumes "s \<noteq> []" "\<And>w. w \<in> set ws \<Longrightarrow> w \<noteq> [] \<and> hd w \<noteq> hd s"
  shows "strip_prefixes n ws s = s"
proof (cases n)
  case (Suc m)
  have "take (length w) s \<noteq> w" if "w \<in> set ws" for w
    using assms(1) assms(2)[OF that] by (cases w; cases s) auto
  then have "find (\<lambda>w. take (length w) s = w) ws = None" by (auto simp: find_None_iff)
  then show ?thesis by (simp add: Suc)
qed simp

lemma trim_plain:
  assumes "s \<noteq> []" "\<And>c. c \<in> set s \<Longrightarrow> plain c"
  shows "trim s = s"
proof -
  have "strip_prefixes n white_space s = s" for n
    by (rule strip_none) (use assms white_space_first in \<open>metis list.set_sel(1)\<close>)+
  moreover have "strip_prefixes n (map rev white_space) (rev s) = rev s" for n
  proof (rule strip_none)
    show "w \<noteq> [] \<and> hd w \<noteq> hd (rev s)" if w: "w \<in> set (map rev white_space)" for w
    proof -
      from w obtain v where v: "w = rev v" "v \<in> set white_space" by auto
      have "plain (last s)" using assms by simp
      then show ?thesis using v white_space_first[of v] by (auto simp: hd_rev)
    qed
  qed (use assms in simp)
  ultimately show ?thesis by (simp add: trim_def)
qed

lemma parse_decimal_nat_str: "parse_decimal (nat_str n) = Some (of_nat n)"
proof -
  have w: "takeWhile is_digit (nat_str n) = nat_str n" "dropWhile is_digit (nat_str n) = []"
    using nat_str_is_digit by (auto simp: takeWhile_eq_all_conv)
  show ?thesis unfolding parse_decimal_def w Let_def by (simp add: parse_exponent_def)
qed

lemma nat_str_not_name: "map lower (nat_str n) = nat_str n" "nat_str n \<noteq> CHR ''i'' # s" "nat_str n \<noteq> CHR ''n'' # s"
proof -
  show "map lower (nat_str n) = nat_str n" using lower_id_digit nat_str_is_digit by (simp add: map_idI)
  have "is_digit (hd (nat_str n))" using nat_str_is_digit[of "hd (nat_str n)" n] by simp
  then show "nat_str n \<noteq> CHR ''i'' # s" "nat_str n \<noteq> CHR ''n'' # s" by (auto simp: is_digit_def)
qed

lemma split_sign_int_str: "split_sign (int_str i) = (i < 0, nat_str (nat \<bar>i\<bar>))"
proof (cases "i < 0")
  case False
  obtain c cs where c: "nat_str (nat i) = c # cs" by (cases "nat_str (nat i)") auto
  then have "is_digit c" using nat_str_is_digit[of c "nat i"] by simp
  then show ?thesis using False c by (auto simp: split_sign_def int_str_def is_digit_def)
qed (simp add: split_sign_def int_str_def)

lemma report_number_int_str:
  assumes "\<bar>i\<bar> < 2 ^ 53"
  shows "report_number (int_str i) = Fin (of_int i)"
proof -
  have t: "trim (int_str i) = int_str i" by (rule trim_plain) (auto simp: int_str_plain)
  have "parse_f64 (int_str i) = Some (f64_round (of_int i))"
    by (simp add: parse_f64_def split_sign_int_str nat_str_not_name parse_decimal_nat_str)
  then show ?thesis using t assms f64_of_int_exact[of i] by (simp add: report_number_def f64_of_int_def)
qed

lemma split_on_none: "c \<notin> set s \<Longrightarrow> split_on c s = [s]"
  by (induction s) auto

lemma split_on_append: "c \<notin> set s \<Longrightarrow> split_on c (s @ c # t) = s # split_on c t"
  by (induction s) auto

lemma split_on_fields:
  "c \<notin> set s \<Longrightarrow> (\<And>f. f \<in> set fs \<Longrightarrow> c \<notin> set f) \<Longrightarrow> split_on c (s @ concat (map (\<lambda>f. c # f) fs)) = s # fs"
proof (induction fs arbitrary: s)
  case (Cons f fs)
  then show ?case using split_on_append[of c s "f @ concat (map (\<lambda>f. c # f) fs)"] by simp
qed (simp add: split_on_none)

lemma trim_crlf_once:
  assumes "s \<noteq> []" "last s \<noteq> CHR 0x0A"
  shows "trim_crlf (s @ [CHR 0x0D, CHR 0x0A]) = s"
proof -
  have "trim_crlf_rev (rev s) = rev s"
    using assms by (cases s rule: rev_cases; cases "butlast s" rule: rev_cases) (auto split: list.splits)
  then show ?thesis by (simp add: trim_crlf_def)
qed

lemma hex_digit_char:
  assumes "hex_val c \<noteq> None"
  shows "c \<noteq> CHR '',''" "c \<noteq> CHR 0x0A" "\<not> is_continuation c"
  using assms hex_val_ascii[of c] by (auto simp: hex_val_def)

lemma CommandId_codes: "CommandId_from_u8 (CommandId_code cid) = Some cid" "CommandId_code cid < 256"
  by (induction cid) (simp_all add: CommandId_from_u8_def CommandId_code_def CommandId_table_def)

lemma parse_command_text:
  "parse_report (command_text Mode_New cid args 0) = Inr (Some (cid, map int_str args))"
proof -
  let ?h = "hex_str (CommandId_code cid)" and ?fs = "map int_str args"
  let ?body = "?h @ concat (map (\<lambda>f. CHR '','' # f) ?fs)"
  have shown: "command_text Mode_New cid args 0 = ''$N'' @ ?body @ [CHR 0x0D, CHR 0x0A]"
    by (simp add: command_text_def CommandMode_to_char_def comp_def)
  have hex: "hex_val c \<noteq> None" if "c \<in> set ?h" for c using hex_str_digits that by blast
  have field: "is_digit c \<or> of_char c = (45 :: nat)" if "c \<in> set f" "f \<in> set ?fs" for c f
    using that int_str_plain by (auto simp: plain_def)
  have "last ?body \<noteq> CHR 0x0A"
  proof (cases args rule: rev_cases)
    case Nil
    then show ?thesis using hex_digit_char(2)[OF hex[of "last ?h"]] by simp
  next
    case (snoc as a)
    then show ?thesis using field[of "last (int_str a)" "int_str a"] by (auto simp: is_digit_def)
  qed
  then have trimmed: "trim_crlf (?body @ [CHR 0x0D, CHR 0x0A]) = ?body" by (intro trim_crlf_once) simp
  have "split_on CHR '','' ?body = ?h # ?fs"
    by (rule split_on_fields) (use hex hex_digit_char(1) field in \<open>fastforce simp: is_digit_def\<close>)+
  moreover have "is_char_boundary 2 (''$N'' @ ?body @ [CHR 0x0D, CHR 0x0A])"
    using hex_digit_char(3)[OF hex[of "hd ?h"]]
    by (cases ?h) (auto simp: is_char_boundary_def nth_append)
  ultimately show ?thesis
    using trimmed by (simp add: parse_report_def shown Let_def u8_from_hex_str CommandId_codes)
qed

lemma numbers_of_command: "list_all (\<lambda>a. \<bar>a\<bar> < 2 ^ 53) args \<Longrightarrow> map report_number (map int_str args) = map (\<lambda>a. Fin (of_int a)) args"
  by (simp add: list_all_iff report_number_int_str)



section \<open>Choosing a range\<close>

lemma process_command_text:
  "process_report fe (command_text Mode_New cid args 0) r = handle_report fe cid (map int_str args) r"
  by (simp add: process_report_def parse_command_text res_bind_def)

lemma wire_slot_bounds: "0 \<le> meters_to_wire_index_for_unit d u \<and> meters_to_wire_index_for_unit d u \<le> 21"
proof -
  obtain i m where "min_by_key (\<lambda>(_, m). \<bar>m - d\<bar>) (wire_table u) = Some (i, m)" "(i, m) \<in> set (wire_table u)"
    using min_by_key_least[OF wire_table_facts(1), of "\<lambda>(_, m). \<bar>m - d\<bar>" u] by auto
  moreover have "list_all (\<lambda>(i, _). 0 \<le> i \<and> i \<le> 21) (wire_table u)"
    by (simp add: wire_table_def WIRE_INDEX_TABLE_def WIRE_INDEX_TABLE_KM_def)
  ultimately show ?thesis by (auto simp: wire_table_lookup lookup_wire_index_def list_all_iff)
qed

lemma wire_unit_cases: "wire_unit_for_meters d = WIRE_UNIT_KM \<or> wire_unit_for_meters d = WIRE_UNIT_NM"
  by (simp add: wire_unit_for_meters_def)

definition set_range_and_units :: "env \<Rightarrow> int \<Rightarrow> RadarInfo \<Rightarrow> fault + RadarInfo" where
  "set_range_and_units en d ri =
     res_bind (common_set_value en ControlId_Range (f64_of_int d) ri)
       (common_set_value en ControlId_RangeUnits (if wire_unit_for_meters d = WIRE_UNIT_KM then Fin 1 else Fin 0))"

text \<open>
  C8. A range a client chooses is the range that is confirmed. When the radar answers the
  command for a range its model offers by reporting the same slot, the receiver sets the range
  control of the range that was addressed to exactly the distance chosen, and its units to those
  of that distance.
\<close>

theorem range_choice_confirmed:
  assumes "cv_id cv = ControlId_Range" and "list_ex (\<lambda>d'. d' = d) (get_ranges_by_model model)"
    and "fc_dual_range_id c = (if b then 1 else 0)"
  shows "\<exists>args. control_command cv controls d c = Inr (CommandId_Range, args)
     \<and> process_report fe (command_text Mode_New CommandId_Range args 0) r
       = common_for_range (if b then 1 else 0) (set_range_and_units (fe_env fe) d) r"
proof -
  let ?u = "wire_unit_for_meters d" let ?i = "meters_to_wire_index_for_unit d ?u"
  let ?args = "[?i, ?u, fc_dual_range_id c]"
  have cmd: "control_command cv controls d c = Inr (CommandId_Range, ?args)"
    using assms(1) by (simp add: control_command_def Let_def)
  have i: "0 \<le> ?i" "?i \<le> 21" using wire_slot_bounds by auto
  have u: "?u \<in> {0, 1}" using wire_unit_cases[of d] by (auto simp: WIRE_UNIT_KM_def WIRE_UNIT_NM_def)
  have "list_all (\<lambda>a. \<bar>a\<bar> < 2 ^ 53) ?args" using i u assms(3) by auto
  then have n: "map report_number (map int_str ?args) = map (\<lambda>a. Fin (of_int a)) ?args" by (rule numbers_of_command)
  have slot: "wire_index_to_meters_for_unit ?i ?u = Some d"
    using ranges_of_model_on_wire[of model] assms(2) by (auto simp: list_all_iff list_ex_iff on_wire_def)
  have casts: "as_i32 (Fin (of_int ?i)) = ?i" "as_i32 (Fin (of_int ?u)) = ?u"
    by (rule as_i32_int; use i u in auto)+
  have drid: "as_u8 (Fin (of_int (fc_dual_range_id c))) = (if b then 1 else 0)"
    unfolding as_u8_def using assms(3) by (simp split: if_splits)
  have "report_range fe (map (\<lambda>a. Fin (of_int a)) ?args) r
      = common_for_range (if b then 1 else 0) (set_range_and_units (fe_env fe) d) r"
    using slot casts drid
    by (auto simp: report_range_def needs_def extract_drid_def number_at_def set_range_and_units_def[abs_def] common_for_range_def
        split: option.splits)
  then show ?thesis using cmd n by (auto simp: process_command_text handle_report_def Let_def)
qed

definition no_controls :: Shared where
  "no_controls = \<lparr>sc_replay = False, sc_controls = (\<lambda>_. None), sc_all_ranges = Ranges_empty, sc_default_range_units = 0,
     sc_clients = [], sc_signalk = [], sc_commands = [], sc_command_listeners = 0\<rparr>"

theorem range_choice_confirmed_witness:
  "\<forall>fe r. \<exists>args.
     control_command (ControlValue_new ControlId_Range (Number (Num_Int 1852))) no_controls 1852
       ((Command_new no_controls Ranges_empty True)\<lparr>fc_dual_range_id := 1\<rparr>) = Inr (CommandId_Range, args)
     \<and> process_report fe (command_text Mode_New CommandId_Range args 0) r
       = common_for_range 1 (set_range_and_units (fe_env fe) 1852) r"
proof (intro allI)
  fix fe r
  have "list_ex (\<lambda>d'. d' = 1852) (get_ranges_by_model DRS4DNXT)"
    by (simp add: get_ranges_by_model_def range_tables)
  then show "\<exists>args.
     control_command (ControlValue_new ControlId_Range (Number (Num_Int 1852))) no_controls 1852
       ((Command_new no_controls Ranges_empty True)\<lparr>fc_dual_range_id := 1\<rparr>) = Inr (CommandId_Range, args)
     \<and> process_report fe (command_text Mode_New CommandId_Range args 0) r
       = common_for_range 1 (set_range_and_units (fe_env fe) 1852) r"
    using range_choice_confirmed[of "ControlValue_new ControlId_Range (Number (Num_Int 1852))" 1852 DRS4DNXT
        "(Command_new no_controls Ranges_empty True)\<lparr>fc_dual_range_id := 1\<rparr>" True no_controls fe r]
    by (simp add: ControlValue_new_def)
qed

section \<open>The shape of spokes\<close>

lemma angle_of_bound: "angle_of lo hi < SPOKES"
proof -
  have "unat (hi AND 0x1F) = unat hi AND mask 5" by (simp add: unsigned_and_eq mask_eq_exp_minus_1)
  also have "\<dots> = unat hi mod 32" by (simp add: take_bit_eq_mod flip: take_bit_eq_mask)
  finally have "unat (hi AND SPOKE_ANGLE_HIGH_MASK) < 32" by (simp add: SPOKE_ANGLE_HIGH_MASK_def)
  then show ?thesis unfolding angle_of_def SPOKES_def using unat_byte_less[of lo] by linarith
qed

lemma res_bind_Inr: "res_bind m f = Inr b \<longleftrightarrow> (\<exists>a. m = Inr a \<and> f a = Inr b)"
  by (cases m) auto

lemma tile_spokes_angles: "list_all (\<lambda>s. fst s < SPOKES) (tile_spokes bs)"
proof (induction bs rule: tile_spokes.induct)
  case (1 bs)
  show ?case
  proof (cases "\<exists>a0 a1 h0 h1 flag rest. bs = a0 # a1 # h0 # h1 # flag # rest")
    case True
    then obtain a0 a1 h0 h1 flag rest where bs: "bs = a0 # a1 # h0 # h1 # flag # rest" by blast
    obtain sp rest' where p: "tile_pixels (if flag AND 128 \<noteq> 0 then 256 else 64) rest [tile_literal flag] = (sp, rest')"
      by (cases "tile_pixels (if flag AND 128 \<noteq> 0 then 256 else 64) rest [tile_literal flag]")
    have "list_all (\<lambda>s. fst s < SPOKES) (tile_spokes rest')" by (rule 1[OF bs refl refl refl refl refl refl p[symmetric]])
    then show ?thesis by (subst tile_spokes.simps) (simp add: bs Let_def p angle_of_bound)
  next
    case False
    then show ?thesis by (subst tile_spokes.simps) (auto split: list.splits)
  qed
qed

lemma decode_sweeps_angles:
  "decode_sweeps n md i prev_spoke sweep = Inr ss \<Longrightarrow> list_all (\<lambda>s. fst s < SPOKES) ss"
proof (induction n arbitrary: i prev_spoke sweep ss)
  case (Suc n)
  show ?case
  proof (cases "\<exists>a0 a1 h0 h1 x xs. sweep = a0 # a1 # h0 # h1 # x # xs")
    case True
    then obtain a0 a1 h0 h1 x xs where "sweep = a0 # a1 # h0 # h1 # x # xs" by blast
    with Suc.prems obtain g j rest where "decode_sweeps n md (i + 1) g j = Inr rest"
      "fst (hd ss) = angle_of a0 a1" "ss = hd ss # rest"
      by (auto simp: res_bind_Inr Let_def split: prod.splits if_splits)
    then show ?thesis using Suc.IH by (metis angle_of_bound list.pred_inject(2))
  next
    case False
    then show ?thesis using Suc.prems by (auto split: list.splits)
  qed
qed simp

definition spoke_from :: "bytes \<Rightarrow> nat \<times> nat \<times> nat \<times> bytes \<Rightarrow> spoke \<Rightarrow> bool" where
  "spoke_from lut s sp \<longleftrightarrow>
     sp_angle sp = fst s \<and> (\<exists>samples :: bytes. length samples = SPOKE_LEN \<and> sp_data sp = map (\<lambda>b. lut ! unat b) samples)"

lemma add_spokes_from: "add_spokes fe md lut ss ri = Inr (ri', sps) \<Longrightarrow> list_all2 (spoke_from lut) ss sps"
proof (induction ss arbitrary: ri ri' sps)
  case (Cons s ss)
  obtain angle heading n samples where s: "s = (angle, heading, n, samples)" by (cases s)
  with Cons.prems obtain ri1 sp sps' where
    sp: "add_spoke_to_common fe (md n) angle heading (stretch_spoke samples (md_scale (md n)) SPOKE_LEN) lut ri = Inr (ri1, sp)"
    and rest: "add_spokes fe md lut ss ri1 = Inr (ri', sps')" and sps: "sps = sp # sps'"
    by (auto simp: res_bind_Inr)
  from sp have "spoke_from lut s sp"
    by (auto simp: s add_spoke_to_common_def spoke_from_def res_bind_Inr length_stretch_spoke
        intro!: exI[of _ "stretch_spoke samples (md_scale (md n)) SPOKE_LEN"])
  with Cons.IH[OF rest] sps show ?case by simp
qed simp

text \<open>The tables of a receiver are those of its legends.\<close>

definition lut_current :: "(f64 \<Rightarrow> f64 \<Rightarrow> f64) \<Rightarrow> RadarInfo \<Rightarrow> bytes \<Rightarrow> bool" where
  "lut_current powf ri lut \<longleftrightarrow>
     legend_current ri \<and> unat (ri_doppler_levels ri) \<le> 17 \<and> 0 < ri_pixel_values ri
     \<and> (\<exists>mode low_power. lut = wire_to_legend powf (ri_legend ri) mode low_power)"

definition luts_current :: "(f64 \<Rightarrow> f64 \<Rightarrow> f64) \<Rightarrow> Receiver \<Rightarrow> bool" where
  "luts_current powf r \<longleftrightarrow>
     lut_current powf (fr_a r) (fst (fr_wire_to_legend r))
     \<and> (case fr_b r of Some b \<Rightarrow> lut_current powf b (snd (fr_wire_to_legend r)) | None \<Rightarrow> True)"

definition spoke_ok :: "Legend \<Rightarrow> spoke \<Rightarrow> bool" where
  "spoke_ok l sp \<longleftrightarrow>
     sp_angle sp < SPOKES \<and> length (sp_data sp) = SPOKE_LEN \<and> list_all (\<lambda>v. unat v < length (lg_pixels l)) (sp_data sp)"

lemma lut_drawable: "lut_current powf ri lut \<Longrightarrow> unat (lut ! unat (b :: u8)) < length (lg_pixels (ri_legend ri))"
  using wire_to_legend_class[of "ri_doppler_levels ri" "ri_pixel_values ri" "unat b"]
  by (fastforce simp: lut_current_def legend_current_def has_class_def)

lemma spokes_ok:
  assumes "list_all2 (spoke_from lut) ss sps" "list_all (\<lambda>s. fst s < SPOKES) ss" "lut_current powf ri lut"
  shows "list_all (spoke_ok (ri_legend ri)) sps"
proof -
  have "spoke_ok (ri_legend ri) sp" if "spoke_from lut s sp" "fst s < SPOKES" for s sp
    using that lut_drawable[OF assms(3)] by (auto simp: spoke_from_def spoke_ok_def list_all_iff)
  with assms(1,2) show ?thesis by (induction rule: list_all2_induct) auto
qed

lemma hand_over_ok:
  assumes "hand_over fe b md ss r = Inr (sps, r')" "list_all (\<lambda>s. fst s < SPOKES) ss" "luts_current powf r" "b \<longrightarrow> fr_b r \<noteq> None"
  shows "list_all (spoke_ok (ri_legend (range_info b r))) sps"
proof -
  from assms(1) obtain ri where "add_spokes fe md (pick b (fr_wire_to_legend r)) ss (range_info b r) = Inr (ri, sps)"
    by (auto simp: hand_over_def res_bind_Inr panics_def split: sum.splits)
  from add_spokes_from[OF this] assms(2) show ?thesis
    by (rule spokes_ok) (use assms(3,4) in \<open>auto simp: luts_current_def range_info_def pick_def split: option.splits\<close>)
qed

lemma range_info_prev_spoke [simp]: "range_info b (r\<lparr>fr_prev_spoke := p\<rparr>) = range_info b r"
  by (simp add: range_info_def split: option.split)

lemma process_tile_frame_hands:
  assumes "process_tile_frame fe data r = Inr (sps, r')" "sps \<noteq> []"
  shows "\<exists>b md p ss. hand_over fe b md (tile_spokes ss) (r\<lparr>fr_prev_spoke := p\<rparr>) = Inr (sps, r') \<and> (b \<longrightarrow> fr_b r \<noteq> None)"
proof -
  have "\<not> length data < 24" using assms by (auto simp: process_tile_frame_def)
  with assms(1) show ?thesis
    unfolding process_tile_frame_def Let_def if_not_P[OF \<open>\<not> length data < 24\<close>]
    by (intro exI) (rule conjI, assumption, simp)
qed


definition example_radar :: RadarInfo where
  "example_radar = \<lparr>ri_key = ''fur0001'', ri_targets = Arpa, ri_replay = False, ri_serial_no = None, ri_dual = None,
     ri_pixel_values = 252, ri_spokes_per_revolution = 8192, ri_max_spoke_len = 1024,
     ri_legend = default_legend Arpa 0 False 252, ri_controls = no_controls, ri_ranges = Ranges_empty, ri_doppler = False,
     ri_doppler_levels = 0, ri_has_rain_class = False, ri_dual_range = False, ri_sparse_spokes = False, ri_stationary = False\<rparr>"

definition example_env :: furuno_env where
  "example_env = \<lparr>fe_env = \<lparr>en_order = id, en_show_range = (\<lambda>_. []), en_now = 1\<rparr>, fe_powf = (\<lambda>x _. x), fe_heading = None\<rparr>"

definition example_frame :: bytes where
  "example_frame = [2, 0, 0, 0, 0, 0, 0, 0, 0, 2, 4, 8, 4, 0, 4, 0, 0x10, 0x02, 0, 0, 10, 20, 30, 40]"

lemma add_spokes_live: "\<not> ri_replay ri \<Longrightarrow> \<exists>sps. add_spokes fe md lut ss ri = Inr (ri, sps)"
  by (induction ss) (auto simp: add_spoke_to_common_def)

lemma example_luts: "luts_current (\<lambda>x _. x) (Receiver_new example_env False example_radar)"
  by (auto simp: luts_current_def lut_current_def legend_current_def Receiver_new_def example_env_def example_radar_def Let_def)

lemma example_sweep:
  assumes "md_encoding md = 1" "md_sweep_len md = 4"
  shows "decode_sweeps 1 md 0 p (drop 16 example_frame) = Inr [(528, 0, [10, 20, 30, 40])]"
  by (simp add: assms decode_sweep_def decode_sweep_encoding_1_def align_sweep_def SPOKE_ALIGNMENT_def example_frame_def angle_of_def
      SPOKE_ANGLE_HIGH_MASK_def)


section \<open>Frames that end the receiver, and frames that do not\<close>

lemma align_sweep_le: "k \<le> n \<Longrightarrow> 4 dvd n \<Longrightarrow> align_sweep k \<le> n"
  unfolding align_sweep_def SPOKE_ALIGNMENT_def by presburger

lemma runs_needed_le: "runs_needed n prev_spoke rs \<le> length rs"
  unfolding runs_needed_def by (metis length_takeWhile_le length_upt minus_nat.diff_0)

lemma decode_used:
  assumes "4 dvd length sweep"
  shows "snd (decode_sweep e i sweep prev_spoke n) \<le> length sweep \<and> 4 dvd snd (decode_sweep e i sweep prev_spoke n)"
proof -
  have d: "snd (decode_sweep_encoding_1 sweep n) = align_sweep (runs_needed n prev_spoke (map run_1 sweep))"
    "snd (decode_sweep_encoding_2 sweep prev_spoke n) = align_sweep (runs_needed n prev_spoke (map run_2 sweep))"
    "snd (decode_sweep_encoding_3 sweep prev_spoke n) = align_sweep (runs_needed n prev_spoke (map run_3 sweep))"
    using decode_1_runs[of n sweep "[]" 0 prev_spoke]
    by (simp_all add: decode_sweep_encoding_1_def decode_sweep_encoding_2_def decode_sweep_encoding_3_def decode_2_runs
        decode_3_runs[of n prev_spoke sweep "[]", simplified last_value_def, simplified] run_loop_start last_value_def)
  have "align_sweep (runs_needed n prev_spoke (map f sweep)) \<le> length sweep" for f
    using align_sweep_le[OF _ assms] runs_needed_le[of n prev_spoke "map f sweep"] by simp
  moreover have "4 dvd align_sweep k" for k by (simp add: align_sweep_def SPOKE_ALIGNMENT_def)
  ultimately show ?thesis using assms by (simp add: decode_sweep_def decode_sweep_encoding_0_def d)
qed

lemma decode_sweeps_aligned: "4 dvd length sweep \<Longrightarrow> \<exists>ss. decode_sweeps n md i prev_spoke sweep = Inr ss"
proof (induction n arbitrary: i prev_spoke sweep)
  case (Suc n)
  show ?case
  proof (cases "\<exists>a0 a1 h0 h1 x xs. sweep = a0 # a1 # h0 # h1 # x # xs")
    case True
    then obtain a0 a1 h0 h1 x xs where sweep: "sweep = a0 # a1 # h0 # h1 # x # xs" by blast
    have al: "4 dvd length (x # xs)" using Suc.prems sweep by simp presburger
    obtain sp used where d: "decode_sweep (md_encoding md) i (x # xs) prev_spoke (md_sweep_len md) = (sp, used)" by fastforce
    have u: "used \<le> length (x # xs)" "4 dvd used"
      using decode_used[OF al, of "md_encoding md" i prev_spoke "md_sweep_len md"] d by auto
    have "4 dvd length (drop used (x # xs))" using al u by simp
    then obtain rest where
      "decode_sweeps n md (i + 1) (if length sp < md_sweep_len md then resize (md_sweep_len md) sp else sp) (drop used (x # xs)) = Inr rest"
      using Suc.IH by blast
    then show ?thesis using sweep d u(1) by (simp add: Let_def)
  next
    case False
    then show ?thesis by (auto split: list.splits)
  qed
qed simp

text \<open>
  C14. A live receiver survives every echo frame whose length is a whole number of words: it
  decodes it to the end and goes on, whatever the frame's bytes are.
\<close>

theorem aligned_frame_decoded:
  assumes "4 dvd length data" and "\<not> ri_replay (fr_a r)" and "\<And>b. fr_b r = Some b \<Longrightarrow> \<not> ri_replay b"
  shows "\<exists>sps r'. process_frame fe data r = Inr (sps, r')"
proof -
  have live: "\<not> ri_replay (range_info b r')" if "fr_a r' = fr_a r" "fr_b r' = fr_b r" for b r'
    using that assms(2,3) by (auto simp: range_info_def split: option.splits)
  have hand: "\<exists>sps r''. hand_over fe b md ss r' = Inr (sps, r'')" if same: "fr_a r' = fr_a r" "fr_b r' = fr_b r" for b md ss r'
  proof -
    obtain sps where "add_spokes fe md (pick b (fr_wire_to_legend r')) ss (range_info b r') = Inr (range_info b r', sps)"
      using add_spokes_live[OF live[OF same]] by blast
    then show ?thesis by (simp add: hand_over_def panics_def)
  qed
  have "4 dvd length (drop 16 data)" using assms(1) by (simp add: dvd_diff_nat)
  then have dec: "\<exists>ss. decode_sweeps n md 0 p (drop 16 data) = Inr ss" for n md p by (rule decode_sweeps_aligned)
  show ?thesis
  proof (cases "length data < 16 \<or> from_le (take 4 (drop 8 data)) div 2 ^ 29 = unat TILE_MAGIC \<or> data ! 0 \<noteq> FRAME_MAGIC")
    case True
    have "\<exists>sps r'. process_tile_frame fe data r = Inr (sps, r')"
      unfolding process_tile_frame_def Let_def using hand by simp
    then show ?thesis using True by (auto simp: process_frame_def)
  next
    case False
    let ?md = "parse_metadata_header data r" let ?b = "md_radar_no ?md = 1 \<and> fr_b r \<noteq> None"
    obtain ss where ss: "decode_sweeps (md_sweep_count ?md) ?md 0 (pick ?b (fr_prev_spoke r)) (drop 16 data) = Inr ss"
      using dec by blast
    obtain sps r' where h: "hand_over fe ?b (\<lambda>_. ?md) (map (\<lambda>(angle, heading, samples). (angle, heading, 0, samples)) ss) r = Inr (sps, r')"
      using hand by blast
    show ?thesis unfolding process_frame_def Let_def ss res_bind_simps h using False by simp
  qed
qed

theorem aligned_frame_decoded_witness:
  "\<exists>sps r'. process_frame example_env example_frame (Receiver_new example_env False example_radar) = Inr (sps, r')"
proof (rule aligned_frame_decoded)
  have "length example_frame = 4 * 6" by (simp add: example_frame_def)
  then show "4 dvd length example_frame" by (metis dvd_triv_left)
qed (simp_all add: Receiver_new_def example_radar_def Let_def)


section \<open>Reports without arguments\<close>

text \<open>
  C39. What the receiver does with a report that has no arguments. Three reports end it: the two
  operating times always, and the list of modules as long as the model is not known. Every other
  report is either refused or ignored, and changes nothing.
\<close>

theorem report_without_arguments:
  "process_report fe (command_text Mode_New cid [] 0) r =
     (if cid = CommandId_OnTime \<or> cid = CommandId_TxTime \<or> cid = CommandId_Modules \<and> \<not> fr_model_known r then Inl Report_Panicked
      else if cid \<in> {CommandId_Status, CommandId_Gain, CommandId_Sea, CommandId_Rain, CommandId_ScanSpeed, CommandId_BlindSector,
          CommandId_Range, CommandId_MainBangSize, CommandId_SignalProcessing, CommandId_RezBoost, CommandId_BirdMode,
          CommandId_JammingAble, CommandId_TargetAnalyzer} then Inl Rejected
      else Inr r)"
  by (cases cid) (simp_all add: process_command_text handle_report_def parse_modules_def report_status_def needs_def unchecked_first_def
      report_blind_sector_def report_range_def report_signal_processing_def report_target_analyzer_def report_pulse_width_def
      report_alarm_def report_guard_status_def report_stc_def Let_def)

end
