(* ===== verification/Furuno_Model.thy ===== *)
theory Furuno_Model
  imports Furuno_Correct
begin

text \<open>
  The report that tells the model of a Furuno radar: that it always succeeds on a table of
  controls as the locator leaves it, and what it does to the legend and to the tables the
  receiver built from it.
\<close>

section \<open>The model becomes known\<close>

lemma cb_wire_units_total:
  assumes "\<not> cb_frozen b" "u \<in> {Seconds, Meters, Degrees}"
  shows "\<exists>b'. cb_wire_units u b = Inr b' \<and> cd_control_id (ctl_item (cb_control b')) = cd_control_id (ctl_item (cb_control b))"
proof -
  have si: "\<exists>si y. Units_to_si u x = Inr (si, y)" for x
    using assms(2) by (auto simp: Units_to_si_def to_si_factor_def)
  then have opt: "\<exists>y. opt_to_si u v = Inr y" for v
    by (cases v) (auto simp: opt_to_si_def, metis case_prod_conv res_bind_simps(2))
  obtain si y a1 a2 a3 a4 where "Units_to_si u (Fin 0) = Inr (si, y)"
    "opt_to_si u (cd_min_value (ctl_item (cb_control b))) = Inr a1" "opt_to_si u (cd_max_value (ctl_item (cb_control b))) = Inr a2"
    "opt_to_si u (cd_step_value (ctl_item (cb_control b))) = Inr a3" "opt_to_si u (cd_default_value (ctl_item (cb_control b))) = Inr a4"
    using si opt by metis
  then show ?thesis using assms(1) by (simp add: cb_wire_units_def Let_def cb_item_def)
qed

definition has_names :: "Shared \<Rightarrow> bool" where
  "has_names sc \<longleftrightarrow>
     contains_key ControlId_ModelName sc \<and> contains_key ControlId_Range sc
     \<and> (case sc_controls sc ControlId_UserName of Some c \<Rightarrow> ctl_description c \<noteq> None | None \<Rightarrow> False)"

lemma name_radar_total:
  assumes "has_names (ri_controls ri)" "ri_serial_no ri = None"
  shows "\<exists>sc. name_radar en model ri = Inr (ri\<lparr>ri_controls := sc\<rparr>) \<and> contains_key ControlId_Range sc"
  using assms
  by (auto simp: name_radar_def has_names_def set_model_name_def set_user_name_def user_name_def Shared_get_def change_def
      contains_key_def split: option.splits)

lemma set_ranges_total:
  "contains_key ControlId_Range (ri_controls ri) \<Longrightarrow>
     \<exists>sc. RadarInfo_set_ranges en rs ri = Inr (ri\<lparr>ri_ranges := rs, ri_controls := sc\<rparr>)"
  by (auto simp: RadarInfo_set_ranges_def set_valid_ranges_def update_valid_ranges_def contains_key_def Let_def)

lemma add_common_controls_total: "\<exists>sc'. add_common_controls en cap version sc = Inr sc'"
  by (simp add: add_common_controls_def Shared_add_def cb_take_def new_string_def Control_new_def ControlDefinition_new_def
      Shared_set_string_def set_and_tell_def told_description_def lift_string_def Control_set_string_def send_to_all_clients_def
      ControlValue_from_def Control_value_def Let_def)

lemma add_sector_total: "\<exists>sc'. add_sector en cid sc = Inr sc'"
proof -
  let ?b = "cb_item (\<lambda>i. i\<lparr>cd_wire_offset := Some (Fin (- 1))\<rparr>) (new_sector (en_now en) cid (Fin (- 180)) (Fin 180))"
  have "\<not> cb_frozen ?b" by (simp add: cb_item_def new_sector_def)
  from cb_wire_units_total[OF this, of Degrees] show ?thesis
    by (auto simp: add_sector_def cb_wire_offset_def unless_frozen_def new_sector_def)
qed

lemma add_antenna_controls_total: "\<exists>sc'. add_antenna_controls en cap sc = Inr sc'"
proof -
  have "\<exists>b. cb_wire_units Meters (new_numeric (en_now en) ControlId_AntennaHeight (Fin 0) (Fin 30)) = Inr b"
    using cb_wire_units_total[of "new_numeric (en_now en) ControlId_AntennaHeight (Fin 0) (Fin 30)" Meters]
    by (auto simp: new_numeric_def)
  moreover obtain sc1 sc2 where "add_sector en ControlId_NoTransmitSector1 sc = Inr sc1" "add_sector en ControlId_NoTransmitSector2 sc1 = Inr sc2"
    using add_sector_total by metis
  ultimately show ?thesis by (auto simp: add_antenna_controls_def Let_def)
qed

lemma add_remaining_total:
  "\<exists>sc'. add_remaining en model cap sc = Inr sc' \<and> sc_controls sc' ControlId_Doppler = sc_controls sc ControlId_Doppler"
proof -
  obtain b where b: "cb_wire_units Seconds (new_numeric (en_now en) ControlId_TimedRun (Fin 10) (Fin 120)) = Inr b"
    "cd_control_id (ctl_item (cb_control b)) = ControlId_TimedRun"
    using cb_wire_units_total[of "new_numeric (en_now en) ControlId_TimedRun (Fin 10) (Fin 120)" Seconds]
    by (auto simp: new_numeric_def Control_new_def ControlDefinition_new_def)
  then show ?thesis
    by (simp add: add_remaining_def add_list_def add_when_def Shared_add_def cb_take_def new_list_def Control_new_def
        ControlDefinition_new_def)
qed

lemma Doppler_off_when_added:
  "sc_controls (add_list en ControlId_Doppler names True sc) ControlId_Doppler
     = Some (cb_control (new_list (en_order en) (en_now en) ControlId_Doppler names))"
  by (simp add: add_list_def add_when_def Shared_add_def cb_take_def new_list_def Control_new_def ControlDefinition_new_def)

lemma new_list_value: "ctl_value (cb_control (new_list order now cid names)) = Some (Fin 0)"
  by (simp add: new_list_def Control_new_def ControlDefinition_new_def)

text \<open>A radar with a target analyser gets sixteen shades per class, and Doppler that is off.\<close>

definition doppler_off :: "RadarInfo \<Rightarrow> bool" where
  "doppler_off ri \<longleftrightarrow>
     (case sc_controls (ri_controls ri) ControlId_Doppler of Some c \<Rightarrow> ctl_value c = Some (Fin 0) \<or> ctl_value c = None | None \<Rightarrow> True)"

lemma add_doppler_legend:
  assumes "cp_target_analyzer cap"
  shows "ri_legend (add_doppler en cap ri) = default_legend (ri_targets ri) 16 True (ri_pixel_values ri)"
    and "doppler_off (add_doppler en cap ri)"
  using assms
  by (simp_all add: add_doppler_def set_doppler_levels_def set_has_rain_class_def rebuild_legend_def doppler_off_def
      Doppler_off_when_added new_list_value)

lemma update_when_model_known_total:
  assumes "has_names (ri_controls ri)" "ri_serial_no ri = None"
  shows "\<exists>ri'. update_when_model_known en model version ri = Inr ri'"
proof -
  let ?cap = "capabilities model"
  obtain sc1 where n: "name_radar en model ri = Inr (ri\<lparr>ri_controls := sc1\<rparr>)" "contains_key ControlId_Range sc1"
    using name_radar_total[OF assms] by blast
  let ?rs = "Ranges_new_by_distance (get_ranges_by_model model)"
  obtain sc2 where s: "RadarInfo_set_ranges en ?rs (ri\<lparr>ri_controls := sc1\<rparr>) = Inr (ri\<lparr>ri_controls := sc1\<rparr>\<lparr>ri_ranges := ?rs, ri_controls := sc2\<rparr>)"
    using set_ranges_total[of "ri\<lparr>ri_controls := sc1\<rparr>" en ?rs] n(2) by auto
  obtain sc3 where c: "add_common_controls en ?cap version (auto_or_numeric en (cp_auto_rain ?cap) ControlId_Rain
      (auto_or_numeric en (cp_auto_sea ?cap) ControlId_Sea (auto_or_numeric en (cp_auto_gain ?cap) ControlId_Gain sc2))) = Inr sc3"
    using add_common_controls_total by blast
  obtain sc4 where a: "add_antenna_controls en ?cap sc3 = Inr sc4" using add_antenna_controls_total by blast
  obtain sc5 where "add_remaining en model ?cap
      (ri_controls (add_doppler en ?cap (ri\<lparr>ri_controls := sc1, ri_ranges := ?rs, ri_controls := add_processing_controls en ?cap sc4\<rparr>))) = Inr sc5"
    using add_remaining_total by blast
  then show ?thesis using n(1) s c a by (simp add: update_when_model_known_def Let_def on_controls_def)
qed

lemma kept_by_names: "name_radar en model ri = Inr ri' \<Longrightarrow> ri_targets ri' = ri_targets ri \<and> ri_pixel_values ri' = ri_pixel_values ri"
  by (auto simp: name_radar_def res_bind_Inr split: if_splits)

lemma kept_by_ranges: "RadarInfo_set_ranges en rs ri = Inr ri' \<Longrightarrow> ri_targets ri' = ri_targets ri \<and> ri_pixel_values ri' = ri_pixel_values ri"
  by (auto simp: RadarInfo_set_ranges_def res_bind_Inr)

lemma kept_by_controls:
  "on_controls f ri = Inr ri' \<Longrightarrow> ri_targets ri' = ri_targets ri \<and> ri_pixel_values ri' = ri_pixel_values ri \<and> ri_legend ri' = ri_legend ri
     \<and> f (ri_controls ri) = Inr (ri_controls ri')"
  by (auto simp: on_controls_def res_bind_Inr)

lemma model_known_legend:
  assumes "update_when_model_known en model version ri = Inr ri'" "cp_target_analyzer (capabilities model)"
  shows "ri_legend ri' = default_legend (ri_targets ri) 16 True (ri_pixel_values ri) \<and> doppler_off ri'"
proof -
  let ?cap = "capabilities model"
  from assms(1) obtain r1 r2 f r3 r4 where
    "name_radar en model ri = Inr r1" "RadarInfo_set_ranges en (Ranges_new_by_distance (get_ranges_by_model model)) r1 = Inr r2"
    "on_controls f r2 = Inr r3" and r4: "on_controls (add_remaining en model ?cap) (add_doppler en ?cap r3) = Inr r4"
    and r': "ri' = (if cp_dual_range ?cap then r4\<lparr>ri_dual_range := True\<rparr> else r4)"
    by (auto simp: update_when_model_known_def Let_def res_bind_Inr)
  then have kept: "ri_targets r3 = ri_targets ri" "ri_pixel_values r3 = ri_pixel_values ri"
    using kept_by_names kept_by_ranges kept_by_controls by metis+
  from kept_by_controls[OF r4] have "ri_legend r4 = ri_legend (add_doppler en ?cap r3)"
    and rem: "add_remaining en model ?cap (ri_controls (add_doppler en ?cap r3)) = Inr (ri_controls r4)" by auto
  moreover have "sc_controls (ri_controls r4) ControlId_Doppler = sc_controls (ri_controls (add_doppler en ?cap r3)) ControlId_Doppler"
    using add_remaining_total[of en model ?cap "ri_controls (add_doppler en ?cap r3)"] rem by auto
  ultimately show ?thesis
    using add_doppler_legend[OF assms(2), of en r3] kept r' by (auto simp: doppler_off_def)
qed

section \<open>The tables built before the legend changed\<close>

definition module_report :: string where
  "module_report = ''$N96,0359360-01.05'' @ [CHR 0x0D, CHR 0x0A]"

lemma module_report_parsed: "parse_report module_report = Inr (Some (CommandId_Modules, [''0359360-01.05'']))"
  by (simp add: module_report_def parse_report_def Let_def is_char_boundary_def is_continuation_def trim_crlf_def u8_from_hex_def
      hex_val_def CommandId_from_u8_def CommandId_table_def)

lemma module_report_model: "split_once CHR ''-'' ''0359360-01.05'' = Some (''0359360'', ''01.05'')" "from_part_number ''0359360'' = DRS4DNXT"
  by (simp_all add: split_once_def from_part_number_def)

lemma model_report_effect:
  assumes "process_report fe module_report r = Inr r'" "\<not> fr_model_known r" "fr_b r = None"
  shows "fst (fr_wire_to_legend r') = wire_to_legend (fe_powf fe) (ri_legend (fr_a r)) (doppler_wire_mode_for False r) False
     \<and> update_when_model_known (fe_env fe) DRS4DNXT ''01.05'' (fr_a r) = Inr (fr_a r') \<and> fr_b r' = None"
proof -
  have low: "is_low_power DRS4DNXT = False" by (simp add: is_low_power_def)
  have "parse_modules fe [''0359360-01.05''] r = Inr r'"
    using assms(1) by (simp add: process_report_def module_report_parsed handle_report_def Let_def)
  then show ?thesis
    using assms(2,3) low
    by (auto simp: parse_modules_def module_report_model Let_def res_bind_Inr panics_def put_def model_lut_def range_info_def
        doppler_wire_mode_for_def split: sum.splits)
qed

lemma legend_before: "lg_pixel_colors (default_legend Arpa 0 False 252) = 221"
  by (simp add: default_legend_def usable_pixels_def BLOB_HISTORY_COLORS_def Let_def)

lemma strongest_echo_before: "wire_to_legend_off powf (default_legend Arpa 0 False 252) False ! 252 = 220"
  by (simp add: wire_to_legend_off_def legend_before Let_def ECHO_FLOOR_def PIXEL_VALUES_def)

lemma rain_after: "lg_doppler_rain (default_legend Arpa 16 True 252) = Some (206, 16)"
  by (simp add: default_legend_def usable_pixels_def BLOB_HISTORY_COLORS_def section_at_def len_u8_def Let_def)


definition named_controls :: Shared where
  "named_controls = no_controls\<lparr>sc_controls :=
     [ControlId_ModelName \<mapsto> cb_control (new_string 0 ControlId_ModelName),
      ControlId_UserName \<mapsto> (cb_control (new_string 0 ControlId_UserName))\<lparr>ctl_description := Some ''fur0001''\<rparr>,
      ControlId_Range \<mapsto> cb_control (new_numeric 0 ControlId_Range (Fin 0) (Fin 100))]\<rparr>"

definition named_receiver :: Receiver where
  "named_receiver = Receiver_new example_env False (example_radar\<lparr>ri_controls := named_controls\<rparr>)"


end
