(* ===== verification/Spec2Isabelle.thy ===== *)
theory Spec2Isabelle
  imports Player_Correct Controls_Correct Furuno_Model
begin

text \<open>
  Verification development for mayara-server.
\<close>

end
